(* ===== verification/Prelude.thy ===== *)
theory Prelude
  imports Main "HOL-Library.Word" "HOL-Library.Multiset" "HOL-Library.Char_ord"
    "HOL-Library.List_Lexorder" "HOL-Library.Product_Lexorder"
begin

text \<open>
  The vocabulary the components share: Go's machine integers and byte strings, the
  outcome of a Go call (a value, an error, or a panic), and the generic lemmas on them.

  \<^item> \<open>uint64\<close> and \<open>uint32\<close> are machine words, so that sums, differences and products wrap
    as they do in Go. \<open>int64\<close> and \<open>int\<close> are \<^typ>\<open>int\<close> with the wrap-around written out by
    \<open>i64\<close> at every operation that can leave the range.
  \<^item> A Go \<open>string\<close> and a \<open>[]byte\<close> are lists of bytes; a HOL \<^typ>\<open>char\<close> is one byte, so the
    conversions between the two are the identity. Their order (Go's \<open><\<close> on strings,
    \<open>bytes.Compare\<close>) is the lexicographic order on bytes.
  \<^item> A call that returns \<open>(v, error)\<close> or panics is a value of \<open>'a res\<close>. A call that also
    writes the store returns the state it has written together with the outcome, so that
    what is written before an error or a panic is visible.
\<close>

named_theorems res_simps \<open>equations of the outcome combinators\<close>
named_theorems coll_simps \<open>what a lookup returns after a store or a removal\<close>

type_synonym uint64 = "64 word"
type_synonym uint32 = "32 word"
type_synonym bytes = string

section \<open>Outcomes of a call\<close>

text \<open>
  Sentinel errors of the module are told apart by their registered code, sentinel errors
  of other packages by their name, and errors made with \<open>fmt.Errorf\<close> or
  \<open>errors.New\<close> by their text. Wrapping an error keeps the sentinel.
\<close>

datatype error =
    OracleErr nat
  | SdkErr string
  | Errorf string

datatype 'a res = Ok 'a | Err error | Panic

fun bind_res :: "'a res \<Rightarrow> ('a \<Rightarrow> 'b res) \<Rightarrow> 'b res" where
  "bind_res (Ok x) f = f x"
| "bind_res (Err e) f = Err e"
| "bind_res Panic f = Panic"

text \<open>A call that yields no value but a panic.\<close>

fun must :: "'a option \<Rightarrow> 'a res" where
  "must (Some x) = Ok x"
| "must None = Panic"

fun is_ok :: "'a res \<Rightarrow> bool" where
  "is_ok (Ok x) = True"
| "is_ok _ = False"

text \<open>Sequencing of calls that also write the store: an error or a panic ends the
  sequence with what has been written so far.\<close>

fun then_st :: "'s \<times> 'a res \<Rightarrow> ('s \<Rightarrow> 'a \<Rightarrow> 's \<times> 'b res) \<Rightarrow> 's \<times> 'b res" where
  "then_st (s, Ok x) f = f s x"
| "then_st (s, Err e) f = (s, Err e)"
| "then_st (s, Panic) f = (s, Panic)"

text \<open>A call that only reads, inside a sequence that writes.\<close>

fun read_st :: "'s \<Rightarrow> 'a res \<Rightarrow> ('a \<Rightarrow> 's \<times> 'b res) \<Rightarrow> 's \<times> 'b res" where
  "read_st s (Ok x) f = f x"
| "read_st s (Err e) f = (s, Err e)"
| "read_st s Panic f = (s, Panic)"

lemma bind_res_eq_Ok [res_simps]:
  "bind_res r f = Ok y \<longleftrightarrow> (\<exists>x. r = Ok x \<and> f x = Ok y)"
  by (cases r) auto

lemma must_eq_Ok [res_simps]: "must r = Ok y \<longleftrightarrow> r = Some y"
  by (cases r) auto

lemma must_neq_Err [simp]: "must r \<noteq> Err e"
  by (cases r) auto

lemma then_st_eq_Ok [res_simps]:
  "then_st r f = (s', Ok y) \<longleftrightarrow> (\<exists>s x. r = (s, Ok x) \<and> f s x = (s', Ok y))"
  by (cases "(r, f)" rule: then_st.cases) auto

lemma read_st_eq_Ok [res_simps]:
  "read_st s r f = (s', Ok y) \<longleftrightarrow> (\<exists>x. r = Ok x \<and> f x = (s', Ok y))"
  by (cases r) auto

lemma is_ok_iff [res_simps]: "is_ok r \<longleftrightarrow> (\<exists>x. r = Ok x)"
  by (cases r) auto

text \<open>What each step of a sequence keeps, the sequence keeps.\<close>

lemma then_st_keeps:
  "P (fst r) \<Longrightarrow> (\<And>s x. r = (s, Ok x) \<Longrightarrow> P s \<Longrightarrow> P (fst (f s x))) \<Longrightarrow> P (fst (then_st r f))"
  by (cases "(r, f)" rule: then_st.cases) auto

lemma read_st_keeps:
  "P s \<Longrightarrow> (\<And>x. r = Ok x \<Longrightarrow> P (fst (f x))) \<Longrightarrow> P (fst (read_st s r f))"
  by (cases r) auto

section \<open>Machine integers\<close>

definition max_int64 :: int where "max_int64 = 2 ^ 63 - 1"
definition max_uint32 :: int where "max_uint32 = 2 ^ 32 - 1"

text \<open>Two's complement wrap-around of a 64-bit signed result.\<close>

definition i64 :: "int \<Rightarrow> int" where
  "i64 x = signed_take_bit 63 x"

definition in_i64 :: "int \<Rightarrow> bool" where
  "in_i64 x \<longleftrightarrow> - (2 ^ 63) \<le> x \<and> x < 2 ^ 63"

text \<open>Go's integer division and remainder truncate towards zero.\<close>

definition go_div :: "int \<Rightarrow> int \<Rightarrow> int" where
  "go_div a b = sgn a * sgn b * (\<bar>a\<bar> div \<bar>b\<bar>)"

lemma i64_id [simp]: "in_i64 x \<Longrightarrow> i64 x = x"
  by (simp add: in_i64_def i64_def signed_take_bit_int_eq_self)

lemma in_i64_i64 [simp]: "in_i64 (i64 x)"
  using signed_take_bit_int_greater_eq_minus_exp [of 63 x] signed_take_bit_int_less_exp [of 63 x]
  by (simp add: in_i64_def i64_def)

lemma one_le_word_iff [simp]: "1 \<le> (x :: 'a :: len word) \<longleftrightarrow> x \<noteq> 0"
  by (simp add: linorder_not_less [symmetric])

lemma go_div_nonneg: "0 \<le> a \<Longrightarrow> 0 < b \<Longrightarrow> go_div a b = a div b"
  by (cases "a = 0") (auto simp: go_div_def sgn_if)

section \<open>Strings\<close>

text \<open>
  \<open>strings.ToUpper\<close> and \<open>strings.EqualFold\<close> on ASCII text, which is what denoms and
  symbols are made of.
\<close>

definition upper_byte :: "char \<Rightarrow> char" where
  "upper_byte c = (let n = (of_char c :: nat) in if 97 \<le> n \<and> n \<le> 122 then char_of (n - 32) else c)"

definition ToUpper :: "string \<Rightarrow> string" where
  "ToUpper s = map upper_byte s"

definition EqualFold :: "string \<Rightarrow> string \<Rightarrow> bool" where
  "EqualFold s t \<longleftrightarrow> ToUpper s = ToUpper t"

lemma upper_byte_idem [simp]: "upper_byte (upper_byte c) = upper_byte c"
  by (auto simp: upper_byte_def Let_def)

lemma ToUpper_idem [simp]: "ToUpper (ToUpper s) = ToUpper s"
  by (simp add: ToUpper_def)

lemma length_ToUpper [simp]: "length (ToUpper s) = length s"
  by (simp add: ToUpper_def)

lemma ToUpper_Nil [simp]: "ToUpper s = [] \<longleftrightarrow> s = []"
  by (simp add: ToUpper_def)

lemma EqualFold_refl [simp]: "EqualFold s s"
  by (simp add: EqualFold_def)

lemma EqualFold_sym: "EqualFold s t \<longleftrightarrow> EqualFold t s"
  by (auto simp: EqualFold_def)

lemma EqualFold_ToUpper [simp]:
  "EqualFold (ToUpper s) t = EqualFold s t" "EqualFold s (ToUpper t) = EqualFold s t"
  by (simp_all add: EqualFold_def)

end
