(* ===== verification/Wire.thy ===== *)
theory Wire
  imports Prelude
begin

text \<open>
  The code that \<open>protoc-gen-gogo\<close> generates for every message of the modules (the files
  \<open>*.pb.go\<close> under \<open>src/x/oracle/types\<close> and \<open>src/x/multisig/types\<close>): \<open>Marshal\<close>, \<open>Size\<close> and
  \<open>Unmarshal\<close>. The generated functions repeat the same pieces, message by message; the
  pieces are the definitions of this theory, and a message is a list of them.

  \<^item> \<open>MarshalToSizedBuffer\<close> fills a buffer of \<open>Size()\<close> bytes from its end. A \<open>buf\<close> is the
    buffer and the index \<open>i\<close> of the code, a \<open>writer\<close> a statement that writes before \<open>i\<close> and
    moves it. A write outside of the buffer panics.
  \<^item> \<open>Unmarshal\<close> is a loop over the fields with a \<open>switch\<close> on the field number. A \<open>ptable\<close>
    is that \<open>switch\<close>: what a case does with the varint or the bytes it reads.
  \<^item> \<open>writes w bs\<close> states what a writer writes; \<open>enc_fields\<close> is the encoding as a plain
    concatenation, and the locale \<open>message\<close> relates the three functions of a message to it.

  Indices into a buffer are natural numbers; \<open>int\<close> overflow is tested where the code tests
  for it, on sums with a length that was read (\<open>index_plus\<close>).
\<close>

unbundle bit_operations_syntax

section \<open>Writing\<close>

text \<open>\<open>math/bits.Len64\<close>, \<open>sovOracle\<close> and \<open>encodeVarintOracle\<close>; the other files have copies of them.\<close>

fun Len64_nat :: "nat \<Rightarrow> nat" where
  "Len64_nat n = (if n = 0 then 0 else Suc (Len64_nat (n div 2)))"

definition sov :: "uint64 \<Rightarrow> nat" where
  "sov x = (Len64_nat (unat (x OR 1)) + 6) div 7"

definition uint8 :: "uint64 \<Rightarrow> char" where
  "uint8 v = char_of (unat v)"

type_synonym buf = "bytes \<times> int"

definition put_byte :: "char \<Rightarrow> buf \<Rightarrow> bytes res" where
  "put_byte b = (\<lambda>(dAtA, i). if 0 \<le> i \<and> i < int (length dAtA) then Ok (dAtA[nat i := b]) else Panic)"

function varint_write :: "uint64 \<Rightarrow> buf \<Rightarrow> bytes res" where
  "varint_write v (dAtA, offset) =
     (if v \<ge> 128 then
        bind_res (put_byte (uint8 (v AND 0x7f OR 0x80)) (dAtA, offset)) (\<lambda>dAtA.
          varint_write (drop_bit 7 v) (dAtA, offset + 1))
      else put_byte (uint8 v) (dAtA, offset))"
  by pat_completeness auto

lemma unat_drop_bit: "unat (drop_bit n v) = unat v div 2 ^ n" for v :: uint64
  by (metis unat_drop_bit_eq drop_bit_eq_div)

termination varint_write
  by (relation "measure (\<lambda>(v, _). unat v)")
    (auto simp: unat_drop_bit word_le_nat_alt intro!: div_less_dividend)

definition encodeVarint :: "uint64 \<Rightarrow> buf \<Rightarrow> buf res" where
  "encodeVarint v = (\<lambda>(dAtA, offset). let base = offset - int (sov v) in
     bind_res (varint_write v (dAtA, base)) (\<lambda>dAtA. Ok (dAtA, base)))"

text \<open>The bytes of a varint, without a buffer.\<close>

function varint_bytes :: "uint64 \<Rightarrow> bytes" where
  "varint_bytes v = (if v < 128 then [uint8 v] else uint8 (v AND 0x7f OR 0x80) # varint_bytes (drop_bit 7 v))"
  by pat_completeness auto

termination varint_bytes
  by (relation "measure unat") (auto simp: unat_drop_bit word_le_nat_alt not_less intro!: div_less_dividend)

declare varint_write.simps [simp del] varint_bytes.simps [simp del] Len64_nat.simps [simp del]

lemma Len64_pos: "0 < n \<Longrightarrow> Len64_nat n = Suc (Len64_nat (n div 2))"
  by (simp add: Len64_nat.simps [of n])

lemma Len64_div: "2 ^ k \<le> n \<Longrightarrow> Len64_nat n = Len64_nat (n div 2 ^ k) + k"
proof (induction k)
  case (Suc k)
  then have "0 < n div 2 ^ k" "2 ^ k \<le> n" by (simp_all add: div_greater_zero_iff)
  then show ?case
    using Suc.IH Len64_pos [of "n div 2 ^ k"] by (simp add: mult.commute [of 2] flip: div_mult2_eq)
qed simp

lemma Len64_small: "0 < n \<Longrightarrow> n < 2 ^ k \<Longrightarrow> Len64_nat n \<le> k"
proof (induction k arbitrary: n)
  case (Suc k)
  show ?case
  proof (cases "n div 2 = 0")
    case True
    then show ?thesis using Suc.prems by (simp add: Len64_pos) (simp add: Len64_nat.simps)
  next
    case False
    then show ?thesis using Suc.IH [of "n div 2"] Suc.prems by (simp add: Len64_pos)
  qed
qed simp

lemma Len64_or_1: "0 < n \<Longrightarrow> Len64_nat (n OR Suc 0) = Len64_nat n"
  by (simp add: Len64_pos or_Suc_0_eq)

lemma sov_small: "v < 128 \<Longrightarrow> sov v = 1"
proof -
  assume "v < 128"
  then have "unat v < 128" by (simp add: word_less_nat_alt)
  then have "0 < unat v OR Suc 0" "unat v OR Suc 0 < 2 ^ 7" by (auto simp: or_Suc_0_eq odd_pos elim!: evenE)
  from Len64_small [OF this] Len64_pos [OF this(1)] show ?thesis
    by (auto simp: sov_def unsigned_or_eq)
qed

lemma sov_step: "\<not> v < 128 \<Longrightarrow> sov v = Suc (sov (drop_bit 7 v))"
proof -
  assume "\<not> v < 128"
  then have big: "128 \<le> unat v" by (simp add: word_less_nat_alt)
  then have "Len64_nat (unat v OR Suc 0) = Len64_nat (unat v div 128) + 7"
    using Len64_div [of 7 "unat v"] by (simp add: Len64_or_1)
  moreover have "Len64_nat (unat v div 128 OR Suc 0) = Len64_nat (unat v div 128)"
    using big by (intro Len64_or_1) (simp add: div_greater_zero_iff)
  ultimately show ?thesis
    by (simp add: sov_def unsigned_or_eq unat_drop_bit)
qed

lemma length_varint_bytes: "length (varint_bytes v) = sov v"
  by (induction v rule: varint_bytes.induct) (subst varint_bytes.simps, simp add: sov_small sov_step)

lemma varint_write_Ok:
  "0 \<le> i \<Longrightarrow> nat i + sov v \<le> length d \<Longrightarrow>
   varint_write v (d, i) = Ok (take (nat i) d @ varint_bytes v @ drop (nat i + sov v) d)"
proof (induction v arbitrary: d i rule: varint_bytes.induct)
  case (1 v)
  show ?case
  proof (cases "v < 128")
    case True
    then show ?thesis using 1(2,3)
      by (simp add: varint_write.simps varint_bytes.simps [of v] put_byte_def not_le sov_small upd_conv_take_nth_drop)
  next
    case False
    let ?b = "uint8 (v AND 0x7f OR 0x80)" and ?w = "drop_bit 7 v"
    have sov: "sov v = Suc (sov ?w)" using False by (rule sov_step)
    have i: "nat (i + 1) = Suc (nat i)" using 1(2) by simp
    have "varint_write v (d, i) = varint_write ?w (d[nat i := ?b], i + 1)"
    proof -
      have "128 \<le> v" "i < int (length d)" using False 1(2,3) sov by (simp_all add: not_less)
      then show ?thesis using 1(2) by (subst varint_write.simps) (simp add: put_byte_def)
    qed
    also have "\<dots> = Ok (take (Suc (nat i)) (d[nat i := ?b]) @ varint_bytes ?w @ drop (Suc (nat i) + sov ?w) (d[nat i := ?b]))"
      using 1(1) [OF False, of "i + 1" "d[nat i := ?b]"] 1(2,3) unfolding i sov by simp
    also have "\<dots> = Ok (take (nat i) d @ varint_bytes v @ drop (nat i + sov v) d)"
      using False 1(2,3) unfolding varint_bytes.simps [of v] sov by (simp add: take_Suc_conv_app_nth)
    finally show ?thesis .
  qed
qed

section \<open>Writers\<close>

type_synonym writer = "buf \<Rightarrow> buf res"

text \<open>One statement after another, \<open>i--; dAtA[i] = c\<close> and \<open>i -= len(src); copy(dAtA[i:], src)\<close>.\<close>

definition then_w :: "writer \<Rightarrow> writer \<Rightarrow> writer" where
  "then_w f g = (\<lambda>b. bind_res (f b) g)"

definition skip_w :: writer where "skip_w = Ok"

definition w_byte :: "nat \<Rightarrow> writer" where
  "w_byte c = (\<lambda>(dAtA, i). bind_res (put_byte (char_of c) (dAtA, i - 1)) (\<lambda>dAtA. Ok (dAtA, i - 1)))"

definition w_copy :: "bytes \<Rightarrow> writer" where
  "w_copy src = (\<lambda>(dAtA, i). let i = i - int (length src) in
     if i < 0 \<or> int (length dAtA) < i then Panic
     else Ok (take (nat i) dAtA @ take (length dAtA - nat i) src @ drop (nat i + length src) dAtA, i))"

text \<open>\<open>MarshalToSizedBuffer\<close> of a message and its call on a prefix of the buffer.\<close>

type_synonym marshaller = "bytes \<Rightarrow> (bytes \<times> int) res"

definition to_sized :: "writer \<Rightarrow> marshaller" where
  "to_sized w dAtA = bind_res (w (dAtA, int (length dAtA))) (\<lambda>(d, i). Ok (d, int (length d) - i))"

definition w_message :: "marshaller \<Rightarrow> writer" where
  "w_message M = (\<lambda>(dAtA, i).
     if i < 0 \<or> int (length dAtA) < i then Panic
     else bind_res (M (take (nat i) dAtA)) (\<lambda>(d, size).
       encodeVarint (word_of_int size) (d @ drop (nat i) dAtA, i - size)))"

text \<open>A string or a byte slice with its length, and the loops over a repeated field, which run
  from the last element to the first.\<close>

definition w_bytes :: "bytes \<Rightarrow> writer" where
  "w_bytes src = then_w (w_copy src) (encodeVarint (of_nat (length src)))"

fun w_each :: "('a \<Rightarrow> writer) \<Rightarrow> 'a list \<Rightarrow> writer" where
  "w_each f [] = skip_w"
| "w_each f (x # xs) = then_w (w_each f xs) (f x)"

text \<open>\<open>writes w bs\<close>: with enough room before \<open>i\<close>, the writer puts \<open>bs\<close> right before it and
  leaves the rest of the buffer as it is.\<close>

definition writes :: "writer \<Rightarrow> bytes \<Rightarrow> bool" where
  "writes w bs \<longleftrightarrow> (\<forall>d i. int (length bs) \<le> i \<longrightarrow> i \<le> int (length d) \<longrightarrow>
     w (d, i) = Ok (take (nat i - length bs) d @ bs @ drop (nat i) d, i - int (length bs)))"

lemma writesD:
  "writes w bs \<Longrightarrow> int (length bs) \<le> i \<Longrightarrow> i \<le> int (length d) \<Longrightarrow>
   w (d, i) = Ok (take (nat i - length bs) d @ bs @ drop (nat i) d, i - int (length bs))"
  by (simp add: writes_def)

named_theorems writes_intros \<open>what the writers of the generated code write\<close>

lemma writes_skip [writes_intros]: "writes skip_w []"
  by (simp add: writes_def skip_w_def)

lemma writes_then [writes_intros]:
  assumes "writes f bs" and "writes g cs"
  shows "writes (then_w f g) (cs @ bs)"
  unfolding writes_def
proof (intro allI impI)
  fix d :: bytes and i assume i: "int (length (cs @ bs)) \<le> i" "i \<le> int (length d)"
  let ?d = "take (nat i - length bs) d @ bs @ drop (nat i) d"
  have f: "f (d, i) = Ok (?d, i - int (length bs))"
    using i by (intro writesD [OF assms(1)]) auto
  have "g (?d, i - int (length bs)) = Ok (take (nat (i - int (length bs)) - length cs) ?d @ cs @
      drop (nat (i - int (length bs))) ?d, i - int (length bs) - int (length cs))"
    using i by (intro writesD [OF assms(2)]) auto
  moreover have "nat (i - int (length bs)) = nat i - length bs" "nat i - length bs \<le> length d"
    using i by (auto simp: nat_diff_distrib)
  ultimately show "then_w f g (d, i) = Ok (take (nat i - length (cs @ bs)) d @ (cs @ bs) @ drop (nat i) d,
      i - int (length (cs @ bs)))"
    using f i by (simp add: then_w_def min_def add.commute)
qed

lemma writes_byte [writes_intros]: "writes (w_byte c) [char_of c]"
proof -
  have "d[nat (i - 1) := char_of c] = take (nat i - Suc 0) d @ char_of c # drop (nat i) d"
    if "1 \<le> i" "i \<le> int (length d)" for d i
    using that upd_conv_take_nth_drop [of "nat (i - 1)" d "char_of c"] by (simp add: nat_diff_distrib)
  then show ?thesis
    by (auto simp: writes_def w_byte_def put_byte_def)
qed

lemma writes_varint [writes_intros]: "writes (encodeVarint v) (varint_bytes v)"
proof -
  have "varint_write v (d, i - int (sov v)) = Ok (take (nat i - sov v) d @ varint_bytes v @ drop (nat i) d)"
    if "int (sov v) \<le> i" "i \<le> int (length d)" for d i
    using varint_write_Ok [of "i - int (sov v)" v d] that by (simp add: nat_diff_distrib)
  then show ?thesis
    by (simp add: writes_def encodeVarint_def length_varint_bytes Let_def)
qed

lemma writes_copy: "writes (w_copy src) src"
proof -
  have "nat (i - int (length src)) = nat i - length src" "length d - (nat i - length src) \<ge> length src"
    if "int (length src) \<le> i" "i \<le> int (length d)" for d :: bytes and i
    using that by (auto simp: nat_diff_distrib)
  then show ?thesis
    by (auto simp: writes_def w_copy_def Let_def)
qed

definition len_prefixed :: "bytes \<Rightarrow> bytes" where
  "len_prefixed bs = varint_bytes (of_nat (length bs)) @ bs"

lemma writes_bytes [writes_intros]: "writes (w_bytes src) (len_prefixed src)"
  unfolding w_bytes_def len_prefixed_def by (rule writes_then [OF writes_copy writes_varint])

definition marshals :: "marshaller \<Rightarrow> bytes \<Rightarrow> bool" where
  "marshals M bs \<longleftrightarrow> (\<forall>d. length bs \<le> length d \<longrightarrow>
     M d = Ok (take (length d - length bs) d @ bs, int (length bs)))"

lemma marshals_to_sized: "writes w bs \<Longrightarrow> marshals (to_sized w) bs"
  by (auto simp: marshals_def to_sized_def writesD)

lemma writes_message [writes_intros]:
  assumes "marshals M bs"
  shows "writes (w_message M) (len_prefixed bs)"
  unfolding writes_def
proof (intro allI impI)
  fix d :: bytes and i assume i: "int (length (len_prefixed bs)) \<le> i" "i \<le> int (length d)"
  let ?d = "take (nat i - length bs) d @ bs @ drop (nat i) d"
  have bounds: "length bs \<le> nat i" "nat i \<le> length d" "0 \<le> i"
    using i by (auto simp: len_prefixed_def)
  then have M: "M (take (nat i) d) = Ok (take (nat i - length bs) d @ bs, int (length bs))"
    using assms by (auto simp: marshals_def min_def)
  have "encodeVarint (of_nat (length bs)) (?d, i - int (length bs)) =
      Ok (take (nat i - length (len_prefixed bs)) d @ len_prefixed bs @ drop (nat i) d,
          i - int (length (len_prefixed bs)))"
    using i writesD [OF writes_varint, of "of_nat (length bs)" "i - int (length bs)" ?d] bounds
    by (simp add: len_prefixed_def nat_diff_distrib min_def add.commute)
  then show "w_message M (d, i) =
      Ok (take (nat i - length (len_prefixed bs)) d @ len_prefixed bs @ drop (nat i) d,
          i - int (length (len_prefixed bs)))"
    using M i bounds by (simp add: w_message_def)
qed

lemma writes_each:
  "(\<And>x. x \<in> set xs \<Longrightarrow> writes (f x) (e x)) \<Longrightarrow> writes (w_each f xs) (concat (map e xs))"
  by (induction xs) (auto intro: writes_intros)

section \<open>Reading\<close>

definition ErrIntOverflow :: error where "ErrIntOverflow = Errorf ''proto: integer overflow''"
definition ErrInvalidLength :: error where
  "ErrInvalidLength = Errorf ''proto: negative length found during unmarshaling''"
definition ErrUnexpectedEndOfGroup :: error where
  "ErrUnexpectedEndOfGroup = Errorf ''proto: unexpected end of group''"
definition ErrUnexpectedEOF :: error where "ErrUnexpectedEOF = SdkErr ''io.ErrUnexpectedEOF''"

text \<open>The loop that reads a varint. The copies of it accumulate in an \<open>int64\<close>, an \<open>int\<close> or a
  \<open>uint32\<close>; that is the same bit pattern, read as signed or cut.\<close>

function varint_read :: "bytes \<Rightarrow> nat \<Rightarrow> uint64 \<Rightarrow> nat \<Rightarrow> (uint64 \<times> nat) res" where
  "varint_read dAtA shift acc iNdEx =
     (if shift \<ge> 64 then Err ErrIntOverflow
      else if iNdEx \<ge> length dAtA then Err ErrUnexpectedEOF
      else
        let b = of_nat (of_char (dAtA ! iNdEx)) :: uint64;
            acc = acc OR push_bit shift (b AND 0x7F) in
        if b < 0x80 then Ok (acc, iNdEx + 1) else varint_read dAtA (shift + 7) acc (iNdEx + 1))"
  by pat_completeness auto
termination varint_read by (relation "measure (\<lambda>(d, shift, _). 64 - shift)") auto

declare varint_read.simps [simp del]

lemma varint_read_forward: "varint_read d shift acc i = Ok (v, j) \<Longrightarrow> i < j \<and> j \<le> length d"
proof (induction d shift acc i rule: varint_read.induct)
  case (1 d shift acc i)
  then show ?case
    unfolding varint_read.simps [of d shift acc i] by (fastforce simp: Let_def split: if_splits)
qed

text \<open>An index and a length are never negative here, so their sum turns negative exactly when it
  leaves the range of \<open>int\<close>.\<close>

lemma negative_sum:
  assumes "0 \<le> a" "a \<le> max_int64" "0 \<le> b" "b \<le> max_int64"
  shows "i64 (a + b) < 0 \<longleftrightarrow> a + b > max_int64"
proof (cases "a + b > max_int64")
  case True
  then have "in_i64 (a + b - 2 ^ 64)" using assms by (simp add: in_i64_def max_int64_def)
  moreover have "i64 (a + b) = i64 (a + b - 2 ^ 64)"
    unfolding i64_def signed_take_bit_eq_iff_take_bit_eq take_bit_eq_mod by simp
  ultimately show ?thesis using True assms by (simp add: max_int64_def)
next
  case False
  then have "in_i64 (a + b)" using assms by (simp add: in_i64_def max_int64_def)
  then show ?thesis using False assms by simp
qed

definition index_plus :: "nat \<Rightarrow> nat \<Rightarrow> nat res" where
  "index_plus i n = (if int i + int n > max_int64 then Err ErrInvalidLength else Ok (i + n))"

text \<open>\<open>skipOracle\<close>: over one field of a message, or over a group of them.\<close>

definition skip_field :: "bytes \<Rightarrow> uint64 \<Rightarrow> nat \<Rightarrow> nat \<Rightarrow> (nat \<times> nat) res" where
  "skip_field dAtA wireType depth iNdEx =
     (if wireType = 0 then bind_res (varint_read dAtA 0 0 iNdEx) (\<lambda>(_, k). Ok (depth, k))
      else if wireType = 1 then bind_res (index_plus iNdEx 8) (\<lambda>k. Ok (depth, k))
      else if wireType = 2 then
        bind_res (varint_read dAtA 0 0 iNdEx) (\<lambda>(len, k).
          if sint len < 0 then Err ErrInvalidLength
          else bind_res (index_plus k (nat (sint len))) (\<lambda>k. Ok (depth, k)))
      else if wireType = 3 then Ok (depth + 1, iNdEx)
      else if wireType = 4 then (if depth = 0 then Err ErrUnexpectedEndOfGroup else Ok (depth - 1, iNdEx))
      else if wireType = 5 then bind_res (index_plus iNdEx 4) (\<lambda>k. Ok (depth, k))
      else Err (Errorf ''proto: illegal wireType''))"

lemma skip_field_forward: "skip_field d wt depth i = Ok (depth', j) \<Longrightarrow> i \<le> j"
  by (auto simp: skip_field_def index_plus_def bind_res_eq_Ok split: if_splits dest!: varint_read_forward)

lemma bind_res_cong [fundef_cong]:
  "r = r' \<Longrightarrow> (\<And>x. r' = Ok x \<Longrightarrow> f x = g x) \<Longrightarrow> bind_res r f = bind_res r' g"
  by (cases r') auto

function skip_loop :: "bytes \<Rightarrow> nat \<Rightarrow> nat \<Rightarrow> nat res" where
  "skip_loop dAtA depth iNdEx =
     (if iNdEx < length dAtA then
        bind_res (varint_read dAtA 0 0 iNdEx) (\<lambda>(wire, k).
        bind_res (skip_field dAtA (wire AND 7) depth k) (\<lambda>(depth, k).
          if depth = 0 then Ok k else skip_loop dAtA depth k))
      else Err ErrUnexpectedEOF)"
  by pat_completeness auto

termination skip_loop
  by (relation "measure (\<lambda>(d, _, i). length d - i)")
    (auto dest!: varint_read_forward skip_field_forward)

declare skip_loop.simps [simp del]

lemma skip_loop_forward: "skip_loop d depth i = Ok j \<Longrightarrow> i < j"
proof (induction d depth i rule: skip_loop.induct)
  case (1 d depth i)
  from 1(2) obtain wire k depth' l where i: "i < length d"
    and tag: "varint_read d 0 0 i = Ok (wire, k)" and field: "skip_field d (wire AND 7) depth k = Ok (depth', l)"
    and rest: "(if depth' = 0 then Ok l else skip_loop d depth' l) = Ok j"
    unfolding skip_loop.simps [of d depth i] by (auto simp: bind_res_eq_Ok split: if_splits)
  have "i < l" using varint_read_forward [OF tag] skip_field_forward [OF field] by simp
  then show ?case
    using rest 1(1) [OF i tag refl field refl] by (cases "depth' = 0") auto
qed

definition skip_unknown :: "bytes \<Rightarrow> nat res" where
  "skip_unknown dAtA = skip_loop dAtA 0 0"

text \<open>A length-delimited value.\<close>

definition read_len :: "bytes \<Rightarrow> nat \<Rightarrow> (bytes \<times> nat) res" where
  "read_len dAtA iNdEx =
     bind_res (varint_read dAtA 0 0 iNdEx) (\<lambda>(len, iNdEx).
       if sint len < 0 then Err ErrInvalidLength
       else bind_res (index_plus iNdEx (nat (sint len))) (\<lambda>postIndex.
         if postIndex > length dAtA then Err ErrUnexpectedEOF
         else Ok (take (postIndex - iNdEx) (drop iNdEx dAtA), postIndex)))"

lemma read_len_forward: "read_len d i = Ok (bs, j) \<Longrightarrow> i < j \<and> j \<le> length d"
  by (auto simp: read_len_def index_plus_def bind_res_eq_Ok split: if_splits dest!: varint_read_forward)

text \<open>A case of the \<open>switch\<close>: it demands wire type 0 or 2 and stores what it reads.\<close>

datatype 'm pfield =
    PVarint "uint64 \<Rightarrow> 'm \<Rightarrow> 'm"
  | PBytes "bytes \<Rightarrow> 'm \<Rightarrow> 'm res"

type_synonym 'm ptable = "int \<Rightarrow> 'm pfield option"

text \<open>One turn of the loop; \<open>None\<close> is the \<open>default\<close> of the \<open>switch\<close>, which skips the field.\<close>

definition read_field :: "'m ptable \<Rightarrow> bytes \<Rightarrow> nat \<Rightarrow> 'm \<Rightarrow> ('m \<times> nat) res" where
  "read_field T dAtA preIndex m =
     bind_res (varint_read dAtA 0 0 preIndex) (\<lambda>(wire, iNdEx).
       let fieldNum = sint (ucast (drop_bit 3 wire) :: 32 word); wireType = wire AND 7 in
       if wireType = 4 then Err (Errorf ''proto: wiretype end group for non-group'')
       else if fieldNum \<le> 0 then Err (Errorf ''proto: illegal tag'')
       else
         (case T fieldNum of
            Some (PVarint f) \<Rightarrow>
              if wireType \<noteq> 0 then Err (Errorf ''proto: wrong wireType'')
              else bind_res (varint_read dAtA 0 0 iNdEx) (\<lambda>(v, iNdEx). Ok (f v m, iNdEx))
          | Some (PBytes f) \<Rightarrow>
              if wireType \<noteq> 2 then Err (Errorf ''proto: wrong wireType'')
              else bind_res (read_len dAtA iNdEx) (\<lambda>(bs, iNdEx). bind_res (f bs m) (\<lambda>m. Ok (m, iNdEx)))
          | None \<Rightarrow>
              bind_res (skip_unknown (drop preIndex dAtA)) (\<lambda>skippy.
              bind_res (index_plus preIndex skippy) (\<lambda>iNdEx.
                if iNdEx > length dAtA then Err ErrUnexpectedEOF else Ok (m, iNdEx)))))"

lemma read_field_forward: "read_field T d i m = Ok (m', j) \<Longrightarrow> i < j \<and> j \<le> length d"
  by (auto simp: read_field_def Let_def bind_res_eq_Ok index_plus_def skip_unknown_def split: if_splits option.splits pfield.splits
      dest!: varint_read_forward read_len_forward skip_loop_forward)

function unmarshal_loop :: "'m ptable \<Rightarrow> bytes \<Rightarrow> nat \<Rightarrow> 'm \<Rightarrow> 'm res" where
  "unmarshal_loop T dAtA iNdEx m =
     (if iNdEx < length dAtA then
        bind_res (read_field T dAtA iNdEx m) (\<lambda>(m, iNdEx). unmarshal_loop T dAtA iNdEx m)
      else if iNdEx > length dAtA then Err ErrUnexpectedEOF
      else Ok m)"
  by pat_completeness auto

termination unmarshal_loop
  by (relation "measure (\<lambda>(_, d, i, _). length d - i)") (auto dest!: read_field_forward)

declare unmarshal_loop.simps [simp del]

definition unmarshal :: "'m ptable \<Rightarrow> bytes \<Rightarrow> 'm \<Rightarrow> 'm res" where
  "unmarshal T dAtA m = unmarshal_loop T dAtA 0 m"

text \<open>Decoding does not panic if no case of the \<open>switch\<close> does.\<close>

definition calm :: "'m ptable \<Rightarrow> bool" where
  "calm T \<longleftrightarrow> (\<forall>n f. T n = Some (PBytes f) \<longrightarrow> (\<forall>bs m. f bs m \<noteq> Panic))"

lemma bind_res_eq_Panic: "bind_res r f = Panic \<longleftrightarrow> r = Panic \<or> (\<exists>x. r = Ok x \<and> f x = Panic)"
  by (cases r) auto

lemma varint_read_not_Panic: "varint_read d shift acc i \<noteq> Panic"
proof (induction d shift acc i rule: varint_read.induct)
  case (1 d shift acc i)
  then show ?case by (subst varint_read.simps) (simp add: Let_def)
qed

lemma skip_field_not_Panic: "skip_field d wt depth i \<noteq> Panic"
  unfolding skip_field_def index_plus_def
  by (auto simp: bind_res_eq_Panic varint_read_not_Panic split: if_splits)

lemma skip_loop_not_Panic: "skip_loop d depth i \<noteq> Panic"
proof (induction d depth i rule: skip_loop.induct)
  case (1 d depth i)
  then show ?case
    by (subst skip_loop.simps) (auto simp: bind_res_eq_Panic varint_read_not_Panic skip_field_not_Panic)
qed

lemma read_field_not_Panic: "calm T \<Longrightarrow> read_field T d i m \<noteq> Panic"
  unfolding read_field_def read_len_def index_plus_def skip_unknown_def
  by (auto simp: bind_res_eq_Panic varint_read_not_Panic skip_loop_not_Panic Let_def calm_def
      split: if_splits option.splits pfield.splits)

lemma unmarshal_loop_not_Panic: "calm T \<Longrightarrow> unmarshal_loop T d i m \<noteq> Panic"
proof (induction T d i m rule: unmarshal_loop.induct)
  case (1 T d i m)
  then show ?case
    by (subst unmarshal_loop.simps) (auto simp: bind_res_eq_Panic read_field_not_Panic)
qed

lemma unmarshal_not_Panic: "calm T \<Longrightarrow> unmarshal T d m \<noteq> Panic"
  unfolding unmarshal_def by (rule unmarshal_loop_not_Panic)

section \<open>Reading what was written\<close>

lemma mask_7: "w AND 0x7f = take_bit 7 w" for w :: uint64
  by (simp add: take_bit_eq_mask mask_eq_exp_minus_1)

lemma bit_0x80: "bit (0x80 :: uint64) n \<longleftrightarrow> n = 7"
proof -
  have "bit ((2 :: uint64) ^ 7) n \<longleftrightarrow> n = 7"
    by (simp only: bit_exp_iff possible_bit_word) auto
  then show ?thesis by simp
qed

lemma uint8_id: "x < 256 \<Longrightarrow> of_nat (of_char (uint8 x)) = x" for x :: uint64
  by (simp add: uint8_def word_less_nat_alt)

lemma unat_take_bit: "unat (take_bit n v) = unat v mod 2 ^ n" for v :: uint64
  by (metis unsigned_take_bit_eq take_bit_eq_mod)

lemma low_byte:
  fixes w :: uint64
  shows "w AND 0x7f OR 0x80 < 256" "\<not> w AND 0x7f OR 0x80 < 0x80" "(w AND 0x7f OR 0x80) AND 0x7f = take_bit 7 w" "unat (w AND 0x7f OR 0x80) = unat w mod 128 + 128"
proof -
  have disjoint: "take_bit 7 w AND 0x80 = 0"
    by (rule bit_word_eqI) (simp only: bit_take_bit_iff bit_and_iff bit_0x80 bit_0_eq, auto)
  have "w AND 0x7f OR 0x80 = take_bit 7 w + 0x80"
    unfolding mask_7 using disjunctive_add_eq_or [OF disjoint] by simp
  moreover have "unat (take_bit 7 w) = unat w mod 128"
    unfolding unat_take_bit by simp
  then have "unat (take_bit 7 w + 0x80) = unat w mod 128 + 128"
    by (subst unat_plus_if') (simp add: trans_less_add2)
  ultimately show "w AND 0x7f OR 0x80 < 256" "\<not> w AND 0x7f OR 0x80 < 0x80" "unat (w AND 0x7f OR 0x80) = unat w mod 128 + 128"
    by (simp_all add: word_less_nat_alt)
  show "(w AND 0x7f OR 0x80) AND 0x7f = take_bit 7 w"
    unfolding mask_7 by (rule bit_word_eqI) (simp only: bit_take_bit_iff bit_or_iff bit_0x80, auto)
qed

lemma take_bit_step: "take_bit n v OR push_bit n (take_bit 7 (drop_bit n v)) = take_bit (n + 7) v" for v :: uint64
  by (rule bit_word_eqI) (auto simp: bit_simps)

lemma varint_read_last:
  assumes "shift < 64" and "w < 0x80"
  shows "varint_read (pre @ uint8 w # post) shift acc (length pre) = Ok (acc OR push_bit shift w, Suc (length pre))"
proof -
  have "w AND 0x7f = w"
    unfolding mask_7 using assms(2)
    by (simp only: word_unat_eq_iff unsigned_take_bit_eq) (simp add: take_bit_nat_eq_self word_less_nat_alt)
  moreover have "w < 256" using assms(2) by (rule less_trans) simp
  ultimately show ?thesis
    using assms by (subst varint_read.simps) (simp add: uint8_id Let_def del: push_bit_and)
qed

lemma varint_read_more:
  assumes "shift < 64"
  shows "varint_read (pre @ uint8 (w AND 0x7f OR 0x80) # post) shift acc (length pre) =
     varint_read (pre @ uint8 (w AND 0x7f OR 0x80) # post) (shift + 7) (acc OR push_bit shift (take_bit 7 w)) (Suc (length pre))"
  using assms low_byte [of w]
  by (subst varint_read.simps) (simp add: uint8_id Let_def del: push_bit_and)

lemma varint_read_bytes:
  assumes "w = drop_bit shift v" and "shift < 64"
  shows "varint_read (pre @ varint_bytes w @ post) shift (take_bit shift v) (length pre) = Ok (v, length pre + sov w)"
  using assms
proof (induction w arbitrary: shift pre rule: varint_bytes.induct)
  case (1 w)
  show ?case
  proof (cases "w < 128")
    case True
    have "take_bit shift v OR push_bit shift w = v"
      unfolding 1(2) by (rule bit_word_eqI) (auto simp: bit_simps, metis le_add_diff_inverse not_less)
    then show ?thesis
      using True 1(3) by (simp add: varint_bytes.simps [of w] varint_read_last sov_small)
  next
    case False
    let ?b = "uint8 (w AND 0x7f OR 0x80)"
    have next_w: "drop_bit 7 w = drop_bit (shift + 7) v"
      unfolding 1(2) by (simp add: add.commute)
    have "unat (drop_bit 7 w) \<noteq> 0"
      using False by (simp add: unat_drop_bit word_less_nat_alt div_eq_0_iff)
    moreover have "drop_bit (shift + 7) v = 0" if "64 \<le> shift + 7"
      using that by (intro bit_word_eqI) (simp add: bit_simps)
    ultimately have shift: "shift + 7 < 64"
      unfolding next_w by (metis not_less unsigned_0)
    have "varint_read (pre @ ?b # varint_bytes (drop_bit 7 w) @ post) shift (take_bit shift v) (length pre) =
        varint_read ((pre @ [?b]) @ varint_bytes (drop_bit 7 w) @ post) (shift + 7) (take_bit (shift + 7) v) (length (pre @ [?b]))"
      using varint_read_more [OF 1(3), of pre w] by (simp add: 1(2) take_bit_step)
    then show ?thesis
      using 1(1) [OF False next_w shift, of "pre @ [?b]"] False by (simp add: varint_bytes.simps [of w] sov_step)
  qed
qed

lemmas read_varint = varint_read_bytes [OF refl, of 0, simplified]

text \<open>The fields of a message in the order of their numbers, their encoding, and what the
  \<open>switch\<close> makes of them.\<close>

datatype fval = FVarint nat uint64 | FBytes nat bytes

fun enc_field :: "fval \<Rightarrow> bytes" where
  "enc_field (FVarint n v) = varint_bytes (of_nat (8 * n)) @ varint_bytes v"
| "enc_field (FBytes n bs) = varint_bytes (of_nat (8 * n + 2)) @ len_prefixed bs"

fun apply_field :: "'m ptable \<Rightarrow> fval \<Rightarrow> 'm \<Rightarrow> 'm res" where
  "apply_field T (FVarint n v) m = (case T (int n) of Some (PVarint f) \<Rightarrow> Ok (f v m) | _ \<Rightarrow> Panic)"
| "apply_field T (FBytes n bs) m = (case T (int n) of Some (PBytes f) \<Rightarrow> f bs m | _ \<Rightarrow> Panic)"

fun apply_fields :: "'m ptable \<Rightarrow> fval list \<Rightarrow> 'm \<Rightarrow> 'm res" where
  "apply_fields T [] m = Ok m"
| "apply_fields T (f # fs) m = bind_res (apply_field T f m) (apply_fields T fs)"

fun field_num :: "fval \<Rightarrow> nat" where
  "field_num (FVarint n v) = n"
| "field_num (FBytes n bs) = n"

definition enc_fields :: "fval list \<Rightarrow> bytes" where
  "enc_fields fs = concat (map enc_field fs)"

lemma tag_parts:
  assumes "0 < n" "n < 2 ^ 28" "t < 8"
  shows "drop_bit 3 (of_nat (8 * n + t) :: uint64) = of_nat n" "(of_nat (8 * n + t) :: uint64) AND 7 = of_nat t"
    "sint (ucast (of_nat n :: uint64) :: 32 word) = int n"
proof -
  have u: "unat (of_nat (8 * n + t) :: uint64) = 8 * n + t" "unat (of_nat n :: uint64) = n"
    using assms by (simp_all only: unat_of_nat) simp_all
  then show "drop_bit 3 (of_nat (8 * n + t) :: uint64) = of_nat n"
    unfolding word_unat_eq_iff unat_drop_bit using assms by simp
  have "(of_nat (8 * n + t) :: uint64) AND 7 = take_bit 3 (of_nat (8 * n + t))"
    by (simp add: take_bit_eq_mask mask_eq_exp_minus_1)
  moreover have "unat (of_nat t :: uint64) = t"
    using assms(3) by (simp only: unat_of_nat) simp
  ultimately show "(of_nat (8 * n + t) :: uint64) AND 7 = of_nat t"
    unfolding word_unat_eq_iff using assms(3) by (simp only: unat_take_bit u) simp
  show "sint (ucast (of_nat n :: uint64) :: 32 word) = int n"
    using assms by (simp add: unsigned_of_nat take_bit_nat_eq_self signed_of_nat signed_take_bit_int_eq_self)
qed

lemma sint_of_nat: "int n \<le> max_int64 \<Longrightarrow> sint (of_nat n :: uint64) = int n"
  by (simp add: max_int64_def signed_of_nat signed_take_bit_int_eq_self)

lemma read_len_prefixed:
  assumes "int (length pre + length (len_prefixed bs)) \<le> max_int64"
  shows "read_len (pre @ len_prefixed bs @ post) (length pre) = Ok (bs, length pre + length (len_prefixed bs))"
proof -
  let ?n = "of_nat (length bs) :: uint64"
  have n: "sint ?n = int (length bs)"
    using assms by (intro sint_of_nat) (simp add: len_prefixed_def)
  have "varint_read (pre @ varint_bytes ?n @ bs @ post) 0 0 (length pre) = Ok (?n, length pre + sov ?n)"
    by (rule read_varint)
  then show ?thesis
    using assms n by (simp add: read_len_def len_prefixed_def index_plus_def length_varint_bytes)
qed

lemma read_field_enc:
  assumes n: "0 < field_num f" "field_num f < 2 ^ 28"
    and small: "int (length pre + length (enc_field f)) \<le> max_int64"
    and m': "apply_field T f m = Ok m'"
  shows "read_field T (pre @ enc_field f @ post) (length pre) m = Ok (m', length pre + length (enc_field f))"
proof (cases f)
  case (FVarint n v)
  then obtain g where g: "T (int n) = Some (PVarint g)" "m' = g v m"
    using m' by (auto split: option.splits pfield.splits)
  let ?tag = "of_nat (8 * n + 0) :: uint64"
  have parts: "drop_bit 3 ?tag = of_nat n" "?tag AND 7 = 0" "sint (ucast (of_nat n :: uint64) :: 32 word) = int n"
    using tag_parts [of n 0] assms FVarint by simp_all
  have "varint_read (pre @ varint_bytes ?tag @ varint_bytes v @ post) 0 0 (length pre) = Ok (?tag, length pre + sov ?tag)"
    by (rule read_varint)
  moreover have "varint_read ((pre @ varint_bytes ?tag) @ varint_bytes v @ post) 0 0 (length (pre @ varint_bytes ?tag)) =
      Ok (v, length (pre @ varint_bytes ?tag) + sov v)"
    by (rule read_varint)
  ultimately show ?thesis
    using FVarint g parts assms by (simp add: read_field_def length_varint_bytes Let_def)
next
  case (FBytes n bs)
  then obtain g where g: "T (int n) = Some (PBytes g)" "g bs m = Ok m'"
    using m' by (auto split: option.splits pfield.splits)
  let ?tag = "of_nat (8 * n + 2) :: uint64"
  have parts: "drop_bit 3 ?tag = of_nat n" "?tag AND 7 = 2" "sint (ucast (of_nat n :: uint64) :: 32 word) = int n"
    using tag_parts [of n 2] assms FBytes by simp_all
  have "varint_read (pre @ varint_bytes ?tag @ len_prefixed bs @ post) 0 0 (length pre) = Ok (?tag, length pre + sov ?tag)"
    by (rule read_varint)
  moreover have "read_len ((pre @ varint_bytes ?tag) @ len_prefixed bs @ post) (length (pre @ varint_bytes ?tag)) =
      Ok (bs, length (pre @ varint_bytes ?tag) + length (len_prefixed bs))"
    using small FBytes by (intro read_len_prefixed) simp
  ultimately show ?thesis
    using FBytes g parts assms by (simp add: read_field_def length_varint_bytes Let_def)
qed

lemma unmarshal_loop_fields:
  "\<forall>f \<in> set fs. 0 < field_num f \<and> field_num f < 2 ^ 28 \<Longrightarrow>
   int (length (pre @ enc_fields fs)) \<le> max_int64 \<Longrightarrow> apply_fields T fs m = Ok m' \<Longrightarrow>
   unmarshal_loop T (pre @ enc_fields fs) (length pre) m = Ok m'"
proof (induction fs arbitrary: pre m)
  case Nil
  then show ?case by (simp add: unmarshal_loop.simps enc_fields_def)
next
  case (Cons f fs)
  then obtain m1 where m1: "apply_field T f m = Ok m1" "apply_fields T fs m1 = Ok m'"
    by (auto simp: bind_res_eq_Ok)
  have "length (enc_field f) \<noteq> 0"
    by (cases f) (simp_all add: varint_bytes.simps)
  moreover have "read_field T (pre @ enc_field f @ enc_fields fs) (length pre) m = Ok (m1, length pre + length (enc_field f))"
    using Cons.prems m1 by (intro read_field_enc) (auto simp: enc_fields_def)
  moreover have "unmarshal_loop T ((pre @ enc_field f) @ enc_fields fs) (length (pre @ enc_field f)) m1 = Ok m'"
    using Cons.prems m1 by (intro Cons.IH) (auto simp: enc_fields_def)
  ultimately show ?case
    by (subst unmarshal_loop.simps) (simp add: enc_fields_def)
qed

lemma unmarshal_fields:
  assumes "\<forall>f \<in> set fs. 0 < field_num f \<and> field_num f < 2 ^ 28" and "int (length (enc_fields fs)) \<le> max_int64"
    and "apply_fields T fs m = Ok m'"
  shows "unmarshal T (enc_fields fs) m = Ok m'"
  using unmarshal_loop_fields [of fs "[]" T m m'] assms by (simp add: unmarshal_def)

section \<open>The pieces of the generated code\<close>

named_theorems codec \<open>what the pieces of the generated code write and read\<close>

subsection \<open>Writers and sizes of the kinds of fields\<close>

text \<open>The tag is written byte by byte from its end; fields with a zero value are left out; a
  nested message is written by its own \<open>MarshalToSizedBuffer\<close>.\<close>

fun w_tag :: "nat list \<Rightarrow> writer" where
  "w_tag [] = skip_w"
| "w_tag (b # bs) = then_w (w_byte b) (w_tag bs)"

definition w_opt_varint :: "nat list \<Rightarrow> uint64 \<Rightarrow> writer" where
  "w_opt_varint tag v = (if v \<noteq> 0 then then_w (encodeVarint v) (w_tag tag) else skip_w)"

definition w_bool :: "nat list \<Rightarrow> bool \<Rightarrow> writer" where
  "w_bool tag b = (if b then then_w (w_byte (if b then 1 else 0)) (w_tag tag) else skip_w)"

definition w_string :: "nat list \<Rightarrow> bytes \<Rightarrow> writer" where
  "w_string tag src = then_w (w_bytes src) (w_tag tag)"

definition w_opt_string :: "nat list \<Rightarrow> bytes \<Rightarrow> writer" where
  "w_opt_string tag src = (if length src > 0 then w_string tag src else skip_w)"

definition w_nested :: "nat list \<Rightarrow> marshaller \<Rightarrow> writer" where
  "w_nested tag M = then_w (w_message M) (w_tag tag)"

text \<open>A pointer to a message is written unless it is nil.\<close>

definition w_opt_nested :: "nat list \<Rightarrow> marshaller option \<Rightarrow> writer" where
  "w_opt_nested tag M = (case M of None \<Rightarrow> skip_w | Some M \<Rightarrow> w_nested tag M)"

fun seq_w :: "writer list \<Rightarrow> writer" where
  "seq_w [] = skip_w"
| "seq_w (w # ws) = then_w w (seq_w ws)"

text \<open>The summands of \<open>Size\<close>; \<open>t\<close> is the number of bytes of the tag.\<close>

definition varint_size :: "nat \<Rightarrow> uint64 \<Rightarrow> nat" where
  "varint_size t v = (if v \<noteq> 0 then t + sov v else 0)"

definition len_size :: "nat \<Rightarrow> nat \<Rightarrow> nat" where
  "len_size t l = t + l + sov (of_nat l)"

definition opt_len_size :: "nat \<Rightarrow> nat \<Rightarrow> nat" where
  "opt_len_size t l = (if l > 0 then len_size t l else 0)"

definition opt_nested_size :: "nat \<Rightarrow> nat option \<Rightarrow> nat" where
  "opt_nested_size t l = (case l of None \<Rightarrow> 0 | Some l \<Rightarrow> len_size t l)"

text \<open>\<open>Marshal\<close>.\<close>

definition Marshal_with :: "writer \<Rightarrow> nat \<Rightarrow> bytes res" where
  "Marshal_with w n = bind_res (to_sized w (replicate n (char_of (0 :: nat)))) (\<lambda>(dAtA, n). Ok (take (nat n) dAtA))"

subsection \<open>The fields they stand for\<close>

definition f_varint :: "nat \<Rightarrow> uint64 \<Rightarrow> fval list" where
  "f_varint n v = (if v = 0 then [] else [FVarint n v])"

definition f_bytes :: "nat \<Rightarrow> bytes \<Rightarrow> fval list" where
  "f_bytes n bs = (if bs = [] then [] else [FBytes n bs])"

definition f_opt_nested :: "nat \<Rightarrow> bytes option \<Rightarrow> fval list" where
  "f_opt_nested n b = (case b of None \<Rightarrow> [] | Some b \<Rightarrow> [FBytes n b])"

definition tag_bytes :: "nat list \<Rightarrow> bytes" where
  "tag_bytes tag = rev (map char_of tag)"

lemma writes_tag [writes_intros]: "writes (w_tag tag) (tag_bytes tag)"
  by (induction tag) (auto simp: tag_bytes_def intro: writes_skip writes_then writes_byte)

lemma enc_fields_simps [simp]:
  "enc_fields [] = []" "enc_fields (f # fs) = enc_field f @ enc_fields fs"
  "enc_fields (fs @ gs) = enc_fields fs @ enc_fields gs"
  by (simp_all add: enc_fields_def)

text \<open>A tag is the field number and the wire type as a varint.\<close>

definition tag_of :: "nat list \<Rightarrow> nat \<Rightarrow> nat \<Rightarrow> bool" where
  "tag_of tag n t \<longleftrightarrow> tag_bytes tag = varint_bytes (of_nat (8 * n + t))"

lemma tag_of_one [codec]: "b = 8 * n + t \<Longrightarrow> b < 128 \<Longrightarrow> tag_of [b] n t"
  by (simp add: tag_of_def tag_bytes_def varint_bytes.simps uint8_def word_less_nat_alt unat_of_nat del: of_nat_add of_nat_mult)

lemma tag_of_two [codec]:
  assumes "8 * n + t = 128 * h + l" and "0 < h" "h < 128" "l < 128" and "b = 128 + l"
  shows "tag_of [h, b] n t"
proof -
  let ?v = "of_nat (128 * h + l) :: uint64"
  have v: "unat ?v = 128 * h + l" using assms by (simp only: unat_of_nat) simp
  have "drop_bit 7 ?v = of_nat h"
    unfolding word_unat_eq_iff unat_drop_bit v using assms by (simp add: unat_of_nat)
  moreover have "unat (?v AND 0x7f OR 0x80) = b"
    unfolding low_byte(4) v using assms by simp
  moreover have "\<not> ?v < 128" "(of_nat h :: uint64) < 128"
    unfolding word_less_nat_alt v using assms by (simp_all add: unat_of_nat)
  ultimately show ?thesis
    using assms(1,3) by (simp add: tag_of_def tag_bytes_def varint_bytes.simps [of ?v] varint_bytes.simps [of "of_nat h"]
        uint8_def unat_of_nat del: of_nat_add of_nat_mult)
qed

lemma writes_opt_varint [codec]:
  "tag_of tag n 0 \<Longrightarrow> writes (w_opt_varint tag v) (enc_fields (f_varint n v))"
  using writes_then [OF writes_varint writes_tag, of v tag] writes_skip
  by (simp add: w_opt_varint_def f_varint_def tag_of_def)

lemma writes_bool [codec]: "tag_of tag n 0 \<Longrightarrow> writes (w_bool tag b) (enc_fields (f_varint n (of_bool b)))"
  using writes_then [OF writes_byte writes_tag, of 1 tag] writes_skip
  by (simp add: w_bool_def f_varint_def tag_of_def varint_bytes.simps [of 1] uint8_def)

lemma writes_string [codec]: "tag_of tag n 2 \<Longrightarrow> writes (w_string tag bs) (enc_field (FBytes n bs))"
  using writes_then [OF writes_bytes writes_tag, of bs tag] by (simp add: w_string_def tag_of_def)

lemma writes_opt_string [codec]: "tag_of tag n 2 \<Longrightarrow> writes (w_opt_string tag bs) (enc_fields (f_bytes n bs))"
  using writes_string [of tag n bs] writes_skip by (simp add: w_opt_string_def f_bytes_def)

lemma writes_nested [codec]:
  "tag_of tag n 2 \<Longrightarrow> marshals M bs \<Longrightarrow> writes (w_nested tag M) (enc_field (FBytes n bs))"
  using writes_then [OF writes_message writes_tag, of M bs tag] by (simp add: w_nested_def tag_of_def)

lemma writes_opt_nested [codec]:
  "tag_of tag n 2 \<Longrightarrow> \<forall>x. y = Some x \<longrightarrow> marshals (M x) (e x) \<Longrightarrow>
   writes (w_opt_nested tag (map_option M y)) (enc_fields (f_opt_nested n (map_option e y)))"
  using writes_nested [of tag n] writes_skip by (auto simp: w_opt_nested_def f_opt_nested_def split: option.split)

lemma writes_one [codec]: "writes w (enc_field f) \<Longrightarrow> writes w (enc_fields [f])"
  by simp

lemma writes_each_field [codec]:
  assumes "\<forall>x \<in> set xs. writes (f x) (enc_field (g x))"
  shows "writes (w_each f xs) (enc_fields (map g xs))"
  using writes_each [of xs f "\<lambda>x. enc_field (g x)"] assms by (simp add: enc_fields_def comp_def)

text \<open>The code writes the fields of a message from the last to the first.\<close>

lemma writes_seq:
  "list_all2 (\<lambda>w fs. writes w (enc_fields fs)) ws (rev fss) \<Longrightarrow> writes (seq_w ws) (enc_fields (concat fss))"
proof (induction ws arbitrary: fss)
  case Nil
  then show ?case by (simp add: writes_skip)
next
  case (Cons w ws)
  then obtain fs gss where fss: "rev fss = fs # gss" "writes w (enc_fields fs)"
    "list_all2 (\<lambda>w fs. writes w (enc_fields fs)) ws gss"
    by (auto simp: list_all2_Cons1)
  then have "fss = rev gss @ [fs]" by (metis rev_rev_ident rev.simps(2))
  then show ?case using fss(2,3) Cons.IH [of "rev gss"] by (simp add: writes_then)
qed

lemma length_len_prefixed [simp]: "length (len_prefixed bs) = length bs + sov (of_nat (length bs))"
  by (simp add: len_prefixed_def length_varint_bytes)

lemma length_f_varint [codec]:
  "length (enc_fields (f_varint n v)) = varint_size (sov (of_nat (8 * n))) v"
  by (simp add: f_varint_def varint_size_def length_varint_bytes)

lemma length_field_bytes [codec]:
  "length (enc_field (FBytes n bs)) = len_size (sov (of_nat (8 * n + 2))) (length bs)"
  by (simp add: len_size_def length_varint_bytes)

lemma length_f_bytes [codec]:
  "length (enc_fields (f_bytes n bs)) = opt_len_size (sov (of_nat (8 * n + 2))) (length bs)"
  by (simp add: f_bytes_def opt_len_size_def len_size_def length_varint_bytes)

lemma length_f_opt_nested [codec]:
  "length (enc_fields (f_opt_nested n (map_option e y))) =
     opt_nested_size (sov (of_nat (8 * n + 2))) (map_option (\<lambda>x. length (e x)) y)"
  by (auto simp: f_opt_nested_def opt_nested_size_def len_size_def length_varint_bytes split: option.split)

lemma length_each [codec]:
  "length (enc_fields (map (\<lambda>x. FBytes n (e x)) xs)) = (\<Sum>x \<leftarrow> xs. len_size (sov (of_nat (8 * n + 2))) (length (e x)))"
  by (induction xs) (simp_all add: len_size_def length_varint_bytes)

lemmas sov_numeral [codec] = sov_small [of "numeral k" for k] sov_step [of "numeral k" for k]

lemma sov_one [codec]: "sov 1 = 1" "varint_size t 1 = t + 1" "varint_size t 0 = 0" "Suc (Suc 0) = 2"
  by (simp_all add: sov_small varint_size_def)

lemma apply_fields_append [simp]:
  "apply_fields T (fs @ gs) m = bind_res (apply_fields T fs m) (apply_fields T gs)"
proof (induction fs arbitrary: m)
  case (Cons f fs)
  then show ?case by (cases "apply_field T f m") simp_all
qed simp

lemma bind_apply_Nil [simp]: "bind_res r (apply_fields T []) = r"
  by (cases r) simp_all

lemma apply_f_varint [codec]:
  assumes "v = 0 \<Longrightarrow> (case T (int n) of Some (PVarint g) \<Rightarrow> g v m = m | _ \<Rightarrow> False)"
  shows "apply_fields T (f_varint n v) m = (case T (int n) of Some (PVarint g) \<Rightarrow> Ok (g v m) | _ \<Rightarrow> Panic)"
  using assms by (auto simp: f_varint_def split: option.splits pfield.splits)

lemma apply_f_bytes [codec]:
  assumes "bs = [] \<Longrightarrow> (case T (int n) of Some (PBytes g) \<Rightarrow> g bs m = Ok m | _ \<Rightarrow> False)"
  shows "apply_fields T (f_bytes n bs) m = (case T (int n) of Some (PBytes g) \<Rightarrow> g bs m | _ \<Rightarrow> Panic)"
  using assms by (auto simp: f_bytes_def split: option.splits pfield.splits)

lemma apply_each:
  assumes "T (int n) = Some (PBytes g)" and "\<forall>x \<in> set xs. \<forall>m. g (e x) m = Ok (U (\<lambda>l. l @ [x]) m)"
    and comp: "\<And>f f' m. U f (U f' m) = U (\<lambda>l. f (f' l)) m" and ident: "\<And>m. U (\<lambda>l. l) m = m"
  shows "apply_fields T (map (\<lambda>x. FBytes n (e x)) xs) m = Ok (U (\<lambda>l. l @ xs) m)"
  using assms(2)
proof (induction xs arbitrary: m)
  case (Cons x xs)
  then show ?case using assms(1) by (simp add: comp)
qed (simp add: ident)

lemma apply_opt_nested:
  assumes "T (int n) = Some (PBytes g)" and "\<forall>x. y = Some x \<longrightarrow> g (e x) m = Ok (U (\<lambda>_. y) m)"
    and "y = None \<longrightarrow> U (\<lambda>_. y) m = m"
  shows "apply_fields T (f_opt_nested n (map_option e y)) m = Ok (U (\<lambda>_. y) m)"
  using assms by (cases y) (simp_all add: f_opt_nested_def)

lemma field_nums [codec]:
  "f \<in> set (f_varint n v) \<Longrightarrow> field_num f = n" "f \<in> set (f_bytes n bs) \<Longrightarrow> field_num f = n"
  "f \<in> set (f_opt_nested n b) \<Longrightarrow> field_num f = n"
  by (auto simp: f_varint_def f_bytes_def f_opt_nested_def split: if_splits option.splits)

lemma casts [codec]:
  "ucast (ucast (x :: uint32) :: uint64) = x"
  "in_i64 i \<Longrightarrow> sint (word_of_int i :: uint64) = i"
  "ucast (scast (y :: 32 word) :: uint64) = y"
proof -
  show "ucast (ucast (x :: uint32) :: uint64) = x"
    by (rule bit_word_eqI) (simp add: bit_simps)
  show "in_i64 i \<Longrightarrow> sint (word_of_int i :: uint64) = i"
    by (simp add: in_i64_def signed_of_int signed_take_bit_int_eq_self)
  show "ucast (scast (y :: 32 word) :: uint64) = y"
    by (rule bit_word_eqI) (auto simp: bit_simps)
qed

declare enc_field.simps [simp del]

subsection \<open>Messages\<close>

text \<open>
  What a generated message promises: its writer and its size agree with the encoding of its
  fields, and the \<open>switch\<close> rebuilds the message from them. Then \<open>Marshal\<close> does not panic and
  \<open>Unmarshal\<close> is its inverse.
\<close>

locale message =
  fixes w :: "'m \<Rightarrow> writer" and Size :: "'m \<Rightarrow> nat" and T :: "'m ptable" and zero :: 'm
    and fields :: "'m \<Rightarrow> fval list" and ok :: "'m \<Rightarrow> bool"
  assumes writes_fields: "ok m \<Longrightarrow> writes (w m) (enc_fields (fields m))"
    and size_fields: "ok m \<Longrightarrow> Size m = length (enc_fields (fields m))"
    and numbers: "f \<in> set (fields m) \<Longrightarrow> 0 < field_num f \<and> field_num f < 2 ^ 28"
    and decodes: "ok m \<Longrightarrow> apply_fields T (fields m) zero = Ok m"
begin

lemma marshals_fields: "ok m \<Longrightarrow> marshals (to_sized (w m)) (enc_fields (fields m))"
  by (rule marshals_to_sized [OF writes_fields])

lemma Marshal_fields: "ok m \<Longrightarrow> Marshal_with (w m) (Size m) = Ok (enc_fields (fields m))"
  using marshals_fields [of m] size_fields [of m] by (simp add: Marshal_with_def marshals_def)

lemma unmarshal_enc: "ok m \<Longrightarrow> int (Size m) \<le> max_int64 \<Longrightarrow> unmarshal T (enc_fields (fields m)) zero = Ok m"
  using unmarshal_fields [of "fields m" T zero m] numbers size_fields decodes by simp

lemma round_trip:
  assumes "ok m" and "int (Size m) \<le> max_int64"
  shows "\<exists>bs. Marshal_with (w m) (Size m) = Ok bs \<and> length bs = Size m \<and> unmarshal T bs zero = Ok m"
  using Marshal_fields unmarshal_enc assms size_fields by simp

lemma Marshal_injective:
  assumes "ok m" "int (Size m) \<le> max_int64" and "ok m'" "int (Size m') \<le> max_int64"
    and "Marshal_with (w m) (Size m) = Marshal_with (w m') (Size m')"
  shows "m = m'"
proof -
  have "enc_fields (fields m) = enc_fields (fields m')"
    using assms(5) unfolding Marshal_fields [OF assms(1)] Marshal_fields [OF assms(3)] by (rule res.inject(1) [THEN iffD1])
  then have "Ok m = Ok m'"
    unfolding unmarshal_enc [OF assms(1,2), symmetric] unmarshal_enc [OF assms(3,4), symmetric] by (rule arg_cong)
  then show ?thesis by (rule res.inject(1) [THEN iffD1])
qed

end

end
