(* ===== verification/Pulsar.thy ===== *)
theory Pulsar
  imports Wire
begin

text \<open>
  The code that \<open>protoc-gen-go-pulsar\<close> generates for a message (the files \<open>*.pulsar.go\<close> under
  \<open>src/api\<close>), as far as it is the same for every message: values, list views, and the
  \<open>marshal\<close> and \<open>unmarshal\<close> functions of \<open>ProtoMethods\<close>, through which the ORM reads and
  writes its rows. The encoding is that of \<open>Wire\<close>; unlike the code of \<open>protoc-gen-gogo\<close>
  these functions keep the fields they do not know.

  \<^item> A generated struct is its fields and the bytes \<open>unknownFields\<close>; a nil pointer to it is \<open>None\<close>.
  \<^item> \<open>value_ops\<close> is \<open>protoreflect.Value\<close>, a union with one constructor and one accessor per kind,
    over any type \<open>'v\<close>; an accessor panics on a value of another kind (\<open>value_laws\<close>). A list
    is the Go type of its view and the list the view points to, \<open>None\<close> for nil.
  \<^item> \<open>pulsar_runtime\<close> holds \<open>Sov\<close>, \<open>EncodeVarint\<close> and \<open>Skip\<close> of \<open>cosmos-proto/runtime\<close>;
    \<open>runtime_laws\<close> says that they are the varints and the skipping of the protobuf encoding.
\<close>

section \<open>Values\<close>

record 'v value_ops =
  ValueOfUint32 :: "uint32 \<Rightarrow> 'v"
  ValueOfUint64 :: "uint64 \<Rightarrow> 'v"
  ValueOfEnum :: "32 word \<Rightarrow> 'v"
  ValueOfBytes :: "bytes \<Rightarrow> 'v"
  ValueOfList :: "string \<Rightarrow> bytes list option \<Rightarrow> 'v"
  value_Uint :: "'v \<Rightarrow> uint64 res"
  value_Enum :: "'v \<Rightarrow> 32 word res"
  value_Bytes :: "'v \<Rightarrow> bytes res"
  value_List :: "'v \<Rightarrow> (string \<times> bytes list option) res"

text \<open>A value of one of the kinds, before it is put into the union.\<close>

datatype pval =
    PvUint32 uint32
  | PvUint64 uint64
  | PvEnum "32 word"
  | PvBytes bytes
  | PvList string "bytes list option"

fun wrap_value :: "'v value_ops \<Rightarrow> pval \<Rightarrow> 'v" where
  "wrap_value V (PvUint32 x) = ValueOfUint32 V x"
| "wrap_value V (PvUint64 x) = ValueOfUint64 V x"
| "wrap_value V (PvEnum x) = ValueOfEnum V x"
| "wrap_value V (PvBytes x) = ValueOfBytes V x"
| "wrap_value V (PvList t l) = ValueOfList V t l"

fun as_Uint :: "pval \<Rightarrow> uint64 res" where
  "as_Uint (PvUint32 x) = Ok (ucast x)" | "as_Uint (PvUint64 x) = Ok x" | "as_Uint _ = Panic"

fun as_Enum :: "pval \<Rightarrow> 32 word res" where
  "as_Enum (PvEnum x) = Ok x" | "as_Enum _ = Panic"

fun as_Bytes :: "pval \<Rightarrow> bytes res" where
  "as_Bytes (PvBytes x) = Ok x" | "as_Bytes _ = Panic"

fun as_List :: "pval \<Rightarrow> (string \<times> bytes list option) res" where
  "as_List (PvList t l) = Ok (t, l)" | "as_List _ = Panic"

definition value_laws :: "'v value_ops \<Rightarrow> bool" where
  "value_laws V \<longleftrightarrow> (\<forall>p. value_Uint V (wrap_value V p) = as_Uint p \<and> value_Enum V (wrap_value V p) = as_Enum p \<and>
     value_Bytes V (wrap_value V p) = as_Bytes p \<and> value_List V (wrap_value V p) = as_List p)"

text \<open>The union of exactly these kinds.\<close>

definition ref_values :: "pval value_ops" where
  "ref_values = \<lparr>ValueOfUint32 = PvUint32, ValueOfUint64 = PvUint64, ValueOfEnum = PvEnum, ValueOfBytes = PvBytes,
     ValueOfList = PvList, value_Uint = as_Uint, value_Enum = as_Enum, value_Bytes = as_Bytes, value_List = as_List\<rparr>"

lemma wrap_ref_values [simp]: "wrap_value ref_values p = p"
  by (cases p) (simp_all add: ref_values_def)

lemma ref_values_laws: "value_laws ref_values"
  by (simp add: value_laws_def) (simp add: ref_values_def)

lemma value_laws_wrapped:
  assumes "value_laws V"
  shows "value_Uint V (wrap_value V p) = as_Uint p" "value_Enum V (wrap_value V p) = as_Enum p"
    "value_Bytes V (wrap_value V p) = as_Bytes p" "value_List V (wrap_value V p) = as_List p"
  using assms unfolding value_laws_def by iprover+

lemma value_laws_simps:
  assumes "value_laws V"
  shows "value_Uint V (ValueOfUint32 V a) = Ok (ucast a)" "value_Enum V (ValueOfUint32 V a) = Panic"
    "value_Bytes V (ValueOfUint32 V a) = Panic" "value_List V (ValueOfUint32 V a) = Panic"
    "value_Uint V (ValueOfUint64 V b) = Ok b" "value_Enum V (ValueOfUint64 V b) = Panic"
    "value_Bytes V (ValueOfUint64 V b) = Panic" "value_List V (ValueOfUint64 V b) = Panic"
    "value_Uint V (ValueOfEnum V e) = Panic" "value_Enum V (ValueOfEnum V e) = Ok e"
    "value_Bytes V (ValueOfEnum V e) = Panic" "value_List V (ValueOfEnum V e) = Panic"
    "value_Uint V (ValueOfBytes V c) = Panic" "value_Enum V (ValueOfBytes V c) = Panic"
    "value_Bytes V (ValueOfBytes V c) = Ok c" "value_List V (ValueOfBytes V c) = Panic"
    "value_Uint V (ValueOfList V t l) = Panic" "value_Enum V (ValueOfList V t l) = Panic"
    "value_Bytes V (ValueOfList V t l) = Panic" "value_List V (ValueOfList V t l) = Ok (t, l)"
  using value_laws_wrapped [OF assms, of "PvUint32 a"] value_laws_wrapped [OF assms, of "PvUint64 b"]
    value_laws_wrapped [OF assms, of "PvEnum e"] value_laws_wrapped [OF assms, of "PvBytes c"]
    value_laws_wrapped [OF assms, of "PvList t l"] by simp_all

section \<open>Marshal and Unmarshal\<close>

record 'm pulsar =
  message_of :: 'm
  unknownFields :: bytes

record pulsar_runtime =
  rt_Sov :: "uint64 \<Rightarrow> nat"
  rt_EncodeVarint :: "uint64 \<Rightarrow> writer"
  rt_Skip :: "bytes \<Rightarrow> nat res"

definition runtime_laws :: "pulsar_runtime \<Rightarrow> bool" where
  "runtime_laws R \<longleftrightarrow> rt_Sov R = sov \<and> rt_EncodeVarint R = encodeVarint \<and> rt_Skip R = skip_unknown"

definition ref_runtime :: pulsar_runtime where
  "ref_runtime = \<lparr>rt_Sov = sov, rt_EncodeVarint = encodeVarint, rt_Skip = skip_unknown\<rparr>"

lemma ref_runtime_laws: "runtime_laws ref_runtime"
  by (simp add: runtime_laws_def ref_runtime_def)

text \<open>The statements that write a field, with the varints of the runtime, and their sizes.\<close>

definition pw_opt_varint :: "pulsar_runtime \<Rightarrow> nat list \<Rightarrow> uint64 \<Rightarrow> writer" where
  "pw_opt_varint R tag v = (if v \<noteq> 0 then then_w (rt_EncodeVarint R v) (w_tag tag) else skip_w)"

definition pw_string :: "pulsar_runtime \<Rightarrow> nat list \<Rightarrow> bytes \<Rightarrow> writer" where
  "pw_string R tag src = then_w (then_w (w_copy src) (rt_EncodeVarint R (of_nat (length src)))) (w_tag tag)"

definition pw_opt_string :: "pulsar_runtime \<Rightarrow> nat list \<Rightarrow> bytes \<Rightarrow> writer" where
  "pw_opt_string R tag src = (if length src > 0 then pw_string R tag src else skip_w)"

definition p_varint_size :: "pulsar_runtime \<Rightarrow> nat \<Rightarrow> uint64 \<Rightarrow> nat" where
  "p_varint_size R t v = (if v \<noteq> 0 then t + rt_Sov R v else 0)"

definition p_len_size :: "pulsar_runtime \<Rightarrow> nat \<Rightarrow> nat \<Rightarrow> nat" where
  "p_len_size R t l = t + l + rt_Sov R (of_nat l)"

definition p_opt_len_size :: "pulsar_runtime \<Rightarrow> nat \<Rightarrow> nat \<Rightarrow> nat" where
  "p_opt_len_size R t l = (if l > 0 then p_len_size R t l else 0)"

lemma runtime_pieces:
  assumes "runtime_laws R"
  shows "pw_opt_varint R = w_opt_varint" "pw_string R = w_string" "pw_opt_string R = w_opt_string"
    "p_varint_size R = varint_size" "p_len_size R = len_size" "p_opt_len_size R = opt_len_size"
proof -
  have rt: "rt_Sov R = sov" "rt_EncodeVarint R = encodeVarint" using assms by (simp_all add: runtime_laws_def)
  show w: "pw_opt_varint R = w_opt_varint" "pw_string R = w_string"
    by (intro ext, simp add: rt pw_opt_varint_def w_opt_varint_def pw_string_def w_string_def w_bytes_def)+
  show "pw_opt_string R = w_opt_string"
    by (intro ext) (simp add: pw_opt_string_def w_opt_string_def w)
  show l: "p_varint_size R = varint_size" "p_len_size R = len_size"
    by (intro ext, simp add: rt p_varint_size_def varint_size_def p_len_size_def len_size_def)+
  show "p_opt_len_size R = opt_len_size"
    by (intro ext) (simp add: p_opt_len_size_def opt_len_size_def l)
qed

text \<open>
  \<open>size\<close>, \<open>marshal\<close> and \<open>unmarshal\<close> around the statements of a message: a nil message has no
  bytes; \<open>buf\<close> is \<open>input.Buf\<close>, to which the encoding is appended.
\<close>

definition pulsar_size :: "('m \<Rightarrow> nat) \<Rightarrow> 'm pulsar option \<Rightarrow> nat" where
  "pulsar_size Size x = (case x of None \<Rightarrow> 0 | Some x \<Rightarrow> Size (message_of x) + length (unknownFields x))"

definition pulsar_marshal ::
  "('m \<Rightarrow> nat) \<Rightarrow> ('m \<Rightarrow> writer) \<Rightarrow> bytes \<Rightarrow> 'm pulsar option \<Rightarrow> bytes res" where
  "pulsar_marshal Size write buf x =
     (case x of
        None \<Rightarrow> Ok buf
      | Some m \<Rightarrow>
          let n = pulsar_size Size x in
          bind_res (then_w (w_copy (unknownFields m)) (write (message_of m)) (replicate n (char_of (0 :: nat)), int n))
            (\<lambda>(dAtA, _). Ok (buf @ dAtA)))"

definition pulsar_field ::
  "pulsar_runtime \<Rightarrow> bool \<Rightarrow> 'm ptable \<Rightarrow> bytes \<Rightarrow> nat \<Rightarrow> 'm pulsar \<Rightarrow> ('m pulsar \<times> nat) res" where
  "pulsar_field R discardUnknown T dAtA preIndex x =
     bind_res (varint_read dAtA 0 0 preIndex) (\<lambda>(wire, iNdEx).
       let fieldNum = sint (ucast (drop_bit 3 wire) :: 32 word); wireType = wire AND 7 in
       if wireType = 4 then Err (Errorf ''proto: wiretype end group for non-group'')
       else if fieldNum \<le> 0 then Err (Errorf ''proto: illegal tag'')
       else
         (case T fieldNum of
            Some (PVarint f) \<Rightarrow>
              if wireType \<noteq> 0 then Err (Errorf ''proto: wrong wireType'')
              else bind_res (varint_read dAtA 0 0 iNdEx) (\<lambda>(v, iNdEx).
                Ok (x\<lparr>message_of := f v (message_of x)\<rparr>, iNdEx))
          | Some (PBytes f) \<Rightarrow>
              if wireType \<noteq> 2 then Err (Errorf ''proto: wrong wireType'')
              else bind_res (read_len dAtA iNdEx) (\<lambda>(bs, iNdEx).
                bind_res (f bs (message_of x)) (\<lambda>m. Ok (x\<lparr>message_of := m\<rparr>, iNdEx)))
          | None \<Rightarrow>
              bind_res (rt_Skip R (drop preIndex dAtA)) (\<lambda>skippy.
              bind_res (index_plus preIndex skippy) (\<lambda>iNdEx.
                if iNdEx > length dAtA then Err ErrUnexpectedEOF
                else Ok (if discardUnknown then x
                         else x\<lparr>unknownFields := unknownFields x @ take skippy (drop preIndex dAtA)\<rparr>, iNdEx)))))"

text \<open>The loop, on the bytes that are left. A \<open>Skip\<close> that does not move would loop forever;
  the fuel is the number of bytes, which is enough for one that does.\<close>

fun pulsar_loop ::
  "nat \<Rightarrow> pulsar_runtime \<Rightarrow> bool \<Rightarrow> 'm ptable \<Rightarrow> bytes \<Rightarrow> nat \<Rightarrow> 'm pulsar \<Rightarrow> 'm pulsar res option" where
  "pulsar_loop fuel R discardUnknown T dAtA iNdEx x =
     (if iNdEx < length dAtA then
        (case fuel of
           0 \<Rightarrow> None
         | Suc fuel \<Rightarrow>
             (case pulsar_field R discardUnknown T dAtA iNdEx x of
                Ok (x, iNdEx) \<Rightarrow> pulsar_loop fuel R discardUnknown T dAtA iNdEx x
              | Err e \<Rightarrow> Some (Err e)
              | Panic \<Rightarrow> Some Panic))
      else if iNdEx > length dAtA then Some (Err ErrUnexpectedEOF)
      else Some (Ok x))"

declare pulsar_loop.simps [simp del]

definition pulsar_unmarshal ::
  "pulsar_runtime \<Rightarrow> bool \<Rightarrow> 'm ptable \<Rightarrow> bytes \<Rightarrow> 'm pulsar option \<Rightarrow> 'm pulsar option res option" where
  "pulsar_unmarshal R discardUnknown T dAtA x =
     (case x of
        None \<Rightarrow> Some (Ok None)
      | Some x \<Rightarrow> map_option (\<lambda>r. bind_res r (\<lambda>y. Ok (Some y))) (pulsar_loop (length dAtA) R discardUnknown T dAtA 0 x))"

section \<open>Lemmas\<close>

lemma pulsar_marshal_Ok:
  assumes "writes (write (message_of x)) bs" and "Size (message_of x) = length bs"
  shows "pulsar_marshal Size write buf (Some x) = Ok (buf @ bs @ unknownFields x)"
proof -
  let ?n = "pulsar_size Size (Some x)"
  have "writes (then_w (w_copy (unknownFields x)) (write (message_of x))) (bs @ unknownFields x)"
    by (rule writes_then [OF writes_copy assms(1)])
  from writesD [OF this, of "int ?n" "replicate ?n (char_of (0 :: nat))"] show ?thesis
    by (simp add: pulsar_marshal_def pulsar_size_def assms(2))
qed

text \<open>One turn of the loop does to the fields what the turn of \<open>protoc-gen-gogo\<close> does.\<close>

lemma pulsar_field_message:
  assumes "runtime_laws R"
  shows "bind_res (pulsar_field R discard T d i x) (\<lambda>(y, j). Ok (message_of y, j)) = read_field T d i (message_of x)"
proof (cases "varint_read d 0 0 i")
  case (Ok r)
  obtain wire k where r: "r = (wire, k)" by force
  let ?n = "sint (ucast (drop_bit 3 wire) :: 32 word)"
  note [simp] = pulsar_field_def read_field_def Ok r Let_def
  have skip: "rt_Skip R = skip_unknown" using assms by (simp add: runtime_laws_def)
  show ?thesis
  proof (cases "T ?n")
    case None
    then show ?thesis
      by (cases "skip_unknown (drop i d)"; cases "index_plus i (case skip_unknown (drop i d) of Ok s \<Rightarrow> s | _ \<Rightarrow> 0)")
        (simp_all add: skip)
  next
    case (Some f)
    show ?thesis
    proof (cases f)
      case (PVarint g)
      then show ?thesis using Some by (cases "varint_read d 0 0 k") (simp_all add: case_prod_beta)
    next
      case (PBytes g)
      then show ?thesis using Some
        by (cases "read_len d k"; cases "g (fst (case read_len d k of Ok s \<Rightarrow> s | _ \<Rightarrow> ([], 0))) (message_of x)")
          (simp_all add: case_prod_beta)
    qed
  qed
qed (simp_all add: pulsar_field_def read_field_def)

lemma pulsar_loop_message:
  assumes "runtime_laws R" and "length d \<le> fuel + i"
  shows "\<exists>r. pulsar_loop fuel R discard T d i x = Some r \<and>
     bind_res r (\<lambda>y. Ok (message_of y)) = unmarshal_loop T d i (message_of x)"
  using assms(2)
proof (induction fuel arbitrary: i x)
  case 0
  then show ?case by (simp add: pulsar_loop.simps unmarshal_loop.simps)
next
  case (Suc fuel)
  note step = pulsar_field_message [OF assms(1), of discard T d i x]
  show ?case
  proof (cases "i < length d")
    case True
    show ?thesis
    proof (cases "pulsar_field R discard T d i x")
      case (Ok r)
      obtain y j where r: "r = (y, j)" by force
      have read: "read_field T d i (message_of x) = Ok (message_of y, j)" using step Ok r by simp
      then have "length d \<le> fuel + j" using read_field_forward [OF read] Suc.prems by simp
      from Suc.IH [OF this, of y] show ?thesis
        using True Ok r read by (simp add: pulsar_loop.simps [of "Suc fuel"] unmarshal_loop.simps [of T d i])
    next
      case (Err e)
      then have "read_field T d i (message_of x) = Err e" using step by simp
      then show ?thesis using True Err by (simp add: pulsar_loop.simps unmarshal_loop.simps)
    next
      case Panic
      then have "read_field T d i (message_of x) = Panic" using step by simp
      then show ?thesis using True Panic by (simp add: pulsar_loop.simps unmarshal_loop.simps)
    qed
  next
    case False
    then show ?thesis by (simp add: pulsar_loop.simps unmarshal_loop.simps)
  qed
qed

lemma pulsar_unmarshal_message:
  assumes "runtime_laws R"
  shows "\<exists>r. pulsar_unmarshal R discard T dAtA (Some x) = Some r \<and>
     bind_res r (\<lambda>y. Ok (map_option message_of y)) = bind_res (unmarshal T dAtA (message_of x)) (\<lambda>m. Ok (Some m))"
proof -
  obtain r where r: "pulsar_loop (length dAtA) R discard T dAtA 0 x = Some r"
    "bind_res r (\<lambda>y. Ok (message_of y)) = unmarshal T dAtA (message_of x)"
    using pulsar_loop_message [OF assms, of dAtA "length dAtA" 0] unfolding unmarshal_def by force
  then show ?thesis by (cases r) (auto simp: pulsar_unmarshal_def r(2) [symmetric])
qed

text \<open>
  The methods of a message write and read what \<open>Marshal\<close> and \<open>Unmarshal\<close> of the same message do:
  \<open>marshal\<close> appends these bytes and the unknown fields to the buffer, and \<open>unmarshal\<close> ends on
  every input with the same fields or the same error.
\<close>

definition encodes_like ::
  "pulsar_runtime \<Rightarrow> ('m \<Rightarrow> nat) \<Rightarrow> ('m \<Rightarrow> writer) \<Rightarrow> 'm ptable \<Rightarrow> ('m \<Rightarrow> nat) \<Rightarrow> ('m \<Rightarrow> writer) \<Rightarrow> 'm ptable \<Rightarrow> bool" where
  "encodes_like R psize pwrite ptab Size write tab \<longleftrightarrow> (\<forall>x buf discard dAtA.
     pulsar_marshal psize pwrite buf (Some x) =
       bind_res (Marshal_with (write (message_of x)) (Size (message_of x))) (\<lambda>bs. Ok (buf @ bs @ unknownFields x)) \<and>
     (\<exists>r. pulsar_unmarshal R discard ptab dAtA (Some x) = Some r \<and>
        bind_res r (\<lambda>y. Ok (map_option message_of y)) = bind_res (unmarshal tab dAtA (message_of x)) (\<lambda>m. Ok (Some m))))"

lemma encodes_likeI:
  assumes "runtime_laws R" and "psize = Size" and "pwrite = write" and "ptab = tab"
    and "\<And>m. writes (write m) (enc m)" and "\<And>m. Size m = length (enc m)"
  shows "encodes_like R psize pwrite ptab Size write tab"
proof -
  have "Marshal_with (write m) (Size m) = Ok (enc m)" for m
    using marshals_to_sized [OF assms(5) [of m]] assms(6) [of m] by (simp add: Marshal_with_def marshals_def)
  moreover have "pulsar_marshal Size write buf (Some x) = Ok (buf @ enc (message_of x) @ unknownFields x)" for buf x
    by (rule pulsar_marshal_Ok) (rule assms)+
  ultimately show ?thesis
    unfolding encodes_like_def assms(2-4) using pulsar_unmarshal_message [OF assms(1), of _ tab] by simp
qed

end
