(* ===== verification/Reflection.thy ===== *)
theory Reflection
  imports Pulsar
begin

text \<open>
  What \<open>protoreflect.Message\<close> asks of a generated message, as the locale \<open>reflection\<close>: a field is
  named by the full name of its descriptor; \<open>Get\<close>, \<open>Set\<close>, \<open>Has\<close>, \<open>Clear\<close>, \<open>NewField\<close> and \<open>Range\<close>
  respect the kind of each field, and a name that is not a field's panics. The copy that
  \<open>proto.Merge\<close> makes (\<open>Range\<close> over one message, \<open>Set\<close> on a new one) is correct for every
  message with these laws. A message is passed by pointer, \<open>None\<close> for nil.
\<close>

section \<open>Kinds of fields\<close>

datatype field_kind = Uint64Kind | Uint32Kind | EnumKind | BytesKind | ListKind string

text \<open>The values \<open>Set\<close> takes for a field: an integer of either width, and a list by a view of the
  field's own type that points to a list.\<close>

fun assignable :: "field_kind \<Rightarrow> pval \<Rightarrow> bool" where
  "assignable Uint64Kind p \<longleftrightarrow> (case p of PvUint64 _ \<Rightarrow> True | PvUint32 _ \<Rightarrow> True | _ \<Rightarrow> False)"
| "assignable Uint32Kind p \<longleftrightarrow> (case p of PvUint64 _ \<Rightarrow> True | PvUint32 _ \<Rightarrow> True | _ \<Rightarrow> False)"
| "assignable EnumKind p \<longleftrightarrow> (case p of PvEnum _ \<Rightarrow> True | _ \<Rightarrow> False)"
| "assignable BytesKind p \<longleftrightarrow> (case p of PvBytes _ \<Rightarrow> True | _ \<Rightarrow> False)"
| "assignable (ListKind t) p \<longleftrightarrow> (case p of PvList t' l \<Rightarrow> t' = t \<and> l \<noteq> None | _ \<Rightarrow> False)"

text \<open>The value \<open>Get\<close> returns after \<open>Set\<close>: at the width of the field, and no list for an empty one.\<close>

fun stored :: "field_kind \<Rightarrow> pval \<Rightarrow> pval" where
  "stored Uint64Kind (PvUint32 x) = PvUint64 (ucast x)"
| "stored Uint32Kind (PvUint64 x) = PvUint32 (ucast x)"
| "stored (ListKind t) (PvList t' (Some [])) = PvList t' None"
| "stored k p = p"

fun default_value :: "field_kind \<Rightarrow> pval" where
  "default_value Uint64Kind = PvUint64 0"
| "default_value Uint32Kind = PvUint32 0"
| "default_value EnumKind = PvEnum 0"
| "default_value BytesKind = PvBytes []"
| "default_value (ListKind t) = PvList t None"

text \<open>The value of a cleared field, in a form that \<open>Set\<close> takes.\<close>

fun fresh_value :: "field_kind \<Rightarrow> pval" where
  "fresh_value (ListKind t) = PvList t (Some [])"
| "fresh_value k = default_value k"

lemma fresh_value: "assignable k (fresh_value k)" "stored k (fresh_value k) = default_value k"
  by (cases k; simp)+

text \<open>The values \<open>Get\<close> returns.\<close>

fun typed :: "field_kind \<Rightarrow> pval \<Rightarrow> bool" where
  "typed Uint64Kind p \<longleftrightarrow> (case p of PvUint64 _ \<Rightarrow> True | _ \<Rightarrow> False)"
| "typed Uint32Kind p \<longleftrightarrow> (case p of PvUint32 _ \<Rightarrow> True | _ \<Rightarrow> False)"
| "typed EnumKind p \<longleftrightarrow> (case p of PvEnum _ \<Rightarrow> True | _ \<Rightarrow> False)"
| "typed BytesKind p \<longleftrightarrow> (case p of PvBytes _ \<Rightarrow> True | _ \<Rightarrow> False)"
| "typed (ListKind t) p \<longleftrightarrow> (case p of PvList t' l \<Rightarrow> t' = t \<and> l \<noteq> Some [] | _ \<Rightarrow> False)"

lemma typed_assignable:
  assumes "typed k p" and "p \<noteq> default_value k"
  shows "assignable k p" "stored k p = p"
proof -
  show "assignable k p" using assms by (cases k; cases p) auto
  show "stored k p = p" using assms by (cases "(k, p)" rule: stored.cases) auto
qed

lemma stored_typed: "assignable k p \<Longrightarrow> typed k (stored k p)"
  by (cases "(k, p)" rule: stored.cases; cases k) auto

text \<open>On values of one kind the union loses nothing.\<close>

lemma wrap_inject:
  assumes "value_laws V" and "typed k p" and "typed k q" and "wrap_value V p = wrap_value V q"
  shows "p = q"
proof -
  have "as_Uint p = as_Uint q" "as_Enum p = as_Enum q" "as_Bytes p = as_Bytes q" "as_List p = as_List q"
    using value_laws_wrapped [OF assms(1), of p] value_laws_wrapped [OF assms(1), of q] assms(4) by simp_all
  moreover have "x = y" if "(ucast x :: uint64) = ucast y" for x y :: uint32
  proof -
    have "(ucast (ucast x :: uint64) :: uint32) = ucast (ucast y :: uint64)" using that by simp
    then show ?thesis by (simp add: casts)
  qed
  ultimately show ?thesis using assms(2,3) by (cases k; cases p; cases q) simp_all
qed

section \<open>Pointers, and iteration over fields\<close>

definition deref :: "'m pulsar option \<Rightarrow> ('m pulsar \<Rightarrow> 'r res) \<Rightarrow> 'r res" where
  "deref x f = (case x of None \<Rightarrow> Panic | Some x \<Rightarrow> f x)"

definition store :: "'m pulsar \<Rightarrow> 'm \<Rightarrow> 'm pulsar option res" where
  "store x m = Ok (Some (x\<lparr>message_of := m\<rparr>))"

lemma deref_Some [simp]: "deref (Some x) f = f x"
  by (simp add: deref_def)

lemma deref_None [simp]: "deref None f = Panic"
  by (simp add: deref_def)

text \<open>The callback of \<open>Range\<close> works on a state of its own and says whether to go on.\<close>

type_synonym ('v, 's) visitor = "string \<Rightarrow> 'v \<Rightarrow> 's \<Rightarrow> (bool \<times> 's) res"

definition visit :: "('v, 's) visitor \<Rightarrow> bool \<Rightarrow> string \<Rightarrow> 'v \<Rightarrow> ('s \<Rightarrow> 's res) \<Rightarrow> 's \<Rightarrow> 's res" where
  "visit f populated fd v rest s =
     (if populated then bind_res (f fd v s) (\<lambda>(continue, s). if continue then rest s else Ok s) else rest s)"

text \<open>\<open>Range\<close> in terms of \<open>Has\<close> and \<open>Get\<close>: the populated fields among \<open>names\<close>, in this order.\<close>

fun range_over :: "(string \<Rightarrow> bool res) \<Rightarrow> (string \<Rightarrow> 'v res) \<Rightarrow> ('v, 's) visitor \<Rightarrow> string list \<Rightarrow> 's \<Rightarrow> 's res" where
  "range_over Has Get f [] s = Ok s"
| "range_over Has Get f (fd # fds) s =
     bind_res (Has fd) (\<lambda>populated. bind_res (Get fd) (\<lambda>v. visit f populated fd v (range_over Has Get f fds) s))"

lemma range_over_visit:
  assumes "rest = range_over Has Get f fds" and "Has fd = Ok b" and "\<exists>u. Get fd = Ok u \<and> (b \<longrightarrow> u = v)"
  shows "visit f b fd v rest = range_over Has Get f (fd # fds)"
  by (rule ext) (use assms in \<open>cases b; auto simp: visit_def\<close>)

lemma range_over_Nil: "range_over Has Get f [] = Ok"
  by (rule ext) simp

section \<open>List views\<close>

text \<open>
  The methods of a view of a \<open>[][]byte\<close>, on the list it points to (\<open>None\<close> for no list). The
  capacity of the slice matters to \<open>Truncate\<close> alone: \<open>spare\<close> is what the array holds after it.
\<close>

definition list_Len :: "bytes list option \<Rightarrow> nat" where
  "list_Len l = (case l of None \<Rightarrow> 0 | Some l \<Rightarrow> length l)"

definition list_Get :: "'v value_ops \<Rightarrow> int \<Rightarrow> bytes list option \<Rightarrow> 'v res" where
  "list_Get V i l = (case l of None \<Rightarrow> Panic | Some l \<Rightarrow>
     if 0 \<le> i \<and> i < int (length l) then Ok (ValueOfBytes V (l ! nat i)) else Panic)"

definition list_Set :: "'v value_ops \<Rightarrow> int \<Rightarrow> 'v \<Rightarrow> bytes list option \<Rightarrow> bytes list option res" where
  "list_Set V i v l = bind_res (value_Bytes V v) (\<lambda>b. case l of None \<Rightarrow> Panic | Some l \<Rightarrow>
     if 0 \<le> i \<and> i < int (length l) then Ok (Some (l[nat i := b])) else Panic)"

definition list_Append :: "'v value_ops \<Rightarrow> 'v \<Rightarrow> bytes list option \<Rightarrow> bytes list option res" where
  "list_Append V v l = bind_res (value_Bytes V v) (\<lambda>b. case l of None \<Rightarrow> Panic | Some l \<Rightarrow> Ok (Some (l @ [b])))"

definition list_AppendMutable :: "bytes list option \<Rightarrow> 'v res" where
  "list_AppendMutable l = Panic"

definition list_Truncate :: "bytes list \<Rightarrow> int \<Rightarrow> bytes list option \<Rightarrow> bytes list option res" where
  "list_Truncate spare n l = (case l of None \<Rightarrow> Panic | Some l \<Rightarrow>
     if 0 \<le> n \<and> n \<le> int (length (l @ spare)) then Ok (Some (take (nat n) (l @ spare))) else Panic)"

definition list_NewElement :: "'v value_ops \<Rightarrow> 'v" where
  "list_NewElement V = ValueOfBytes V []"

definition list_IsValid :: "bytes list option \<Rightarrow> bool" where
  "list_IsValid l \<longleftrightarrow> l \<noteq> None"

text \<open>A list rebuilt element by element is the list.\<close>

fun append_all :: "'v value_ops \<Rightarrow> 'v list \<Rightarrow> bytes list option \<Rightarrow> bytes list option res" where
  "append_all V [] l = Ok l"
| "append_all V (v # vs) l = bind_res (list_Append V v l) (append_all V vs)"

lemma append_elements:
  assumes "value_laws V"
  shows "append_all V (map (ValueOfBytes V) bs) (Some l) = Ok (Some (l @ bs))"
  by (induction bs arbitrary: l) (simp_all add: list_Append_def value_laws_simps [OF assms])

section \<open>The contract\<close>

locale value_union =
  fixes V :: "'v value_ops"
  assumes laws: "value_laws V"

interpretation ref_union: value_union ref_values
  by unfold_locales (rule ref_values_laws)

text \<open>
  What it means for \<open>Get\<close> and \<open>Set\<close> to respect the kinds of the fields: a name that is not a
  field's panics; \<open>Get\<close> returns a value of the field's kind; \<open>Set\<close> panics on a value the kind does
  not allow and otherwise changes this field alone, which then reads as the value.
\<close>

definition respects_types ::
  "'v value_ops \<Rightarrow> (string \<Rightarrow> field_kind option) \<Rightarrow> (string \<Rightarrow> 'm pulsar option \<Rightarrow> 'v res) \<Rightarrow>
    (string \<Rightarrow> 'v \<Rightarrow> 'm pulsar option \<Rightarrow> 'm pulsar option res) \<Rightarrow> bool" where
  "respects_types V kind Get Set \<longleftrightarrow> (\<forall>fd x p.
     case kind fd of
       None \<Rightarrow> Get fd (Some x) = Panic \<and> Set fd (wrap_value V p) (Some x) = Panic
     | Some k \<Rightarrow>
         (\<exists>q. Get fd (Some x) = Ok (wrap_value V q) \<and> typed k q) \<and>
         (if assignable k p
          then \<exists>y. Set fd (wrap_value V p) (Some x) = Ok (Some y) \<and>
            Get fd (Some y) = Ok (wrap_value V (stored k p)) \<and> typed k (stored k p) \<and>
            (\<forall>g. g \<noteq> fd \<longrightarrow> Get g (Some y) = Get g (Some x)) \<and> unknownFields y = unknownFields x
          else Set fd (wrap_value V p) (Some x) = Panic))"

locale reflection =
  fixes V :: "'v value_ops"
    and kind :: "string \<Rightarrow> field_kind option"
    and names :: "string list"
    and new :: "'m pulsar"
    and Has :: "string \<Rightarrow> 'm pulsar option \<Rightarrow> bool res"
    and Get :: "string \<Rightarrow> 'm pulsar option \<Rightarrow> 'v res"
    and Set :: "string \<Rightarrow> 'v \<Rightarrow> 'm pulsar option \<Rightarrow> 'm pulsar option res"
    and Clear :: "string \<Rightarrow> 'm pulsar option \<Rightarrow> 'm pulsar option res"
    and NewField :: "string \<Rightarrow> 'm pulsar option \<Rightarrow> 'v res"
  assumes distinct_names: "distinct names"
    and kind_names: "kind fd \<noteq> None \<longleftrightarrow> fd \<in> set names"
    and no_field: "kind fd = None \<Longrightarrow>
      Has fd x = Panic \<and> Get fd x = Panic \<and> Set fd v x = Panic \<and> Clear fd x = Panic \<and> NewField fd x = Panic"
    and get_has: "kind fd = Some k \<Longrightarrow>
      \<exists>p. Get fd (Some y) = Ok (wrap_value V p) \<and> typed k p \<and> Has fd (Some y) = Ok (p \<noteq> default_value k)"
    and set_ok: "kind fd = Some k \<Longrightarrow> assignable k p \<Longrightarrow>
      \<exists>z. Set fd (wrap_value V p) (Some y) = Ok (Some z) \<and> Get fd (Some z) = Ok (wrap_value V (stored k p)) \<and>
        (\<forall>g. g \<noteq> fd \<longrightarrow> Get g (Some z) = Get g (Some y)) \<and> unknownFields z = unknownFields y"
    and set_panic: "kind fd = Some k \<Longrightarrow> \<not> assignable k p \<Longrightarrow> Set fd (wrap_value V p) x = Panic"
    and clear_ok: "kind fd = Some k \<Longrightarrow>
      \<exists>z. Clear fd (Some y) = Ok (Some z) \<and> Has fd (Some z) = Ok False \<and>
        (\<forall>g. g \<noteq> fd \<longrightarrow> Get g (Some z) = Get g (Some y)) \<and> unknownFields z = unknownFields y"
    and new_default: "kind fd = Some k \<Longrightarrow> Get fd (Some new) = Ok (wrap_value V (default_value k))"
    and new_field: "kind fd = Some k \<Longrightarrow> \<exists>p. NewField fd x = Ok (wrap_value V p) \<and> assignable k p \<and> stored k p = default_value k"
    and same_fields: "(\<And>fd. fd \<in> set names \<Longrightarrow> Get fd (Some y) = Get fd (Some z)) \<Longrightarrow> message_of y = message_of z"
begin

lemma field_types: "respects_types V kind Get Set"
  unfolding respects_types_def
proof (intro allI)
  fix fd :: string and x :: "'m pulsar" and p :: pval
  show "case kind fd of
       None \<Rightarrow> Get fd (Some x) = Panic \<and> Set fd (wrap_value V p) (Some x) = Panic
     | Some k \<Rightarrow>
         (\<exists>q. Get fd (Some x) = Ok (wrap_value V q) \<and> typed k q) \<and>
         (if assignable k p
          then \<exists>y. Set fd (wrap_value V p) (Some x) = Ok (Some y) \<and>
            Get fd (Some y) = Ok (wrap_value V (stored k p)) \<and> typed k (stored k p) \<and>
            (\<forall>g. g \<noteq> fd \<longrightarrow> Get g (Some y) = Get g (Some x)) \<and> unknownFields y = unknownFields x
          else Set fd (wrap_value V p) (Some x) = Panic)"
  proof (cases "kind fd")
    case None
    then show ?thesis by (simp add: no_field)
  next
    case (Some k)
    show ?thesis
      using get_has [OF Some, of x] set_ok [OF Some, of p x] set_panic [OF Some, of p "Some x"] stored_typed [of k p]
      by (auto simp: Some)
  qed
qed

text \<open>Resetting a field through \<open>NewField\<close> makes it read like that of a new message.\<close>

lemma set_new_field:
  assumes "kind fd = Some k"
  shows "\<exists>v z. NewField fd (Some y) = Ok v \<and> Set fd v (Some y) = Ok (Some z) \<and> Get fd (Some z) = Get fd (Some new)"
  using new_field [OF assms] set_ok [OF assms] new_default [OF assms] by metis

definition copy_field :: "string \<Rightarrow> 'v \<Rightarrow> 'm pulsar option \<Rightarrow> (bool \<times> 'm pulsar option) res" where
  "copy_field fd v z = bind_res (Set fd v z) (\<lambda>z. Ok (True, z))"

text \<open>One field of the copy: set where it is populated, and equal to the default where it is not.\<close>

lemma copy_one:
  assumes "fd \<in> set names" and "Get fd (Some z) = Get fd (Some new)"
  obtains v z' where "Get fd (Some y) = Ok v"
    and "\<And>rest. bind_res (Has fd (Some y)) (\<lambda>b. visit copy_field b fd v rest (Some z)) = rest (Some z')"
    and "Get fd (Some z') = Get fd (Some y)" "\<And>g. g \<noteq> fd \<Longrightarrow> Get g (Some z') = Get g (Some z)"
    and "unknownFields z' = unknownFields z"
proof -
  obtain k where k: "kind fd = Some k" using kind_names assms(1) by auto
  obtain p where p: "Get fd (Some y) = Ok (wrap_value V p)" "typed k p" "Has fd (Some y) = Ok (p \<noteq> default_value k)"
    using get_has [OF k] by blast
  show thesis
  proof (cases "p = default_value k")
    case True
    then show ?thesis using that [of "wrap_value V p" z] p assms(2) new_default [OF k] by (simp add: visit_def)
  next
    case False
    note a = typed_assignable [OF p(2) False]
    obtain z' where z': "Set fd (wrap_value V p) (Some z) = Ok (Some z')" "Get fd (Some z') = Ok (wrap_value V p)"
      "\<And>g. g \<noteq> fd \<Longrightarrow> Get g (Some z') = Get g (Some z)" "unknownFields z' = unknownFields z"
      using set_ok [OF k a(1), of z] a(2) by auto
    then show ?thesis using that [of "wrap_value V p" z'] p False by (simp add: visit_def copy_field_def)
  qed
qed

lemma copy_names:
  assumes "set fds \<subseteq> set names" and "distinct fds" and "\<And>g. g \<in> set fds \<Longrightarrow> Get g (Some z) = Get g (Some new)"
  shows "\<exists>z'. range_over (\<lambda>fd. Has fd (Some y)) (\<lambda>fd. Get fd (Some y)) copy_field fds (Some z) = Ok (Some z') \<and>
     (\<forall>g. Get g (Some z') = (if g \<in> set fds then Get g (Some y) else Get g (Some z))) \<and> unknownFields z' = unknownFields z"
  using assms
proof (induction fds arbitrary: z)
  case (Cons fd fds)
  have fd: "fd \<in> set names" "Get fd (Some z) = Get fd (Some new)" "fd \<notin> set fds" using Cons.prems by auto
  obtain v z1 where z1: "Get fd (Some y) = Ok v"
    "\<And>rest. bind_res (Has fd (Some y)) (\<lambda>b. visit copy_field b fd v rest (Some z)) = rest (Some z1)"
    "Get fd (Some z1) = Get fd (Some y)" "\<And>g. g \<noteq> fd \<Longrightarrow> Get g (Some z1) = Get g (Some z)"
    "unknownFields z1 = unknownFields z"
    using copy_one [OF fd(1,2), of y] by metis
  have "Get g (Some z1) = Get g (Some new)" if "g \<in> set fds" for g
    using that z1(4) [of g] Cons.prems(3) [of g] fd(3) by (cases "g = fd") auto
  then obtain z' where z': "range_over (\<lambda>fd. Has fd (Some y)) (\<lambda>fd. Get fd (Some y)) copy_field fds (Some z1) = Ok (Some z')"
    "\<And>g. Get g (Some z') = (if g \<in> set fds then Get g (Some y) else Get g (Some z1))" "unknownFields z' = unknownFields z1"
    using Cons.IH [of z1] Cons.prems(1,2) by auto
  have "Get g (Some z') = (if g \<in> set (fd # fds) then Get g (Some y) else Get g (Some z))" for g
    using z'(2) [of g] z1(3) z1(4) [of g] by auto
  with z' z1(1,2,5) show ?case by auto
qed auto

lemma copy_correct:
  "range_over (\<lambda>fd. Has fd (Some y)) (\<lambda>fd. Get fd (Some y)) copy_field names (Some new) =
     Ok (Some (new\<lparr>message_of := message_of y\<rparr>))"
proof -
  obtain z where z: "range_over (\<lambda>fd. Has fd (Some y)) (\<lambda>fd. Get fd (Some y)) copy_field names (Some new) = Ok (Some z)"
    "\<And>g. g \<in> set names \<Longrightarrow> Get g (Some z) = Get g (Some y)" "unknownFields z = unknownFields new"
    using copy_names [of names new y] distinct_names by auto
  have "message_of z = message_of y" by (rule same_fields) (rule z(2))
  with z(1,3) show ?thesis by (cases z; cases new) simp
qed

end

end
