(* ===== verification/Collections.thy ===== *)
theory Collections
  imports Prelude
begin

text \<open>
  The typed key-value stores of \<open>cosmossdk.io/collections\<close> that hold both modules' state.
  The package is not part of the repository; what the keepers rely on is the interface of
  the locale \<open>collection\<close>: what \<open>Get\<close> returns after \<open>Set\<close> and \<open>Remove\<close>, and that
  \<open>Walk\<close> visits every entry once. The state records of the keepers hold a store as the
  list of its entries in ascending key order (the order \<open>Walk\<close> documents), and
  \<open>coll_get\<close>, \<open>coll_set\<close>, \<open>coll_remove\<close> act on that list.
\<close>

type_synonym ('k, 'v) coll = "('k \<times> 'v) list"

definition coll_get :: "('k, 'v) coll \<Rightarrow> 'k \<Rightarrow> 'v option" where
  "coll_get s k = map_of s k"

fun coll_set :: "'k :: linorder \<Rightarrow> 'v \<Rightarrow> ('k, 'v) coll \<Rightarrow> ('k, 'v) coll" where
  "coll_set k v [] = [(k, v)]"
| "coll_set k v ((j, w) # s) =
     (if k < j then (k, v) # (j, w) # s
      else if k = j then (k, v) # s
      else (j, w) # coll_set k v s)"

definition coll_remove :: "'k \<Rightarrow> ('k, 'v) coll \<Rightarrow> ('k, 'v) coll" where
  "coll_remove k s = filter (\<lambda>e. fst e \<noteq> k) s"

definition coll_wf :: "('k :: linorder, 'v) coll \<Rightarrow> bool" where
  "coll_wf s \<longleftrightarrow> sorted_wrt (<) (map fst s)"

text \<open>\<open>Walk\<close>: the handler sees the entries in ascending order and may stop the iteration.
  It works on the entries that were there when the iteration began, whatever the
  handler writes.\<close>

fun coll_walk :: "('k \<Rightarrow> 'v \<Rightarrow> 'a \<Rightarrow> 'a \<times> bool) \<Rightarrow> ('k, 'v) coll \<Rightarrow> 'a \<Rightarrow> 'a" where
  "coll_walk handler [] a = a"
| "coll_walk handler ((k, v) # s) a =
     (case handler k v a of (a', stop) \<Rightarrow> if stop then a' else coll_walk handler s a')"

lemma coll_walk_fold:
  "coll_walk (\<lambda>k v a. (f k v a, False)) s a = fold (\<lambda>(k, v). f k v) s a"
  by (induction s arbitrary: a) auto

lemma coll_walk_append:
  "coll_walk (\<lambda>k v l. (l @ [f k v], False)) s l = l @ map (\<lambda>(k, v). f k v) s"
  by (induction s arbitrary: l) auto

section \<open>The interface\<close>

text \<open>
  \<open>walk_remove\<close> is the loop the keepers write again and again: walk over the entries and
  remove those a condition selects.
\<close>

locale collection =
  fixes get :: "'s \<Rightarrow> 'k \<Rightarrow> 'v option"
    and put :: "'k \<Rightarrow> 'v \<Rightarrow> 's \<Rightarrow> 's"
    and remove :: "'k \<Rightarrow> 's \<Rightarrow> 's"
    and entries :: "'s \<Rightarrow> ('k \<times> 'v) list"
    and wf :: "'s \<Rightarrow> bool"
  assumes get_put: "get (put k v s) j = (if j = k then Some v else get s j)"
    and get_remove: "get (remove k s) j = (if j = k then None else get s j)"
    and entries_get: "wf s \<Longrightarrow> (k, v) \<in> set (entries s) \<longleftrightarrow> get s k = Some v"
    and wf_put: "wf s \<Longrightarrow> wf (put k v s)"
    and wf_remove: "wf s \<Longrightarrow> wf (remove k s)"
begin

lemma get_fold_remove:
  "get (fold (\<lambda>e s. if P e then remove (fst e) s else s) es s) j =
     (if \<exists>v. (j, v) \<in> set es \<and> P (j, v) then None else get s j)"
  by (induction es arbitrary: s) (auto simp: get_remove)

lemma wf_fold_remove:
  "wf s \<Longrightarrow> wf (fold (\<lambda>e s. if P e then remove (fst e) s else s) es s)"
  by (induction es arbitrary: s) (auto simp: wf_remove)

lemma get_walk_remove:
  assumes "wf s"
  shows "get (fold (\<lambda>e s. if P e then remove (fst e) s else s) (entries s) s) j =
     (case get s j of None \<Rightarrow> None | Some v \<Rightarrow> if P (j, v) then None else Some v)"
  using entries_get [OF assms]
  by (auto simp: get_fold_remove split: option.splits)

lemma get_fold_put:
  "get (fold (\<lambda>(k, v) s. put k v s) es s) j =
     (case map_of (rev es) j of None \<Rightarrow> get s j | Some v \<Rightarrow> Some v)"
proof (induction es arbitrary: s)
  case (Cons e es)
  then show ?case
    by (cases e) (auto simp: get_put map_add_def split: option.splits)
qed simp

lemma wf_fold_put: "wf s \<Longrightarrow> wf (fold (\<lambda>(k, v) s. put k v s) es s)"
  by (induction es arbitrary: s) (auto simp: wf_put split: prod.splits)

end

section \<open>The stores of the keepers implement it\<close>

lemma coll_get_set [simp, coll_simps]:
  "coll_get (coll_set k v s) j = (if j = k then Some v else coll_get s j)"
  by (induction k v s rule: coll_set.induct) (auto simp: coll_get_def)

lemma coll_get_remove [simp, coll_simps]:
  "coll_get (coll_remove k s) j = (if j = k then None else coll_get s j)"
  by (induction s) (auto simp: coll_get_def coll_remove_def)

lemma coll_get_Nil [simp, coll_simps]: "coll_get [] k = None"
  by (simp add: coll_get_def)

lemma fst_coll_set: "fst ` set (coll_set k v s) = insert k (fst ` set s)"
  by (induction k v s rule: coll_set.induct) auto

lemma set_coll_set: "set (coll_set k v s) \<subseteq> insert (k, v) (set s)"
  by (induction k v s rule: coll_set.induct) auto

lemma coll_wf_Nil [simp]: "coll_wf []"
  by (simp add: coll_wf_def)

lemma coll_wf_set [simp]: "coll_wf s \<Longrightarrow> coll_wf (coll_set k v s)"
proof (induction k v s rule: coll_set.induct)
  case (2 k v j w s)
  then show ?case using fst_coll_set [of k v s]
    by (auto simp: coll_wf_def)
qed (simp add: coll_wf_def)

lemma coll_wf_remove [simp]: "coll_wf s \<Longrightarrow> coll_wf (coll_remove k s)"
  by (simp add: coll_wf_def coll_remove_def sorted_wrt_map sorted_wrt_filter)

lemma coll_wf_filter [simp]: "coll_wf s \<Longrightarrow> coll_wf (filter P s)"
  by (simp add: coll_wf_def sorted_wrt_map sorted_wrt_filter)

lemma coll_wf_distinct: "coll_wf s \<Longrightarrow> distinct (map fst s)"
  by (simp add: coll_wf_def strict_sorted_iff)

lemma coll_get_None: "coll_get s k = None \<longleftrightarrow> k \<notin> fst ` set s"
  by (simp add: coll_get_def map_of_eq_None_iff)

lemma coll_entries_get: "coll_wf s \<Longrightarrow> (k, v) \<in> set s \<longleftrightarrow> coll_get s k = Some v"
  using coll_wf_distinct [of s] by (simp add: coll_get_def)

interpretation coll: collection coll_get coll_set coll_remove "\<lambda>s. s" coll_wf
  by unfold_locales (simp_all add: coll_entries_get)

text \<open>Two stores with the same lookups have the same entries.\<close>

lemma coll_ext:
  assumes "coll_wf s" and "coll_wf t" and "\<And>k. coll_get s k = coll_get t k"
  shows "s = t"
proof -
  have "set s = set t"
    using assms by (auto simp: coll_entries_get)
  moreover have "sorted (map fst s)" "sorted (map fst t)"
    using assms(1,2) by (simp_all add: coll_wf_def strict_sorted_iff)
  ultimately show ?thesis
    using coll_wf_distinct [OF assms(1)] coll_wf_distinct [OF assms(2)]
    by (metis map_sorted_distinct_set_unique distinct_map inj_on_Un sup.idem)
qed

end
