(* ===== verification/Multisig.thy ===== *)
theory Multisig
  imports Collections
begin

text \<open>
  The multisig module (\<open>src/x/multisig\<close>): its keeper state, the ten message handlers of
  \<open>keeper/msg_server.go\<close>, genesis, and the module as a state machine whose steps are
  delivered transactions.

  \<^item> The two collections of the keeper and the proposal table are fields of \<open>ms_state\<close>.
  \<^item> What the module calls but does not contain is a field of \<open>ms_env\<close>: the address codec, the
    hash, the ORM table below the generated wrappers (over an arbitrary table state \<open>'t\<close>),
    the bank keeper (over an arbitrary bank state \<open>'b\<close>) and the message router.
  \<^item> A nil pointer dereference and an explicit \<open>panic\<close> are \<open>Panic\<close>.
\<close>

section \<open>Data\<close>

text \<open>A permission is an \<open>int32\<close> with three named values; a message can carry any other.\<close>

type_synonym MultisigProposalType = "32 word"

definition PROPOSAL_TYPE_UNSPECIFIED :: MultisigProposalType where "PROPOSAL_TYPE_UNSPECIFIED = 0"
definition PROPOSAL_TYPE_TRANSFER_ONLY :: MultisigProposalType where "PROPOSAL_TYPE_TRANSFER_ONLY = 1"
definition PROPOSAL_TYPE_EXCEPT_TRANSFER :: MultisigProposalType where "PROPOSAL_TYPE_EXCEPT_TRANSFER = 2"

record MultisigAccountDetails =
  Signers :: "bytes list"
  Threshold :: uint32
  Permission :: MultisigProposalType

record Proposal =
  Id :: uint64
  MultisigAddress :: bytes
  CallHash :: bytes
  Depositor :: bytes
  Deposit :: uint64
  Approvals :: "bytes list"

record MultisigParams =
  SomeValue :: bool

record MsgUpdateParams =
  up_Authority :: string
  up_Params :: MultisigParams

record MsgCreateMultisigAccountParams =
  cma_Authority :: string
  cma_Seed :: uint32
  cma_Threshold :: uint32
  cma_Signers :: "bytes list"
  cma_Permission :: MultisigProposalType

record MsgAddMultisigSignerParams =
  ams_MultisigAddress :: string
  ams_Signer :: string
  ams_NewThreshold :: uint32

text \<open>The embedded message is a pointer to an \<open>Any\<close> of the SDK; only its \<open>Value\<close> is read.\<close>

record Any =
  any_TypeUrl :: string
  any_Value :: bytes

record MsgInitializeMultisigProposalParams =
  imp_MultisigAddress :: string
  imp_Proposer :: string
  imp_Title :: string
  imp_Description :: string
  imp_Message :: "Any option"

record MsgApproveMultisigProposalParams =
  amp_MultisigAddress :: string
  amp_ProposalId :: uint64
  amp_Approver :: string

record MsgApproveAndDispatchMultisigProposalParams =
  adp_MultisigAddress :: string
  adp_ProposalId :: uint64
  adp_Approver :: string
  adp_Message :: "Any option"

record ('t, 'b) ms_state =
  ms_Params :: "MultisigParams option"
  MultisigAccounts :: "(bytes, MultisigAccountDetails) coll"
  OrmDB :: 't
  ms_bank :: 'b

text \<open>
  The table of the ORM package: a lookup by primary key or by a unique index finds a row
  or not, and may fail.
\<close>

record 't ormtable =
  PrimaryKey_Get :: "'t \<Rightarrow> uint64 \<Rightarrow> Proposal option res"
  UniqueIndex_Get :: "'t \<Rightarrow> bytes \<Rightarrow> bytes \<Rightarrow> Proposal option res"
  InsertReturningPKey :: "'t \<Rightarrow> Proposal \<Rightarrow> 't \<times> uint64 res"
  ormtable_Update :: "'t \<Rightarrow> Proposal \<Rightarrow> 't \<times> unit res"
  ormtable_Delete :: "'t \<Rightarrow> Proposal \<Rightarrow> 't \<times> unit res"

record ('t, 'b) ms_env =
  StringToBytes :: "string \<Rightarrow> bytes res"
  blake2b_Sum256 :: "bytes \<Rightarrow> bytes"
  Bech32AccountAddrPrefix :: string
  ms_authority :: string
  ProposalTable :: "'t ormtable"
  SendCoinsFromAccountToModule :: "'b \<Rightarrow> bytes \<Rightarrow> string \<Rightarrow> (string \<times> int) list \<Rightarrow> 'b \<times> unit res"
  router_Handler :: "MsgApproveAndDispatchMultisigProposalParams \<Rightarrow>
    (('t, 'b) ms_state \<Rightarrow> ('t, 'b) ms_state \<times> bytes res) option"

section \<open>Parameters and genesis\<close>

definition ms_DefaultParams :: MultisigParams where "ms_DefaultParams = \<lparr>SomeValue = True\<rparr>"

definition ms_Params_Validate :: "MultisigParams \<Rightarrow> unit res" where
  "ms_Params_Validate p = Ok ()"

definition ms_DefaultGenesis :: MultisigParams where "ms_DefaultGenesis = ms_DefaultParams"

definition ms_InitGenesis :: "('t, 'b) ms_state \<Rightarrow> MultisigParams \<Rightarrow> ('t, 'b) ms_state \<times> unit res" where
  "ms_InitGenesis s data = read_st s (ms_Params_Validate data) (\<lambda>_. (s\<lparr>ms_Params := Some data\<rparr>, Ok ()))"

definition ms_ExportGenesis :: "('t, 'b) ms_state \<Rightarrow> MultisigParams res" where
  "ms_ExportGenesis s = must (ms_Params s)"

definition ms_Querier_Params :: "('t, 'b) ms_state \<Rightarrow> MultisigParams res" where
  "ms_Querier_Params s = (case ms_Params s of None \<Rightarrow> Err (SdkErr ''ErrNotFound'') | Some p \<Rightarrow> Ok p)"

section \<open>The proposal table\<close>

text \<open>The generated wrappers turn a row that is not there into \<open>ormerrors.NotFound\<close>.\<close>

definition found_or_NotFound :: "Proposal option res \<Rightarrow> Proposal res" where
  "found_or_NotFound r = bind_res r
     (\<lambda>found. case found of None \<Rightarrow> Err (SdkErr ''ormerrors.NotFound'') | Some p \<Rightarrow> Ok p)"

definition ProposalTable_Get :: "('t, 'b) ms_env \<Rightarrow> 't \<Rightarrow> uint64 \<Rightarrow> Proposal res" where
  "ProposalTable_Get E t i = found_or_NotFound (PrimaryKey_Get (ProposalTable E) t i)"

definition GetByMultisigAddressCallHash ::
  "('t, 'b) ms_env \<Rightarrow> 't \<Rightarrow> bytes \<Rightarrow> bytes \<Rightarrow> Proposal res" where
  "GetByMultisigAddressCallHash E t a h = found_or_NotFound (UniqueIndex_Get (ProposalTable E) t a h)"

section \<open>Helpers\<close>

text \<open>The loop variable of the source shadows the parameter, so each signer is compared
  with itself.\<close>

fun contains :: "bytes list \<Rightarrow> bytes \<Rightarrow> bool" where
  "contains [] signer = False"
| "contains (signer' # signers) signer = (if signer' = signer' then True else contains signers signer)"

definition PutUint32 :: "uint32 \<Rightarrow> bytes" where
  "PutUint32 v = map (\<lambda>i. char_of (unat (drop_bit i v) mod 256)) [24, 16, 8, 0]"

definition DeriveMultisigAccountID :: "('t, 'b) ms_env \<Rightarrow> uint32 \<Rightarrow> bytes" where
  "DeriveMultisigAccountID E seed =
     take 20 (blake2b_Sum256 E (Bech32AccountAddrPrefix E @ PutUint32 seed))"

text \<open>\<open>errors.Wrapf(e, ...)\<close> over whatever the address codec reports.\<close>

definition parse_addr :: "('t, 'b) ms_env \<Rightarrow> string \<Rightarrow> bytes res" where
  "parse_addr E s = (case StringToBytes E s of
       Ok a \<Rightarrow> Ok a
     | Err _ \<Rightarrow> Err (SdkErr ''ErrInvalidAddress'')
     | Panic \<Rightarrow> Panic)"

definition get_account :: "('t, 'b) ms_state \<Rightarrow> bytes \<Rightarrow> MultisigAccountDetails res" where
  "get_account s a = (case coll_get (MultisigAccounts s) a of
       None \<Rightarrow> Err (SdkErr ''ErrConflict'')
     | Some d \<Rightarrow> Ok d)"

section \<open>Message handlers\<close>

definition ms_UpdateParams ::
  "('t, 'b) ms_env \<Rightarrow> ('t, 'b) ms_state \<Rightarrow> MsgUpdateParams \<Rightarrow> ('t, 'b) ms_state \<times> unit res" where
  "ms_UpdateParams E s msg =
     (if ms_authority E \<noteq> up_Authority msg then (s, Err (SdkErr ''ErrInvalidSigner''))
      else (s\<lparr>ms_Params := Some (up_Params msg)\<rparr>, Ok ()))"

definition CreateMultisigAccount ::
  "('t, 'b) ms_env \<Rightarrow> ('t, 'b) ms_state \<Rightarrow> MsgCreateMultisigAccountParams
    \<Rightarrow> ('t, 'b) ms_state \<times> bytes res" where
  "CreateMultisigAccount E s msg =
     read_st s (parse_addr E (cma_Authority msg)) (\<lambda>sender.
       if cma_Threshold msg < 1 then (s, Err (SdkErr ''ErrInsufficientFee''))
       else if length (cma_Signers msg) < 2 \<and> length (cma_Signers msg) > 10
       then (s, Err (SdkErr ''ErrInsufficientFunds''))
       else
         let multisig_address = DeriveMultisigAccountID E (cma_Seed msg) in
         if coll_get (MultisigAccounts s) multisig_address \<noteq> None
         then (s, Err (SdkErr ''ErrUnknownAddress''))
         else
           (s\<lparr>MultisigAccounts := coll_set multisig_address
                \<lparr>Signers = cma_Signers msg @ [sender], Threshold = cma_Threshold msg,
                 Permission = cma_Permission msg\<rparr> (MultisigAccounts s)\<rparr>,
            Ok multisig_address))"

definition AddMultisigSigner ::
  "('t, 'b) ms_env \<Rightarrow> ('t, 'b) ms_state \<Rightarrow> MsgAddMultisigSignerParams
    \<Rightarrow> ('t, 'b) ms_state \<times> unit res" where
  "AddMultisigSigner E s msg =
     read_st s (parse_addr E (ams_MultisigAddress msg)) (\<lambda>multisig_address.
     read_st s (parse_addr E (ams_Signer msg)) (\<lambda>new_signer.
     read_st s (get_account s multisig_address) (\<lambda>details.
       if contains (Signers details) new_signer then (s, Err (SdkErr ''ErrConflict''))
       else if ams_NewThreshold msg \<noteq> 0 \<and> ams_NewThreshold msg < 1
       then (s, Err (SdkErr ''ErrInsufficientFee''))
       else
         let details = (if ams_NewThreshold msg \<noteq> 0
                        then details\<lparr>Threshold := ams_NewThreshold msg\<rparr> else details);
             details = details\<lparr>Signers := Signers details @ [new_signer]\<rparr> in
         (s\<lparr>MultisigAccounts := coll_set multisig_address details (MultisigAccounts s)\<rparr>, Ok ()))))"

text \<open>The handlers the module does not implement panic before they read their message.\<close>

definition CleanupMultisigSigner :: "('t, 'b) ms_state \<Rightarrow> ('t, 'b) ms_state \<times> unit res" where
  "CleanupMultisigSigner s = (s, Panic)"

definition SetThreshold :: "('t, 'b) ms_state \<Rightarrow> ('t, 'b) ms_state \<times> unit res" where
  "SetThreshold s = (s, Panic)"

definition CancelMultisigProposal :: "('t, 'b) ms_state \<Rightarrow> ('t, 'b) ms_state \<times> unit res" where
  "CancelMultisigProposal s = (s, Panic)"

definition CleanupMultisigProposal :: "('t, 'b) ms_state \<Rightarrow> ('t, 'b) ms_state \<times> unit res" where
  "CleanupMultisigProposal s = (s, Panic)"

text \<open>
  The error check after the lookup is inverted: on an error the handler reads the \<open>Id\<close> of
  the nil proposal, and it goes on to insert only when the proposal already exists.
\<close>

definition InitializeMultisigProposal ::
  "('t, 'b) ms_env \<Rightarrow> ('t, 'b) ms_state \<Rightarrow> MsgInitializeMultisigProposalParams
    \<Rightarrow> ('t, 'b) ms_state \<times> uint64 res" where
  "InitializeMultisigProposal E s msg =
     read_st s (parse_addr E (imp_Proposer msg)) (\<lambda>proposer.
     read_st s (parse_addr E (imp_MultisigAddress msg)) (\<lambda>multisig_address.
     read_st s (get_account s multisig_address) (\<lambda>details.
       if \<not> contains (Signers details) proposer then (s, Err (SdkErr ''ErrConflict''))
       else
     read_st s (must (imp_Message msg)) (\<lambda>message.
       let call_hash = blake2b_Sum256 E (any_Value message) in
       case GetByMultisigAddressCallHash E (OrmDB s) multisig_address call_hash of
         Panic \<Rightarrow> (s, Panic)
       | Err _ \<Rightarrow> (s, Panic)
       | Ok _ \<Rightarrow>
           (case InsertReturningPKey (ProposalTable E) (OrmDB s)
                   \<lparr>Id = 0, MultisigAddress = multisig_address, CallHash = call_hash,
                    Depositor = proposer, Deposit = 10, Approvals = [proposer]\<rparr> of
              (t, Panic) \<Rightarrow> (s\<lparr>OrmDB := t\<rparr>, Panic)
            | (t, Err _) \<Rightarrow> (s\<lparr>OrmDB := t\<rparr>, Err (SdkErr ''ErrConflict''))
            | (t, Ok pid) \<Rightarrow>
                let (b, r) = SendCoinsFromAccountToModule E (ms_bank s) proposer ''multisig'' [(''uom'', 10)]
                in (s\<lparr>OrmDB := t, ms_bank := b\<rparr>, bind_res r (\<lambda>_. Ok pid)))))))"

text \<open>The error of the lookup is not checked: a proposal that is not found is nil.\<close>

definition ApproveMultisigProposal ::
  "('t, 'b) ms_env \<Rightarrow> ('t, 'b) ms_state \<Rightarrow> MsgApproveMultisigProposalParams
    \<Rightarrow> ('t, 'b) ms_state \<times> unit res" where
  "ApproveMultisigProposal E s msg =
     read_st s (parse_addr E (amp_Approver msg)) (\<lambda>approver.
     read_st s (parse_addr E (amp_MultisigAddress msg)) (\<lambda>multisig_address.
     read_st s (get_account s multisig_address) (\<lambda>details.
       if \<not> contains (Signers details) approver then (s, Err (SdkErr ''ErrConflict''))
       else
         case ProposalTable_Get E (OrmDB s) (amp_ProposalId msg) of
           Panic \<Rightarrow> (s, Panic)
         | Err _ \<Rightarrow> (s, Panic)
         | Ok proposal \<Rightarrow>
             if contains (Approvals proposal) approver then (s, Ok ())
             else if length (Approvals proposal) < unat (Threshold details)
             then let (t, _) = ormtable_Update (ProposalTable E) (OrmDB s)
                                 (proposal\<lparr>Approvals := Approvals proposal @ [approver]\<rparr>)
                  in (s\<lparr>OrmDB := t\<rparr>, Ok ())
             else (s, Ok ()))))"

definition DispatchActions ::
  "('t, 'b) ms_env \<Rightarrow> ('t, 'b) ms_state \<Rightarrow> MsgApproveAndDispatchMultisigProposalParams
    \<Rightarrow> ('t, 'b) ms_state \<times> bytes res" where
  "DispatchActions E s msg =
     (case router_Handler E msg of
        None \<Rightarrow> (s, Err (SdkErr ''ErrUnknownRequest''))
      | Some handler \<Rightarrow> handler s)"

text \<open>
  What is dispatched is the request itself, and the error of the dispatch is not checked:
  after a failed dispatch the proposal is deleted and the nil result is read.
\<close>

definition ApproveAndDispatchMultisigProposal ::
  "('t, 'b) ms_env \<Rightarrow> ('t, 'b) ms_state \<Rightarrow> MsgApproveAndDispatchMultisigProposalParams
    \<Rightarrow> ('t, 'b) ms_state \<times> bytes res" where
  "ApproveAndDispatchMultisigProposal E s msg =
     read_st s (parse_addr E (adp_Approver msg)) (\<lambda>approver.
     read_st s (parse_addr E (adp_MultisigAddress msg)) (\<lambda>multisig_address.
     read_st s (get_account s multisig_address) (\<lambda>details.
       if \<not> contains (Signers details) approver then (s, Err (SdkErr ''ErrConflict''))
       else
     read_st s (must (adp_Message msg)) (\<lambda>message.
     read_st s (GetByMultisigAddressCallHash E (OrmDB s) multisig_address (blake2b_Sum256 E (any_Value message))) (\<lambda>proposal.
       if adp_ProposalId msg \<noteq> Id proposal then (s, Err (SdkErr ''ErrConflict''))
       else
         let approvals_len = length (Approvals proposal)
               + (if \<not> contains (Approvals proposal) approver then 1 else 0) in
         if approvals_len < unat (Threshold details)
         then (s, Err (SdkErr ''ErrInsufficientFee''))
         else
           case DispatchActions E s msg of
             (s', Panic) \<Rightarrow> (s', Panic)
           | (s', r) \<Rightarrow>
               let (t, _) = ormtable_Delete (ProposalTable E) (OrmDB s') proposal
               in (s'\<lparr>OrmDB := t\<rparr>, if is_ok r then r else Panic))))))"

section \<open>The module as a state machine\<close>

datatype ms_msg =
    UpdateParamsMsg MsgUpdateParams
  | CreateMsg MsgCreateMultisigAccountParams
  | AddSignerMsg MsgAddMultisigSignerParams
  | CleanupSignerMsg
  | SetThresholdMsg
  | InitializeMsg MsgInitializeMultisigProposalParams
  | ApproveMsg MsgApproveMultisigProposalParams
  | DispatchMsg MsgApproveAndDispatchMultisigProposalParams
  | CancelMsg
  | CleanupProposalMsg

text \<open>The outcome of a handler without its response.\<close>

definition no_response :: "'s \<times> 'a res \<Rightarrow> 's \<times> unit res" where
  "no_response r = (fst r, bind_res (snd r) (\<lambda>_. Ok ()))"

fun ms_handle :: "('t, 'b) ms_env \<Rightarrow> ('t, 'b) ms_state \<Rightarrow> ms_msg \<Rightarrow> ('t, 'b) ms_state \<times> unit res" where
  "ms_handle E s (UpdateParamsMsg m) = ms_UpdateParams E s m"
| "ms_handle E s (CreateMsg m) = no_response (CreateMultisigAccount E s m)"
| "ms_handle E s (AddSignerMsg m) = AddMultisigSigner E s m"
| "ms_handle E s CleanupSignerMsg = CleanupMultisigSigner s"
| "ms_handle E s SetThresholdMsg = SetThreshold s"
| "ms_handle E s (InitializeMsg m) = no_response (InitializeMultisigProposal E s m)"
| "ms_handle E s (ApproveMsg m) = ApproveMultisigProposal E s m"
| "ms_handle E s (DispatchMsg m) = no_response (ApproveAndDispatchMultisigProposal E s m)"
| "ms_handle E s CancelMsg = CancelMultisigProposal s"
| "ms_handle E s CleanupProposalMsg = CleanupMultisigProposal s"

text \<open>A delivered transaction: what a failed handler has written is dropped.\<close>

inductive ms_step :: "('t, 'b) ms_env \<Rightarrow> ('t, 'b) ms_state \<Rightarrow> ('t, 'b) ms_state \<Rightarrow> bool"
  for E where
  commit: "ms_handle E s m = (s', Ok ()) \<Longrightarrow> ms_step E s s'"
| rollback: "ms_handle E s m = (s', r) \<Longrightarrow> \<not> is_ok r \<Longrightarrow> ms_step E s s"

inductive ms_reach :: "('t, 'b) ms_env \<Rightarrow> ('t, 'b) ms_state \<Rightarrow> ('t, 'b) ms_state \<Rightarrow> bool"
  for E s0 where
  init: "ms_reach E s0 s0"
| step: "ms_reach E s0 s \<Longrightarrow> ms_step E s s' \<Longrightarrow> ms_reach E s0 s'"

inductive_cases ms_stepE: "ms_step E s s'"

text \<open>The documented behaviour of the ORM table that the module relies on: an insertion
  that violates the unique index fails.\<close>

definition unique_index :: "('t, 'b) ms_env \<Rightarrow> bool" where
  "unique_index E \<longleftrightarrow> (\<forall>t p q.
     UniqueIndex_Get (ProposalTable E) t (MultisigAddress p) (CallHash p) = Ok (Some q) \<longrightarrow>
     (\<exists>e. InsertReturningPKey (ProposalTable E) t p = (t, Err e)))"

text \<open>A table without rows.\<close>

definition no_rows :: "('t, 'b) ms_env \<Rightarrow> 't \<Rightarrow> bool" where
  "no_rows E t \<longleftrightarrow> (\<forall>i. PrimaryKey_Get (ProposalTable E) t i = Ok None) \<and>
     (\<forall>a h. UniqueIndex_Get (ProposalTable E) t a h = Ok None)"

text \<open>What the module knows of every account it stores.\<close>

definition account_ok :: "('t, 'b) ms_env \<Rightarrow> bytes \<Rightarrow> MultisigAccountDetails \<Rightarrow> bool" where
  "account_ok E a d \<longleftrightarrow> 1 \<le> Threshold d \<and> Signers d \<noteq> [] \<and>
     (\<exists>seed. a = DeriveMultisigAccountID E seed)"

section \<open>Lemmas\<close>

lemma contains_iff: "contains signers signer \<longleftrightarrow> signers \<noteq> []"
  by (cases signers) auto

lemma found_or_NotFound_Ok [simp]: "found_or_NotFound r = Ok p \<longleftrightarrow> r = Ok (Some p)"
  by (auto simp: found_or_NotFound_def res_simps split: option.splits)

lemma no_response_Ok: "no_response r = (s, Ok u) \<longleftrightarrow> (\<exists>x. r = (s, Ok x))"
  by (cases r) (auto simp: no_response_def res_simps)

lemma get_account_Ok [res_simps]: "get_account s a = Ok d \<longleftrightarrow> coll_get (MultisigAccounts s) a = Some d"
  by (auto simp: get_account_def split: option.splits)

lemma CreateMultisigAccount_Ok:
  "CreateMultisigAccount E s msg = (s', Ok a) \<longleftrightarrow>
     (\<exists>sender. parse_addr E (cma_Authority msg) = Ok sender \<and> 1 \<le> cma_Threshold msg \<and>
        a = DeriveMultisigAccountID E (cma_Seed msg) \<and> coll_get (MultisigAccounts s) a = None \<and>
        s' = s\<lparr>MultisigAccounts := coll_set a
               \<lparr>Signers = cma_Signers msg @ [sender], Threshold = cma_Threshold msg,
                Permission = cma_Permission msg\<rparr> (MultisigAccounts s)\<rparr>)"
  by (auto simp: CreateMultisigAccount_def res_simps Let_def linorder_not_less split: if_splits)

lemma AddMultisigSigner_not_Ok:
  assumes "\<forall>a d. coll_get (MultisigAccounts s) a = Some d \<longrightarrow> Signers d \<noteq> []"
  shows "AddMultisigSigner E s msg \<noteq> (s', Ok u)"
  using assms by (auto simp: AddMultisigSigner_def res_simps contains_iff)

lemma unique_index_insert:
  assumes "unique_index E"
    and "GetByMultisigAddressCallHash E t (MultisigAddress p) (CallHash p) = Ok q"
  shows "\<exists>e. InsertReturningPKey (ProposalTable E) t p = (t, Err e)"
  using assms by (auto simp: unique_index_def GetByMultisigAddressCallHash_def)

lemma InitializeMultisigProposal_not_Ok:
  assumes "unique_index E"
  shows "InitializeMultisigProposal E s msg \<noteq> (s', Ok i)"
proof -
  have law: "\<exists>f. \<forall>d l. InsertReturningPKey (ProposalTable E) (OrmDB s)
      \<lparr>Id = 0, MultisigAddress = a, CallHash = h, Depositor = d, Deposit = 10, Approvals = l\<rparr>
      = (OrmDB s, Err (f d l))"
    if "GetByMultisigAddressCallHash E (OrmDB s) a h = Ok q" for a h q
    using that by (intro choice allI unique_index_insert [OF assms, of _ _ q]) simp
  show ?thesis
    by (auto simp: InitializeMultisigProposal_def res_simps Let_def split: res.split_asm dest!: law)
qed

lemma ApproveMultisigProposal_no_rows:
  "no_rows E (OrmDB s) \<Longrightarrow> ApproveMultisigProposal E s msg \<noteq> (s', Ok u)"
  by (auto simp: ApproveMultisigProposal_def res_simps no_rows_def ProposalTable_Get_def
      found_or_NotFound_def)

lemma ApproveAndDispatch_no_rows:
  "no_rows E (OrmDB s) \<Longrightarrow> ApproveAndDispatchMultisigProposal E s msg \<noteq> (s', Ok u)"
  by (auto simp: ApproveAndDispatchMultisigProposal_def res_simps no_rows_def
      GetByMultisigAddressCallHash_def found_or_NotFound_def)

lemmas ms_unimplemented = CleanupMultisigSigner_def SetThreshold_def CancelMultisigProposal_def
  CleanupMultisigProposal_def

text \<open>While the table is empty, only two messages have an effect.\<close>

lemma ms_handle_Ok:
  assumes "unique_index E" and "no_rows E (OrmDB s)"
    and "\<forall>a d. coll_get (MultisigAccounts s) a = Some d \<longrightarrow> Signers d \<noteq> []"
    and "ms_handle E s m = (s', Ok ())"
  shows "(\<exists>u. m = UpdateParamsMsg u \<and> up_Authority u = ms_authority E \<and>
             s' = s\<lparr>ms_Params := Some (up_Params u)\<rparr>) \<or>
         (\<exists>c a. m = CreateMsg c \<and> CreateMultisigAccount E s c = (s', Ok a))"
  using assms InitializeMultisigProposal_not_Ok [OF assms(1)] AddMultisigSigner_not_Ok [of s]
    ApproveMultisigProposal_no_rows [OF assms(2)] ApproveAndDispatch_no_rows [OF assms(2)]
  by (cases m) (auto simp: no_response_Ok ms_unimplemented ms_UpdateParams_def split: if_splits)

text \<open>The invariant of the module, relative to the state it started in.\<close>

definition ms_inv :: "('t, 'b) ms_env \<Rightarrow> ('t, 'b) ms_state \<Rightarrow> ('t, 'b) ms_state \<Rightarrow> bool" where
  "ms_inv E s0 s \<longleftrightarrow> OrmDB s = OrmDB s0 \<and> ms_bank s = ms_bank s0 \<and>
     (\<forall>a d. coll_get (MultisigAccounts s) a = Some d \<longrightarrow> account_ok E a d)"

lemma ms_inv_create:
  assumes "CreateMultisigAccount E s c = (s', Ok a)" and "ms_inv E s0 s"
  shows "ms_inv E s0 s'"
  using assms by (auto simp: CreateMultisigAccount_Ok ms_inv_def account_ok_def split: if_splits)

lemma ms_inv_step:
  assumes "unique_index E" and "no_rows E (OrmDB s0)" and "ms_inv E s0 s" and "ms_step E s s'"
  shows "ms_inv E s0 s'"
  using assms(4)
proof (cases rule: ms_step.cases)
  case (commit m)
  have "no_rows E (OrmDB s)" "\<forall>a d. coll_get (MultisigAccounts s) a = Some d \<longrightarrow> Signers d \<noteq> []"
    using assms by (auto simp: ms_inv_def account_ok_def)
  from ms_handle_Ok [OF assms(1) this commit] show ?thesis
    using ms_inv_create [OF _ assms(3)] assms(3) by (fastforce simp: ms_inv_def)
qed (use assms in auto)

lemma ms_inv_reach:
  assumes "ms_reach E s0 s" and "unique_index E" and "no_rows E (OrmDB s0)" and "ms_inv E s0 s0"
  shows "ms_inv E s0 s"
  using assms by (induction rule: ms_reach.induct) (auto intro: ms_inv_step)

text \<open>Accounts are only ever added.\<close>

lemma ms_step_accounts:
  assumes "unique_index E" and "no_rows E (OrmDB s0)" and "ms_inv E s0 s" and "ms_step E s s'"
    and "coll_get (MultisigAccounts s) a = Some d"
  shows "coll_get (MultisigAccounts s') a = Some d"
  using assms(4)
proof (cases rule: ms_step.cases)
  case (commit m)
  have "no_rows E (OrmDB s)" "\<forall>a d. coll_get (MultisigAccounts s) a = Some d \<longrightarrow> Signers d \<noteq> []"
    using assms by (auto simp: ms_inv_def account_ok_def)
  from ms_handle_Ok [OF assms(1) this commit] show ?thesis
    using assms(5) by (auto simp: CreateMultisigAccount_Ok)
qed (use assms in auto)

lemma ms_reach_accounts:
  assumes "ms_reach E s1 s" and "unique_index E" and "no_rows E (OrmDB s0)" and "ms_inv E s0 s1"
    and "coll_get (MultisigAccounts s1) a = Some d"
  shows "ms_inv E s0 s \<and> coll_get (MultisigAccounts s) a = Some d"
  using assms by (induction rule: ms_reach.induct) (auto intro: ms_inv_step ms_step_accounts)

lemma ms_inv_init: "MultisigAccounts s0 = [] \<Longrightarrow> ms_inv E s0 s0"
  by (simp add: ms_inv_def)

lemma ms_reach_Create:
  assumes "ms_reach E s0 s" and "CreateMultisigAccount E s c = (s', Ok a)"
  shows "ms_reach E s0 s'"
  by (rule ms_reach.step [OF assms(1) ms_step.commit [of E s "CreateMsg c"]])
    (simp add: assms(2) no_response_def)

section \<open>A concrete environment\<close>

text \<open>A table that keeps its rows in a list and numbers them from one, an address codec
  that accepts every non-empty string, a hash that pads to 32 bytes, and a bank that
  counts the coins it moved.\<close>

definition list_table :: "Proposal list ormtable" where
  "list_table = \<lparr>
     PrimaryKey_Get = (\<lambda>t i. Ok (List.find (\<lambda>p. Id p = i) t)),
     UniqueIndex_Get = (\<lambda>t a h. Ok (List.find (\<lambda>p. MultisigAddress p = a \<and> CallHash p = h) t)),
     InsertReturningPKey = (\<lambda>t p.
       if List.find (\<lambda>q. MultisigAddress q = MultisigAddress p \<and> CallHash q = CallHash p) t \<noteq> None
       then (t, Err (SdkErr ''UniqueKeyViolation''))
       else let i = of_nat (length t + 1) in (t @ [p\<lparr>Id := i\<rparr>], Ok i)),
     ormtable_Update = (\<lambda>t p. (map (\<lambda>q. if Id q = Id p then p else q) t, Ok ())),
     ormtable_Delete = (\<lambda>t p. (filter (\<lambda>q. Id q \<noteq> Id p) t, Ok ()))\<rparr>"

definition list_env :: "(Proposal list, int) ms_env" where
  "list_env = \<lparr>
     StringToBytes = (\<lambda>s. if s = [] then Err (Errorf ''empty address'') else Ok s),
     blake2b_Sum256 = (\<lambda>b. take 32 (b @ replicate 32 (CHR ''0''))),
     Bech32AccountAddrPrefix = ''cosmos'', ms_authority = ''gov'',
     ProposalTable = list_table,
     SendCoinsFromAccountToModule = (\<lambda>b a m c. (b + sum_list (map snd c), Ok ())),
     router_Handler = (\<lambda>m. None)\<rparr>"

definition list_genesis :: "(Proposal list, int) ms_state" where
  "list_genesis = \<lparr>ms_Params = Some ms_DefaultParams, MultisigAccounts = [], OrmDB = [], ms_bank = 0\<rparr>"

definition alice_account :: MsgCreateMultisigAccountParams where
  "alice_account = \<lparr>cma_Authority = ''alice'', cma_Seed = 7, cma_Threshold = 2,
     cma_Signers = [''bob''], cma_Permission = PROPOSAL_TYPE_UNSPECIFIED\<rparr>"

definition alice_state :: "(Proposal list, int) ms_state" where
  "alice_state = fst (CreateMultisigAccount list_env list_genesis alice_account)"

definition alice_details :: MultisigAccountDetails where
  "alice_details = \<lparr>Signers = [''bob'', ''alice''], Threshold = 2,
     Permission = PROPOSAL_TYPE_UNSPECIFIED\<rparr>"

definition alice_addr :: bytes where
  "alice_addr = DeriveMultisigAccountID list_env 7"

lemma list_env_unique: "unique_index list_env"
  by (auto simp: unique_index_def list_env_def list_table_def)

lemma list_env_no_rows: "no_rows list_env (OrmDB list_genesis)"
  by (simp add: no_rows_def list_env_def list_table_def list_genesis_def)

lemma list_env_parse [simp]: "s \<noteq> [] \<Longrightarrow> parse_addr list_env s = Ok s"
  by (simp add: parse_addr_def list_env_def)

lemma list_env_table [simp]: "ProposalTable list_env = list_table"
  by (simp add: list_env_def)

lemma alice_addr_nonempty [simp]: "alice_addr \<noteq> []"
  by (simp add: alice_addr_def DeriveMultisigAccountID_def list_env_def)

lemma alice_state_eq:
  "alice_state = list_genesis\<lparr>MultisigAccounts := [(alice_addr, alice_details)]\<rparr>"
  by (simp add: CreateMultisigAccount_def alice_state_def alice_account_def list_genesis_def
      Let_def alice_addr_def alice_details_def)

lemma alice_created:
  "CreateMultisigAccount list_env list_genesis alice_account = (alice_state, Ok alice_addr)"
  by (simp add: CreateMultisigAccount_def alice_state_def alice_account_def list_genesis_def
      Let_def alice_addr_def)

lemma alice_reached: "ms_reach list_env list_genesis alice_state"
  by (rule ms_reach_Create [OF ms_reach.init alice_created])

lemma alice_stored: "coll_get (MultisigAccounts alice_state) alice_addr = Some alice_details"
  by (simp add: alice_state_eq coll_get_def)

section \<open>Properties\<close>

text \<open>
  C38. From a genesis without accounts and proposals, whatever transactions are delivered:
  every stored account has a threshold of at least one, at least one signer, and an address
  derived from a seed; and neither the proposal table nor the bank has changed, because no
  proposal can ever be opened.
\<close>

theorem multisig_reachable:
  assumes "ms_reach E s0 s" and "MultisigAccounts s0 = []"
    and "unique_index E" and "no_rows E (OrmDB s0)"
  shows "OrmDB s = OrmDB s0 \<and> ms_bank s = ms_bank s0 \<and>
     (\<forall>a d. coll_get (MultisigAccounts s) a = Some d \<longrightarrow> account_ok E a d)"
  using ms_inv_reach [OF assms(1,3,4) ms_inv_init [OF assms(2)]] by (simp add: ms_inv_def)

theorem multisig_reachable_witness:
  "OrmDB alice_state = OrmDB list_genesis \<and> ms_bank alice_state = ms_bank list_genesis \<and>
   account_ok list_env alice_addr alice_details"
  using multisig_reachable [OF alice_reached _ list_env_unique list_env_no_rows] alice_stored
  by (simp add: list_genesis_def)

text \<open>
  C39. A multisig account is immutable: once stored it is found unchanged in every later
  state, so neither its signers nor its threshold can be changed by any message.
\<close>

theorem multisig_account_immutable:
  assumes "ms_reach E s0 s1" and "ms_reach E s1 s2" and "MultisigAccounts s0 = []"
    and "unique_index E" and "no_rows E (OrmDB s0)"
    and "coll_get (MultisigAccounts s1) a = Some d"
  shows "coll_get (MultisigAccounts s2) a = Some d"
  using ms_reach_accounts [OF assms(2,4,5) ms_inv_reach [OF assms(1,4,5) ms_inv_init [OF assms(3)]] assms(6)]
  by simp

theorem multisig_account_immutable_witness:
  "\<exists>s2. ms_reach list_env alice_state s2 \<and>
     coll_get (MultisigAccounts s2) alice_addr = Some alice_details"
  using multisig_account_immutable
    [OF alice_reached ms_reach.init _ list_env_unique list_env_no_rows alice_stored]
    ms_reach.init [of list_env alice_state]
  by (auto simp: list_genesis_def)

text \<open>
  C40. \<open>InitializeMultisigProposal\<close> with a well-formed request never opens a proposal and
  never returns one: when the call is new it panics on the nil proposal, and when the call
  is already proposed the insertion hits the unique index and is reported as a conflict. In
  both cases nothing is written and no deposit is taken.
\<close>

theorem InitializeMultisigProposal_outcome:
  assumes "parse_addr E (imp_Proposer msg) = Ok proposer"
    and "parse_addr E (imp_MultisigAddress msg) = Ok a"
    and "get_account s a = Ok d" and "Signers d \<noteq> []" and "imp_Message msg = Some call"
    and "unique_index E"
  shows "InitializeMultisigProposal E s msg =
     (s, case UniqueIndex_Get (ProposalTable E) (OrmDB s) a (blake2b_Sum256 E (any_Value call)) of
           Ok (Some p) \<Rightarrow> Err (SdkErr ''ErrConflict'') | _ \<Rightarrow> Panic)"
proof (cases "\<exists>p. GetByMultisigAddressCallHash E (OrmDB s) a (blake2b_Sum256 E (any_Value call)) = Ok p")
  case True
  then obtain p where p: "GetByMultisigAddressCallHash E (OrmDB s) a (blake2b_Sum256 E (any_Value call)) = Ok p"
    by blast
  moreover obtain e where "InsertReturningPKey (ProposalTable E) (OrmDB s)
      \<lparr>Id = 0, MultisigAddress = a, CallHash = blake2b_Sum256 E (any_Value call), Depositor = proposer,
       Deposit = 10, Approvals = [proposer]\<rparr> = (OrmDB s, Err e)"
    using unique_index_insert [OF assms(6)] p by force
  moreover have "UniqueIndex_Get (ProposalTable E) (OrmDB s) a (blake2b_Sum256 E (any_Value call)) = Ok (Some p)"
    using p by (simp add: GetByMultisigAddressCallHash_def)
  ultimately show ?thesis
    using assms by (simp add: InitializeMultisigProposal_def contains_iff)
next
  case False
  then have "UniqueIndex_Get (ProposalTable E) (OrmDB s) a (blake2b_Sum256 E (any_Value call)) \<noteq> Ok (Some p)" for p
    by (simp add: GetByMultisigAddressCallHash_def)
  with False assms show ?thesis
    by (cases "GetByMultisigAddressCallHash E (OrmDB s) a (blake2b_Sum256 E (any_Value call))")
      (auto simp: InitializeMultisigProposal_def contains_iff split: res.split option.split)
qed

theorem InitializeMultisigProposal_outcome_witness:
  "InitializeMultisigProposal list_env alice_state
     \<lparr>imp_MultisigAddress = alice_addr, imp_Proposer = ''bob'', imp_Title = ''pay'', imp_Description = [],
      imp_Message = Some \<lparr>any_TypeUrl = ''/send'', any_Value = ''call''\<rparr>\<rparr>
   = (alice_state, Panic)"
  using InitializeMultisigProposal_outcome [of list_env
      "\<lparr>imp_MultisigAddress = alice_addr, imp_Proposer = ''bob'', imp_Title = ''pay'', imp_Description = [],
      imp_Message = Some \<lparr>any_TypeUrl = ''/send'', any_Value = ''call''\<rparr>\<rparr>"
      "''bob''" alice_addr alice_state alice_details "\<lparr>any_TypeUrl = ''/send'', any_Value = ''call''\<rparr>"] list_env_unique alice_stored
  by (simp add: get_account_Ok list_table_def alice_details_def alice_state_eq list_genesis_def)

text \<open>
  \<open>CreateMultisigAccount\<close> succeeds exactly when the sender's address is valid, the
  threshold is not zero and the address derived from the seed is free; it then stores the
  given signers followed by the sender, and returns the address. The number of signers
  plays no role, and the threshold may exceed it.
\<close>

theorem CreateMultisigAccount_spec:
  "CreateMultisigAccount E s msg = (s', Ok a) \<longleftrightarrow>
     (\<exists>sender. parse_addr E (cma_Authority msg) = Ok sender \<and> 1 \<le> cma_Threshold msg \<and>
        a = DeriveMultisigAccountID E (cma_Seed msg) \<and> coll_get (MultisigAccounts s) a = None \<and>
        s' = s\<lparr>MultisigAccounts := coll_set a
               \<lparr>Signers = cma_Signers msg @ [sender], Threshold = cma_Threshold msg,
                Permission = cma_Permission msg\<rparr> (MultisigAccounts s)\<rparr>)"
  by (rule CreateMultisigAccount_Ok)

text \<open>
  On a stored proposal, which always carries the approval of its depositor,
  \<open>ApproveMultisigProposal\<close> accepts every address as an approver, signer or not, and
  records none of them.
\<close>

theorem ApproveMultisigProposal_ignores_approver:
  assumes "parse_addr E (amp_Approver msg) = Ok approver"
    and "parse_addr E (amp_MultisigAddress msg) = Ok a"
    and "get_account s a = Ok d" and "Signers d \<noteq> []"
    and "ProposalTable_Get E (OrmDB s) (amp_ProposalId msg) = Ok p" and "Approvals p \<noteq> []"
  shows "ApproveMultisigProposal E s msg = (s, Ok ())"
  using assms by (simp add: ApproveMultisigProposal_def contains_iff)

theorem ApproveMultisigProposal_ignores_approver_witness:
  "ApproveMultisigProposal list_env
     (alice_state\<lparr>OrmDB := [\<lparr>Id = 1, MultisigAddress = alice_addr,
        CallHash = ''h'', Depositor = ''alice'', Deposit = 10, Approvals = [''alice'']\<rparr>]\<rparr>)
     \<lparr>amp_MultisigAddress = alice_addr, amp_ProposalId = 1, amp_Approver = ''mallory''\<rparr> =
   (alice_state\<lparr>OrmDB := [\<lparr>Id = 1, MultisigAddress = alice_addr,
        CallHash = ''h'', Depositor = ''alice'', Deposit = 10, Approvals = [''alice'']\<rparr>]\<rparr>, Ok ())"
  using alice_stored
  by (intro ApproveMultisigProposal_ignores_approver
      [where approver = "''mallory''" and a = alice_addr and d = alice_details
        and p = "\<lparr>Id = 1, MultisigAddress = alice_addr, CallHash = ''h'', Depositor = ''alice'',
                 Deposit = 10, Approvals = [''alice'']\<rparr>"])
    (simp_all add: get_account_Ok list_table_def alice_details_def ProposalTable_Get_def)

end
