(* ===== verification/Multisig_Codec.thy ===== *)
theory Multisig_Codec
  imports Wire Multisig
begin

text \<open>
  The encodings of the multisig types (\<open>src/x/multisig/types/state.pb.go\<close>, \<open>genesis.pb.go\<close>)
  and of the messages of the module (\<open>tx.pb.go\<close>), in the way of \<open>Oracle_Codec\<close>. A
  permission is read as whatever \<open>int32\<close> is on the wire. An embedded message is an \<open>Any\<close> of
  the SDK, with code of its own: the parameter \<open>any_codec\<close> with the laws of the locale
  \<open>any_encoding\<close>.
\<close>

section \<open>Embedded messages\<close>

definition zero_Any :: Any where
  "zero_Any = \<lparr>any_TypeUrl = [], any_Value = []\<rparr>"

record any_codec =
  any_Size :: "Any \<Rightarrow> nat"
  any_MarshalToSizedBuffer :: "Any \<Rightarrow> marshaller"
  any_Unmarshal :: "bytes \<Rightarrow> Any \<Rightarrow> Any res"

definition any_bytes :: "any_codec \<Rightarrow> Any \<Rightarrow> bytes" where
  "any_bytes K a = (case any_MarshalToSizedBuffer K a (replicate (any_Size K a) (char_of (0 :: nat))) of
     Ok (d, _) \<Rightarrow> d | _ \<Rightarrow> [])"

text \<open>What is written is read back into a fresh \<open>Any\<close>, and nothing makes the decoder panic.\<close>

definition any_laws :: "any_codec \<Rightarrow> bool" where
  "any_laws K \<longleftrightarrow> (\<forall>a. int (any_Size K a) \<le> max_int64 \<longrightarrow>
       (\<exists>bs. length bs = any_Size K a \<and> any_Unmarshal K bs zero_Any = Ok a \<and> marshals (any_MarshalToSizedBuffer K a) bs)) \<and>
     (\<forall>bs a. any_Unmarshal K bs a \<noteq> Panic)"

locale any_encoding =
  fixes K :: any_codec
  assumes laws: "any_laws K"
begin

lemma any_bytes_codec [codec]:
  assumes "int (any_Size K a) \<le> max_int64"
  shows "length (any_bytes K a) = any_Size K a" "any_Unmarshal K (any_bytes K a) zero_Any = Ok a"
  "marshals (any_MarshalToSizedBuffer K a) (any_bytes K a)"
proof -
  obtain bs where bs: "length bs = any_Size K a" "any_Unmarshal K bs zero_Any = Ok a"
    "marshals (any_MarshalToSizedBuffer K a) bs"
    using laws assms unfolding any_laws_def by blast
  then have "any_bytes K a = bs" by (simp add: any_bytes_def marshals_def)
  with bs show "length (any_bytes K a) = any_Size K a" "any_Unmarshal K (any_bytes K a) zero_Any = Ok a"
    "marshals (any_MarshalToSizedBuffer K a) (any_bytes K a)" by simp_all
qed

end

text \<open>The encoding that the protobuf definition of \<open>Any\<close> prescribes.\<close>

definition write_Any :: "Any \<Rightarrow> writer" where
  "write_Any m = seq_w
    [w_opt_string [0x12] (any_Value m),
     w_opt_string [0xa] (any_TypeUrl m)]"

definition size_Any :: "Any \<Rightarrow> nat" where
  "size_Any m =
     opt_len_size 1 (length (any_TypeUrl m)) +
     opt_len_size 1 (length (any_Value m))"

definition field_Any :: "Any ptable" where
  "field_Any fieldNum =
     (if fieldNum = 1 then Some (PBytes (\<lambda>bs m. Ok (m\<lparr>any_TypeUrl := bs\<rparr>)))
      else if fieldNum = 2 then Some (PBytes (\<lambda>bs m. Ok (m\<lparr>any_Value := bs\<rparr>)))
      else None)"

definition fields_Any :: "Any \<Rightarrow> fval list" where
  "fields_Any m = concat
    [f_bytes 1 (any_TypeUrl m),
     f_bytes 2 (any_Value m)]"

interpretation any_message: message write_Any size_Any field_Any zero_Any
  fields_Any "\<lambda>m. True"
proof unfold_locales
  fix m :: "Any"
  show "writes (write_Any m) (enc_fields (fields_Any m))"
    unfolding write_Any_def fields_Any_def
    by (rule writes_seq) (simp add: codec)
  show "size_Any m = length (enc_fields (fields_Any m))"
    by (simp add: size_Any_def fields_Any_def codec)
  show "apply_fields field_Any (fields_Any m) zero_Any = Ok m"
    by (cases m) (simp add: fields_Any_def field_Any_def zero_Any_def codec)
  fix f
  assume "f \<in> set (fields_Any m)"
  then show "0 < field_num f \<and> field_num f < 2 ^ 28"
    by (auto simp: fields_Any_def codec)
qed

definition ref_any :: any_codec where
  "ref_any = \<lparr>any_Size = size_Any, any_MarshalToSizedBuffer = (\<lambda>a. to_sized (write_Any a)),
     any_Unmarshal = unmarshal field_Any\<rparr>"

lemma field_Any_calm: "calm field_Any"
  by (simp add: calm_def field_Any_def)

interpretation ref_any: any_encoding ref_any
proof
  have "\<exists>bs. length bs = size_Any a \<and> unmarshal field_Any bs zero_Any = Ok a \<and> marshals (to_sized (write_Any a)) bs"
    if "int (size_Any a) \<le> max_int64" for a
    using any_message.unmarshal_enc [OF TrueI that] any_message.size_fields [OF TrueI, of a]
      any_message.marshals_fields [OF TrueI, of a] by metis
  then show "any_laws ref_any"
    by (simp add: any_laws_def ref_any_def unmarshal_not_Panic [OF field_Any_calm])
qed

section \<open>Messages whose handlers do not read them\<close>

record MsgCleanupMultisigAccountParams =
  mca_MultisigAddress :: string

record MsgSetMultisigThresholdParams =
  mst_MultisigAddress :: string
  mst_Threshold :: uint32

record MsgCancelMultisigProposalParams =
  mcp_MultisigAddress :: string
  mcp_ProposalId :: uint64
  mcp_Rejecter :: string

record MsgCleanupMultisigProposalParams =
  mup_MultisigAddress :: string
  mup_ProposalId :: uint64
  mup_Remover :: string

section \<open>Proposal\<close>

definition write_Proposal :: "Proposal \<Rightarrow> writer" where
  "write_Proposal m = seq_w
    [w_each (w_string [0x32]) (Approvals m),
     w_opt_varint [0x28] (Deposit m),
     w_opt_string [0x22] (Depositor m),
     w_opt_string [0x1a] (CallHash m),
     w_opt_string [0x12] (MultisigAddress m),
     w_opt_varint [0x8] (Id m)]"

definition size_Proposal :: "Proposal \<Rightarrow> nat" where
  "size_Proposal m =
     varint_size 1 (Id m) +
     opt_len_size 1 (length (MultisigAddress m)) +
     opt_len_size 1 (length (CallHash m)) +
     opt_len_size 1 (length (Depositor m)) +
     varint_size 1 (Deposit m) +
     (\<Sum>s \<leftarrow> Approvals m. len_size 1 (length s))"

definition field_Proposal :: "Proposal ptable" where
  "field_Proposal fieldNum =
     (if fieldNum = 1 then Some (PVarint (\<lambda>v m. m\<lparr>Id := v\<rparr>))
      else if fieldNum = 2 then Some (PBytes (\<lambda>bs m. Ok (m\<lparr>MultisigAddress := bs\<rparr>)))
      else if fieldNum = 3 then Some (PBytes (\<lambda>bs m. Ok (m\<lparr>CallHash := bs\<rparr>)))
      else if fieldNum = 4 then Some (PBytes (\<lambda>bs m. Ok (m\<lparr>Depositor := bs\<rparr>)))
      else if fieldNum = 5 then Some (PVarint (\<lambda>v m. m\<lparr>Deposit := v\<rparr>))
      else if fieldNum = 6 then Some (PBytes (\<lambda>bs m. Ok (m\<lparr>Approvals := Approvals m @ [bs]\<rparr>)))
      else None)"

definition zero_Proposal :: "Proposal" where
  "zero_Proposal = \<lparr>Id = 0, MultisigAddress = [], CallHash = [], Depositor = [], Deposit = 0, Approvals = []\<rparr>"

definition fields_Proposal :: "Proposal \<Rightarrow> fval list" where
  "fields_Proposal m = concat
    [f_varint 1 (Id m),
     f_bytes 2 (MultisigAddress m),
     f_bytes 3 (CallHash m),
     f_bytes 4 (Depositor m),
     f_varint 5 (Deposit m),
     map (\<lambda>s. FBytes 6 s) (Approvals m)]"

interpretation proposal: message write_Proposal size_Proposal field_Proposal zero_Proposal
  fields_Proposal "\<lambda>m. True"
proof unfold_locales
  fix m :: "Proposal"
  show "writes (write_Proposal m) (enc_fields (fields_Proposal m))"
    unfolding write_Proposal_def fields_Proposal_def
    by (rule writes_seq) (simp add: codec)
  show "size_Proposal m = length (enc_fields (fields_Proposal m))"
    by (simp add: size_Proposal_def fields_Proposal_def codec cong: map_cong)
  show "apply_fields field_Proposal (fields_Proposal m) zero_Proposal = Ok m"
    by (cases m) (simp add: fields_Proposal_def field_Proposal_def zero_Proposal_def codec
        apply_each [where U = Approvals_update])
  fix f
  assume "f \<in> set (fields_Proposal m)"
  then show "0 < field_num f \<and> field_num f < 2 ^ 28"
    by (auto simp: fields_Proposal_def codec)
qed

section \<open>MultisigAccountDetails\<close>

definition write_MultisigAccountDetails :: "MultisigAccountDetails \<Rightarrow> writer" where
  "write_MultisigAccountDetails m = seq_w
    [w_opt_varint [0x18] (scast (Permission m)),
     w_opt_varint [0x10] (ucast (Threshold m)),
     w_each (w_string [0xa]) (Signers m)]"

definition size_MultisigAccountDetails :: "MultisigAccountDetails \<Rightarrow> nat" where
  "size_MultisigAccountDetails m =
     (\<Sum>s \<leftarrow> Signers m. len_size 1 (length s)) +
     varint_size 1 (ucast (Threshold m)) +
     varint_size 1 (scast (Permission m))"

definition field_MultisigAccountDetails :: "MultisigAccountDetails ptable" where
  "field_MultisigAccountDetails fieldNum =
     (if fieldNum = 1 then Some (PBytes (\<lambda>bs m. Ok (m\<lparr>Signers := Signers m @ [bs]\<rparr>)))
      else if fieldNum = 2 then Some (PVarint (\<lambda>v m. m\<lparr>Threshold := ucast v\<rparr>))
      else if fieldNum = 3 then Some (PVarint (\<lambda>v m. m\<lparr>Permission := ucast v\<rparr>))
      else None)"

definition zero_MultisigAccountDetails :: "MultisigAccountDetails" where
  "zero_MultisigAccountDetails = \<lparr>Signers = [], Threshold = 0, Permission = 0\<rparr>"

definition fields_MultisigAccountDetails :: "MultisigAccountDetails \<Rightarrow> fval list" where
  "fields_MultisigAccountDetails m = concat
    [map (\<lambda>s. FBytes 1 s) (Signers m),
     f_varint 2 (ucast (Threshold m)),
     f_varint 3 (scast (Permission m))]"

interpretation account_details: message write_MultisigAccountDetails size_MultisigAccountDetails field_MultisigAccountDetails zero_MultisigAccountDetails
  fields_MultisigAccountDetails "\<lambda>m. True"
proof unfold_locales
  fix m :: "MultisigAccountDetails"
  show "writes (write_MultisigAccountDetails m) (enc_fields (fields_MultisigAccountDetails m))"
    unfolding write_MultisigAccountDetails_def fields_MultisigAccountDetails_def
    by (rule writes_seq) (simp add: codec)
  show "size_MultisigAccountDetails m = length (enc_fields (fields_MultisigAccountDetails m))"
    by (simp add: size_MultisigAccountDetails_def fields_MultisigAccountDetails_def codec cong: map_cong)
  show "apply_fields field_MultisigAccountDetails (fields_MultisigAccountDetails m) zero_MultisigAccountDetails = Ok m"
    by (cases m) (simp add: fields_MultisigAccountDetails_def field_MultisigAccountDetails_def zero_MultisigAccountDetails_def codec
        apply_each [where U = Signers_update])
  fix f
  assume "f \<in> set (fields_MultisigAccountDetails m)"
  then show "0 < field_num f \<and> field_num f < 2 ^ 28"
    by (auto simp: fields_MultisigAccountDetails_def codec)
qed

section \<open>MultisigParams\<close>

definition write_MultisigParams :: "MultisigParams \<Rightarrow> writer" where
  "write_MultisigParams m = seq_w
    [w_bool [0x10] (SomeValue m)]"

definition size_MultisigParams :: "MultisigParams \<Rightarrow> nat" where
  "size_MultisigParams m =
     (if SomeValue m then 2 else 0)"

definition field_MultisigParams :: "MultisigParams ptable" where
  "field_MultisigParams fieldNum =
     (if fieldNum = 2 then Some (PVarint (\<lambda>v m. m\<lparr>SomeValue := (v \<noteq> 0)\<rparr>))
      else None)"

definition zero_MultisigParams :: "MultisigParams" where
  "zero_MultisigParams = \<lparr>SomeValue = False\<rparr>"

definition fields_MultisigParams :: "MultisigParams \<Rightarrow> fval list" where
  "fields_MultisigParams m = concat
    [f_varint 2 (of_bool (SomeValue m))]"

interpretation multisig_params: message write_MultisigParams size_MultisigParams field_MultisigParams zero_MultisigParams
  fields_MultisigParams "\<lambda>m. True"
proof unfold_locales
  fix m :: "MultisigParams"
  show "writes (write_MultisigParams m) (enc_fields (fields_MultisigParams m))"
    unfolding write_MultisigParams_def fields_MultisigParams_def
    by (rule writes_seq) (simp add: codec)
  show "size_MultisigParams m = length (enc_fields (fields_MultisigParams m))"
    by (simp add: size_MultisigParams_def fields_MultisigParams_def codec)
  show "apply_fields field_MultisigParams (fields_MultisigParams m) zero_MultisigParams = Ok m"
    by (cases m) (simp add: fields_MultisigParams_def field_MultisigParams_def zero_MultisigParams_def codec)
  fix f
  assume "f \<in> set (fields_MultisigParams m)"
  then show "0 < field_num f \<and> field_num f < 2 ^ 28"
    by (auto simp: fields_MultisigParams_def codec)
qed

section \<open>MsgUpdateParams\<close>

definition write_MsgUpdateParams :: "MsgUpdateParams \<Rightarrow> writer" where
  "write_MsgUpdateParams m = seq_w
    [w_nested [0x12] (to_sized (write_MultisigParams (up_Params m))),
     w_opt_string [0xa] (up_Authority m)]"

definition size_MsgUpdateParams :: "MsgUpdateParams \<Rightarrow> nat" where
  "size_MsgUpdateParams m =
     opt_len_size 1 (length (up_Authority m)) +
     len_size 1 (size_MultisigParams (up_Params m))"

definition field_MsgUpdateParams :: "MsgUpdateParams ptable" where
  "field_MsgUpdateParams fieldNum =
     (if fieldNum = 1 then Some (PBytes (\<lambda>bs m. Ok (m\<lparr>up_Authority := bs\<rparr>)))
      else if fieldNum = 2 then Some (PBytes (\<lambda>bs m. bind_res (unmarshal field_MultisigParams bs (up_Params m)) (\<lambda>x. Ok (m\<lparr>up_Params := x\<rparr>))))
      else None)"

definition zero_MsgUpdateParams :: "MsgUpdateParams" where
  "zero_MsgUpdateParams = \<lparr>up_Authority = [], up_Params = zero_MultisigParams\<rparr>"

definition fields_MsgUpdateParams :: "MsgUpdateParams \<Rightarrow> fval list" where
  "fields_MsgUpdateParams m = concat
    [f_bytes 1 (up_Authority m),
     [FBytes 2 (enc_fields (fields_MultisigParams (up_Params m)))]]"

definition ok_MsgUpdateParams :: "MsgUpdateParams \<Rightarrow> bool" where
  "ok_MsgUpdateParams m \<longleftrightarrow> int (size_MultisigParams (up_Params m)) \<le> max_int64"

interpretation msgupdateparams: message write_MsgUpdateParams size_MsgUpdateParams field_MsgUpdateParams zero_MsgUpdateParams
  fields_MsgUpdateParams ok_MsgUpdateParams
proof unfold_locales
  fix m :: "MsgUpdateParams"
  assume ok: "ok_MsgUpdateParams m"
  show "writes (write_MsgUpdateParams m) (enc_fields (fields_MsgUpdateParams m))"
    unfolding write_MsgUpdateParams_def fields_MsgUpdateParams_def
    by (rule writes_seq) (use ok in \<open>simp add: codec ok_MsgUpdateParams_def multisig_params.marshals_fields multisig_params.size_fields [symmetric] multisig_params.unmarshal_enc\<close>)
  show "size_MsgUpdateParams m = length (enc_fields (fields_MsgUpdateParams m))"
    using ok by (simp add: size_MsgUpdateParams_def fields_MsgUpdateParams_def codec ok_MsgUpdateParams_def multisig_params.marshals_fields multisig_params.size_fields [symmetric] multisig_params.unmarshal_enc)
  show "apply_fields field_MsgUpdateParams (fields_MsgUpdateParams m) zero_MsgUpdateParams = Ok m"
    using ok by (cases m) (simp add: fields_MsgUpdateParams_def field_MsgUpdateParams_def zero_MsgUpdateParams_def codec ok_MsgUpdateParams_def multisig_params.marshals_fields multisig_params.size_fields [symmetric] multisig_params.unmarshal_enc)
next
  fix m :: "MsgUpdateParams" and f
  assume "f \<in> set (fields_MsgUpdateParams m)"
  then show "0 < field_num f \<and> field_num f < 2 ^ 28"
    by (auto simp: fields_MsgUpdateParams_def codec)
qed

section \<open>MsgCreateMultisigAccount\<close>

definition write_MsgCreateMultisigAccount :: "MsgCreateMultisigAccountParams \<Rightarrow> writer" where
  "write_MsgCreateMultisigAccount m = seq_w
    [w_opt_varint [0x28] (scast (cma_Permission m)),
     w_each (w_string [0x22]) (cma_Signers m),
     w_opt_varint [0x18] (ucast (cma_Threshold m)),
     w_opt_varint [0x10] (ucast (cma_Seed m)),
     w_opt_string [0xa] (cma_Authority m)]"

definition size_MsgCreateMultisigAccount :: "MsgCreateMultisigAccountParams \<Rightarrow> nat" where
  "size_MsgCreateMultisigAccount m =
     opt_len_size 1 (length (cma_Authority m)) +
     varint_size 1 (ucast (cma_Seed m)) +
     varint_size 1 (ucast (cma_Threshold m)) +
     (\<Sum>s \<leftarrow> cma_Signers m. len_size 1 (length s)) +
     varint_size 1 (scast (cma_Permission m))"

definition field_MsgCreateMultisigAccount :: "MsgCreateMultisigAccountParams ptable" where
  "field_MsgCreateMultisigAccount fieldNum =
     (if fieldNum = 1 then Some (PBytes (\<lambda>bs m. Ok (m\<lparr>cma_Authority := bs\<rparr>)))
      else if fieldNum = 2 then Some (PVarint (\<lambda>v m. m\<lparr>cma_Seed := ucast v\<rparr>))
      else if fieldNum = 3 then Some (PVarint (\<lambda>v m. m\<lparr>cma_Threshold := ucast v\<rparr>))
      else if fieldNum = 4 then Some (PBytes (\<lambda>bs m. Ok (m\<lparr>cma_Signers := cma_Signers m @ [bs]\<rparr>)))
      else if fieldNum = 5 then Some (PVarint (\<lambda>v m. m\<lparr>cma_Permission := ucast v\<rparr>))
      else None)"

definition zero_MsgCreateMultisigAccount :: "MsgCreateMultisigAccountParams" where
  "zero_MsgCreateMultisigAccount = \<lparr>cma_Authority = [], cma_Seed = 0, cma_Threshold = 0, cma_Signers = [], cma_Permission = 0\<rparr>"

definition fields_MsgCreateMultisigAccount :: "MsgCreateMultisigAccountParams \<Rightarrow> fval list" where
  "fields_MsgCreateMultisigAccount m = concat
    [f_bytes 1 (cma_Authority m),
     f_varint 2 (ucast (cma_Seed m)),
     f_varint 3 (ucast (cma_Threshold m)),
     map (\<lambda>s. FBytes 4 s) (cma_Signers m),
     f_varint 5 (scast (cma_Permission m))]"

interpretation msgcreate: message write_MsgCreateMultisigAccount size_MsgCreateMultisigAccount field_MsgCreateMultisigAccount zero_MsgCreateMultisigAccount
  fields_MsgCreateMultisigAccount "\<lambda>m. True"
proof unfold_locales
  fix m :: "MsgCreateMultisigAccountParams"
  show "writes (write_MsgCreateMultisigAccount m) (enc_fields (fields_MsgCreateMultisigAccount m))"
    unfolding write_MsgCreateMultisigAccount_def fields_MsgCreateMultisigAccount_def
    by (rule writes_seq) (simp add: codec)
  show "size_MsgCreateMultisigAccount m = length (enc_fields (fields_MsgCreateMultisigAccount m))"
    by (simp add: size_MsgCreateMultisigAccount_def fields_MsgCreateMultisigAccount_def codec cong: map_cong)
  show "apply_fields field_MsgCreateMultisigAccount (fields_MsgCreateMultisigAccount m) zero_MsgCreateMultisigAccount = Ok m"
    by (cases m) (simp add: fields_MsgCreateMultisigAccount_def field_MsgCreateMultisigAccount_def zero_MsgCreateMultisigAccount_def codec
        apply_each [where U = cma_Signers_update])
  fix f
  assume "f \<in> set (fields_MsgCreateMultisigAccount m)"
  then show "0 < field_num f \<and> field_num f < 2 ^ 28"
    by (auto simp: fields_MsgCreateMultisigAccount_def codec)
qed

section \<open>MsgAddMultisigSigner\<close>

definition write_MsgAddMultisigSigner :: "MsgAddMultisigSignerParams \<Rightarrow> writer" where
  "write_MsgAddMultisigSigner m = seq_w
    [w_opt_varint [0x18] (ucast (ams_NewThreshold m)),
     w_opt_string [0x12] (ams_Signer m),
     w_opt_string [0xa] (ams_MultisigAddress m)]"

definition size_MsgAddMultisigSigner :: "MsgAddMultisigSignerParams \<Rightarrow> nat" where
  "size_MsgAddMultisigSigner m =
     opt_len_size 1 (length (ams_MultisigAddress m)) +
     opt_len_size 1 (length (ams_Signer m)) +
     varint_size 1 (ucast (ams_NewThreshold m))"

definition field_MsgAddMultisigSigner :: "MsgAddMultisigSignerParams ptable" where
  "field_MsgAddMultisigSigner fieldNum =
     (if fieldNum = 1 then Some (PBytes (\<lambda>bs m. Ok (m\<lparr>ams_MultisigAddress := bs\<rparr>)))
      else if fieldNum = 2 then Some (PBytes (\<lambda>bs m. Ok (m\<lparr>ams_Signer := bs\<rparr>)))
      else if fieldNum = 3 then Some (PVarint (\<lambda>v m. m\<lparr>ams_NewThreshold := ucast v\<rparr>))
      else None)"

definition zero_MsgAddMultisigSigner :: "MsgAddMultisigSignerParams" where
  "zero_MsgAddMultisigSigner = \<lparr>ams_MultisigAddress = [], ams_Signer = [], ams_NewThreshold = 0\<rparr>"

definition fields_MsgAddMultisigSigner :: "MsgAddMultisigSignerParams \<Rightarrow> fval list" where
  "fields_MsgAddMultisigSigner m = concat
    [f_bytes 1 (ams_MultisigAddress m),
     f_bytes 2 (ams_Signer m),
     f_varint 3 (ucast (ams_NewThreshold m))]"

interpretation msgaddsigner: message write_MsgAddMultisigSigner size_MsgAddMultisigSigner field_MsgAddMultisigSigner zero_MsgAddMultisigSigner
  fields_MsgAddMultisigSigner "\<lambda>m. True"
proof unfold_locales
  fix m :: "MsgAddMultisigSignerParams"
  show "writes (write_MsgAddMultisigSigner m) (enc_fields (fields_MsgAddMultisigSigner m))"
    unfolding write_MsgAddMultisigSigner_def fields_MsgAddMultisigSigner_def
    by (rule writes_seq) (simp add: codec)
  show "size_MsgAddMultisigSigner m = length (enc_fields (fields_MsgAddMultisigSigner m))"
    by (simp add: size_MsgAddMultisigSigner_def fields_MsgAddMultisigSigner_def codec)
  show "apply_fields field_MsgAddMultisigSigner (fields_MsgAddMultisigSigner m) zero_MsgAddMultisigSigner = Ok m"
    by (cases m) (simp add: fields_MsgAddMultisigSigner_def field_MsgAddMultisigSigner_def zero_MsgAddMultisigSigner_def codec)
  fix f
  assume "f \<in> set (fields_MsgAddMultisigSigner m)"
  then show "0 < field_num f \<and> field_num f < 2 ^ 28"
    by (auto simp: fields_MsgAddMultisigSigner_def codec)
qed

section \<open>MsgCleanupMultisigAccount\<close>

definition write_MsgCleanupMultisigAccount :: "MsgCleanupMultisigAccountParams \<Rightarrow> writer" where
  "write_MsgCleanupMultisigAccount m = seq_w
    [w_opt_string [0xa] (mca_MultisigAddress m)]"

definition size_MsgCleanupMultisigAccount :: "MsgCleanupMultisigAccountParams \<Rightarrow> nat" where
  "size_MsgCleanupMultisigAccount m =
     opt_len_size 1 (length (mca_MultisigAddress m))"

definition field_MsgCleanupMultisigAccount :: "MsgCleanupMultisigAccountParams ptable" where
  "field_MsgCleanupMultisigAccount fieldNum =
     (if fieldNum = 1 then Some (PBytes (\<lambda>bs m. Ok (m\<lparr>mca_MultisigAddress := bs\<rparr>)))
      else None)"

definition zero_MsgCleanupMultisigAccount :: "MsgCleanupMultisigAccountParams" where
  "zero_MsgCleanupMultisigAccount = \<lparr>mca_MultisigAddress = []\<rparr>"

definition fields_MsgCleanupMultisigAccount :: "MsgCleanupMultisigAccountParams \<Rightarrow> fval list" where
  "fields_MsgCleanupMultisigAccount m = concat
    [f_bytes 1 (mca_MultisigAddress m)]"

interpretation msgcleanupaccount: message write_MsgCleanupMultisigAccount size_MsgCleanupMultisigAccount field_MsgCleanupMultisigAccount zero_MsgCleanupMultisigAccount
  fields_MsgCleanupMultisigAccount "\<lambda>m. True"
proof unfold_locales
  fix m :: "MsgCleanupMultisigAccountParams"
  show "writes (write_MsgCleanupMultisigAccount m) (enc_fields (fields_MsgCleanupMultisigAccount m))"
    unfolding write_MsgCleanupMultisigAccount_def fields_MsgCleanupMultisigAccount_def
    by (rule writes_seq) (simp add: codec)
  show "size_MsgCleanupMultisigAccount m = length (enc_fields (fields_MsgCleanupMultisigAccount m))"
    by (simp add: size_MsgCleanupMultisigAccount_def fields_MsgCleanupMultisigAccount_def codec)
  show "apply_fields field_MsgCleanupMultisigAccount (fields_MsgCleanupMultisigAccount m) zero_MsgCleanupMultisigAccount = Ok m"
    by (cases m) (simp add: fields_MsgCleanupMultisigAccount_def field_MsgCleanupMultisigAccount_def zero_MsgCleanupMultisigAccount_def codec)
  fix f
  assume "f \<in> set (fields_MsgCleanupMultisigAccount m)"
  then show "0 < field_num f \<and> field_num f < 2 ^ 28"
    by (auto simp: fields_MsgCleanupMultisigAccount_def codec)
qed

section \<open>MsgSetMultisigThreshold\<close>

definition write_MsgSetMultisigThreshold :: "MsgSetMultisigThresholdParams \<Rightarrow> writer" where
  "write_MsgSetMultisigThreshold m = seq_w
    [w_opt_varint [0x10] (ucast (mst_Threshold m)),
     w_opt_string [0xa] (mst_MultisigAddress m)]"

definition size_MsgSetMultisigThreshold :: "MsgSetMultisigThresholdParams \<Rightarrow> nat" where
  "size_MsgSetMultisigThreshold m =
     opt_len_size 1 (length (mst_MultisigAddress m)) +
     varint_size 1 (ucast (mst_Threshold m))"

definition field_MsgSetMultisigThreshold :: "MsgSetMultisigThresholdParams ptable" where
  "field_MsgSetMultisigThreshold fieldNum =
     (if fieldNum = 1 then Some (PBytes (\<lambda>bs m. Ok (m\<lparr>mst_MultisigAddress := bs\<rparr>)))
      else if fieldNum = 2 then Some (PVarint (\<lambda>v m. m\<lparr>mst_Threshold := ucast v\<rparr>))
      else None)"

definition zero_MsgSetMultisigThreshold :: "MsgSetMultisigThresholdParams" where
  "zero_MsgSetMultisigThreshold = \<lparr>mst_MultisigAddress = [], mst_Threshold = 0\<rparr>"

definition fields_MsgSetMultisigThreshold :: "MsgSetMultisigThresholdParams \<Rightarrow> fval list" where
  "fields_MsgSetMultisigThreshold m = concat
    [f_bytes 1 (mst_MultisigAddress m),
     f_varint 2 (ucast (mst_Threshold m))]"

interpretation msgthreshold: message write_MsgSetMultisigThreshold size_MsgSetMultisigThreshold field_MsgSetMultisigThreshold zero_MsgSetMultisigThreshold
  fields_MsgSetMultisigThreshold "\<lambda>m. True"
proof unfold_locales
  fix m :: "MsgSetMultisigThresholdParams"
  show "writes (write_MsgSetMultisigThreshold m) (enc_fields (fields_MsgSetMultisigThreshold m))"
    unfolding write_MsgSetMultisigThreshold_def fields_MsgSetMultisigThreshold_def
    by (rule writes_seq) (simp add: codec)
  show "size_MsgSetMultisigThreshold m = length (enc_fields (fields_MsgSetMultisigThreshold m))"
    by (simp add: size_MsgSetMultisigThreshold_def fields_MsgSetMultisigThreshold_def codec)
  show "apply_fields field_MsgSetMultisigThreshold (fields_MsgSetMultisigThreshold m) zero_MsgSetMultisigThreshold = Ok m"
    by (cases m) (simp add: fields_MsgSetMultisigThreshold_def field_MsgSetMultisigThreshold_def zero_MsgSetMultisigThreshold_def codec)
  fix f
  assume "f \<in> set (fields_MsgSetMultisigThreshold m)"
  then show "0 < field_num f \<and> field_num f < 2 ^ 28"
    by (auto simp: fields_MsgSetMultisigThreshold_def codec)
qed

section \<open>MsgInitializeMultisigProposal\<close>

definition write_MsgInitializeMultisigProposal :: "any_codec \<Rightarrow> MsgInitializeMultisigProposalParams \<Rightarrow> writer" where
  "write_MsgInitializeMultisigProposal K m = seq_w
    [w_opt_nested [0x2a] (map_option (any_MarshalToSizedBuffer K) (imp_Message m)),
     w_opt_string [0x22] (imp_Description m),
     w_opt_string [0x1a] (imp_Title m),
     w_opt_string [0x12] (imp_Proposer m),
     w_opt_string [0xa] (imp_MultisigAddress m)]"

definition size_MsgInitializeMultisigProposal :: "any_codec \<Rightarrow> MsgInitializeMultisigProposalParams \<Rightarrow> nat" where
  "size_MsgInitializeMultisigProposal K m =
     opt_len_size 1 (length (imp_MultisigAddress m)) +
     opt_len_size 1 (length (imp_Proposer m)) +
     opt_len_size 1 (length (imp_Title m)) +
     opt_len_size 1 (length (imp_Description m)) +
     opt_nested_size 1 (map_option (any_Size K) (imp_Message m))"

definition field_MsgInitializeMultisigProposal :: "any_codec \<Rightarrow> MsgInitializeMultisigProposalParams ptable" where
  "field_MsgInitializeMultisigProposal K fieldNum =
     (if fieldNum = 1 then Some (PBytes (\<lambda>bs m. Ok (m\<lparr>imp_MultisigAddress := bs\<rparr>)))
      else if fieldNum = 2 then Some (PBytes (\<lambda>bs m. Ok (m\<lparr>imp_Proposer := bs\<rparr>)))
      else if fieldNum = 3 then Some (PBytes (\<lambda>bs m. Ok (m\<lparr>imp_Title := bs\<rparr>)))
      else if fieldNum = 4 then Some (PBytes (\<lambda>bs m. Ok (m\<lparr>imp_Description := bs\<rparr>)))
      else if fieldNum = 5 then Some (PBytes (\<lambda>bs m. bind_res (any_Unmarshal K bs (case imp_Message m of None \<Rightarrow> zero_Any | Some x \<Rightarrow> x))
        (\<lambda>x. Ok (m\<lparr>imp_Message := Some x\<rparr>))))
      else None)"

definition zero_MsgInitializeMultisigProposal :: "MsgInitializeMultisigProposalParams" where
  "zero_MsgInitializeMultisigProposal = \<lparr>imp_MultisigAddress = [], imp_Proposer = [], imp_Title = [], imp_Description = [], imp_Message = None\<rparr>"

definition fields_MsgInitializeMultisigProposal :: "any_codec \<Rightarrow> MsgInitializeMultisigProposalParams \<Rightarrow> fval list" where
  "fields_MsgInitializeMultisigProposal K m = concat
    [f_bytes 1 (imp_MultisigAddress m),
     f_bytes 2 (imp_Proposer m),
     f_bytes 3 (imp_Title m),
     f_bytes 4 (imp_Description m),
     f_opt_nested 5 (map_option (any_bytes K) (imp_Message m))]"

definition ok_MsgInitializeMultisigProposal :: "any_codec \<Rightarrow> MsgInitializeMultisigProposalParams \<Rightarrow> bool" where
  "ok_MsgInitializeMultisigProposal K m \<longleftrightarrow> (\<forall>a. imp_Message m = Some a \<longrightarrow> int (any_Size K a) \<le> max_int64)"

sublocale any_encoding \<subseteq> msginitialize: message "write_MsgInitializeMultisigProposal K" "size_MsgInitializeMultisigProposal K" "field_MsgInitializeMultisigProposal K" zero_MsgInitializeMultisigProposal
  "fields_MsgInitializeMultisigProposal K" "ok_MsgInitializeMultisigProposal K"
proof unfold_locales
  fix m :: "MsgInitializeMultisigProposalParams"
  assume ok: "ok_MsgInitializeMultisigProposal K m"
  show "writes (write_MsgInitializeMultisigProposal K m) (enc_fields (fields_MsgInitializeMultisigProposal K m))"
    unfolding write_MsgInitializeMultisigProposal_def fields_MsgInitializeMultisigProposal_def
    by (rule writes_seq) (use ok in \<open>simp add: codec ok_MsgInitializeMultisigProposal_def\<close>)
  show "size_MsgInitializeMultisigProposal K m = length (enc_fields (fields_MsgInitializeMultisigProposal K m))"
    using ok by (simp add: size_MsgInitializeMultisigProposal_def fields_MsgInitializeMultisigProposal_def codec ok_MsgInitializeMultisigProposal_def cong: map_option_cong)
  show "apply_fields (field_MsgInitializeMultisigProposal K) (fields_MsgInitializeMultisigProposal K m) zero_MsgInitializeMultisigProposal = Ok m"
    using ok by (cases m) (simp add: fields_MsgInitializeMultisigProposal_def field_MsgInitializeMultisigProposal_def zero_MsgInitializeMultisigProposal_def codec ok_MsgInitializeMultisigProposal_def
         apply_opt_nested [where U = imp_Message_update])
next
  fix m :: "MsgInitializeMultisigProposalParams" and f
  assume "f \<in> set (fields_MsgInitializeMultisigProposal K m)"
  then show "0 < field_num f \<and> field_num f < 2 ^ 28"
    by (auto simp: fields_MsgInitializeMultisigProposal_def codec)
qed

section \<open>MsgApproveMultisigProposal\<close>

definition write_MsgApproveMultisigProposal :: "MsgApproveMultisigProposalParams \<Rightarrow> writer" where
  "write_MsgApproveMultisigProposal m = seq_w
    [w_opt_string [0x1a] (amp_Approver m),
     w_opt_varint [0x10] (amp_ProposalId m),
     w_opt_string [0xa] (amp_MultisigAddress m)]"

definition size_MsgApproveMultisigProposal :: "MsgApproveMultisigProposalParams \<Rightarrow> nat" where
  "size_MsgApproveMultisigProposal m =
     opt_len_size 1 (length (amp_MultisigAddress m)) +
     varint_size 1 (amp_ProposalId m) +
     opt_len_size 1 (length (amp_Approver m))"

definition field_MsgApproveMultisigProposal :: "MsgApproveMultisigProposalParams ptable" where
  "field_MsgApproveMultisigProposal fieldNum =
     (if fieldNum = 1 then Some (PBytes (\<lambda>bs m. Ok (m\<lparr>amp_MultisigAddress := bs\<rparr>)))
      else if fieldNum = 2 then Some (PVarint (\<lambda>v m. m\<lparr>amp_ProposalId := v\<rparr>))
      else if fieldNum = 3 then Some (PBytes (\<lambda>bs m. Ok (m\<lparr>amp_Approver := bs\<rparr>)))
      else None)"

definition zero_MsgApproveMultisigProposal :: "MsgApproveMultisigProposalParams" where
  "zero_MsgApproveMultisigProposal = \<lparr>amp_MultisigAddress = [], amp_ProposalId = 0, amp_Approver = []\<rparr>"

definition fields_MsgApproveMultisigProposal :: "MsgApproveMultisigProposalParams \<Rightarrow> fval list" where
  "fields_MsgApproveMultisigProposal m = concat
    [f_bytes 1 (amp_MultisigAddress m),
     f_varint 2 (amp_ProposalId m),
     f_bytes 3 (amp_Approver m)]"

interpretation msgapprove: message write_MsgApproveMultisigProposal size_MsgApproveMultisigProposal field_MsgApproveMultisigProposal zero_MsgApproveMultisigProposal
  fields_MsgApproveMultisigProposal "\<lambda>m. True"
proof unfold_locales
  fix m :: "MsgApproveMultisigProposalParams"
  show "writes (write_MsgApproveMultisigProposal m) (enc_fields (fields_MsgApproveMultisigProposal m))"
    unfolding write_MsgApproveMultisigProposal_def fields_MsgApproveMultisigProposal_def
    by (rule writes_seq) (simp add: codec)
  show "size_MsgApproveMultisigProposal m = length (enc_fields (fields_MsgApproveMultisigProposal m))"
    by (simp add: size_MsgApproveMultisigProposal_def fields_MsgApproveMultisigProposal_def codec)
  show "apply_fields field_MsgApproveMultisigProposal (fields_MsgApproveMultisigProposal m) zero_MsgApproveMultisigProposal = Ok m"
    by (cases m) (simp add: fields_MsgApproveMultisigProposal_def field_MsgApproveMultisigProposal_def zero_MsgApproveMultisigProposal_def codec)
  fix f
  assume "f \<in> set (fields_MsgApproveMultisigProposal m)"
  then show "0 < field_num f \<and> field_num f < 2 ^ 28"
    by (auto simp: fields_MsgApproveMultisigProposal_def codec)
qed

section \<open>MsgApproveAndDispatch\<close>

definition write_MsgApproveAndDispatch :: "any_codec \<Rightarrow> MsgApproveAndDispatchMultisigProposalParams \<Rightarrow> writer" where
  "write_MsgApproveAndDispatch K m = seq_w
    [w_opt_nested [0x2a] (map_option (any_MarshalToSizedBuffer K) (adp_Message m)),
     w_opt_string [0x1a] (adp_Approver m),
     w_opt_varint [0x10] (adp_ProposalId m),
     w_opt_string [0xa] (adp_MultisigAddress m)]"

definition size_MsgApproveAndDispatch :: "any_codec \<Rightarrow> MsgApproveAndDispatchMultisigProposalParams \<Rightarrow> nat" where
  "size_MsgApproveAndDispatch K m =
     opt_len_size 1 (length (adp_MultisigAddress m)) +
     varint_size 1 (adp_ProposalId m) +
     opt_len_size 1 (length (adp_Approver m)) +
     opt_nested_size 1 (map_option (any_Size K) (adp_Message m))"

definition field_MsgApproveAndDispatch :: "any_codec \<Rightarrow> MsgApproveAndDispatchMultisigProposalParams ptable" where
  "field_MsgApproveAndDispatch K fieldNum =
     (if fieldNum = 1 then Some (PBytes (\<lambda>bs m. Ok (m\<lparr>adp_MultisigAddress := bs\<rparr>)))
      else if fieldNum = 2 then Some (PVarint (\<lambda>v m. m\<lparr>adp_ProposalId := v\<rparr>))
      else if fieldNum = 3 then Some (PBytes (\<lambda>bs m. Ok (m\<lparr>adp_Approver := bs\<rparr>)))
      else if fieldNum = 5 then Some (PBytes (\<lambda>bs m. bind_res (any_Unmarshal K bs (case adp_Message m of None \<Rightarrow> zero_Any | Some x \<Rightarrow> x))
        (\<lambda>x. Ok (m\<lparr>adp_Message := Some x\<rparr>))))
      else None)"

definition zero_MsgApproveAndDispatch :: "MsgApproveAndDispatchMultisigProposalParams" where
  "zero_MsgApproveAndDispatch = \<lparr>adp_MultisigAddress = [], adp_ProposalId = 0, adp_Approver = [], adp_Message = None\<rparr>"

definition fields_MsgApproveAndDispatch :: "any_codec \<Rightarrow> MsgApproveAndDispatchMultisigProposalParams \<Rightarrow> fval list" where
  "fields_MsgApproveAndDispatch K m = concat
    [f_bytes 1 (adp_MultisigAddress m),
     f_varint 2 (adp_ProposalId m),
     f_bytes 3 (adp_Approver m),
     f_opt_nested 5 (map_option (any_bytes K) (adp_Message m))]"

definition ok_MsgApproveAndDispatch :: "any_codec \<Rightarrow> MsgApproveAndDispatchMultisigProposalParams \<Rightarrow> bool" where
  "ok_MsgApproveAndDispatch K m \<longleftrightarrow> (\<forall>a. adp_Message m = Some a \<longrightarrow> int (any_Size K a) \<le> max_int64)"

sublocale any_encoding \<subseteq> msgdispatch: message "write_MsgApproveAndDispatch K" "size_MsgApproveAndDispatch K" "field_MsgApproveAndDispatch K" zero_MsgApproveAndDispatch
  "fields_MsgApproveAndDispatch K" "ok_MsgApproveAndDispatch K"
proof unfold_locales
  fix m :: "MsgApproveAndDispatchMultisigProposalParams"
  assume ok: "ok_MsgApproveAndDispatch K m"
  show "writes (write_MsgApproveAndDispatch K m) (enc_fields (fields_MsgApproveAndDispatch K m))"
    unfolding write_MsgApproveAndDispatch_def fields_MsgApproveAndDispatch_def
    by (rule writes_seq) (use ok in \<open>simp add: codec ok_MsgApproveAndDispatch_def\<close>)
  show "size_MsgApproveAndDispatch K m = length (enc_fields (fields_MsgApproveAndDispatch K m))"
    using ok by (simp add: size_MsgApproveAndDispatch_def fields_MsgApproveAndDispatch_def codec ok_MsgApproveAndDispatch_def cong: map_option_cong)
  show "apply_fields (field_MsgApproveAndDispatch K) (fields_MsgApproveAndDispatch K m) zero_MsgApproveAndDispatch = Ok m"
    using ok by (cases m) (simp add: fields_MsgApproveAndDispatch_def field_MsgApproveAndDispatch_def zero_MsgApproveAndDispatch_def codec ok_MsgApproveAndDispatch_def
         apply_opt_nested [where U = adp_Message_update])
next
  fix m :: "MsgApproveAndDispatchMultisigProposalParams" and f
  assume "f \<in> set (fields_MsgApproveAndDispatch K m)"
  then show "0 < field_num f \<and> field_num f < 2 ^ 28"
    by (auto simp: fields_MsgApproveAndDispatch_def codec)
qed

section \<open>MsgCancelMultisigProposal\<close>

definition write_MsgCancelMultisigProposal :: "MsgCancelMultisigProposalParams \<Rightarrow> writer" where
  "write_MsgCancelMultisigProposal m = seq_w
    [w_opt_string [0x1a] (mcp_Rejecter m),
     w_opt_varint [0x10] (mcp_ProposalId m),
     w_opt_string [0xa] (mcp_MultisigAddress m)]"

definition size_MsgCancelMultisigProposal :: "MsgCancelMultisigProposalParams \<Rightarrow> nat" where
  "size_MsgCancelMultisigProposal m =
     opt_len_size 1 (length (mcp_MultisigAddress m)) +
     varint_size 1 (mcp_ProposalId m) +
     opt_len_size 1 (length (mcp_Rejecter m))"

definition field_MsgCancelMultisigProposal :: "MsgCancelMultisigProposalParams ptable" where
  "field_MsgCancelMultisigProposal fieldNum =
     (if fieldNum = 1 then Some (PBytes (\<lambda>bs m. Ok (m\<lparr>mcp_MultisigAddress := bs\<rparr>)))
      else if fieldNum = 2 then Some (PVarint (\<lambda>v m. m\<lparr>mcp_ProposalId := v\<rparr>))
      else if fieldNum = 3 then Some (PBytes (\<lambda>bs m. Ok (m\<lparr>mcp_Rejecter := bs\<rparr>)))
      else None)"

definition zero_MsgCancelMultisigProposal :: "MsgCancelMultisigProposalParams" where
  "zero_MsgCancelMultisigProposal = \<lparr>mcp_MultisigAddress = [], mcp_ProposalId = 0, mcp_Rejecter = []\<rparr>"

definition fields_MsgCancelMultisigProposal :: "MsgCancelMultisigProposalParams \<Rightarrow> fval list" where
  "fields_MsgCancelMultisigProposal m = concat
    [f_bytes 1 (mcp_MultisigAddress m),
     f_varint 2 (mcp_ProposalId m),
     f_bytes 3 (mcp_Rejecter m)]"

interpretation msgcancelproposal: message write_MsgCancelMultisigProposal size_MsgCancelMultisigProposal field_MsgCancelMultisigProposal zero_MsgCancelMultisigProposal
  fields_MsgCancelMultisigProposal "\<lambda>m. True"
proof unfold_locales
  fix m :: "MsgCancelMultisigProposalParams"
  show "writes (write_MsgCancelMultisigProposal m) (enc_fields (fields_MsgCancelMultisigProposal m))"
    unfolding write_MsgCancelMultisigProposal_def fields_MsgCancelMultisigProposal_def
    by (rule writes_seq) (simp add: codec)
  show "size_MsgCancelMultisigProposal m = length (enc_fields (fields_MsgCancelMultisigProposal m))"
    by (simp add: size_MsgCancelMultisigProposal_def fields_MsgCancelMultisigProposal_def codec)
  show "apply_fields field_MsgCancelMultisigProposal (fields_MsgCancelMultisigProposal m) zero_MsgCancelMultisigProposal = Ok m"
    by (cases m) (simp add: fields_MsgCancelMultisigProposal_def field_MsgCancelMultisigProposal_def zero_MsgCancelMultisigProposal_def codec)
  fix f
  assume "f \<in> set (fields_MsgCancelMultisigProposal m)"
  then show "0 < field_num f \<and> field_num f < 2 ^ 28"
    by (auto simp: fields_MsgCancelMultisigProposal_def codec)
qed

section \<open>MsgCleanupMultisigProposal\<close>

definition write_MsgCleanupMultisigProposal :: "MsgCleanupMultisigProposalParams \<Rightarrow> writer" where
  "write_MsgCleanupMultisigProposal m = seq_w
    [w_opt_string [0x1a] (mup_Remover m),
     w_opt_varint [0x10] (mup_ProposalId m),
     w_opt_string [0xa] (mup_MultisigAddress m)]"

definition size_MsgCleanupMultisigProposal :: "MsgCleanupMultisigProposalParams \<Rightarrow> nat" where
  "size_MsgCleanupMultisigProposal m =
     opt_len_size 1 (length (mup_MultisigAddress m)) +
     varint_size 1 (mup_ProposalId m) +
     opt_len_size 1 (length (mup_Remover m))"

definition field_MsgCleanupMultisigProposal :: "MsgCleanupMultisigProposalParams ptable" where
  "field_MsgCleanupMultisigProposal fieldNum =
     (if fieldNum = 1 then Some (PBytes (\<lambda>bs m. Ok (m\<lparr>mup_MultisigAddress := bs\<rparr>)))
      else if fieldNum = 2 then Some (PVarint (\<lambda>v m. m\<lparr>mup_ProposalId := v\<rparr>))
      else if fieldNum = 3 then Some (PBytes (\<lambda>bs m. Ok (m\<lparr>mup_Remover := bs\<rparr>)))
      else None)"

definition zero_MsgCleanupMultisigProposal :: "MsgCleanupMultisigProposalParams" where
  "zero_MsgCleanupMultisigProposal = \<lparr>mup_MultisigAddress = [], mup_ProposalId = 0, mup_Remover = []\<rparr>"

definition fields_MsgCleanupMultisigProposal :: "MsgCleanupMultisigProposalParams \<Rightarrow> fval list" where
  "fields_MsgCleanupMultisigProposal m = concat
    [f_bytes 1 (mup_MultisigAddress m),
     f_varint 2 (mup_ProposalId m),
     f_bytes 3 (mup_Remover m)]"

interpretation msgcleanupproposal: message write_MsgCleanupMultisigProposal size_MsgCleanupMultisigProposal field_MsgCleanupMultisigProposal zero_MsgCleanupMultisigProposal
  fields_MsgCleanupMultisigProposal "\<lambda>m. True"
proof unfold_locales
  fix m :: "MsgCleanupMultisigProposalParams"
  show "writes (write_MsgCleanupMultisigProposal m) (enc_fields (fields_MsgCleanupMultisigProposal m))"
    unfolding write_MsgCleanupMultisigProposal_def fields_MsgCleanupMultisigProposal_def
    by (rule writes_seq) (simp add: codec)
  show "size_MsgCleanupMultisigProposal m = length (enc_fields (fields_MsgCleanupMultisigProposal m))"
    by (simp add: size_MsgCleanupMultisigProposal_def fields_MsgCleanupMultisigProposal_def codec)
  show "apply_fields field_MsgCleanupMultisigProposal (fields_MsgCleanupMultisigProposal m) zero_MsgCleanupMultisigProposal = Ok m"
    by (cases m) (simp add: fields_MsgCleanupMultisigProposal_def field_MsgCleanupMultisigProposal_def zero_MsgCleanupMultisigProposal_def codec)
  fix f
  assume "f \<in> set (fields_MsgCleanupMultisigProposal m)"
  then show "0 < field_num f \<and> field_num f < 2 ^ 28"
    by (auto simp: fields_MsgCleanupMultisigProposal_def codec)
qed

context any_encoding
begin

lemmas initialize_round_trip = msginitialize.round_trip
lemmas dispatch_round_trip = msgdispatch.round_trip

end

section \<open>Properties\<close>

text \<open>
  A stored proposal is read back unchanged, and different proposals are stored as
  different bytes.
\<close>

theorem proposal_encoding:
  assumes "int (size_Proposal p) \<le> max_int64" and "int (size_Proposal q) \<le> max_int64"
  shows "(\<exists>bs. Marshal_with (write_Proposal p) (size_Proposal p) = Ok bs \<and> length bs = size_Proposal p \<and>
       unmarshal field_Proposal bs zero_Proposal = Ok p) \<and>
     (Marshal_with (write_Proposal p) (size_Proposal p) = Marshal_with (write_Proposal q) (size_Proposal q) \<longleftrightarrow> p = q)"
  using proposal.round_trip [OF TrueI assms(1)] proposal.Marshal_injective [OF TrueI assms(1) TrueI assms(2)] by auto

theorem proposal_encoding_witness:
  "Marshal_with (write_Proposal (zero_Proposal\<lparr>Id := 1\<rparr>)) (size_Proposal (zero_Proposal\<lparr>Id := 1\<rparr>)) \<noteq>
   Marshal_with (write_Proposal (zero_Proposal\<lparr>Id := 300\<rparr>)) (size_Proposal (zero_Proposal\<lparr>Id := 300\<rparr>))"
proof -
  have "int (size_Proposal (zero_Proposal\<lparr>Id := 1\<rparr>)) \<le> max_int64" "int (size_Proposal (zero_Proposal\<lparr>Id := 300\<rparr>)) \<le> max_int64"
    by (simp_all add: size_Proposal_def zero_Proposal_def opt_len_size_def varint_size_def max_int64_def codec)
  from proposal_encoding [OF this] show ?thesis by (simp add: zero_Proposal_def)
qed

text \<open>
  No message of the module makes its decoder panic, whatever bytes a transaction carries.
\<close>

lemmas multisig_field_tables = field_Proposal_def field_MultisigAccountDetails_def field_MultisigParams_def field_MsgUpdateParams_def
  field_MsgCreateMultisigAccount_def field_MsgAddMultisigSigner_def field_MsgCleanupMultisigAccount_def
  field_MsgSetMultisigThreshold_def field_MsgInitializeMultisigProposal_def field_MsgApproveMultisigProposal_def
  field_MsgApproveAndDispatch_def field_MsgCancelMultisigProposal_def field_MsgCleanupMultisigProposal_def

theorem multisig_decoding_never_panics:
  assumes "any_laws K"
  shows "unmarshal field_MsgUpdateParams bs m1 \<noteq> Panic" "unmarshal field_MsgCreateMultisigAccount bs m2 \<noteq> Panic"
    "unmarshal field_MsgAddMultisigSigner bs m3 \<noteq> Panic" "unmarshal field_MsgCleanupMultisigAccount bs m4 \<noteq> Panic"
    "unmarshal field_MsgSetMultisigThreshold bs m5 \<noteq> Panic" "unmarshal (field_MsgInitializeMultisigProposal K) bs m6 \<noteq> Panic"
    "unmarshal field_MsgApproveMultisigProposal bs m7 \<noteq> Panic" "unmarshal (field_MsgApproveAndDispatch K) bs m8 \<noteq> Panic"
    "unmarshal field_MsgCancelMultisigProposal bs m9 \<noteq> Panic" "unmarshal field_MsgCleanupMultisigProposal bs m10 \<noteq> Panic"
proof -
  have params: "calm field_MultisigParams" by (simp add: calm_def multisig_field_tables)
  have any: "any_Unmarshal K bs a \<noteq> Panic" for bs a using assms by (simp add: any_laws_def)
  have "calm field_MsgUpdateParams" "calm field_MsgCreateMultisigAccount" "calm field_MsgAddMultisigSigner"
    "calm field_MsgCleanupMultisigAccount" "calm field_MsgSetMultisigThreshold" "calm (field_MsgInitializeMultisigProposal K)"
    "calm field_MsgApproveMultisigProposal" "calm (field_MsgApproveAndDispatch K)" "calm field_MsgCancelMultisigProposal"
    "calm field_MsgCleanupMultisigProposal"
    by (simp_all add: calm_def multisig_field_tables bind_res_eq_Panic any unmarshal_not_Panic [OF params])
  then show "unmarshal field_MsgUpdateParams bs m1 \<noteq> Panic" "unmarshal field_MsgCreateMultisigAccount bs m2 \<noteq> Panic"
    "unmarshal field_MsgAddMultisigSigner bs m3 \<noteq> Panic" "unmarshal field_MsgCleanupMultisigAccount bs m4 \<noteq> Panic"
    "unmarshal field_MsgSetMultisigThreshold bs m5 \<noteq> Panic" "unmarshal (field_MsgInitializeMultisigProposal K) bs m6 \<noteq> Panic"
    "unmarshal field_MsgApproveMultisigProposal bs m7 \<noteq> Panic" "unmarshal (field_MsgApproveAndDispatch K) bs m8 \<noteq> Panic"
    "unmarshal field_MsgCancelMultisigProposal bs m9 \<noteq> Panic" "unmarshal field_MsgCleanupMultisigProposal bs m10 \<noteq> Panic"
    by (simp_all add: unmarshal_not_Panic)
qed

text \<open>
  The request that opens a proposal and the one that dispatches it carry the call over the
  wire unchanged: both decode to what was encoded, so a signer who dispatches the call that
  was proposed sends the call hash the proposal is stored under.
\<close>

theorem call_survives_transport:
  assumes "any_laws K" and "imp_Message p = Some call" and "adp_Message d = Some call"
    and "int (any_Size K call) \<le> max_int64" and "int (size_MsgInitializeMultisigProposal K p) \<le> max_int64"
    and "int (size_MsgApproveAndDispatch K d) \<le> max_int64"
  shows "\<exists>ps ds. Marshal_with (write_MsgInitializeMultisigProposal K p) (size_MsgInitializeMultisigProposal K p) = Ok ps \<and>
     Marshal_with (write_MsgApproveAndDispatch K d) (size_MsgApproveAndDispatch K d) = Ok ds \<and>
     unmarshal (field_MsgInitializeMultisigProposal K) ps zero_MsgInitializeMultisigProposal = Ok p \<and>
     unmarshal (field_MsgApproveAndDispatch K) ds zero_MsgApproveAndDispatch = Ok d"
proof -
  note enc = any_encoding.intro [OF assms(1)]
  have "ok_MsgInitializeMultisigProposal K p" "ok_MsgApproveAndDispatch K d"
    using assms by (simp_all add: ok_MsgInitializeMultisigProposal_def ok_MsgApproveAndDispatch_def)
  from any_encoding.initialize_round_trip [OF enc this(1) assms(5)]
    any_encoding.dispatch_round_trip [OF enc this(2) assms(6)]
  show ?thesis by blast
qed

end
