(* ===== verification/Multisig_Reflection.thy ===== *)
theory Multisig_Reflection
  imports Reflection Multisig_Codec
begin

text \<open>
  The generated code through which the ORM handles accounts and proposals
  (\<open>src/api/multisig/v1/state.pulsar.go\<close>): the reflection methods of both messages, their
  getters, and the bodies of \<open>size\<close>, \<open>marshal\<close> and \<open>unmarshal\<close>. Both messages keep the
  contract of \<open>Reflection\<close>, and their bytes are those of \<open>src/x/multisig/types/state.pb.go\<close>.

  \<^item> A field descriptor is its full name; the generated code panics on any other.
  \<^item> A list value is the Go type of the view and the list the view points to at that moment.
  \<^item> Nil slices and empty ones are both \<open>[]\<close>, so that the allocation in \<open>Mutable\<close> does not show.
\<close>

section \<open>Proposal\<close>

definition fd_Proposal_id :: string where "fd_Proposal_id = ''multisig.v1.Proposal.id''"
definition fd_Proposal_multisig_address :: string where "fd_Proposal_multisig_address = ''multisig.v1.Proposal.multisig_address''"
definition fd_Proposal_call_hash :: string where "fd_Proposal_call_hash = ''multisig.v1.Proposal.call_hash''"
definition fd_Proposal_depositor :: string where "fd_Proposal_depositor = ''multisig.v1.Proposal.depositor''"
definition fd_Proposal_deposit :: string where "fd_Proposal_deposit = ''multisig.v1.Proposal.deposit''"
definition fd_Proposal_approvals :: string where "fd_Proposal_approvals = ''multisig.v1.Proposal.approvals''"

definition Proposal_6_list :: string where "Proposal_6_list = ''_Proposal_6_list''"

definition proposal_names :: "string list" where
  "proposal_names = [fd_Proposal_id, fd_Proposal_multisig_address, fd_Proposal_call_hash, fd_Proposal_depositor, fd_Proposal_deposit, fd_Proposal_approvals]"

definition proposal_kind :: "string \<Rightarrow> field_kind option" where
  "proposal_kind fd =
     (if fd = fd_Proposal_id then Some Uint64Kind
      else if fd = fd_Proposal_multisig_address then Some BytesKind
      else if fd = fd_Proposal_call_hash then Some BytesKind
      else if fd = fd_Proposal_depositor then Some BytesKind
      else if fd = fd_Proposal_deposit then Some Uint64Kind
      else if fd = fd_Proposal_approvals then Some (ListKind Proposal_6_list)
      else None)"

definition new_Proposal :: "Proposal pulsar" where
  "new_Proposal = \<lparr>message_of = zero_Proposal, unknownFields = []\<rparr>"

definition Proposal_Has :: "string \<Rightarrow> Proposal pulsar option \<Rightarrow> bool res" where
  "Proposal_Has fd x = deref x (\<lambda>x.
      if fd = fd_Proposal_id then Ok (Id (message_of x) \<noteq> 0)
      else if fd = fd_Proposal_multisig_address then Ok (length (MultisigAddress (message_of x)) \<noteq> 0)
      else if fd = fd_Proposal_call_hash then Ok (length (CallHash (message_of x)) \<noteq> 0)
      else if fd = fd_Proposal_depositor then Ok (length (Depositor (message_of x)) \<noteq> 0)
      else if fd = fd_Proposal_deposit then Ok (Deposit (message_of x) \<noteq> 0)
      else if fd = fd_Proposal_approvals then Ok (length (Approvals (message_of x)) \<noteq> 0)
      else Panic)"

definition Proposal_Clear :: "string \<Rightarrow> Proposal pulsar option \<Rightarrow> Proposal pulsar option res" where
  "Proposal_Clear fd x = deref x (\<lambda>x.
      if fd = fd_Proposal_id then store x ((message_of x)\<lparr>Id := 0\<rparr>)
      else if fd = fd_Proposal_multisig_address then store x ((message_of x)\<lparr>MultisigAddress := []\<rparr>)
      else if fd = fd_Proposal_call_hash then store x ((message_of x)\<lparr>CallHash := []\<rparr>)
      else if fd = fd_Proposal_depositor then store x ((message_of x)\<lparr>Depositor := []\<rparr>)
      else if fd = fd_Proposal_deposit then store x ((message_of x)\<lparr>Deposit := 0\<rparr>)
      else if fd = fd_Proposal_approvals then store x ((message_of x)\<lparr>Approvals := []\<rparr>)
      else Panic)"

definition Proposal_Get :: "'v value_ops \<Rightarrow> string \<Rightarrow> Proposal pulsar option \<Rightarrow> 'v res" where
  "Proposal_Get V fd x = deref x (\<lambda>x.
      if fd = fd_Proposal_id then Ok (ValueOfUint64 V (Id (message_of x)))
      else if fd = fd_Proposal_multisig_address then Ok (ValueOfBytes V (MultisigAddress (message_of x)))
      else if fd = fd_Proposal_call_hash then Ok (ValueOfBytes V (CallHash (message_of x)))
      else if fd = fd_Proposal_depositor then Ok (ValueOfBytes V (Depositor (message_of x)))
      else if fd = fd_Proposal_deposit then Ok (ValueOfUint64 V (Deposit (message_of x)))
      else if fd = fd_Proposal_approvals then 
        (if length (Approvals (message_of x)) = 0 then Ok (ValueOfList V Proposal_6_list None)
         else Ok (ValueOfList V Proposal_6_list (Some (Approvals (message_of x)))))
      else Panic)"

definition Proposal_Set :: "'v value_ops \<Rightarrow> string \<Rightarrow> 'v \<Rightarrow> Proposal pulsar option \<Rightarrow> Proposal pulsar option res" where
  "Proposal_Set V fd v x = deref x (\<lambda>x.
      if fd = fd_Proposal_id then bind_res (value_Uint V v) (\<lambda>u. store x ((message_of x)\<lparr>Id := u\<rparr>))
      else if fd = fd_Proposal_multisig_address then bind_res (value_Bytes V v) (\<lambda>u. store x ((message_of x)\<lparr>MultisigAddress := u\<rparr>))
      else if fd = fd_Proposal_call_hash then bind_res (value_Bytes V v) (\<lambda>u. store x ((message_of x)\<lparr>CallHash := u\<rparr>))
      else if fd = fd_Proposal_depositor then bind_res (value_Bytes V v) (\<lambda>u. store x ((message_of x)\<lparr>Depositor := u\<rparr>))
      else if fd = fd_Proposal_deposit then bind_res (value_Uint V v) (\<lambda>u. store x ((message_of x)\<lparr>Deposit := u\<rparr>))
      else if fd = fd_Proposal_approvals then 
        bind_res (value_List V v) (\<lambda>(view, l).
          if view \<noteq> Proposal_6_list then Panic
          else (case l of None \<Rightarrow> Panic | Some l \<Rightarrow> store x ((message_of x)\<lparr>Approvals := l\<rparr>)))
      else Panic)"

text \<open>\<open>Mutable\<close>: a list by a view of the field, a scalar by a panic.\<close>

definition Proposal_Mutable :: "'v value_ops \<Rightarrow> string \<Rightarrow> Proposal pulsar option \<Rightarrow> ('v \<times> Proposal pulsar option) res" where
  "Proposal_Mutable V fd x =
     (if fd = fd_Proposal_approvals then deref x (\<lambda>x. Ok (ValueOfList V Proposal_6_list (Some (Approvals (message_of x))), Some x))
      else Panic)"

definition Proposal_NewField :: "'v value_ops \<Rightarrow> string \<Rightarrow> Proposal pulsar option \<Rightarrow> 'v res" where
  "Proposal_NewField V fd x =
     (if fd = fd_Proposal_id then Ok (ValueOfUint64 V 0)
      else if fd = fd_Proposal_multisig_address then Ok (ValueOfBytes V [])
      else if fd = fd_Proposal_call_hash then Ok (ValueOfBytes V [])
      else if fd = fd_Proposal_depositor then Ok (ValueOfBytes V [])
      else if fd = fd_Proposal_deposit then Ok (ValueOfUint64 V 0)
      else if fd = fd_Proposal_approvals then Ok (ValueOfList V Proposal_6_list (Some []))
      else Panic)"

definition Proposal_Range :: "'v value_ops \<Rightarrow> ('v, 's) visitor \<Rightarrow> Proposal pulsar option \<Rightarrow> 's \<Rightarrow> 's res" where
  "Proposal_Range V f x s = deref x (\<lambda>x. (
      visit f (Id (message_of x) \<noteq> 0) fd_Proposal_id (ValueOfUint64 V (Id (message_of x))) (
      visit f (length (MultisigAddress (message_of x)) \<noteq> 0) fd_Proposal_multisig_address (ValueOfBytes V (MultisigAddress (message_of x))) (
      visit f (length (CallHash (message_of x)) \<noteq> 0) fd_Proposal_call_hash (ValueOfBytes V (CallHash (message_of x))) (
      visit f (length (Depositor (message_of x)) \<noteq> 0) fd_Proposal_depositor (ValueOfBytes V (Depositor (message_of x))) (
      visit f (Deposit (message_of x) \<noteq> 0) fd_Proposal_deposit (ValueOfUint64 V (Deposit (message_of x))) (
      visit f (length (Approvals (message_of x)) \<noteq> 0) fd_Proposal_approvals (ValueOfList V Proposal_6_list (Some (Approvals (message_of x)))) (
      Ok))))))) s)"

definition Proposal_WhichOneof :: "string \<Rightarrow> Proposal pulsar option \<Rightarrow> string res" where
  "Proposal_WhichOneof d x = Panic"

definition Proposal_GetUnknown :: "Proposal pulsar option \<Rightarrow> bytes res" where
  "Proposal_GetUnknown x = deref x (\<lambda>x. Ok (unknownFields x))"

definition Proposal_SetUnknown :: "bytes \<Rightarrow> Proposal pulsar option \<Rightarrow> Proposal pulsar option res" where
  "Proposal_SetUnknown raw x = deref x (\<lambda>x. Ok (Some (x\<lparr>unknownFields := raw\<rparr>)))"

definition Proposal_IsValid :: "Proposal pulsar option \<Rightarrow> bool" where
  "Proposal_IsValid x \<longleftrightarrow> x \<noteq> None"

text \<open>The bodies of \<open>size\<close>, \<open>marshal\<close> and the cases of \<open>unmarshal\<close>.\<close>

definition pulsar_write_Proposal :: "pulsar_runtime \<Rightarrow> Proposal \<Rightarrow> writer" where
  "pulsar_write_Proposal R m = seq_w
    [w_each (pw_string R [0x32]) (Approvals m),
     pw_opt_varint R [0x28] (Deposit m),
     pw_opt_string R [0x22] (Depositor m),
     pw_opt_string R [0x1a] (CallHash m),
     pw_opt_string R [0x12] (MultisigAddress m),
     pw_opt_varint R [0x8] (Id m)]"

definition pulsar_size_Proposal :: "pulsar_runtime \<Rightarrow> Proposal \<Rightarrow> nat" where
  "pulsar_size_Proposal R m =
     p_varint_size R 1 (Id m) +
     p_opt_len_size R 1 (length (MultisigAddress m)) +
     p_opt_len_size R 1 (length (CallHash m)) +
     p_opt_len_size R 1 (length (Depositor m)) +
     p_varint_size R 1 (Deposit m) +
     (\<Sum>b \<leftarrow> Approvals m. p_len_size R 1 (length b))"

definition pulsar_field_Proposal :: "Proposal ptable" where
  "pulsar_field_Proposal fieldNum =
     (if fieldNum = 1 then Some (PVarint (\<lambda>v m. m\<lparr>Id := v\<rparr>))
      else if fieldNum = 2 then Some (PBytes (\<lambda>bs m. Ok (m\<lparr>MultisigAddress := bs\<rparr>)))
      else if fieldNum = 3 then Some (PBytes (\<lambda>bs m. Ok (m\<lparr>CallHash := bs\<rparr>)))
      else if fieldNum = 4 then Some (PBytes (\<lambda>bs m. Ok (m\<lparr>Depositor := bs\<rparr>)))
      else if fieldNum = 5 then Some (PVarint (\<lambda>v m. m\<lparr>Deposit := v\<rparr>))
      else if fieldNum = 6 then Some (PBytes (\<lambda>bs m. Ok (m\<lparr>Approvals := Approvals m @ [bs]\<rparr>)))
      else None)"

text \<open>The getters, which take a nil message.\<close>

definition Proposal_GetId :: "Proposal pulsar option \<Rightarrow> uint64" where
  "Proposal_GetId x = (case x of Some x \<Rightarrow> Id (message_of x) | None \<Rightarrow> 0)"

definition Proposal_GetMultisigAddress :: "Proposal pulsar option \<Rightarrow> bytes" where
  "Proposal_GetMultisigAddress x = (case x of Some x \<Rightarrow> MultisigAddress (message_of x) | None \<Rightarrow> [])"

definition Proposal_GetCallHash :: "Proposal pulsar option \<Rightarrow> bytes" where
  "Proposal_GetCallHash x = (case x of Some x \<Rightarrow> CallHash (message_of x) | None \<Rightarrow> [])"

definition Proposal_GetDepositor :: "Proposal pulsar option \<Rightarrow> bytes" where
  "Proposal_GetDepositor x = (case x of Some x \<Rightarrow> Depositor (message_of x) | None \<Rightarrow> [])"

definition Proposal_GetDeposit :: "Proposal pulsar option \<Rightarrow> uint64" where
  "Proposal_GetDeposit x = (case x of Some x \<Rightarrow> Deposit (message_of x) | None \<Rightarrow> 0)"

definition Proposal_GetApprovals :: "Proposal pulsar option \<Rightarrow> bytes list" where
  "Proposal_GetApprovals x = (case x of Some x \<Rightarrow> Approvals (message_of x) | None \<Rightarrow> [])"

lemma proposal_fds [simp]:
  "distinct proposal_names"
  "fd_Proposal_id \<noteq> fd_Proposal_multisig_address"
  "fd_Proposal_id \<noteq> fd_Proposal_call_hash"
  "fd_Proposal_id \<noteq> fd_Proposal_depositor"
  "fd_Proposal_id \<noteq> fd_Proposal_deposit"
  "fd_Proposal_id \<noteq> fd_Proposal_approvals"
  "fd_Proposal_multisig_address \<noteq> fd_Proposal_id"
  "fd_Proposal_multisig_address \<noteq> fd_Proposal_call_hash"
  "fd_Proposal_multisig_address \<noteq> fd_Proposal_depositor"
  "fd_Proposal_multisig_address \<noteq> fd_Proposal_deposit"
  "fd_Proposal_multisig_address \<noteq> fd_Proposal_approvals"
  "fd_Proposal_call_hash \<noteq> fd_Proposal_id"
  "fd_Proposal_call_hash \<noteq> fd_Proposal_multisig_address"
  "fd_Proposal_call_hash \<noteq> fd_Proposal_depositor"
  "fd_Proposal_call_hash \<noteq> fd_Proposal_deposit"
  "fd_Proposal_call_hash \<noteq> fd_Proposal_approvals"
  "fd_Proposal_depositor \<noteq> fd_Proposal_id"
  "fd_Proposal_depositor \<noteq> fd_Proposal_multisig_address"
  "fd_Proposal_depositor \<noteq> fd_Proposal_call_hash"
  "fd_Proposal_depositor \<noteq> fd_Proposal_deposit"
  "fd_Proposal_depositor \<noteq> fd_Proposal_approvals"
  "fd_Proposal_deposit \<noteq> fd_Proposal_id"
  "fd_Proposal_deposit \<noteq> fd_Proposal_multisig_address"
  "fd_Proposal_deposit \<noteq> fd_Proposal_call_hash"
  "fd_Proposal_deposit \<noteq> fd_Proposal_depositor"
  "fd_Proposal_deposit \<noteq> fd_Proposal_approvals"
  "fd_Proposal_approvals \<noteq> fd_Proposal_id"
  "fd_Proposal_approvals \<noteq> fd_Proposal_multisig_address"
  "fd_Proposal_approvals \<noteq> fd_Proposal_call_hash"
  "fd_Proposal_approvals \<noteq> fd_Proposal_depositor"
  "fd_Proposal_approvals \<noteq> fd_Proposal_deposit"
  by (simp_all add: proposal_names_def fd_Proposal_id_def fd_Proposal_multisig_address_def fd_Proposal_call_hash_def fd_Proposal_depositor_def fd_Proposal_deposit_def fd_Proposal_approvals_def)

text \<open>A message by its fields, as \<open>Get\<close> returns them.\<close>

definition proposal_value :: "string \<Rightarrow> Proposal \<Rightarrow> pval" where
  "proposal_value fd m =
     (if fd = fd_Proposal_id then PvUint64 (Id m)
      else if fd = fd_Proposal_multisig_address then PvBytes (MultisigAddress m)
      else if fd = fd_Proposal_call_hash then PvBytes (CallHash m)
      else if fd = fd_Proposal_depositor then PvBytes (Depositor m)
      else if fd = fd_Proposal_deposit then PvUint64 (Deposit m)
      else PvList Proposal_6_list (if Approvals m = [] then None else Some (Approvals m)))"

lemma proposal_kindE:
  assumes "proposal_kind fd = Some k"
  obtains "fd = fd_Proposal_id" "k = Uint64Kind"
    | "fd = fd_Proposal_multisig_address" "k = BytesKind"
    | "fd = fd_Proposal_call_hash" "k = BytesKind"
    | "fd = fd_Proposal_depositor" "k = BytesKind"
    | "fd = fd_Proposal_deposit" "k = Uint64Kind"
    | "fd = fd_Proposal_approvals" "k = ListKind Proposal_6_list"
  using assms by (auto simp: proposal_kind_def split: if_splits)

lemma proposal_no_kind:
  assumes "proposal_kind fd = None"
  shows "fd \<noteq> fd_Proposal_id" "fd \<noteq> fd_Proposal_multisig_address" "fd \<noteq> fd_Proposal_call_hash" "fd \<noteq> fd_Proposal_depositor" "fd \<noteq> fd_Proposal_deposit" "fd \<noteq> fd_Proposal_approvals"
  using assms by (auto simp: proposal_kind_def split: if_splits)

lemma proposal_get_has:
  assumes "proposal_kind fd = Some k"
  shows "Proposal_Get V fd (Some y) = Ok (wrap_value V (proposal_value fd (message_of y)))"
    "typed k (proposal_value fd (message_of y))"
    "Proposal_Has fd (Some y) = Ok (proposal_value fd (message_of y) \<noteq> default_value k)"
  using assms by (auto elim!: proposal_kindE simp: Proposal_Get_def Proposal_Has_def proposal_value_def)

lemma proposal_value_ext:
  assumes "\<And>fd. fd \<in> set proposal_names \<Longrightarrow> proposal_value fd m = proposal_value fd m'"
  shows "m = m'"
proof -
  note eqs = assms [of fd_Proposal_id] assms [of fd_Proposal_multisig_address] assms [of fd_Proposal_call_hash] assms [of fd_Proposal_depositor] assms [of fd_Proposal_deposit] assms [of fd_Proposal_approvals]
  show ?thesis using eqs by (cases m; cases m') (auto simp: proposal_value_def proposal_names_def split: if_splits)
qed

lemma proposal_other_fields:
  assumes "\<And>g. g \<noteq> fd \<Longrightarrow> proposal_kind g \<noteq> None \<Longrightarrow> proposal_value g (message_of z) = proposal_value g (message_of y)" and "g \<noteq> fd"
  shows "Proposal_Get V g (Some z) = Proposal_Get V g (Some y)"
proof (cases "proposal_kind g")
  case None
  then show ?thesis by (simp add: Proposal_Get_def proposal_no_kind [OF None])
next
  case (Some k)
  then show ?thesis using assms by (simp add: proposal_get_has(1) [OF Some])
qed

section \<open>MultisigAccountDetails\<close>

definition fd_MultisigAccountDetails_signers :: string where "fd_MultisigAccountDetails_signers = ''multisig.v1.MultisigAccountDetails.signers''"
definition fd_MultisigAccountDetails_threshold :: string where "fd_MultisigAccountDetails_threshold = ''multisig.v1.MultisigAccountDetails.threshold''"
definition fd_MultisigAccountDetails_permission :: string where "fd_MultisigAccountDetails_permission = ''multisig.v1.MultisigAccountDetails.permission''"

definition MultisigAccountDetails_1_list :: string where "MultisigAccountDetails_1_list = ''_MultisigAccountDetails_1_list''"

definition details_names :: "string list" where
  "details_names = [fd_MultisigAccountDetails_signers, fd_MultisigAccountDetails_threshold, fd_MultisigAccountDetails_permission]"

definition details_kind :: "string \<Rightarrow> field_kind option" where
  "details_kind fd =
     (if fd = fd_MultisigAccountDetails_signers then Some (ListKind MultisigAccountDetails_1_list)
      else if fd = fd_MultisigAccountDetails_threshold then Some Uint32Kind
      else if fd = fd_MultisigAccountDetails_permission then Some EnumKind
      else None)"

definition new_MultisigAccountDetails :: "MultisigAccountDetails pulsar" where
  "new_MultisigAccountDetails = \<lparr>message_of = zero_MultisigAccountDetails, unknownFields = []\<rparr>"

definition MultisigAccountDetails_Has :: "string \<Rightarrow> MultisigAccountDetails pulsar option \<Rightarrow> bool res" where
  "MultisigAccountDetails_Has fd x = deref x (\<lambda>x.
      if fd = fd_MultisigAccountDetails_signers then Ok (length (Signers (message_of x)) \<noteq> 0)
      else if fd = fd_MultisigAccountDetails_threshold then Ok (Threshold (message_of x) \<noteq> 0)
      else if fd = fd_MultisigAccountDetails_permission then Ok (Permission (message_of x) \<noteq> 0)
      else Panic)"

definition MultisigAccountDetails_Clear :: "string \<Rightarrow> MultisigAccountDetails pulsar option \<Rightarrow> MultisigAccountDetails pulsar option res" where
  "MultisigAccountDetails_Clear fd x = deref x (\<lambda>x.
      if fd = fd_MultisigAccountDetails_signers then store x ((message_of x)\<lparr>Signers := []\<rparr>)
      else if fd = fd_MultisigAccountDetails_threshold then store x ((message_of x)\<lparr>Threshold := 0\<rparr>)
      else if fd = fd_MultisigAccountDetails_permission then store x ((message_of x)\<lparr>Permission := 0\<rparr>)
      else Panic)"

definition MultisigAccountDetails_Get :: "'v value_ops \<Rightarrow> string \<Rightarrow> MultisigAccountDetails pulsar option \<Rightarrow> 'v res" where
  "MultisigAccountDetails_Get V fd x = deref x (\<lambda>x.
      if fd = fd_MultisigAccountDetails_signers then 
        (if length (Signers (message_of x)) = 0 then Ok (ValueOfList V MultisigAccountDetails_1_list None)
         else Ok (ValueOfList V MultisigAccountDetails_1_list (Some (Signers (message_of x)))))
      else if fd = fd_MultisigAccountDetails_threshold then Ok (ValueOfUint32 V (Threshold (message_of x)))
      else if fd = fd_MultisigAccountDetails_permission then Ok (ValueOfEnum V (Permission (message_of x)))
      else Panic)"

definition MultisigAccountDetails_Set :: "'v value_ops \<Rightarrow> string \<Rightarrow> 'v \<Rightarrow> MultisigAccountDetails pulsar option \<Rightarrow> MultisigAccountDetails pulsar option res" where
  "MultisigAccountDetails_Set V fd v x = deref x (\<lambda>x.
      if fd = fd_MultisigAccountDetails_signers then 
        bind_res (value_List V v) (\<lambda>(view, l).
          if view \<noteq> MultisigAccountDetails_1_list then Panic
          else (case l of None \<Rightarrow> Panic | Some l \<Rightarrow> store x ((message_of x)\<lparr>Signers := l\<rparr>)))
      else if fd = fd_MultisigAccountDetails_threshold then bind_res (value_Uint V v) (\<lambda>u. store x ((message_of x)\<lparr>Threshold := ucast u\<rparr>))
      else if fd = fd_MultisigAccountDetails_permission then bind_res (value_Enum V v) (\<lambda>u. store x ((message_of x)\<lparr>Permission := u\<rparr>))
      else Panic)"

text \<open>\<open>Mutable\<close>: a list by a view of the field, a scalar by a panic.\<close>

definition MultisigAccountDetails_Mutable :: "'v value_ops \<Rightarrow> string \<Rightarrow> MultisigAccountDetails pulsar option \<Rightarrow> ('v \<times> MultisigAccountDetails pulsar option) res" where
  "MultisigAccountDetails_Mutable V fd x =
     (if fd = fd_MultisigAccountDetails_signers then deref x (\<lambda>x. Ok (ValueOfList V MultisigAccountDetails_1_list (Some (Signers (message_of x))), Some x))
      else Panic)"

definition MultisigAccountDetails_NewField :: "'v value_ops \<Rightarrow> string \<Rightarrow> MultisigAccountDetails pulsar option \<Rightarrow> 'v res" where
  "MultisigAccountDetails_NewField V fd x =
     (if fd = fd_MultisigAccountDetails_signers then Ok (ValueOfList V MultisigAccountDetails_1_list (Some []))
      else if fd = fd_MultisigAccountDetails_threshold then Ok (ValueOfUint32 V 0)
      else if fd = fd_MultisigAccountDetails_permission then Ok (ValueOfEnum V 0)
      else Panic)"

definition MultisigAccountDetails_Range :: "'v value_ops \<Rightarrow> ('v, 's) visitor \<Rightarrow> MultisigAccountDetails pulsar option \<Rightarrow> 's \<Rightarrow> 's res" where
  "MultisigAccountDetails_Range V f x s = deref x (\<lambda>x. (
      visit f (length (Signers (message_of x)) \<noteq> 0) fd_MultisigAccountDetails_signers (ValueOfList V MultisigAccountDetails_1_list (Some (Signers (message_of x)))) (
      visit f (Threshold (message_of x) \<noteq> 0) fd_MultisigAccountDetails_threshold (ValueOfUint32 V (Threshold (message_of x))) (
      visit f (Permission (message_of x) \<noteq> 0) fd_MultisigAccountDetails_permission (ValueOfEnum V (Permission (message_of x))) (
      Ok)))) s)"

definition MultisigAccountDetails_WhichOneof :: "string \<Rightarrow> MultisigAccountDetails pulsar option \<Rightarrow> string res" where
  "MultisigAccountDetails_WhichOneof d x = Panic"

definition MultisigAccountDetails_GetUnknown :: "MultisigAccountDetails pulsar option \<Rightarrow> bytes res" where
  "MultisigAccountDetails_GetUnknown x = deref x (\<lambda>x. Ok (unknownFields x))"

definition MultisigAccountDetails_SetUnknown :: "bytes \<Rightarrow> MultisigAccountDetails pulsar option \<Rightarrow> MultisigAccountDetails pulsar option res" where
  "MultisigAccountDetails_SetUnknown raw x = deref x (\<lambda>x. Ok (Some (x\<lparr>unknownFields := raw\<rparr>)))"

definition MultisigAccountDetails_IsValid :: "MultisigAccountDetails pulsar option \<Rightarrow> bool" where
  "MultisigAccountDetails_IsValid x \<longleftrightarrow> x \<noteq> None"

text \<open>The bodies of \<open>size\<close>, \<open>marshal\<close> and the cases of \<open>unmarshal\<close>.\<close>

definition pulsar_write_MultisigAccountDetails :: "pulsar_runtime \<Rightarrow> MultisigAccountDetails \<Rightarrow> writer" where
  "pulsar_write_MultisigAccountDetails R m = seq_w
    [pw_opt_varint R [0x18] (scast (Permission m)),
     pw_opt_varint R [0x10] (ucast (Threshold m)),
     w_each (pw_string R [0xa]) (Signers m)]"

definition pulsar_size_MultisigAccountDetails :: "pulsar_runtime \<Rightarrow> MultisigAccountDetails \<Rightarrow> nat" where
  "pulsar_size_MultisigAccountDetails R m =
     (\<Sum>b \<leftarrow> Signers m. p_len_size R 1 (length b)) +
     p_varint_size R 1 (ucast (Threshold m)) +
     p_varint_size R 1 (scast (Permission m))"

definition pulsar_field_MultisigAccountDetails :: "MultisigAccountDetails ptable" where
  "pulsar_field_MultisigAccountDetails fieldNum =
     (if fieldNum = 1 then Some (PBytes (\<lambda>bs m. Ok (m\<lparr>Signers := Signers m @ [bs]\<rparr>)))
      else if fieldNum = 2 then Some (PVarint (\<lambda>v m. m\<lparr>Threshold := ucast v\<rparr>))
      else if fieldNum = 3 then Some (PVarint (\<lambda>v m. m\<lparr>Permission := ucast v\<rparr>))
      else None)"

text \<open>The getters, which take a nil message.\<close>

definition MultisigAccountDetails_GetSigners :: "MultisigAccountDetails pulsar option \<Rightarrow> bytes list" where
  "MultisigAccountDetails_GetSigners x = (case x of Some x \<Rightarrow> Signers (message_of x) | None \<Rightarrow> [])"

definition MultisigAccountDetails_GetThreshold :: "MultisigAccountDetails pulsar option \<Rightarrow> uint32" where
  "MultisigAccountDetails_GetThreshold x = (case x of Some x \<Rightarrow> Threshold (message_of x) | None \<Rightarrow> 0)"

definition MultisigAccountDetails_GetPermission :: "MultisigAccountDetails pulsar option \<Rightarrow> MultisigProposalType" where
  "MultisigAccountDetails_GetPermission x = (case x of Some x \<Rightarrow> Permission (message_of x) | None \<Rightarrow> PROPOSAL_TYPE_UNSPECIFIED)"

lemma details_fds [simp]:
  "distinct details_names"
  "fd_MultisigAccountDetails_signers \<noteq> fd_MultisigAccountDetails_threshold"
  "fd_MultisigAccountDetails_signers \<noteq> fd_MultisigAccountDetails_permission"
  "fd_MultisigAccountDetails_threshold \<noteq> fd_MultisigAccountDetails_signers"
  "fd_MultisigAccountDetails_threshold \<noteq> fd_MultisigAccountDetails_permission"
  "fd_MultisigAccountDetails_permission \<noteq> fd_MultisigAccountDetails_signers"
  "fd_MultisigAccountDetails_permission \<noteq> fd_MultisigAccountDetails_threshold"
  by (simp_all add: details_names_def fd_MultisigAccountDetails_signers_def fd_MultisigAccountDetails_threshold_def fd_MultisigAccountDetails_permission_def)

text \<open>A message by its fields, as \<open>Get\<close> returns them.\<close>

definition details_value :: "string \<Rightarrow> MultisigAccountDetails \<Rightarrow> pval" where
  "details_value fd m =
     (if fd = fd_MultisigAccountDetails_signers then PvList MultisigAccountDetails_1_list (if Signers m = [] then None else Some (Signers m))
      else if fd = fd_MultisigAccountDetails_threshold then PvUint32 (Threshold m)
      else PvEnum (Permission m))"

lemma details_kindE:
  assumes "details_kind fd = Some k"
  obtains "fd = fd_MultisigAccountDetails_signers" "k = ListKind MultisigAccountDetails_1_list"
    | "fd = fd_MultisigAccountDetails_threshold" "k = Uint32Kind"
    | "fd = fd_MultisigAccountDetails_permission" "k = EnumKind"
  using assms by (auto simp: details_kind_def split: if_splits)

lemma details_no_kind:
  assumes "details_kind fd = None"
  shows "fd \<noteq> fd_MultisigAccountDetails_signers" "fd \<noteq> fd_MultisigAccountDetails_threshold" "fd \<noteq> fd_MultisigAccountDetails_permission"
  using assms by (auto simp: details_kind_def split: if_splits)

lemma details_get_has:
  assumes "details_kind fd = Some k"
  shows "MultisigAccountDetails_Get V fd (Some y) = Ok (wrap_value V (details_value fd (message_of y)))"
    "typed k (details_value fd (message_of y))"
    "MultisigAccountDetails_Has fd (Some y) = Ok (details_value fd (message_of y) \<noteq> default_value k)"
  using assms by (auto elim!: details_kindE simp: MultisigAccountDetails_Get_def MultisigAccountDetails_Has_def details_value_def)

lemma details_value_ext:
  assumes "\<And>fd. fd \<in> set details_names \<Longrightarrow> details_value fd m = details_value fd m'"
  shows "m = m'"
proof -
  note eqs = assms [of fd_MultisigAccountDetails_signers] assms [of fd_MultisigAccountDetails_threshold] assms [of fd_MultisigAccountDetails_permission]
  show ?thesis using eqs by (cases m; cases m') (auto simp: details_value_def details_names_def split: if_splits)
qed

lemma details_other_fields:
  assumes "\<And>g. g \<noteq> fd \<Longrightarrow> details_kind g \<noteq> None \<Longrightarrow> details_value g (message_of z) = details_value g (message_of y)" and "g \<noteq> fd"
  shows "MultisigAccountDetails_Get V g (Some z) = MultisigAccountDetails_Get V g (Some y)"
proof (cases "details_kind g")
  case None
  then show ?thesis by (simp add: MultisigAccountDetails_Get_def details_no_kind [OF None])
next
  case (Some k)
  then show ?thesis using assms by (simp add: details_get_has(1) [OF Some])
qed

section \<open>The contract of reflection\<close>

text \<open>What \<open>Set\<close> stores, for a value that fits the field.\<close>

fun proposal_put :: "string \<Rightarrow> pval \<Rightarrow> Proposal \<Rightarrow> Proposal" where
  "proposal_put fd (PvUint64 v) m = (if fd = fd_Proposal_id then m\<lparr>Id := v\<rparr> else m\<lparr>Deposit := v\<rparr>)"
| "proposal_put fd (PvUint32 v) m = (if fd = fd_Proposal_id then m\<lparr>Id := ucast v\<rparr> else m\<lparr>Deposit := ucast v\<rparr>)"
| "proposal_put fd (PvBytes b) m =
     (if fd = fd_Proposal_multisig_address then m\<lparr>MultisigAddress := b\<rparr>
      else if fd = fd_Proposal_call_hash then m\<lparr>CallHash := b\<rparr>
      else m\<lparr>Depositor := b\<rparr>)"
| "proposal_put fd (PvList t l) m = m\<lparr>Approvals := (case l of None \<Rightarrow> [] | Some l \<Rightarrow> l)\<rparr>"
| "proposal_put fd (PvEnum e) m = m"

lemma proposal_set:
  assumes "value_laws V" and "proposal_kind fd = Some k"
  shows "Proposal_Set V fd (wrap_value V p) (Some y) =
      (if assignable k p then Ok (Some (y\<lparr>message_of := proposal_put fd p (message_of y)\<rparr>)) else Panic)"
  using assms(2)
  by (cases p) (auto elim!: proposal_kindE simp: Proposal_Set_def store_def value_laws_simps [OF assms(1)] casts split: option.splits)

lemma proposal_put_value:
  assumes "proposal_kind fd = Some k" and "assignable k p"
  shows "proposal_value fd (proposal_put fd p m) = stored k p"
    and "g \<noteq> fd \<Longrightarrow> proposal_kind g \<noteq> None \<Longrightarrow> proposal_value g (proposal_put fd p m) = proposal_value g m"
proof -
  show "proposal_value fd (proposal_put fd p m) = stored k p"
    using assms
    by (cases "(k, p)" rule: stored.cases; cases p) (auto elim!: proposal_kindE simp: proposal_value_def)
  show "proposal_value g (proposal_put fd p m) = proposal_value g m" if "g \<noteq> fd" "proposal_kind g \<noteq> None"
    using assms that by (cases p) (auto elim!: proposal_kindE simp: proposal_value_def)
qed

lemma proposal_clear:
  assumes "proposal_kind fd = Some k"
  shows "Proposal_Clear fd (Some y) = Ok (Some (y\<lparr>message_of := proposal_put fd (fresh_value k) (message_of y)\<rparr>))"
  using assms by (auto elim!: proposal_kindE simp: Proposal_Clear_def store_def)

lemma proposal_put_get:
  assumes "proposal_kind fd = Some k" and "assignable k p" and "g \<noteq> fd"
  shows "Proposal_Get V g (Some (y\<lparr>message_of := proposal_put fd p (message_of y)\<rparr>)) = Proposal_Get V g (Some y)"
  by (rule proposal_other_fields [of fd]) (use proposal_put_value(2) [OF assms(1,2)] assms(3) in auto)

sublocale value_union \<subseteq> proposal: reflection V proposal_kind proposal_names new_Proposal
  Proposal_Has "Proposal_Get V" "Proposal_Set V" Proposal_Clear "Proposal_NewField V"
proof
  show "distinct proposal_names" by simp
  show in_names: "proposal_kind fd \<noteq> None \<longleftrightarrow> fd \<in> set proposal_names" for fd
    by (simp add: proposal_kind_def proposal_names_def)
  show "Proposal_Has fd x = Panic \<and> Proposal_Get V fd x = Panic \<and> Proposal_Set V fd v x = Panic \<and> Proposal_Clear fd x = Panic \<and>
    Proposal_NewField V fd x = Panic" if "proposal_kind fd = None" for fd v x
    by (cases x) (simp_all add: Proposal_Has_def Proposal_Get_def Proposal_Set_def Proposal_Clear_def Proposal_NewField_def proposal_no_kind [OF that])
  show "\<exists>p. Proposal_Get V fd (Some y) = Ok (wrap_value V p) \<and> typed k p \<and> Proposal_Has fd (Some y) = Ok (p \<noteq> default_value k)"
    if "proposal_kind fd = Some k" for fd k y
    using proposal_get_has [OF that] by blast
  show "\<exists>z. Proposal_Set V fd (wrap_value V p) (Some y) = Ok (Some z) \<and> Proposal_Get V fd (Some z) = Ok (wrap_value V (stored k p)) \<and>
      (\<forall>g. g \<noteq> fd \<longrightarrow> Proposal_Get V g (Some z) = Proposal_Get V g (Some y)) \<and> unknownFields z = unknownFields y"
    if k: "proposal_kind fd = Some k" and ok: "assignable k p" for fd k p y
  proof -
    let ?z = "y\<lparr>message_of := proposal_put fd p (message_of y)\<rparr>"
    show ?thesis
      using proposal_set [OF laws k] ok proposal_put_get [OF k ok] proposal_get_has(1) [OF k, of V ?z] proposal_put_value(1) [OF k ok] by auto
  qed
  show "Proposal_Set V fd (wrap_value V p) x = Panic" if "proposal_kind fd = Some k" and "\<not> assignable k p" for fd k p x
    using proposal_set [OF laws that(1)] that(2) by (cases x) (simp_all add: Proposal_Set_def)
  show "\<exists>z. Proposal_Clear fd (Some y) = Ok (Some z) \<and> Proposal_Has fd (Some z) = Ok False \<and>
      (\<forall>g. g \<noteq> fd \<longrightarrow> Proposal_Get V g (Some z) = Proposal_Get V g (Some y)) \<and> unknownFields z = unknownFields y"
    if k: "proposal_kind fd = Some k" for fd k y
  proof -
    let ?z = "y\<lparr>message_of := proposal_put fd (fresh_value k) (message_of y)\<rparr>"
    show ?thesis
      using proposal_clear [OF k] proposal_get_has(3) [OF k, of ?z] proposal_put_value(1) [OF k fresh_value(1)]
        proposal_put_get [OF k fresh_value(1)] fresh_value(2) by auto
  qed
  show "Proposal_Get V fd (Some new_Proposal) = Ok (wrap_value V (default_value k))" if "proposal_kind fd = Some k" for fd k
    using that by (auto elim!: proposal_kindE simp: proposal_get_has(1) [OF that] proposal_value_def new_Proposal_def zero_Proposal_def)
  show "\<exists>p. Proposal_NewField V fd x = Ok (wrap_value V p) \<and> assignable k p \<and> stored k p = default_value k"
    if "proposal_kind fd = Some k" for fd k x
    by (rule exI [of _ "fresh_value k"])
      (use that in \<open>auto elim!: proposal_kindE simp: Proposal_NewField_def\<close>)
  show "message_of y = message_of z"
    if eq: "\<And>fd. fd \<in> set proposal_names \<Longrightarrow> Proposal_Get V fd (Some y) = Proposal_Get V fd (Some z)" for y z
  proof (rule proposal_value_ext)
    fix fd
    assume fd: "fd \<in> set proposal_names"
    then obtain k where k: "proposal_kind fd = Some k" using in_names by blast
    show "proposal_value fd (message_of y) = proposal_value fd (message_of z)"
      by (rule wrap_inject [OF laws proposal_get_has(2) [OF k] proposal_get_has(2) [OF k]])
        (use eq [OF fd] in \<open>simp add: proposal_get_has(1) [OF k]\<close>)
  qed
qed

lemma proposal_range:
  "Proposal_Range V f (Some y) s =
     range_over (\<lambda>fd. Proposal_Has fd (Some y)) (\<lambda>fd. Proposal_Get V fd (Some y)) f proposal_names s"
  unfolding Proposal_Range_def proposal_names_def deref_Some
  by (rule fun_cong, (rule range_over_visit)+) (auto simp: range_over_Nil Proposal_Has_def Proposal_Get_def)

fun details_put :: "string \<Rightarrow> pval \<Rightarrow> MultisigAccountDetails \<Rightarrow> MultisigAccountDetails" where
  "details_put fd (PvUint64 v) m = m\<lparr>Threshold := ucast v\<rparr>"
| "details_put fd (PvUint32 v) m = m\<lparr>Threshold := v\<rparr>"
| "details_put fd (PvEnum e) m = m\<lparr>Permission := e\<rparr>"
| "details_put fd (PvList t l) m = m\<lparr>Signers := (case l of None \<Rightarrow> [] | Some l \<Rightarrow> l)\<rparr>"
| "details_put fd (PvBytes b) m = m"

lemma details_set:
  assumes "value_laws V" and "details_kind fd = Some k"
  shows "MultisigAccountDetails_Set V fd (wrap_value V p) (Some y) =
      (if assignable k p then Ok (Some (y\<lparr>message_of := details_put fd p (message_of y)\<rparr>)) else Panic)"
  using assms(2)
  by (cases p) (auto elim!: details_kindE simp: MultisigAccountDetails_Set_def store_def value_laws_simps [OF assms(1)] casts split: option.splits)

lemma details_put_value:
  assumes "details_kind fd = Some k" and "assignable k p"
  shows "details_value fd (details_put fd p m) = stored k p"
    and "g \<noteq> fd \<Longrightarrow> details_kind g \<noteq> None \<Longrightarrow> details_value g (details_put fd p m) = details_value g m"
proof -
  show "details_value fd (details_put fd p m) = stored k p"
    using assms
    by (cases "(k, p)" rule: stored.cases; cases p) (auto elim!: details_kindE simp: details_value_def)
  show "details_value g (details_put fd p m) = details_value g m" if "g \<noteq> fd" "details_kind g \<noteq> None"
    using assms that by (cases p) (auto elim!: details_kindE simp: details_value_def)
qed

lemma details_clear:
  assumes "details_kind fd = Some k"
  shows "MultisigAccountDetails_Clear fd (Some y) = Ok (Some (y\<lparr>message_of := details_put fd (fresh_value k) (message_of y)\<rparr>))"
  using assms by (auto elim!: details_kindE simp: MultisigAccountDetails_Clear_def store_def)

lemma details_put_get:
  assumes "details_kind fd = Some k" and "assignable k p" and "g \<noteq> fd"
  shows "MultisigAccountDetails_Get V g (Some (y\<lparr>message_of := details_put fd p (message_of y)\<rparr>)) = MultisigAccountDetails_Get V g (Some y)"
  by (rule details_other_fields [of fd]) (use details_put_value(2) [OF assms(1,2)] assms(3) in auto)

sublocale value_union \<subseteq> details: reflection V details_kind details_names new_MultisigAccountDetails
  MultisigAccountDetails_Has "MultisigAccountDetails_Get V" "MultisigAccountDetails_Set V" MultisigAccountDetails_Clear "MultisigAccountDetails_NewField V"
proof
  show "distinct details_names" by simp
  show in_names: "details_kind fd \<noteq> None \<longleftrightarrow> fd \<in> set details_names" for fd
    by (simp add: details_kind_def details_names_def)
  show "MultisigAccountDetails_Has fd x = Panic \<and> MultisigAccountDetails_Get V fd x = Panic \<and> MultisigAccountDetails_Set V fd v x = Panic \<and> MultisigAccountDetails_Clear fd x = Panic \<and>
    MultisigAccountDetails_NewField V fd x = Panic" if "details_kind fd = None" for fd v x
    by (cases x) (simp_all add: MultisigAccountDetails_Has_def MultisigAccountDetails_Get_def MultisigAccountDetails_Set_def MultisigAccountDetails_Clear_def MultisigAccountDetails_NewField_def details_no_kind [OF that])
  show "\<exists>p. MultisigAccountDetails_Get V fd (Some y) = Ok (wrap_value V p) \<and> typed k p \<and> MultisigAccountDetails_Has fd (Some y) = Ok (p \<noteq> default_value k)"
    if "details_kind fd = Some k" for fd k y
    using details_get_has [OF that] by blast
  show "\<exists>z. MultisigAccountDetails_Set V fd (wrap_value V p) (Some y) = Ok (Some z) \<and> MultisigAccountDetails_Get V fd (Some z) = Ok (wrap_value V (stored k p)) \<and>
      (\<forall>g. g \<noteq> fd \<longrightarrow> MultisigAccountDetails_Get V g (Some z) = MultisigAccountDetails_Get V g (Some y)) \<and> unknownFields z = unknownFields y"
    if k: "details_kind fd = Some k" and ok: "assignable k p" for fd k p y
  proof -
    let ?z = "y\<lparr>message_of := details_put fd p (message_of y)\<rparr>"
    show ?thesis
      using details_set [OF laws k] ok details_put_get [OF k ok] details_get_has(1) [OF k, of V ?z] details_put_value(1) [OF k ok] by auto
  qed
  show "MultisigAccountDetails_Set V fd (wrap_value V p) x = Panic" if "details_kind fd = Some k" and "\<not> assignable k p" for fd k p x
    using details_set [OF laws that(1)] that(2) by (cases x) (simp_all add: MultisigAccountDetails_Set_def)
  show "\<exists>z. MultisigAccountDetails_Clear fd (Some y) = Ok (Some z) \<and> MultisigAccountDetails_Has fd (Some z) = Ok False \<and>
      (\<forall>g. g \<noteq> fd \<longrightarrow> MultisigAccountDetails_Get V g (Some z) = MultisigAccountDetails_Get V g (Some y)) \<and> unknownFields z = unknownFields y"
    if k: "details_kind fd = Some k" for fd k y
  proof -
    let ?z = "y\<lparr>message_of := details_put fd (fresh_value k) (message_of y)\<rparr>"
    show ?thesis
      using details_clear [OF k] details_get_has(3) [OF k, of ?z] details_put_value(1) [OF k fresh_value(1)]
        details_put_get [OF k fresh_value(1)] fresh_value(2) by auto
  qed
  show "MultisigAccountDetails_Get V fd (Some new_MultisigAccountDetails) = Ok (wrap_value V (default_value k))" if "details_kind fd = Some k" for fd k
    using that by (auto elim!: details_kindE simp: details_get_has(1) [OF that] details_value_def new_MultisigAccountDetails_def zero_MultisigAccountDetails_def)
  show "\<exists>p. MultisigAccountDetails_NewField V fd x = Ok (wrap_value V p) \<and> assignable k p \<and> stored k p = default_value k"
    if "details_kind fd = Some k" for fd k x
    by (rule exI [of _ "fresh_value k"])
      (use that in \<open>auto elim!: details_kindE simp: MultisigAccountDetails_NewField_def\<close>)
  show "message_of y = message_of z"
    if eq: "\<And>fd. fd \<in> set details_names \<Longrightarrow> MultisigAccountDetails_Get V fd (Some y) = MultisigAccountDetails_Get V fd (Some z)" for y z
  proof (rule details_value_ext)
    fix fd
    assume fd: "fd \<in> set details_names"
    then obtain k where k: "details_kind fd = Some k" using in_names by blast
    show "details_value fd (message_of y) = details_value fd (message_of z)"
      by (rule wrap_inject [OF laws details_get_has(2) [OF k] details_get_has(2) [OF k]])
        (use eq [OF fd] in \<open>simp add: details_get_has(1) [OF k]\<close>)
  qed
qed

lemma details_range:
  "MultisigAccountDetails_Range V f (Some y) s =
     range_over (\<lambda>fd. MultisigAccountDetails_Has fd (Some y)) (\<lambda>fd. MultisigAccountDetails_Get V fd (Some y)) f details_names s"
  unfolding MultisigAccountDetails_Range_def details_names_def deref_Some
  by (rule fun_cong, (rule range_over_visit)+) (auto simp: range_over_Nil MultisigAccountDetails_Has_def MultisigAccountDetails_Get_def)

context value_union
begin

lemmas proposal_types = proposal.field_types
lemmas details_types = details.field_types
lemmas proposal_copy = proposal.copy_correct [unfolded proposal.copy_field_def [abs_def]]
lemmas details_copy = details.copy_correct [unfolded details.copy_field_def [abs_def]]

end

section \<open>Encoding\<close>

lemma pulsar_statements:
  assumes "runtime_laws R"
  shows "pulsar_write_Proposal R = write_Proposal" "pulsar_size_Proposal R = size_Proposal"
    "pulsar_write_MultisigAccountDetails R = write_MultisigAccountDetails"
    "pulsar_size_MultisigAccountDetails R = size_MultisigAccountDetails"
    "pulsar_field_Proposal = field_Proposal" "pulsar_field_MultisigAccountDetails = field_MultisigAccountDetails"
proof -
  note pieces = runtime_pieces [OF assms]
  show "pulsar_write_Proposal R = write_Proposal" "pulsar_size_Proposal R = size_Proposal"
    by (intro ext, simp add: pulsar_write_Proposal_def write_Proposal_def pulsar_size_Proposal_def size_Proposal_def pieces)+
  show "pulsar_write_MultisigAccountDetails R = write_MultisigAccountDetails"
    "pulsar_size_MultisigAccountDetails R = size_MultisigAccountDetails"
    by (intro ext, simp add: pulsar_write_MultisigAccountDetails_def write_MultisigAccountDetails_def
        pulsar_size_MultisigAccountDetails_def size_MultisigAccountDetails_def pieces)+
  show "pulsar_field_Proposal = field_Proposal" "pulsar_field_MultisigAccountDetails = field_MultisigAccountDetails"
    by (intro ext, simp add: pulsar_field_Proposal_def field_Proposal_def
        pulsar_field_MultisigAccountDetails_def field_MultisigAccountDetails_def)+
qed

section \<open>Properties\<close>

text \<open>C30. Reflection respects the types of the fields. For any full name \<open>fd\<close>, any message and any value:
  a name that is not a field's makes \<open>Get\<close> and \<open>Set\<close> panic; \<open>Get\<close> returns a value of the kind of the
  field; \<open>Set\<close> of a value the kind allows succeeds, the field then reads as that value (cut to the width
  of the field), and every other field and the unknown bytes stay as they are; \<open>Set\<close> of any other value
  panics, a list through a view of another field and an empty read-only list among them. This holds of
  proposals and of account details.\<close>

theorem reflection_respects_types:
  assumes "value_laws V"
  shows "respects_types V proposal_kind (Proposal_Get V) (Proposal_Set V) \<and>
    respects_types V details_kind (MultisigAccountDetails_Get V) (MultisigAccountDetails_Set V)"
  using value_union.proposal_types [OF value_union.intro [OF assms]]
    value_union.details_types [OF value_union.intro [OF assms]] by simp

text \<open>Setting the threshold through a 64-bit value keeps its low 32 bits, and a list of approvals is not
  a list of signers.\<close>

theorem reflection_respects_types_witness:
  "MultisigAccountDetails_Get ref_values fd_MultisigAccountDetails_threshold
     (case MultisigAccountDetails_Set ref_values fd_MultisigAccountDetails_threshold (PvUint64 0x100000002) (Some new_MultisigAccountDetails) of
        Ok y \<Rightarrow> y | _ \<Rightarrow> None) = Ok (PvUint32 2) \<and>
   MultisigAccountDetails_Set ref_values fd_MultisigAccountDetails_signers (PvList Proposal_6_list (Some [])) (Some new_MultisigAccountDetails) = Panic"
proof -
  note types = reflection_respects_types [OF ref_values_laws, THEN conjunct2, unfolded respects_types_def wrap_ref_values, rule_format]
  have "(0x100000002 :: uint32) = 2" by simp
  then show ?thesis
    using types [of fd_MultisigAccountDetails_threshold new_MultisigAccountDetails "PvUint64 0x100000002"]
      types [of fd_MultisigAccountDetails_signers new_MultisigAccountDetails "PvList Proposal_6_list (Some [])"]
    by (auto simp: details_kind_def Proposal_6_list_def MultisigAccountDetails_1_list_def)
qed

text \<open>What \<open>proto.Merge\<close> and \<open>proto.Clone\<close> do: setting every field that \<open>Range\<close> visits on a new
  message gives a message with the same fields, for proposals and for account details.\<close>

theorem range_and_set_copy:
  assumes "value_laws V"
  shows "Proposal_Range V (\<lambda>fd v z. bind_res (Proposal_Set V fd v z) (\<lambda>z. Ok (True, z))) (Some x) (Some new_Proposal) =
      Ok (Some (new_Proposal\<lparr>message_of := message_of x\<rparr>)) \<and>
    MultisigAccountDetails_Range V (\<lambda>fd v z. bind_res (MultisigAccountDetails_Set V fd v z) (\<lambda>z. Ok (True, z)))
        (Some d) (Some new_MultisigAccountDetails) = Ok (Some (new_MultisigAccountDetails\<lparr>message_of := message_of d\<rparr>))"
  using value_union.proposal_copy [OF value_union.intro [OF assms], of x]
    value_union.details_copy [OF value_union.intro [OF assms], of d]
  by (simp_all add: proposal_range details_range)

theorem range_and_set_copy_witness:
  "Proposal_Range ref_values (\<lambda>fd v z. bind_res (Proposal_Set ref_values fd v z) (\<lambda>z. Ok (True, z)))
     (Some \<lparr>message_of = zero_Proposal\<lparr>Deposit := 7, Approvals := [''a'', ''b'']\<rparr>, unknownFields = ''u''\<rparr>) (Some new_Proposal) =
   Ok (Some \<lparr>message_of = zero_Proposal\<lparr>Deposit := 7, Approvals := [''a'', ''b'']\<rparr>, unknownFields = []\<rparr>)"
  using range_and_set_copy [OF ref_values_laws, THEN conjunct1] by (simp add: new_Proposal_def)

text \<open>The ORM and the module agree on bytes. The generated \<open>marshal\<close> of proposals and of account
  details appends to the buffer what \<open>Marshal\<close> of \<open>src/x/multisig/types\<close> writes, and then the unknown
  fields; \<open>unmarshal\<close> ends on every input and gives the fields, or the error, that \<open>Unmarshal\<close> gives.\<close>

theorem pulsar_encoding_agrees:
  assumes "runtime_laws R"
  shows "encodes_like R (pulsar_size_Proposal R) (pulsar_write_Proposal R) pulsar_field_Proposal
      size_Proposal write_Proposal field_Proposal \<and>
    encodes_like R (pulsar_size_MultisigAccountDetails R) (pulsar_write_MultisigAccountDetails R) pulsar_field_MultisigAccountDetails
      size_MultisigAccountDetails write_MultisigAccountDetails field_MultisigAccountDetails"
  using encodes_likeI [OF assms pulsar_statements(2,1,5) [OF assms] proposal.writes_fields [OF TrueI] proposal.size_fields [OF TrueI]]
    encodes_likeI [OF assms pulsar_statements(4,3,6) [OF assms] account_details.writes_fields [OF TrueI]
      account_details.size_fields [OF TrueI]] by simp

theorem pulsar_encoding_agrees_witness:
  "pulsar_marshal (pulsar_size_Proposal ref_runtime) (pulsar_write_Proposal ref_runtime) ''row'' (Some \<lparr>message_of = zero_Proposal, unknownFields = ''u''\<rparr>) =
     Ok (''row'' @ [] @ ''u'')"
  using pulsar_encoding_agrees [OF ref_runtime_laws, THEN conjunct1]
    proposal.Marshal_fields [OF TrueI, of zero_Proposal]
  unfolding encodes_like_def
  by (simp add: fields_Proposal_def zero_Proposal_def f_varint_def f_bytes_def enc_fields_def)

end
