(* ===== verification/Multisig_Table.thy ===== *)
theory Multisig_Table
  imports Multisig
begin

text \<open>
  The generated table of proposals (\<open>src/api/multisig/v1/state.cosmos_orm.go\<close>): its methods, which call
  the table and the indexes of the ORM, and the keys that select an index and a prefix of its
  columns. The ORM itself is the parameter \<open>orm_table\<close>; the locale \<open>orm\<close> states what it documents,
  over the rows it holds.
\<close>

section \<open>Index keys\<close>

datatype ivalue = Uint64Value uint64 | BytesValue bytes

record ProposalIndexKey =
  key_id :: uint32
  key_values :: "ivalue list"

definition ProposalIdIndexKey :: ProposalIndexKey where
  "ProposalIdIndexKey = \<lparr>key_id = 0, key_values = []\<rparr>"

definition WithId :: "ProposalIndexKey \<Rightarrow> uint64 \<Rightarrow> ProposalIndexKey" where
  "WithId this i = this\<lparr>key_values := [Uint64Value i]\<rparr>"

definition ProposalMultisigAddressCallHashIndexKey :: ProposalIndexKey where
  "ProposalMultisigAddressCallHashIndexKey = \<lparr>key_id = 1, key_values = []\<rparr>"

definition WithMultisigAddress :: "ProposalIndexKey \<Rightarrow> bytes \<Rightarrow> ProposalIndexKey" where
  "WithMultisigAddress this multisig_address = this\<lparr>key_values := [BytesValue multisig_address]\<rparr>"

definition WithMultisigAddressCallHash :: "ProposalIndexKey \<Rightarrow> bytes \<Rightarrow> bytes \<Rightarrow> ProposalIndexKey" where
  "WithMultisigAddressCallHash this multisig_address call_hash =
     this\<lparr>key_values := [BytesValue multisig_address, BytesValue call_hash]\<rparr>"

definition ProposalDepositorIndexKey :: ProposalIndexKey where
  "ProposalDepositorIndexKey = \<lparr>key_id = 2, key_values = []\<rparr>"

definition WithDepositor :: "ProposalIndexKey \<Rightarrow> bytes \<Rightarrow> ProposalIndexKey" where
  "WithDepositor this depositor = this\<lparr>key_values := [BytesValue depositor]\<rparr>"

section \<open>The table\<close>

text \<open>
  \<open>'t\<close> is the state of the table, \<open>'o\<close> the options of a listing; an iterator is the list of its
  proposals. \<open>index_unique\<close> tells whether an index is an \<open>ormtable.UniqueIndex\<close>; \<open>GetIndexByID\<close> returns nil for
  an index that does not exist.
\<close>

record ('t, 'o) orm_index =
  index_unique :: bool
  index_Has :: "'t \<Rightarrow> ivalue list \<Rightarrow> bool res"
  index_Get :: "'t \<Rightarrow> ivalue list \<Rightarrow> Proposal option res"
  index_List :: "'t \<Rightarrow> ivalue list \<Rightarrow> 'o list \<Rightarrow> Proposal list res"
  index_ListRange :: "'t \<Rightarrow> ivalue list \<Rightarrow> ivalue list \<Rightarrow> 'o list \<Rightarrow> Proposal list res"
  index_DeleteBy :: "'t \<Rightarrow> ivalue list \<Rightarrow> 't \<times> unit res"
  index_DeleteRange :: "'t \<Rightarrow> ivalue list \<Rightarrow> ivalue list \<Rightarrow> 't \<times> unit res"

record ('t, 'o) orm_table =
  tbl_Insert :: "'t \<Rightarrow> Proposal \<Rightarrow> 't \<times> unit res"
  tbl_Update :: "'t \<Rightarrow> Proposal \<Rightarrow> 't \<times> unit res"
  tbl_Save :: "'t \<Rightarrow> Proposal \<Rightarrow> 't \<times> unit res"
  tbl_Delete :: "'t \<Rightarrow> Proposal \<Rightarrow> 't \<times> unit res"
  tbl_InsertReturningPKey :: "'t \<Rightarrow> Proposal \<Rightarrow> 't \<times> uint64 res"
  tbl_LastInsertedSequence :: "'t \<Rightarrow> uint64 res"
  tbl_PrimaryKey :: "('t, 'o) orm_index"
  tbl_GetIndexByID :: "uint32 \<Rightarrow> ('t, 'o) orm_index option"

definition pt_Insert :: "('t, 'o) orm_table \<Rightarrow> 't \<Rightarrow> Proposal \<Rightarrow> 't \<times> unit res" where
  "pt_Insert this t proposal = tbl_Insert this t proposal"

definition pt_Update :: "('t, 'o) orm_table \<Rightarrow> 't \<Rightarrow> Proposal \<Rightarrow> 't \<times> unit res" where
  "pt_Update this t proposal = tbl_Update this t proposal"

definition pt_Save :: "('t, 'o) orm_table \<Rightarrow> 't \<Rightarrow> Proposal \<Rightarrow> 't \<times> unit res" where
  "pt_Save this t proposal = tbl_Save this t proposal"

definition pt_Delete :: "('t, 'o) orm_table \<Rightarrow> 't \<Rightarrow> Proposal \<Rightarrow> 't \<times> unit res" where
  "pt_Delete this t proposal = tbl_Delete this t proposal"

definition pt_InsertReturningId :: "('t, 'o) orm_table \<Rightarrow> 't \<Rightarrow> Proposal \<Rightarrow> 't \<times> uint64 res" where
  "pt_InsertReturningId this t proposal = tbl_InsertReturningPKey this t proposal"

definition pt_LastInsertedSequence :: "('t, 'o) orm_table \<Rightarrow> 't \<Rightarrow> uint64 res" where
  "pt_LastInsertedSequence this t = tbl_LastInsertedSequence this t"

definition pt_Has :: "('t, 'o) orm_table \<Rightarrow> 't \<Rightarrow> uint64 \<Rightarrow> bool res" where
  "pt_Has this t i = index_Has (tbl_PrimaryKey this) t [Uint64Value i]"

definition pt_Get :: "('t, 'o) orm_table \<Rightarrow> 't \<Rightarrow> uint64 \<Rightarrow> Proposal res" where
  "pt_Get this t i = found_or_NotFound (index_Get (tbl_PrimaryKey this) t [Uint64Value i])"

text \<open>\<open>GetIndexByID(i)\<close> with a call on the index, and with the assertion that it is unique.\<close>

definition on_index :: "('t, 'o) orm_table \<Rightarrow> uint32 \<Rightarrow> 'r \<Rightarrow> (('t, 'o) orm_index \<Rightarrow> 'r) \<Rightarrow> 'r" where
  "on_index this i panicked f = (case tbl_GetIndexByID this i of None \<Rightarrow> panicked | Some index \<Rightarrow> f index)"

definition on_unique :: "('t, 'o) orm_table \<Rightarrow> uint32 \<Rightarrow> (('t, 'o) orm_index \<Rightarrow> 'r res) \<Rightarrow> 'r res" where
  "on_unique this i f = on_index this i Panic (\<lambda>index. if index_unique index then f index else Panic)"

definition pt_HasByMultisigAddressCallHash :: "('t, 'o) orm_table \<Rightarrow> 't \<Rightarrow> bytes \<Rightarrow> bytes \<Rightarrow> bool res" where
  "pt_HasByMultisigAddressCallHash this t multisig_address call_hash =
     on_unique this 1 (\<lambda>index. index_Has index t [BytesValue multisig_address, BytesValue call_hash])"

definition pt_GetByMultisigAddressCallHash :: "('t, 'o) orm_table \<Rightarrow> 't \<Rightarrow> bytes \<Rightarrow> bytes \<Rightarrow> Proposal res" where
  "pt_GetByMultisigAddressCallHash this t multisig_address call_hash =
     on_unique this 1 (\<lambda>index. found_or_NotFound (index_Get index t [BytesValue multisig_address, BytesValue call_hash]))"

definition pt_List :: "('t, 'o) orm_table \<Rightarrow> 't \<Rightarrow> ProposalIndexKey \<Rightarrow> 'o list \<Rightarrow> Proposal list res" where
  "pt_List this t prefixKey opts = on_index this (key_id prefixKey) Panic (\<lambda>index. index_List index t (key_values prefixKey) opts)"

definition pt_ListRange :: "('t, 'o) orm_table \<Rightarrow> 't \<Rightarrow> ProposalIndexKey \<Rightarrow> ProposalIndexKey \<Rightarrow> 'o list \<Rightarrow> Proposal list res" where
  "pt_ListRange this t from to opts =
     on_index this (key_id from) Panic (\<lambda>index. index_ListRange index t (key_values from) (key_values to) opts)"

definition pt_DeleteBy :: "('t, 'o) orm_table \<Rightarrow> 't \<Rightarrow> ProposalIndexKey \<Rightarrow> 't \<times> unit res" where
  "pt_DeleteBy this t prefixKey =
     on_index this (key_id prefixKey) (t, Panic) (\<lambda>index. index_DeleteBy index t (key_values prefixKey))"

definition pt_DeleteRange :: "('t, 'o) orm_table \<Rightarrow> 't \<Rightarrow> ProposalIndexKey \<Rightarrow> ProposalIndexKey \<Rightarrow> 't \<times> unit res" where
  "pt_DeleteRange this t from to =
     on_index this (key_id from) (t, Panic) (\<lambda>index. index_DeleteRange index t (key_values from) (key_values to))"

section \<open>What the ORM documents\<close>

text \<open>
  The columns of each index, from the table options in \<open>src/proto/multisig/v1/state.proto\<close>: the primary
  key, the unique pair of account and call, and the depositor. A row matches values that are a
  prefix of its columns.
\<close>

definition columns :: "uint32 \<Rightarrow> Proposal \<Rightarrow> ivalue list" where
  "columns i p =
     (if i = 0 then [Uint64Value (Id p)]
      else if i = 1 then [BytesValue (MultisigAddress p), BytesValue (CallHash p)]
      else [BytesValue (Depositor p)])"

definition matches :: "uint32 \<Rightarrow> ivalue list \<Rightarrow> Proposal \<Rightarrow> bool" where
  "matches i vs p \<longleftrightarrow> take (length vs) (columns i p) = vs"

definition same_call :: "Proposal \<Rightarrow> Proposal \<Rightarrow> bool" where
  "same_call p q \<longleftrightarrow> MultisigAddress p = MultisigAddress q \<and> CallHash p = CallHash q"

text \<open>The rows of a table have distinct keys and distinct calls.\<close>

definition rows_ok :: "Proposal list \<Rightarrow> bool" where
  "rows_ok ps \<longleftrightarrow> distinct (map Id ps) \<and> distinct (map (\<lambda>p. (MultisigAddress p, CallHash p)) ps)"

lemma rows_ok_find:
  assumes "rows_ok ps" and "p \<in> set ps"
  shows "List.find (\<lambda>q. columns 0 q = columns 0 p) ps = Some p" "List.find (\<lambda>q. columns 1 q = columns 1 p) ps = Some p"
proof -
  have find: "List.find (\<lambda>q. f q = f p) ps = Some p" if "distinct (map f ps)" for f :: "Proposal \<Rightarrow> 'k"
    using assms(2) that by (induction ps) auto
  have "inj_on (\<lambda>p. columns 0 p) (set ps)" "inj_on (\<lambda>p. columns 1 p) (set ps)"
    using assms(1) unfolding rows_ok_def distinct_map by (auto simp: columns_def inj_on_def)
  then have "distinct (map (columns 0) ps)" "distinct (map (columns 1) ps)"
    using assms(1) by (auto simp: distinct_map rows_ok_def)
  then show "List.find (\<lambda>q. columns 0 q = columns 0 p) ps = Some p" "List.find (\<lambda>q. columns 1 q = columns 1 p) ps = Some p"
    by (simp_all add: find)
qed

lemma rows_ok_insert:
  assumes "rows_ok ps" and "i \<notin> Id ` set ps" and "\<forall>q \<in> set ps. \<not> same_call p q"
  shows "rows_ok (ps @ [p\<lparr>Id := i\<rparr>])"
  using assms by (auto simp: rows_ok_def same_call_def)

lemma rows_ok_filter: "rows_ok ps \<Longrightarrow> rows_ok (filter P ps)"
  by (simp add: rows_ok_def distinct_map inj_on_def)

abbreviation NotFound :: error where "NotFound \<equiv> SdkErr ''ormerrors.NotFound''"

text \<open>\<open>room\<close> says that the sequence of the primary key is not at its end.\<close>

locale orm =
  fixes T :: "('t, 'o) orm_table" and rows :: "'t \<Rightarrow> Proposal list" and room :: "'t \<Rightarrow> bool"
  assumes primary: "index_Get (tbl_PrimaryKey T) t vs = Ok (List.find (\<lambda>p. columns 0 p = vs) (rows t))"
    and primary_has: "index_Has (tbl_PrimaryKey T) t vs = Ok (\<exists>p \<in> set (rows t). columns 0 p = vs)"
    and indexes: "i < 3 \<Longrightarrow> \<exists>x. tbl_GetIndexByID T i = Some x \<and>
      (\<forall>t vs. \<exists>ps. index_List x t vs [] = Ok ps \<and> mset ps = mset (filter (matches i vs) (rows t))) \<and>
      (\<forall>t vs. \<exists>t'. index_DeleteBy x t vs = (t', Ok ()) \<and> rows t' = filter (\<lambda>p. \<not> matches i vs p) (rows t))"
    and unique: "\<exists>x. tbl_GetIndexByID T 1 = Some x \<and> index_unique x \<and>
      (\<forall>t vs. index_Get x t vs = Ok (List.find (\<lambda>p. columns 1 p = vs) (rows t)) \<and>
        index_Has x t vs = Ok (\<exists>p \<in> set (rows t). columns 1 p = vs))"
    and insert_new: "room t \<Longrightarrow> Id p = 0 \<Longrightarrow> \<forall>q \<in> set (rows t). \<not> same_call p q \<Longrightarrow>
      \<exists>t' i. tbl_InsertReturningPKey T t p = (t', Ok i) \<and> i \<notin> Id ` set (rows t) \<and> rows t' = rows t @ [p\<lparr>Id := i\<rparr>]"
    and insert_taken: "q \<in> set (rows t) \<Longrightarrow> same_call p q \<Longrightarrow>
      \<exists>t' e. tbl_InsertReturningPKey T t p = (t', Err e) \<and> rows t' = rows t"
    and delete: "\<exists>t'. tbl_Delete T t p = (t', Ok ()) \<and> rows t' = filter (\<lambda>q. Id q \<noteq> Id p) (rows t)"
begin

lemma by_call:
  "pt_GetByMultisigAddressCallHash T t a h = found_or_NotFound (Ok (List.find (\<lambda>p. columns 1 p = [BytesValue a, BytesValue h]) (rows t)))"
  "pt_HasByMultisigAddressCallHash T t a h = Ok (\<exists>p \<in> set (rows t). columns 1 p = [BytesValue a, BytesValue h])"
  using unique by (auto simp: pt_GetByMultisigAddressCallHash_def pt_HasByMultisigAddressCallHash_def on_unique_def on_index_def)

lemma found:
  assumes "rows_ok (rows t)" and "p \<in> set (rows t)"
  shows "pt_Get T t (Id p) = Ok p" "pt_GetByMultisigAddressCallHash T t (MultisigAddress p) (CallHash p) = Ok p"
  using rows_ok_find [OF assms] by (simp_all add: pt_Get_def by_call primary columns_def found_or_NotFound_def)

lemma not_found:
  assumes "\<forall>q \<in> set (rows t). Id q \<noteq> Id p \<and> \<not> same_call p q"
  shows "pt_Get T t (Id p) = Err NotFound" "pt_GetByMultisigAddressCallHash T t (MultisigAddress p) (CallHash p) = Err NotFound"
proof -
  have "List.find (\<lambda>q. columns 0 q = columns 0 p) (rows t) = None" "List.find (\<lambda>q. columns 1 q = columns 1 p) (rows t) = None"
    using assms by (auto simp: find_None_iff columns_def same_call_def)
  then show "pt_Get T t (Id p) = Err NotFound" "pt_GetByMultisigAddressCallHash T t (MultisigAddress p) (CallHash p) = Err NotFound"
    by (simp_all add: pt_Get_def by_call primary columns_def found_or_NotFound_def)
qed

lemma life_cycle:
  assumes "rows_ok (rows t)" and "room t" and "Id p = 0" and new: "\<forall>q \<in> set (rows t). \<not> same_call p q"
  shows "\<exists>t1 t2 i. pt_InsertReturningId T t p = (t1, Ok i) \<and> pt_Get T t1 i = Ok (p\<lparr>Id := i\<rparr>) \<and>
     pt_GetByMultisigAddressCallHash T t1 (MultisigAddress p) (CallHash p) = Ok (p\<lparr>Id := i\<rparr>) \<and>
     pt_Delete T t1 (p\<lparr>Id := i\<rparr>) = (t2, Ok ()) \<and> pt_Get T t2 i = Err NotFound \<and>
     pt_GetByMultisigAddressCallHash T t2 (MultisigAddress p) (CallHash p) = Err NotFound \<and> rows t2 = rows t"
proof -
  obtain t1 i where t1: "tbl_InsertReturningPKey T t p = (t1, Ok i)" "i \<notin> Id ` set (rows t)" "rows t1 = rows t @ [p\<lparr>Id := i\<rparr>]"
    using insert_new [OF assms(2-4)] by blast
  have r1: "rows_ok (rows t1)" unfolding t1(3) by (rule rows_ok_insert [OF assms(1) t1(2) new])
  obtain t2 where t2: "tbl_Delete T t1 (p\<lparr>Id := i\<rparr>) = (t2, Ok ())" "rows t2 = filter (\<lambda>q. Id q \<noteq> i) (rows t1)"
    using delete [of t1 "p\<lparr>Id := i\<rparr>"] by auto
  have "\<forall>q \<in> set (rows t). Id q \<noteq> i" using t1(2) by auto
  then have same: "rows t2 = rows t" by (simp add: t2(2) t1(3) filter_id_conv)
  have "\<forall>q \<in> set (rows t2). Id q \<noteq> Id (p\<lparr>Id := i\<rparr>) \<and> \<not> same_call (p\<lparr>Id := i\<rparr>) q"
    using new t1(2) by (auto simp: same same_call_def)
  from not_found [OF this] found [OF r1, of "p\<lparr>Id := i\<rparr>"] t1 t2(1) same
  show ?thesis by (simp add: pt_InsertReturningId_def pt_Delete_def)
qed

lemma by_key:
  assumes "key_id k < 3"
  shows "\<exists>ps. pt_List T t k [] = Ok ps \<and> mset ps = mset (filter (matches (key_id k) (key_values k)) (rows t))"
    "\<exists>t'. pt_DeleteBy T t k = (t', Ok ()) \<and> rows t' = filter (\<lambda>p. \<not> matches (key_id k) (key_values k) p) (rows t)"
  using indexes [OF assms] by (auto simp: pt_List_def pt_DeleteBy_def on_index_def)

end

section \<open>A table in memory\<close>

text \<open>The last key given out, and the rows.\<close>

type_synonym mem = "nat \<times> Proposal list"

definition mem_insert :: "mem \<Rightarrow> Proposal \<Rightarrow> mem \<times> uint64 res" where
  "mem_insert t p =
     (if Id p \<noteq> 0 then (t, Err (SdkErr ''AutoIncrementKeyAlreadySet''))
      else if \<exists>q \<in> set (snd t). same_call p q then (t, Err (SdkErr ''UniqueKeyViolation''))
      else let i = of_nat (Suc (fst t)) in ((Suc (fst t), snd t @ [p\<lparr>Id := i\<rparr>]), Ok i))"

definition mem_room :: "mem \<Rightarrow> bool" where
  "mem_room t \<longleftrightarrow> Suc (fst t) < 2 ^ 64 \<and> (\<forall>p \<in> set (snd t). unat (Id p) \<le> fst t)"

definition mem_index :: "uint32 \<Rightarrow> (mem, unit) orm_index" where
  "mem_index i = \<lparr>index_unique = (i < 2), index_Has = (\<lambda>t vs. Ok (\<exists>p \<in> set (snd t). columns i p = vs)),
     index_Get = (\<lambda>t vs. Ok (List.find (\<lambda>p. columns i p = vs) (snd t))),
     index_List = (\<lambda>t vs _. Ok (filter (matches i vs) (snd t))), index_ListRange = (\<lambda>t _ _ _. Ok (snd t)),
     index_DeleteBy = (\<lambda>t vs. ((fst t, filter (\<lambda>p. \<not> matches i vs p) (snd t)), Ok ())),
     index_DeleteRange = (\<lambda>t _ _. (t, Ok ()))\<rparr>"

definition mem_table :: "(mem, unit) orm_table" where
  "mem_table = \<lparr>tbl_Insert = (\<lambda>t p. case mem_insert t p of (t, r) \<Rightarrow> (t, bind_res r (\<lambda>_. Ok ()))),
     tbl_Update = (\<lambda>t p. ((fst t, map (\<lambda>q. if Id q = Id p then p else q) (snd t)), Ok ())),
     tbl_Save = (\<lambda>t p. ((fst t, map (\<lambda>q. if Id q = Id p then p else q) (snd t)), Ok ())),
     tbl_Delete = (\<lambda>t p. ((fst t, filter (\<lambda>q. Id q \<noteq> Id p) (snd t)), Ok ())),
     tbl_InsertReturningPKey = mem_insert, tbl_LastInsertedSequence = (\<lambda>t. Ok (of_nat (fst t))),
     tbl_PrimaryKey = mem_index 0, tbl_GetIndexByID = (\<lambda>i. if i < 3 then Some (mem_index i) else None)\<rparr>"

interpretation mem: orm mem_table snd mem_room
proof
  fix t :: mem and p q :: Proposal and vs :: "ivalue list" and i :: uint32
  show "index_Get (tbl_PrimaryKey mem_table) t vs = Ok (List.find (\<lambda>p. columns 0 p = vs) (snd t))"
    "index_Has (tbl_PrimaryKey mem_table) t vs = Ok (\<exists>p \<in> set (snd t). columns 0 p = vs)"
    by (simp_all add: mem_table_def mem_index_def)
  show "\<exists>x. tbl_GetIndexByID mem_table i = Some x \<and>
      (\<forall>t vs. \<exists>ps. index_List x t vs [] = Ok ps \<and> mset ps = mset (filter (matches i vs) (snd t))) \<and>
      (\<forall>t vs. \<exists>t'. index_DeleteBy x t vs = (t', Ok ()) \<and> snd t' = filter (\<lambda>p. \<not> matches i vs p) (snd t))" if "i < 3"
    using that by (simp add: mem_table_def mem_index_def)
  show "\<exists>x. tbl_GetIndexByID mem_table 1 = Some x \<and> index_unique x \<and>
      (\<forall>t vs. index_Get x t vs = Ok (List.find (\<lambda>p. columns 1 p = vs) (snd t)) \<and>
        index_Has x t vs = Ok (\<exists>p \<in> set (snd t). columns 1 p = vs))"
    by (simp add: mem_table_def mem_index_def)
  show "\<exists>t' i. tbl_InsertReturningPKey mem_table t p = (t', Ok i) \<and> i \<notin> Id ` set (snd t) \<and> snd t' = snd t @ [p\<lparr>Id := i\<rparr>]"
    if "mem_room t" "Id p = 0" "\<forall>q \<in> set (snd t). \<not> same_call p q"
  proof -
    have "unat (of_nat (Suc (fst t)) :: uint64) = Suc (fst t)"
      unfolding unat_of_nat using that(1) by (simp add: mem_room_def take_bit_nat_eq_self)
    then have "of_nat (Suc (fst t)) \<notin> Id ` set (snd t)" using that(1) by (force simp: mem_room_def)
    then show ?thesis using that(2,3) by (simp add: mem_table_def mem_insert_def Let_def)
  qed
  show "\<exists>t' e. tbl_InsertReturningPKey mem_table t p = (t', Err e) \<and> snd t' = snd t" if "q \<in> set (snd t)" "same_call p q"
    by (rule exI [of _ t]) (use that in \<open>auto simp: mem_table_def mem_insert_def\<close>)
  show "\<exists>t'. tbl_Delete mem_table t p = (t', Ok ()) \<and> snd t' = filter (\<lambda>q. Id q \<noteq> Id p) (snd t)"
    by (simp add: mem_table_def)
qed

section \<open>Properties\<close>

text \<open>A proposal that is inserted for a call without one is found under the id it was given and
  under its account and call; once deleted it is found under neither, and the other rows are as before.\<close>

theorem proposal_life_cycle:
  assumes "orm T rows room" and "rows_ok (rows t)" and "room t" and "Id p = 0" and "\<forall>q \<in> set (rows t). \<not> same_call p q"
  shows "\<exists>t1 t2 i. pt_InsertReturningId T t p = (t1, Ok i) \<and> pt_Get T t1 i = Ok (p\<lparr>Id := i\<rparr>) \<and>
     pt_GetByMultisigAddressCallHash T t1 (MultisigAddress p) (CallHash p) = Ok (p\<lparr>Id := i\<rparr>) \<and>
     pt_Delete T t1 (p\<lparr>Id := i\<rparr>) = (t2, Ok ()) \<and> pt_Get T t2 i = Err NotFound \<and>
     pt_GetByMultisigAddressCallHash T t2 (MultisigAddress p) (CallHash p) = Err NotFound \<and> rows t2 = rows t"
  using assms by (rule orm.life_cycle)

text \<open>The keys select what their names say: listing by a depositor gives exactly its proposals, and
  deleting by an account removes exactly the proposals of the account.\<close>

theorem keys_select_rows:
  assumes "orm T rows room"
  shows "\<exists>ps t'. pt_List T t (WithDepositor ProposalDepositorIndexKey d) [] = Ok ps \<and>
     set ps = {p \<in> set (rows t). Depositor p = d} \<and>
     pt_DeleteBy T t (WithMultisigAddress ProposalMultisigAddressCallHashIndexKey a) = (t', Ok ()) \<and>
     rows t' = filter (\<lambda>p. MultisigAddress p \<noteq> a) (rows t)"
proof -
  have "key_id (WithDepositor ProposalDepositorIndexKey d) < 3"
    "key_id (WithMultisigAddress ProposalMultisigAddressCallHashIndexKey a) < 3"
    by (simp_all add: WithDepositor_def ProposalDepositorIndexKey_def WithMultisigAddress_def
        ProposalMultisigAddressCallHashIndexKey_def)
  from orm.by_key(1) [OF assms this(1), of t] orm.by_key(2) [OF assms this(2), of t]
  obtain ps t' where k: "pt_List T t (WithDepositor ProposalDepositorIndexKey d) [] = Ok ps"
    "mset ps = mset (filter (matches 2 [BytesValue d]) (rows t))"
    "pt_DeleteBy T t (WithMultisigAddress ProposalMultisigAddressCallHashIndexKey a) = (t', Ok ())"
    "rows t' = filter (\<lambda>p. \<not> matches 1 [BytesValue a] p) (rows t)"
    by (auto simp: WithDepositor_def ProposalDepositorIndexKey_def WithMultisigAddress_def
        ProposalMultisigAddressCallHashIndexKey_def)
  have "set ps = {p \<in> set (rows t). Depositor p = d}"
    using mset_eq_setD [OF k(2)] by (simp add: matches_def columns_def)
  with k(1,3,4) show ?thesis by (simp add: matches_def columns_def)
qed

theorem proposal_life_cycle_witness:
  "\<exists>t1 i. pt_InsertReturningId mem_table (0, []) \<lparr>Id = 0, MultisigAddress = ''m'', CallHash = ''h'', Depositor = ''d'',
       Deposit = 10, Approvals = [''d'']\<rparr> = (t1, Ok i) \<and>
     pt_GetByMultisigAddressCallHash mem_table t1 ''m'' ''h'' =
       Ok \<lparr>Id = i, MultisigAddress = ''m'', CallHash = ''h'', Depositor = ''d'', Deposit = 10, Approvals = [''d'']\<rparr>"
  using proposal_life_cycle [OF mem.orm_axioms, of "(0, [])" "\<lparr>Id = 0, MultisigAddress = ''m'', CallHash = ''h'',
      Depositor = ''d'', Deposit = 10, Approvals = [''d'']\<rparr>"]
  by (auto simp: rows_ok_def mem_room_def)

end
