(* ===== verification/Multisig_Wiring.thy ===== *)
theory Multisig_Wiring
  imports Multisig
begin

text \<open>
  How the multisig module is put together: the constructor of its keeper
  (\<open>src/x/multisig/keeper/keeper.go\<close>) and the genesis methods of its module
  (\<open>src/x/multisig/module.go\<close>). Unlike the oracle's, this constructor stores all it is given.

  Parameters: \<open>ormdb.NewModuleDB\<close>, the table it finds for the generated state store,
  the schema builder and the address of a module account are fields of \<open>ms_libs\<close>; the JSON
  codec is the pair \<open>marshal\<close>, \<open>unmarshal\<close> over any type \<open>'j\<close> of raw messages.
\<close>

section \<open>NewKeeper\<close>

record ('c, 'a, 'r, 'o, 'b) ms_Keeper =
  mk_cdc :: 'c
  mk_ac :: 'a
  mk_router :: 'r
  mk_Schema :: "(bytes \<times> string) list"
  mk_OrmDB :: 'o
  mk_authority :: string
  mk_BankKeeper :: 'b

record ('db, 'o) ms_libs =
  ormdb_NewModuleDB :: "'db res"
  db_GetTable :: "'db \<Rightarrow> 'o option"
  ms_Build :: "(bytes \<times> string) list \<Rightarrow> unit res"
  ms_NewModuleAddress :: "string \<Rightarrow> string"

definition ParamsKey :: bytes where "ParamsKey = [CHR 0x00]"
definition AccountsKey :: bytes where "AccountsKey = [CHR 0x01]"

text \<open>\<open>NewProposalTable\<close> and \<open>NewStateStore\<close> of \<open>state.cosmos_orm.go\<close>.\<close>

definition NewProposalTable :: "('db \<Rightarrow> 'o option) \<Rightarrow> 'db \<Rightarrow> 'o res" where
  "NewProposalTable getTable db =
     (case getTable db of None \<Rightarrow> Err (SdkErr ''ormerrors.TableNotFound'') | Some table \<Rightarrow> Ok table)"

definition NewStateStore :: "('db \<Rightarrow> 'o option) \<Rightarrow> 'db \<Rightarrow> 'o res" where
  "NewStateStore getTable db = bind_res (NewProposalTable getTable db) (\<lambda>proposalTable. Ok proposalTable)"

text \<open>\<open>if err != nil { panic(err) }\<close>.\<close>

definition no_err :: "'x res \<Rightarrow> 'x res" where
  "no_err r = (case r of Ok x \<Rightarrow> Ok x | _ \<Rightarrow> Panic)"

definition ms_collections :: "(bytes \<times> string) list" where
  "ms_collections = [(ParamsKey, ''params''), (AccountsKey, ''multisig_account_mapping'')]"

definition ms_NewKeeper ::
  "('db, 'o) ms_libs \<Rightarrow> 'c \<Rightarrow> 'a \<Rightarrow> 'r \<Rightarrow> string \<Rightarrow> 'b \<Rightarrow> ('c, 'a, 'r, 'o, 'b) ms_Keeper res" where
  "ms_NewKeeper L cdc ac router authority bankKeeper =
     (let auth = (if authority = [] then ms_NewModuleAddress L ''gov'' else authority) in
      bind_res (no_err (ormdb_NewModuleDB L)) (\<lambda>db.
      bind_res (no_err (NewStateStore (db_GetTable L) db)) (\<lambda>store.
      bind_res (no_err (ms_Build L ms_collections)) (\<lambda>_.
        Ok \<lparr>mk_cdc = cdc, mk_ac = ac, mk_router = router, mk_Schema = ms_collections, mk_OrmDB = store,
            mk_authority = auth, mk_BankKeeper = bankKeeper\<rparr>))))"

section \<open>module.go\<close>

definition ms_GenesisState_Validate :: "MultisigParams \<Rightarrow> unit res" where
  "ms_GenesisState_Validate gs = ms_Params_Validate gs"

definition ms_module_DefaultGenesis :: "(MultisigParams \<Rightarrow> 'j res) \<Rightarrow> 'j res" where
  "ms_module_DefaultGenesis marshal = no_err (marshal ms_DefaultParams)"

definition ms_module_ValidateGenesis :: "('j \<Rightarrow> MultisigParams res) \<Rightarrow> 'j \<Rightarrow> unit res" where
  "ms_module_ValidateGenesis unmarshal raw = bind_res (unmarshal raw) ms_Params_Validate"

text \<open>The parameters are stored before \<open>InitGenesis\<close> of the keeper validates and stores them.\<close>

definition ms_module_InitGenesis ::
  "('j \<Rightarrow> MultisigParams res) \<Rightarrow> 'j \<Rightarrow> ('t, 'b) ms_state \<Rightarrow> ('t, 'b) ms_state \<times> unit res" where
  "ms_module_InitGenesis unmarshal raw s =
     read_st s (no_err (unmarshal raw)) (\<lambda>data.
       let s = s\<lparr>ms_Params := Some data\<rparr> in
       (case ms_InitGenesis s data of (s, Ok _) \<Rightarrow> (s, Ok ()) | (s, _) \<Rightarrow> (s, Panic)))"

definition ms_module_ExportGenesis :: "(MultisigParams \<Rightarrow> 'j res) \<Rightarrow> ('t, 'b) ms_state \<Rightarrow> 'j res" where
  "ms_module_ExportGenesis marshal s = bind_res (ms_ExportGenesis s) (\<lambda>genState. no_err (marshal genState))"

section \<open>Properties\<close>

lemma no_err_eq_Ok [res_simps]: "no_err r = Ok x \<longleftrightarrow> r = Ok x"
  by (cases r) (auto simp: no_err_def)

text \<open>
  The constructor returns a keeper exactly when the database opens, holds the table of
  proposals and the schema builds, and panics otherwise; the keeper has every part it was
  given.
\<close>

theorem ms_NewKeeper_spec:
  "ms_NewKeeper L cdc ac router au bk = Ok k \<longleftrightarrow>
     (\<exists>db store. ormdb_NewModuleDB L = Ok db \<and> db_GetTable L db = Some store \<and> ms_Build L ms_collections = Ok () \<and>
        k = \<lparr>mk_cdc = cdc, mk_ac = ac, mk_router = router, mk_Schema = ms_collections, mk_OrmDB = store,
            mk_authority = (if au = [] then ms_NewModuleAddress L ''gov'' else au), mk_BankKeeper = bk\<rparr>)"
  "(\<exists>k. ms_NewKeeper L cdc ac router au bk = Ok k) \<or> ms_NewKeeper L cdc ac router au bk = Panic"
proof -
  show "ms_NewKeeper L cdc ac router au bk = Ok k \<longleftrightarrow>
     (\<exists>db store. ormdb_NewModuleDB L = Ok db \<and> db_GetTable L db = Some store \<and> ms_Build L ms_collections = Ok () \<and>
        k = \<lparr>mk_cdc = cdc, mk_ac = ac, mk_router = router, mk_Schema = ms_collections, mk_OrmDB = store,
            mk_authority = (if au = [] then ms_NewModuleAddress L ''gov'' else au), mk_BankKeeper = bk\<rparr>)"
    by (auto simp: ms_NewKeeper_def Let_def NewStateStore_def NewProposalTable_def res_simps split: option.splits)
  show "(\<exists>k. ms_NewKeeper L cdc ac router au bk = Ok k) \<or> ms_NewKeeper L cdc ac router au bk = Panic"
    by (cases "ormdb_NewModuleDB L"; cases "ms_Build L ms_collections")
      (auto simp: ms_NewKeeper_def Let_def NewStateStore_def NewProposalTable_def no_err_def split: option.splits)
qed

text \<open>
  What the module exports it imports again: the parameters are restored and nothing else
  of the store is touched. The accounts and proposals are not part of the document.
\<close>

theorem ms_module_genesis_round_trip:
  assumes "\<forall>g m. marshal g = Ok m \<longrightarrow> unmarshal m = Ok g" and "ms_module_ExportGenesis marshal s = Ok m"
  shows "ms_module_ValidateGenesis unmarshal m = Ok () \<and>
     ms_module_InitGenesis unmarshal m t = (t\<lparr>ms_Params := ms_Params s\<rparr>, Ok ())"
proof -
  obtain p where p: "ms_Params s = Some p" "marshal p = Ok m"
    using assms(2) by (auto simp: ms_module_ExportGenesis_def ms_ExportGenesis_def res_simps)
  then have "unmarshal m = Ok p" using assms(1) by blast
  then show ?thesis
    by (simp add: ms_module_ValidateGenesis_def ms_module_InitGenesis_def ms_Params_Validate_def ms_InitGenesis_def p no_err_def)
qed

end
