(* ===== verification/Dec.thy ===== *)
theory Dec
  imports Prelude
begin

text \<open>
  The fixed-point decimals of \<open>cosmossdk.io/math\<close> (\<open>LegacyDec\<close>). A decimal is the integer
  that \<open>BigInt()\<close> returns, the value times \<open>10 ^ 18\<close>; its comparisons are those of the
  integers. The arithmetic is not part of the repository: the definitions that use it take
  it as an argument \<open>D\<close>, a record of its operations, where \<open>None\<close> is the panic on a result
  that needs too many bits or on a division by zero. \<open>dec_laws\<close> states what the package
  documents about the operations the oracle's arithmetic relies on.
\<close>

type_synonym dec = int

record dec_ops =
  dLimit :: int
  dAdd :: "dec \<Rightarrow> dec \<Rightarrow> dec option"
  dSub :: "dec \<Rightarrow> dec \<Rightarrow> dec option"
  dMul :: "dec \<Rightarrow> dec \<Rightarrow> dec option"
  dQuo :: "dec \<Rightarrow> dec \<Rightarrow> dec option"
  dMulInt64 :: "dec \<Rightarrow> int \<Rightarrow> dec option"
  dQuoInt64 :: "dec \<Rightarrow> int \<Rightarrow> dec option"
  dPower :: "dec \<Rightarrow> nat \<Rightarrow> dec option"
  dApproxSqrt :: "dec \<Rightarrow> dec res"
  dTruncateInt64 :: "dec \<Rightarrow> int option"

definition LegacyZeroDec :: dec where "LegacyZeroDec = 0"
definition LegacyOneDec :: dec where "LegacyOneDec = 10 ^ 18"

definition LegacyNewDec :: "int \<Rightarrow> dec" where "LegacyNewDec i = i * 10 ^ 18"

definition LegacyNewDecWithPrec :: "int \<Rightarrow> nat \<Rightarrow> dec" where
  "LegacyNewDecWithPrec i prec = i * 10 ^ (18 - prec)"

definition IsPositive :: "dec \<Rightarrow> bool" where "IsPositive d \<longleftrightarrow> d > 0"
definition IsNegative :: "dec \<Rightarrow> bool" where "IsNegative d \<longleftrightarrow> d < 0"
definition IsZero :: "dec \<Rightarrow> bool" where "IsZero d \<longleftrightarrow> d = 0"

lemmas dec_consts = LegacyZeroDec_def LegacyOneDec_def LegacyNewDec_def LegacyNewDecWithPrec_def
  IsPositive_def IsNegative_def IsZero_def

text \<open>
  Sums, differences and products with an integer are exact and panic from the limit on;
  the quotient by an integer and the integer part truncate towards zero; products and quotients of decimals
  are within one unit of the last place; powers and roots of a non-negative
  number are non-negative.
\<close>

definition dec_laws :: "dec_ops \<Rightarrow> bool" where
  "dec_laws D \<longleftrightarrow>
     10 ^ 60 \<le> dLimit D \<and>
     (\<forall>a b. dAdd D a b = (if \<bar>a + b\<bar> < dLimit D then Some (a + b) else None)) \<and>
     (\<forall>a b. dSub D a b = (if \<bar>a - b\<bar> < dLimit D then Some (a - b) else None)) \<and>
     (\<forall>a n. dMulInt64 D a n = (if \<bar>a * n\<bar> < dLimit D then Some (a * n) else None)) \<and>
     (\<forall>a n. dQuoInt64 D a n = (if n = 0 then None else Some (go_div a n))) \<and>
     (\<forall>a b r. dMul D a b = Some r \<longrightarrow> \<bar>r * 10 ^ 18 - a * b\<bar> \<le> 10 ^ 18) \<and>
     (\<forall>a b r. dQuo D a b = Some r \<longrightarrow> b \<noteq> 0 \<and> \<bar>r * b - a * 10 ^ 18\<bar> \<le> \<bar>b\<bar>) \<and>
     (\<forall>a b. \<bar>a * b\<bar> < dLimit D \<longrightarrow> dMul D a b \<noteq> None) \<and>
     (\<forall>a. dTruncateInt64 D a =
        (if in_i64 (go_div a (10 ^ 18)) then Some (go_div a (10 ^ 18)) else None)) \<and>
     (\<forall>a n r. 0 \<le> a \<longrightarrow> dPower D a n = Some r \<longrightarrow> 0 \<le> r) \<and>
     (\<forall>a r. 0 \<le> a \<longrightarrow> dApproxSqrt D a = Ok r \<longrightarrow> 0 \<le> r)"

lemma dec_laws_Add: "dec_laws D \<Longrightarrow> dAdd D a b = (if \<bar>a + b\<bar> < dLimit D then Some (a + b) else None)"
  and dec_laws_Sub: "dec_laws D \<Longrightarrow> dSub D a b = (if \<bar>a - b\<bar> < dLimit D then Some (a - b) else None)"
  and dec_laws_QuoInt64: "dec_laws D \<Longrightarrow> dQuoInt64 D a n = (if n = 0 then None else Some (go_div a n))"
  and dec_laws_MulInt64:
    "dec_laws D \<Longrightarrow> dMulInt64 D a n = (if \<bar>a * n\<bar> < dLimit D then Some (a * n) else None)"
  and dec_laws_TruncateInt64: "dec_laws D \<Longrightarrow> dTruncateInt64 D a =
        (if in_i64 (go_div a (10 ^ 18)) then Some (go_div a (10 ^ 18)) else None)"
  and dec_laws_limit: "dec_laws D \<Longrightarrow> 10 ^ 60 \<le> dLimit D"
  unfolding dec_laws_def by iprover+

lemma dec_laws_Power: "dec_laws D \<Longrightarrow> 0 \<le> a \<Longrightarrow> dPower D a k = Some r \<Longrightarrow> 0 \<le> r"
  unfolding dec_laws_def by iprover

lemma dec_laws_Sqrt: "dec_laws D \<Longrightarrow> 0 \<le> a \<Longrightarrow> dApproxSqrt D a = Ok r \<Longrightarrow> 0 \<le> r"
  unfolding dec_laws_def by iprover

section \<open>A concrete arithmetic\<close>

text \<open>Exact integer arithmetic with the rounding modes and the bit limit of the package,
  for evaluating the definitions on concrete inputs.\<close>

definition ref_limit :: int where "ref_limit = 2 ^ 315"

definition ref_check :: "int \<Rightarrow> int option" where
  "ref_check x = (if \<bar>x\<bar> < ref_limit then Some x else None)"

text \<open>Division by a positive number, rounded half to even.\<close>

definition round_half_even :: "int \<Rightarrow> int \<Rightarrow> int" where
  "round_half_even a b = (let q = a div b; r = a mod b in
     if 2 * r < b \<or> 2 * r = b \<and> even q then q else q + 1)"

fun isqrt_search :: "nat \<Rightarrow> int \<Rightarrow> int \<Rightarrow> int \<Rightarrow> int" where
  "isqrt_search 0 lo hi n = lo"
| "isqrt_search (Suc k) lo hi n =
     (let m = (lo + hi) div 2 in
      if m * m \<le> n then isqrt_search k m hi n else isqrt_search k lo m n)"

definition ref_dec :: dec_ops where
  "ref_dec = \<lparr>dLimit = ref_limit,
     dAdd = (\<lambda>a b. ref_check (a + b)),
     dSub = (\<lambda>a b. ref_check (a - b)),
     dMul = (\<lambda>a b. ref_check (sgn a * sgn b * round_half_even (\<bar>a\<bar> * \<bar>b\<bar>) (10 ^ 18))),
     dQuo = (\<lambda>a b. if b = 0 then None
                  else ref_check (sgn a * sgn b * round_half_even (\<bar>a\<bar> * 10 ^ 18) \<bar>b\<bar>)),
     dMulInt64 = (\<lambda>a n. ref_check (a * n)),
     dQuoInt64 = (\<lambda>a n. if n = 0 then None else Some (go_div a n)),
     dPower = (\<lambda>a n. ref_check (a ^ n div 10 ^ (18 * (n - 1)))),
     dApproxSqrt = (\<lambda>a. if a < 0 then Err (Errorf ''negative'')
                      else Ok (isqrt_search 400 0 (10 ^ 70) (a * 10 ^ 18))),
     dTruncateInt64 = (\<lambda>a. if in_i64 (go_div a (10 ^ 18)) then Some (go_div a (10 ^ 18)) else None)\<rparr>"

lemma round_half_even_near:
  assumes "0 < b"
  shows "\<bar>round_half_even a b * b - a\<bar> \<le> b"
proof -
  have a: "a = (a div b) * b + a mod b" and r: "0 \<le> a mod b" "a mod b < b"
    using assms by simp_all
  have "a div b * b - a = - (a mod b)" "(a div b + 1) * b - a = b - a mod b"
    using a by (simp_all add: algebra_simps)
  then show ?thesis
    using r by (auto simp: round_half_even_def Let_def)
qed

lemma signed_round_near:
  assumes "0 < b"
  shows "\<bar>sgn x * round_half_even \<bar>x\<bar> b * b - x\<bar> \<le> b"
proof -
  have "sgn x * round_half_even \<bar>x\<bar> b * b - x = sgn x * (round_half_even \<bar>x\<bar> b * b - \<bar>x\<bar>)"
    by (simp add: algebra_simps abs_sgn)
  then show ?thesis
    using round_half_even_near [OF assms, of "\<bar>x\<bar>"] assms by (auto simp: abs_mult sgn_if)
qed

lemma round_half_even_le:
  assumes "0 \<le> a" and "1 < b"
  shows "0 \<le> round_half_even a b \<and> round_half_even a b \<le> a"
proof -
  define q r where "q = a div b" and "r = a mod b"
  have a: "a = q * b + r" and r: "0 \<le> r" "r < b" and q: "0 \<le> q"
    using assms by (simp_all add: q_def r_def pos_imp_zdiv_nonneg_iff)
  have "q * 1 \<le> q * b"
    using q assms(2) by (intro mult_left_mono) auto
  then show ?thesis
    using a r q assms by (auto simp: round_half_even_def Let_def q_def [symmetric] r_def [symmetric])
qed

lemma isqrt_search_ge: "0 \<le> lo \<Longrightarrow> 0 \<le> hi \<Longrightarrow> 0 \<le> isqrt_search k lo hi n"
  by (induction k lo hi n rule: isqrt_search.induct) (auto simp: Let_def)

lemma ref_check_eq_Some: "ref_check x = Some y \<longleftrightarrow> y = x \<and> \<bar>x\<bar> < ref_limit"
  by (auto simp: ref_check_def)

lemma ref_Mul_near:
  assumes "dMul ref_dec a b = Some r"
  shows "\<bar>r * 10 ^ 18 - a * b\<bar> \<le> 10 ^ 18"
  using assms signed_round_near [of "10 ^ 18" "a * b"]
  by (simp add: ref_dec_def ref_check_eq_Some sgn_mult abs_mult)

lemma ref_Quo_near:
  assumes "dQuo ref_dec a b = Some r"
  shows "b \<noteq> 0 \<and> \<bar>r * b - a * 10 ^ 18\<bar> \<le> \<bar>b\<bar>"
proof -
  have b: "b \<noteq> 0" and r: "r = sgn a * sgn b * round_half_even (\<bar>a\<bar> * 10 ^ 18) \<bar>b\<bar>"
    using assms by (auto simp: ref_dec_def ref_check_eq_Some split: if_splits)
  have "sgn b * b = \<bar>b\<bar>"
    by (simp add: abs_sgn)
  then have "r * b = sgn a * round_half_even (\<bar>a\<bar> * 10 ^ 18) \<bar>b\<bar> * \<bar>b\<bar>"
    by (simp add: r algebra_simps)
  with signed_round_near [of "\<bar>b\<bar>" "a * 10 ^ 18"] b show ?thesis
    by (simp add: sgn_mult abs_mult)
qed

lemma ref_Mul_total:
  assumes "\<bar>a * b\<bar> < ref_limit"
  shows "dMul ref_dec a b \<noteq> None"
proof -
  have "\<bar>sgn a * sgn b * round_half_even (\<bar>a\<bar> * \<bar>b\<bar>) (10 ^ 18)\<bar> \<le> \<bar>a * b\<bar>"
    using round_half_even_le [of "\<bar>a\<bar> * \<bar>b\<bar>" "10 ^ 18"] by (auto simp: abs_mult sgn_if)
  then show ?thesis
    using assms by (simp add: ref_dec_def ref_check_def)
qed

lemma ref_Sqrt_ge: "0 \<le> a \<Longrightarrow> dApproxSqrt ref_dec a = Ok r \<Longrightarrow> 0 \<le> r"
  using isqrt_search_ge [of 0 "10 ^ 70" 400 "a * 10 ^ 18"] by (simp add: ref_dec_def del: isqrt_search.simps)

lemma ref_Power_ge: "0 \<le> a \<Longrightarrow> dPower ref_dec a n = Some r \<Longrightarrow> 0 \<le> r"
  by (auto simp: ref_dec_def ref_check_eq_Some pos_imp_zdiv_nonneg_iff)

lemma ref_dec_exact:
  "dAdd ref_dec a b = (if \<bar>a + b\<bar> < dLimit ref_dec then Some (a + b) else None)"
  "dSub ref_dec a b = (if \<bar>a - b\<bar> < dLimit ref_dec then Some (a - b) else None)"
  "dMulInt64 ref_dec a n = (if \<bar>a * n\<bar> < dLimit ref_dec then Some (a * n) else None)"
  "dQuoInt64 ref_dec a n = (if n = 0 then None else Some (go_div a n))"
  "dLimit ref_dec = ref_limit"
  "dTruncateInt64 ref_dec a =
     (if in_i64 (go_div a (10 ^ 18)) then Some (go_div a (10 ^ 18)) else None)"
  by (simp_all add: ref_dec_def ref_check_def)

lemma ref_dec_laws: "dec_laws ref_dec"
  unfolding dec_laws_def
proof (intro conjI allI)
  show "10 ^ 60 \<le> dLimit ref_dec"
    by (simp add: ref_dec_exact(5) ref_limit_def)
qed (use ref_Mul_near ref_Quo_near ref_Mul_total ref_Power_ge ref_Sqrt_ge ref_dec_exact in \<open>metis\<close>)+

end
