(* ===== verification/Oracle_Params.thy ===== *)
theory Oracle_Params
  imports Dec
begin

text \<open>
  The parameters of the oracle module (\<open>src/x/oracle/types\<close>): the denom, reward band,
  provider and threshold lists with their operations, the parameter record, its defaults,
  the validators of the single parameters and \<open>Params.Validate\<close>, and parameter update
  plans (\<open>plan.go\<close>).

  The validators take a value of dynamic type, as the \<open>interface{}\<close> arguments of the
  source; \<open>Y\<close> stands for the YAML text of a denom, by which \<open>ContainDenoms\<close> compares.
  The type name in the text of a type error is left out.
\<close>

section \<open>Errors\<close>

definition ErrInvalidExchangeRate :: error where "ErrInvalidExchangeRate = OracleErr 2"
definition ErrNoVotingPermission :: error where "ErrNoVotingPermission = OracleErr 5"
definition ErrInvalidHash :: error where "ErrInvalidHash = OracleErr 6"
definition ErrInvalidHashLength :: error where "ErrInvalidHashLength = OracleErr 7"
definition ErrVerificationFailed :: error where "ErrVerificationFailed = OracleErr 8"
definition ErrRevealPeriodMissMatch :: error where "ErrRevealPeriodMissMatch = OracleErr 9"
definition ErrInvalidSaltLength :: error where "ErrInvalidSaltLength = OracleErr 10"
definition ErrInvalidSaltFormat :: error where "ErrInvalidSaltFormat = OracleErr 11"
definition ErrNoAggregatePrevote :: error where "ErrNoAggregatePrevote = OracleErr 12"
definition ErrNoAggregateVote :: error where "ErrNoAggregateVote = OracleErr 13"
definition ErrUnknownDenom :: error where "ErrUnknownDenom = OracleErr 14"
definition ErrExistingPrevote :: error where "ErrExistingPrevote = OracleErr 16"
definition ErrBallotNotSorted :: error where "ErrBallotNotSorted = OracleErr 17"
definition ErrInvalidOraclePrice :: error where "ErrInvalidOraclePrice = OracleErr 18"
definition ErrNoHistoricPrice :: error where "ErrNoHistoricPrice = OracleErr 19"
definition ErrNoMedian :: error where "ErrNoMedian = OracleErr 20"
definition ErrNoMedianDeviation :: error where "ErrNoMedianDeviation = OracleErr 21"
definition ErrNoRewardBand :: error where "ErrNoRewardBand = OracleErr 22"
definition ErrNoValidatorRewardSet :: error where "ErrNoValidatorRewardSet = OracleErr 23"
definition ErrNoGovAuthority :: error where "ErrNoGovAuthority = OracleErr 24"
definition ErrInvalidRequest :: error where "ErrInvalidRequest = OracleErr 25"
definition ErrInvalidParamValue :: error where "ErrInvalidParamValue = OracleErr 26"
definition ErrEncodeInjVoteExt :: error where "ErrEncodeInjVoteExt = OracleErr 27"
definition ErrNonEqualInjVotesLen :: error where "ErrNonEqualInjVotesLen = OracleErr 28"
definition ErrNonEqualInjVotesRates :: error where "ErrNonEqualInjVotesRates = OracleErr 29"
definition ErrNoCommitInfo :: error where "ErrNoCommitInfo = OracleErr 30"
definition ErrInvalidWmaStrategy :: error where "ErrInvalidWmaStrategy = OracleErr 31"

section \<open>denom.go\<close>

record Denom =
  BaseDenom :: string
  SymbolDenom :: string
  Exponent :: uint32

type_synonym DenomList = "Denom list"

definition Denom_Equal :: "Denom \<Rightarrow> Denom \<Rightarrow> bool" where
  "Denom_Equal d d1 \<longleftrightarrow> BaseDenom d = BaseDenom d1 \<and> SymbolDenom d = SymbolDenom d1 \<and>
     Exponent d = Exponent d1"

fun DenomList_Contains :: "DenomList \<Rightarrow> string \<Rightarrow> bool" where
  "DenomList_Contains [] symbolDenom = False"
| "DenomList_Contains (d # dl) symbolDenom =
     (if EqualFold (SymbolDenom d) symbolDenom then True else DenomList_Contains dl symbolDenom)"

definition ContainDenoms :: "(Denom \<Rightarrow> string) \<Rightarrow> DenomList \<Rightarrow> DenomList \<Rightarrow> bool" where
  "ContainDenoms Y dl d = (let contains = map Y dl in list_all (\<lambda>denom. Y denom \<in> set contains) d)"

definition Normalize :: "DenomList \<Rightarrow> DenomList" where
  "Normalize dl = map (\<lambda>d. d\<lparr>SymbolDenom := ToUpper (SymbolDenom d)\<rparr>) dl"

section \<open>reward_band.go\<close>

record RewardBand =
  rb_SymbolDenom :: string
  rb_RewardBand :: dec

type_synonym RewardBandList = "RewardBand list"

definition RewardBand_Equal :: "RewardBand \<Rightarrow> RewardBand \<Rightarrow> bool" where
  "RewardBand_Equal rb rb2 =
     (if \<not> EqualFold (rb_SymbolDenom rb) (rb_SymbolDenom rb2) then False
      else if rb_RewardBand rb \<noteq> rb_RewardBand rb2 then False
      else True)"

fun GetBandFromDenom :: "RewardBandList \<Rightarrow> string \<Rightarrow> dec res" where
  "GetBandFromDenom [] denom = Err ErrNoRewardBand"
| "GetBandFromDenom (rb # rbl) denom =
     (if EqualFold denom (rb_SymbolDenom rb) then Ok (rb_RewardBand rb) else GetBandFromDenom rbl denom)"

section \<open>currency_pair_providers.go\<close>

record PairAddressProvider =
  pap_Address :: string
  pap_AddressProvider :: string

record CurrencyPairProviders =
  cpp_BaseDenom :: string
  cpp_QuoteDenom :: string
  cpp_PairAddress :: "PairAddressProvider list"
  cpp_Providers :: "string list"

type_synonym CurrencyPairProvidersList = "CurrencyPairProviders list"

definition CurrencyPairProviders_Equal :: "CurrencyPairProviders \<Rightarrow> CurrencyPairProviders \<Rightarrow> bool" where
  "CurrencyPairProviders_Equal cpp cpp2 =
     (if \<not> EqualFold (cpp_BaseDenom cpp) (cpp_BaseDenom cpp2) \<or>
         \<not> EqualFold (cpp_QuoteDenom cpp) (cpp_QuoteDenom cpp2) then False
      else if cpp_PairAddress cpp \<noteq> cpp_PairAddress cpp2 then False
      else cpp_Providers cpp = cpp_Providers cpp2)"

text \<open>The loop of the source deletes at the current index and steps back; \<open>del_loop P i xs\<close> is
  that loop from index \<open>i\<close>.\<close>

function del_loop :: "('a \<Rightarrow> bool) \<Rightarrow> nat \<Rightarrow> 'a list \<Rightarrow> 'a list" where
  "del_loop P i xs =
     (if i < length xs
      then if P (xs ! i) then del_loop P i (take i xs @ drop (i + 1) xs)
           else del_loop P (i + 1) xs
      else xs)"
  by pat_completeness auto
termination
  by (relation "measure (\<lambda>(P, i, xs). length xs - i)") auto

declare del_loop.simps [simp del]

definition CurrencyPairProvidersList_RemovePair ::
  "CurrencyPairProvidersList \<Rightarrow> CurrencyPairProviders \<Rightarrow> CurrencyPairProvidersList" where
  "CurrencyPairProvidersList_RemovePair cppl pair =
     del_loop (\<lambda>c. cpp_BaseDenom c = cpp_BaseDenom pair \<and> cpp_QuoteDenom c = cpp_QuoteDenom pair) 0 cppl"

section \<open>currency_deviation_thresholds.go\<close>

record CurrencyDeviationThreshold =
  cdt_BaseDenom :: string
  cdt_Threshold :: string

type_synonym CurrencyDeviationThresholdList = "CurrencyDeviationThreshold list"

definition CurrencyDeviationThreshold_Equal ::
  "CurrencyDeviationThreshold \<Rightarrow> CurrencyDeviationThreshold \<Rightarrow> bool" where
  "CurrencyDeviationThreshold_Equal cdt cdt2 \<longleftrightarrow>
     EqualFold (cdt_BaseDenom cdt) (cdt_BaseDenom cdt2) \<and>
     EqualFold (cdt_Threshold cdt) (cdt_Threshold cdt2)"

definition CurrencyDeviationThresholdList_RemovePair ::
  "CurrencyDeviationThresholdList \<Rightarrow> string \<Rightarrow> CurrencyDeviationThresholdList" where
  "CurrencyDeviationThresholdList_RemovePair cdtl currency = del_loop (\<lambda>c. cdt_BaseDenom c = currency) 0 cdtl"

section \<open>params.go: the record and its defaults\<close>

record Params =
  VotePeriod :: uint64
  VoteThreshold :: dec
  RewardBands :: RewardBandList
  RewardDistributionWindow :: uint64
  AcceptList :: DenomList
  MandatoryList :: DenomList
  SlashFraction :: dec
  SlashWindow :: uint64
  MinValidPerWindow :: dec
  HistoricStampPeriod :: uint64
  MedianStampPeriod :: uint64
  MaximumPriceStamps :: uint64
  MaximumMedianStamps :: uint64
  CurrencyPairProviders :: CurrencyPairProvidersList
  CurrencyDeviationThresholds :: CurrencyDeviationThresholdList
  UsdcIbcDenom :: string
  SlashingEnabled :: bool
  AveragingWindow :: uint64

definition oneDec :: dec where "oneDec = LegacyOneDec"
definition minVoteThreshold :: dec where "minVoteThreshold = LegacyNewDecWithPrec 33 2"

definition BlocksPerMinute :: uint64 where "BlocksPerMinute = 10"
definition BlocksPerHour :: uint64 where "BlocksPerHour = BlocksPerMinute * 60"
definition BlocksPerDay :: uint64 where "BlocksPerDay = BlocksPerHour * 24"
definition BlocksPerWeek :: uint64 where "BlocksPerWeek = BlocksPerDay * 7"
definition BlocksPerYear :: uint64 where "BlocksPerYear = BlocksPerDay * 365"

definition KeyVotePeriod :: string where "KeyVotePeriod = ''VotePeriod''"
definition KeyVoteThreshold :: string where "KeyVoteThreshold = ''VoteThreshold''"
definition KeyRewardBands :: string where "KeyRewardBands = ''RewardBands''"
definition KeyRewardDistributionWindow :: string where
  "KeyRewardDistributionWindow = ''RewardDistributionWindow''"
definition KeyAcceptList :: string where "KeyAcceptList = ''AcceptList''"
definition KeyMandatoryList :: string where "KeyMandatoryList = ''MandatoryList''"
definition KeySlashFraction :: string where "KeySlashFraction = ''SlashFraction''"
definition KeySlashWindow :: string where "KeySlashWindow = ''SlashWindow''"
definition KeyMinValidPerWindow :: string where "KeyMinValidPerWindow = ''MinValidPerWindow''"
definition KeyHistoricStampPeriod :: string where "KeyHistoricStampPeriod = ''HistoricStampPeriod''"
definition KeyMedianStampPeriod :: string where "KeyMedianStampPeriod = ''MedianStampPeriod''"
definition KeyMaximumPriceStamps :: string where "KeyMaximumPriceStamps = ''MaximumPriceStamps''"
definition KeyMaximumMedianStamps :: string where "KeyMaximumMedianStamps = ''MaximumMedianStamps''"
definition KeyCurrencyPairProviders :: string where
  "KeyCurrencyPairProviders = ''CurrencyPairProviders''"
definition KeyCurrencyDeviationThresholds :: string where
  "KeyCurrencyDeviationThresholds = ''CurrencyDeviationThresholds''"
definition KeyUsdcIbcDenom :: string where "KeyUsdcIbcDenom = ''UsdcIbcDenom''"
definition KeySlashingEnabled :: string where "KeySlashingEnabled = ''SlashingEnabled''"
definition KeyAveragingWindow :: string where "KeyAveragingWindow = ''KeyAveragingWindow''"

lemmas param_keys = KeyVotePeriod_def KeyVoteThreshold_def KeyRewardBands_def
  KeyRewardDistributionWindow_def KeyAcceptList_def KeyMandatoryList_def KeySlashFraction_def
  KeySlashWindow_def KeyMinValidPerWindow_def KeyHistoricStampPeriod_def KeyMedianStampPeriod_def
  KeyMaximumPriceStamps_def KeyMaximumMedianStamps_def KeyCurrencyPairProviders_def
  KeyCurrencyDeviationThresholds_def KeyUsdcIbcDenom_def KeySlashingEnabled_def KeyAveragingWindow_def

definition DefaultAcceptList :: DenomList where
  "DefaultAcceptList =
     [\<lparr>BaseDenom = ''udm'', SymbolDenom = ''DM'', Exponent = 9\<rparr>,
      \<lparr>BaseDenom = ''ibc/C4CFF46FD6DE35CA4CF4CE031E643C8FDC9BA4B99AE598E9B0ED98FE3A2319F9'',
       SymbolDenom = ''USDT'', Exponent = 18\<rparr>,
      \<lparr>BaseDenom = ''USDC'', SymbolDenom = ''USDC'', Exponent = 6\<rparr>]"

definition DefaultMandatoryList :: DenomList where
  "DefaultMandatoryList =
     [\<lparr>BaseDenom = ''udm'', SymbolDenom = ''DM'', Exponent = 9\<rparr>,
      \<lparr>BaseDenom = ''ibc/C4CFF46FD6DE35CA4CF4CE031E643C8FDC9BA4B99AE598E9B0ED98FE3A2319F9'',
       SymbolDenom = ''USDT'', Exponent = 18\<rparr>,
      \<lparr>BaseDenom = ''USDC'', SymbolDenom = ''USDC'', Exponent = 6\<rparr>]"

definition defaultRewardBand :: dec where "defaultRewardBand = LegacyNewDecWithPrec 2 2"

definition DefaultCurrencyPairProviders :: CurrencyPairProvidersList where
  "DefaultCurrencyPairProviders =
     [\<lparr>cpp_BaseDenom = ''USDT'', cpp_QuoteDenom = ''USD'', cpp_PairAddress = [], cpp_Providers = [''coinbase'']\<rparr>,
      \<lparr>cpp_BaseDenom = ''USDC'', cpp_QuoteDenom = ''USDT'', cpp_PairAddress = [], cpp_Providers = [''mexc'']\<rparr>,
      \<lparr>cpp_BaseDenom = ''DM'', cpp_QuoteDenom = ''USDT'', cpp_PairAddress = [], cpp_Providers = [''mexc'']\<rparr>,
      \<lparr>cpp_BaseDenom = ''DM'', cpp_QuoteDenom = ''USDC'', cpp_PairAddress = [], cpp_Providers = [''osmosis-icq'']\<rparr>]"

definition DefaultCurrencyDeviationThresholds :: CurrencyDeviationThresholdList where
  "DefaultCurrencyDeviationThresholds =
     [\<lparr>cdt_BaseDenom = ''DM'', cdt_Threshold = ''2''\<rparr>,
      \<lparr>cdt_BaseDenom = ''USDT'', cdt_Threshold = ''2''\<rparr>,
      \<lparr>cdt_BaseDenom = ''USDC'', cdt_Threshold = ''2''\<rparr>]"

definition DefaultRewardBands :: RewardBandList where
  "DefaultRewardBands =
     [\<lparr>rb_SymbolDenom = ''DM'', rb_RewardBand = defaultRewardBand\<rparr>,
      \<lparr>rb_SymbolDenom = ''USDT'', rb_RewardBand = defaultRewardBand\<rparr>,
      \<lparr>rb_SymbolDenom = ''USDC'', rb_RewardBand = defaultRewardBand\<rparr>]"

definition RewardBandList_AddDefault :: "RewardBandList \<Rightarrow> string \<Rightarrow> RewardBandList" where
  "RewardBandList_AddDefault rbl denom =
     rbl @ [\<lparr>rb_SymbolDenom = denom, rb_RewardBand = defaultRewardBand\<rparr>]"

definition RewardBandList_Add :: "RewardBandList \<Rightarrow> string \<Rightarrow> dec \<Rightarrow> RewardBandList" where
  "RewardBandList_Add rbl denom band = rbl @ [\<lparr>rb_SymbolDenom = denom, rb_RewardBand = band\<rparr>]"

definition DefaultParams :: Params where
  "DefaultParams =
     \<lparr>VotePeriod = 10,
      VoteThreshold = LegacyNewDecWithPrec 50 2,
      RewardBands = DefaultRewardBands,
      RewardDistributionWindow = BlocksPerYear,
      AcceptList = DefaultAcceptList,
      MandatoryList = DefaultMandatoryList,
      SlashFraction = LegacyNewDecWithPrec 1 4,
      SlashWindow = BlocksPerWeek,
      MinValidPerWindow = LegacyNewDecWithPrec 5 2,
      HistoricStampPeriod = BlocksPerMinute * 3,
      MedianStampPeriod = BlocksPerHour * 3,
      MaximumPriceStamps = 60,
      MaximumMedianStamps = 24,
      CurrencyPairProviders = DefaultCurrencyPairProviders,
      CurrencyDeviationThresholds = DefaultCurrencyDeviationThresholds,
      UsdcIbcDenom = ''ibc/F5FABF52B54E65064B57BF6DBD8E5FAD22CEE9F4B8A57ADBB20CCD0173AA72A4'',
      SlashingEnabled = False,
      AveragingWindow = 3\<rparr>"

section \<open>params.go: validation\<close>

datatype param_value =
    PUint64 uint64
  | PDec dec
  | PDenomList DenomList
  | PRewardBandList RewardBandList
  | PCurrencyPairProviders CurrencyPairProvidersList
  | PCurrencyDeviationThresholds CurrencyDeviationThresholdList
  | PString string
  | PBool bool

text \<open>The loops of the validators return the first error.\<close>

fun first_error :: "('a \<Rightarrow> unit res) \<Rightarrow> 'a list \<Rightarrow> unit res" where
  "first_error f [] = Ok ()"
| "first_error f (x # xs) = bind_res (f x) (\<lambda>_. first_error f xs)"

fun validateVotePeriod :: "param_value \<Rightarrow> unit res" where
  "validateVotePeriod (PUint64 v) =
     (if v = 0 then Err ErrInvalidParamValue else Ok ())"
| "validateVotePeriod _ = Err ErrInvalidParamValue"

fun validateVoteThreshold :: "dec_ops \<Rightarrow> param_value \<Rightarrow> unit res" where
  "validateVoteThreshold D (PDec v) =
     (if v \<le> minVoteThreshold \<or> v > oneDec then Err ErrInvalidParamValue
      else bind_res (must (dMulInt64 D v 100)) (\<lambda>m. bind_res (must (dTruncateInt64 D m)) (\<lambda>val.
        let v2 = LegacyNewDecWithPrec val 2 in
        if v2 \<noteq> v then Err ErrInvalidParamValue else Ok ())))"
| "validateVoteThreshold D _ = Err ErrInvalidParamValue"

fun validateRewardBand :: "param_value \<Rightarrow> unit res" where
  "validateRewardBand (PDec v) =
     (if IsNegative v then Err ErrInvalidParamValue
      else if v > LegacyOneDec then Err ErrInvalidParamValue else Ok ())"
| "validateRewardBand _ = Err ErrInvalidParamValue"

fun validateRewardDistributionWindow :: "param_value \<Rightarrow> unit res" where
  "validateRewardDistributionWindow (PUint64 v) =
     (if v = 0 then Err ErrInvalidParamValue else Ok ())"
| "validateRewardDistributionWindow _ = Err ErrInvalidParamValue"

fun validateDenomList :: "param_value \<Rightarrow> unit res" where
  "validateDenomList (PDenomList v) =
     first_error (\<lambda>d.
       if length (BaseDenom d) = 0 then Err ErrInvalidParamValue
       else if length (SymbolDenom d) = 0 then Err ErrInvalidParamValue
       else Ok ()) v"
| "validateDenomList _ = Err ErrInvalidParamValue"

fun validateRewardBands :: "param_value \<Rightarrow> unit res" where
  "validateRewardBands (PRewardBandList v) =
     first_error (\<lambda>d.
       bind_res (validateRewardBand (PDec (rb_RewardBand d))) (\<lambda>_.
         if length (rb_SymbolDenom d) = 0 then Err ErrInvalidParamValue else Ok ())) v"
| "validateRewardBands _ = Err ErrInvalidParamValue"

fun validateSlashFraction :: "param_value \<Rightarrow> unit res" where
  "validateSlashFraction (PDec v) =
     (if IsNegative v then Err ErrInvalidParamValue
      else if v > LegacyOneDec then Err ErrInvalidParamValue else Ok ())"
| "validateSlashFraction _ = Err ErrInvalidParamValue"

fun validateSlashWindow :: "param_value \<Rightarrow> unit res" where
  "validateSlashWindow (PUint64 v) =
     (if v = 0 then Err ErrInvalidParamValue else Ok ())"
| "validateSlashWindow _ = Err ErrInvalidParamValue"

fun validateMinValidPerWindow :: "param_value \<Rightarrow> unit res" where
  "validateMinValidPerWindow (PDec v) =
     (if IsNegative v then Err ErrInvalidParamValue
      else if v > LegacyOneDec then Err ErrInvalidParamValue else Ok ())"
| "validateMinValidPerWindow _ = Err ErrInvalidParamValue"

fun validateHistoricStampPeriod :: "param_value \<Rightarrow> unit res" where
  "validateHistoricStampPeriod (PUint64 v) =
     (if v < 1 then Err ErrInvalidParamValue else Ok ())"
| "validateHistoricStampPeriod _ = Err ErrInvalidParamValue"

fun validateMedianStampPeriod :: "param_value \<Rightarrow> unit res" where
  "validateMedianStampPeriod (PUint64 v) =
     (if v < 1 then Err ErrInvalidParamValue else Ok ())"
| "validateMedianStampPeriod _ = Err ErrInvalidParamValue"

fun validateMaximumPriceStamps :: "param_value \<Rightarrow> unit res" where
  "validateMaximumPriceStamps (PUint64 v) =
     (if v < 1 then Err ErrInvalidParamValue else Ok ())"
| "validateMaximumPriceStamps _ = Err ErrInvalidParamValue"

fun validateMaximumMedianStamps :: "param_value \<Rightarrow> unit res" where
  "validateMaximumMedianStamps (PUint64 v) =
     (if v < 1 then Err ErrInvalidParamValue else Ok ())"
| "validateMaximumMedianStamps _ = Err ErrInvalidParamValue"

fun validateCurrencyPairProviders :: "param_value \<Rightarrow> unit res" where
  "validateCurrencyPairProviders (PCurrencyPairProviders v) =
     first_error (\<lambda>c.
       if length (cpp_BaseDenom c) = 0 then Err ErrInvalidParamValue
       else if length (cpp_QuoteDenom c) = 0 then Err ErrInvalidParamValue
       else if length (cpp_Providers c) < 1 then Err ErrInvalidParamValue
       else Ok ()) v"
| "validateCurrencyPairProviders _ = Err ErrInvalidParamValue"

fun validateCurrencyDeviationThresholds :: "param_value \<Rightarrow> unit res" where
  "validateCurrencyDeviationThresholds (PCurrencyDeviationThresholds v) =
     first_error (\<lambda>c.
       if length (cdt_BaseDenom c) = 0 then Err ErrInvalidParamValue
       else if length (cdt_Threshold c) = 0 then Err ErrInvalidParamValue
       else Ok ()) v"
| "validateCurrencyDeviationThresholds _ = Err ErrInvalidParamValue"

fun validateString :: "param_value \<Rightarrow> unit res" where
  "validateString (PString v) = Ok ()"
| "validateString _ = Err (Errorf ''invalid parameter type string'')"

fun validateBool :: "param_value \<Rightarrow> unit res" where
  "validateBool (PBool v) = Ok ()"
| "validateBool _ = Err (Errorf ''invalid parameter type bool'')"

fun validateAveragingWindow :: "param_value \<Rightarrow> unit res" where
  "validateAveragingWindow (PUint64 v) =
     (if v = 0 then Err ErrInvalidParamValue else Ok ())"
| "validateAveragingWindow _ = Err ErrInvalidParamValue"

text \<open>The key, the value and the validator of every parameter, in the order of the source.\<close>

definition ParamSetPairs :: "dec_ops \<Rightarrow> Params \<Rightarrow> (string \<times> param_value \<times> (param_value \<Rightarrow> unit res)) list" where
  "ParamSetPairs D p =
     [(KeyVotePeriod, PUint64 (VotePeriod p), validateVotePeriod),
      (KeyVoteThreshold, PDec (VoteThreshold p), validateVoteThreshold D),
      (KeyRewardBands, PRewardBandList (RewardBands p), validateRewardBands),
      (KeyRewardDistributionWindow, PUint64 (RewardDistributionWindow p), validateRewardDistributionWindow),
      (KeyAcceptList, PDenomList (AcceptList p), validateDenomList),
      (KeyMandatoryList, PDenomList (MandatoryList p), validateDenomList),
      (KeySlashFraction, PDec (SlashFraction p), validateSlashFraction),
      (KeySlashWindow, PUint64 (SlashWindow p), validateSlashWindow),
      (KeyMinValidPerWindow, PDec (MinValidPerWindow p), validateMinValidPerWindow),
      (KeyHistoricStampPeriod, PUint64 (HistoricStampPeriod p), validateHistoricStampPeriod),
      (KeyMedianStampPeriod, PUint64 (MedianStampPeriod p), validateMedianStampPeriod),
      (KeyMaximumPriceStamps, PUint64 (MaximumPriceStamps p), validateMaximumPriceStamps),
      (KeyMaximumMedianStamps, PUint64 (MaximumMedianStamps p), validateMaximumMedianStamps),
      (KeyCurrencyPairProviders, PCurrencyPairProviders (CurrencyPairProviders p), validateCurrencyPairProviders),
      (KeyCurrencyDeviationThresholds, PCurrencyDeviationThresholds (CurrencyDeviationThresholds p),
       validateCurrencyDeviationThresholds),
      (KeyUsdcIbcDenom, PString (UsdcIbcDenom p), validateString),
      (KeySlashingEnabled, PBool (SlashingEnabled p), validateBool),
      (KeyAveragingWindow, PUint64 (AveragingWindow p), validateAveragingWindow)]"

text \<open>The modulo by a zero \<open>VotePeriod\<close> is not reached: the first check has returned.\<close>

definition Params_Validate :: "(Denom \<Rightarrow> string) \<Rightarrow> Params \<Rightarrow> unit res" where
  "Params_Validate Y p =
     (if VotePeriod p = 0 then Err ErrInvalidParamValue
      else if VoteThreshold p \<le> LegacyNewDecWithPrec 33 2 then Err ErrInvalidParamValue
      else if RewardDistributionWindow p < VotePeriod p then Err ErrInvalidParamValue
      else if SlashFraction p > LegacyOneDec \<or> IsNegative (SlashFraction p) then Err ErrInvalidParamValue
      else if SlashWindow p < VotePeriod p then Err ErrInvalidParamValue
      else if SlashWindow p mod VotePeriod p \<noteq> 0 then Err ErrInvalidParamValue
      else if MinValidPerWindow p > LegacyOneDec \<or> IsNegative (MinValidPerWindow p)
      then Err ErrInvalidParamValue
      else bind_res (validateDenomList (PDenomList (AcceptList p))) (\<lambda>_.
           bind_res (validateDenomList (PDenomList (MandatoryList p))) (\<lambda>_.
      if HistoricStampPeriod p > MedianStampPeriod p then Err ErrInvalidParamValue
      else if HistoricStampPeriod p mod VotePeriod p \<noteq> 0 \<or> MedianStampPeriod p mod VotePeriod p \<noteq> 0
      then Err ErrInvalidParamValue
      else bind_res (validateRewardBands (PRewardBandList (RewardBands p))) (\<lambda>_.
      if \<not> ContainDenoms Y (AcceptList p) (MandatoryList p) then Err ErrInvalidParamValue
      else validateString (PString (UsdcIbcDenom p))))))"

section \<open>plan.go\<close>

record ParamUpdatePlan =
  Keys :: "string list"
  Height :: int
  Changes :: Params

definition plan_key_check :: "dec_ops \<Rightarrow> Params \<Rightarrow> string \<Rightarrow> unit res" where
  "plan_key_check D c key =
     (if key = KeyVotePeriod then validateVotePeriod (PUint64 (VotePeriod c))
      else if key = KeyVoteThreshold then validateVoteThreshold D (PDec (VoteThreshold c))
      else if key = KeyRewardBands then validateRewardBands (PRewardBandList (RewardBands c))
      else if key = KeyRewardDistributionWindow
      then validateRewardDistributionWindow (PUint64 (RewardDistributionWindow c))
      else if key = KeyAcceptList then validateDenomList (PDenomList (AcceptList c))
      else if key = KeyMandatoryList then validateDenomList (PDenomList (MandatoryList c))
      else if key = KeySlashFraction then validateSlashFraction (PDec (SlashFraction c))
      else if key = KeySlashWindow then validateSlashWindow (PUint64 (SlashWindow c))
      else if key = KeyMinValidPerWindow then validateMinValidPerWindow (PDec (MinValidPerWindow c))
      else if key = KeyHistoricStampPeriod then validateHistoricStampPeriod (PUint64 (HistoricStampPeriod c))
      else if key = KeyMedianStampPeriod then validateMedianStampPeriod (PUint64 (MedianStampPeriod c))
      else if key = KeyMaximumPriceStamps then validateMaximumPriceStamps (PUint64 (MaximumPriceStamps c))
      else if key = KeyMaximumMedianStamps then validateMaximumMedianStamps (PUint64 (MaximumMedianStamps c))
      else if key = KeyCurrencyPairProviders
      then validateCurrencyPairProviders (PCurrencyPairProviders (CurrencyPairProviders c))
      else if key = KeyCurrencyDeviationThresholds
      then validateCurrencyDeviationThresholds (PCurrencyDeviationThresholds (CurrencyDeviationThresholds c))
      else if key = KeyUsdcIbcDenom then validateString (PString (UsdcIbcDenom c))
      else Err (Errorf ''not an existing oracle param key''))"

definition ParamUpdatePlan_ValidateBasic :: "dec_ops \<Rightarrow> ParamUpdatePlan \<Rightarrow> unit res" where
  "ParamUpdatePlan_ValidateBasic D p =
     (if Height p \<le> 0 then Err ErrInvalidRequest
      else first_error (plan_key_check D (Changes p)) (Keys p))"

definition ShouldExecute :: "int \<Rightarrow> ParamUpdatePlan \<Rightarrow> bool" where
  "ShouldExecute blockHeight p \<longleftrightarrow> Height p = blockHeight"

section \<open>Lemmas\<close>

lemma del_loop_eq: "i \<le> length xs \<Longrightarrow> del_loop P i xs = take i xs @ filter (\<lambda>x. \<not> P x) (drop i xs)"
proof (induction P i xs rule: del_loop.induct)
  case (1 P i xs)
  show ?case
  proof (cases "i < length xs")
    case True
    then have d: "drop i xs = xs ! i # drop (i + 1) xs" "take (i + 1) xs = take i xs @ [xs ! i]"
      by (simp_all add: Cons_nth_drop_Suc take_Suc_conv_app_nth)
    show ?thesis
      using True 1 d by (subst del_loop.simps) auto
  qed (use 1 in \<open>simp add: del_loop.simps\<close>)
qed

lemma CurrencyPairProvidersList_RemovePair_eq:
  "CurrencyPairProvidersList_RemovePair cppl pair =
     filter (\<lambda>c. \<not> (cpp_BaseDenom c = cpp_BaseDenom pair \<and> cpp_QuoteDenom c = cpp_QuoteDenom pair)) cppl"
  by (simp add: CurrencyPairProvidersList_RemovePair_def del_loop_eq)

lemma CurrencyDeviationThresholdList_RemovePair_eq:
  "CurrencyDeviationThresholdList_RemovePair cdtl c = filter (\<lambda>x. cdt_BaseDenom x \<noteq> c) cdtl"
  by (simp add: CurrencyDeviationThresholdList_RemovePair_def del_loop_eq)

lemma DenomList_Contains_iff:
  "DenomList_Contains dl s \<longleftrightarrow> (\<exists>d \<in> set dl. ToUpper (SymbolDenom d) = ToUpper s)"
  by (induction dl) (auto simp: EqualFold_def)

lemma Normalize_idem [simp]: "Normalize (Normalize dl) = Normalize dl"
  by (simp add: Normalize_def)

lemma DenomList_Contains_Normalize [simp]: "DenomList_Contains (Normalize dl) s = DenomList_Contains dl s"
  by (auto simp: DenomList_Contains_iff Normalize_def)

lemma ContainDenoms_iff: "ContainDenoms Y dl d \<longleftrightarrow> Y ` set d \<subseteq> Y ` set dl"
  by (auto simp: ContainDenoms_def list_all_iff Let_def)

lemma ContainDenoms_inj:
  "inj_on Y (set dl \<union> set d) \<Longrightarrow> ContainDenoms Y dl d \<longleftrightarrow> set d \<subseteq> set dl"
  by (simp add: ContainDenoms_iff inj_on_image_mem_iff subset_eq ball_Un)

lemma first_error_Ok [res_simps]: "first_error f xs = Ok () \<longleftrightarrow> (\<forall>x \<in> set xs. f x = Ok ())"
  by (induction xs) (auto simp: res_simps)

lemma if_Err_eq_Ok [res_simps]:
  "(if b then Err e else r) = Ok x \<longleftrightarrow> \<not> b \<and> r = Ok x"
  by simp

lemma validateDenomList_Ok [res_simps]:
  "validateDenomList (PDenomList v) = Ok () \<longleftrightarrow> (\<forall>d \<in> set v. BaseDenom d \<noteq> [] \<and> SymbolDenom d \<noteq> [])"
  by (simp add: first_error_Ok if_Err_eq_Ok)

lemma validateRewardBands_Ok [res_simps]:
  "validateRewardBands (PRewardBandList v) = Ok () \<longleftrightarrow>
     (\<forall>b \<in> set v. 0 \<le> rb_RewardBand b \<and> rb_RewardBand b \<le> LegacyOneDec \<and> rb_SymbolDenom b \<noteq> [])"
  by (simp add: first_error_Ok if_Err_eq_Ok bind_res_eq_Ok IsNegative_def linorder_not_less
        linorder_not_le)

text \<open>What validated parameters satisfy.\<close>

definition params_ok :: "(Denom \<Rightarrow> string) \<Rightarrow> Params \<Rightarrow> bool" where
  "params_ok Y p \<longleftrightarrow>
     VotePeriod p \<noteq> 0 \<and> LegacyNewDecWithPrec 33 2 < VoteThreshold p \<and>
     VotePeriod p \<le> RewardDistributionWindow p \<and>
     SlashFraction p \<le> LegacyOneDec \<and> 0 \<le> SlashFraction p \<and>
     VotePeriod p \<le> SlashWindow p \<and> SlashWindow p mod VotePeriod p = 0 \<and>
     MinValidPerWindow p \<le> LegacyOneDec \<and> 0 \<le> MinValidPerWindow p \<and>
     (\<forall>d \<in> set (AcceptList p). BaseDenom d \<noteq> [] \<and> SymbolDenom d \<noteq> []) \<and>
     (\<forall>d \<in> set (MandatoryList p). BaseDenom d \<noteq> [] \<and> SymbolDenom d \<noteq> []) \<and>
     HistoricStampPeriod p \<le> MedianStampPeriod p \<and>
     HistoricStampPeriod p mod VotePeriod p = 0 \<and> MedianStampPeriod p mod VotePeriod p = 0 \<and>
     (\<forall>b \<in> set (RewardBands p). 0 \<le> rb_RewardBand b \<and> rb_RewardBand b \<le> LegacyOneDec \<and>
        rb_SymbolDenom b \<noteq> []) \<and>
     Y ` set (MandatoryList p) \<subseteq> Y ` set (AcceptList p)"

lemma Params_Validate_Ok: "Params_Validate Y p = Ok () \<longleftrightarrow> params_ok Y p"
  unfolding Params_Validate_def params_ok_def if_Err_eq_Ok bind_res_eq_Ok
  by (simp del: validateDenomList.simps validateRewardBands.simps
      add: validateDenomList_Ok validateRewardBands_Ok ContainDenoms_iff IsNegative_def linorder_not_less
        linorder_not_le)

text \<open>The checks of \<open>Params.Validate\<close> only ever report \<open>ErrInvalidParamValue\<close>.\<close>

definition invalid_param :: "unit res \<Rightarrow> bool" where
  "invalid_param r \<longleftrightarrow> r = Ok () \<or> r = Err ErrInvalidParamValue"

lemma invalid_param_intros:
  "invalid_param (Ok ())" "invalid_param (Err ErrInvalidParamValue)"
  "invalid_param r \<Longrightarrow> invalid_param (f ()) \<Longrightarrow> invalid_param (bind_res r f)"
  "invalid_param r \<Longrightarrow> invalid_param r' \<Longrightarrow> invalid_param (if b then r else r')"
  by (auto simp: invalid_param_def)

lemma invalid_param_first_error: "(\<And>x. invalid_param (f x)) \<Longrightarrow> invalid_param (first_error f xs)"
  by (induction xs) (auto simp: invalid_param_intros)

lemma Params_Validate_total: "invalid_param (Params_Validate Y p)"
  unfolding Params_Validate_def validateDenomList.simps validateRewardBands.simps validateString.simps
  by (intro invalid_param_intros invalid_param_first_error) (simp_all add: invalid_param_intros)

text \<open>The vote threshold is a whole number of percent.\<close>

lemma validateVoteThreshold_iff:
  assumes "dec_laws D"
  shows "validateVoteThreshold D (PDec v) = Ok () \<longleftrightarrow> (\<exists>k. 34 \<le> k \<and> k \<le> 100 \<and> v = k * 10 ^ 16)"
proof
  assume ok: "validateVoteThreshold D (PDec v) = Ok ()"
  then have range: "33 * 10 ^ 16 < v" "v \<le> 10 ^ 18"
    by (auto simp: if_Err_eq_Ok minVoteThreshold_def oneDec_def dec_consts)
  have "v = go_div (v * 100) (10 ^ 18) * 10 ^ 16"
    using ok by (auto simp: if_Err_eq_Ok res_simps dec_laws_MulInt64 [OF assms] dec_laws_TruncateInt64 [OF assms]
        Let_def LegacyNewDecWithPrec_def split: if_splits)
  then obtain k where "v = k * 10 ^ 16" by blast
  with range show "\<exists>k. 34 \<le> k \<and> k \<le> 100 \<and> v = k * 10 ^ 16" by auto
next
  assume "\<exists>k. 34 \<le> k \<and> k \<le> 100 \<and> v = k * 10 ^ 16"
  then obtain k where k: "34 \<le> k" "k \<le> 100" "v = k * 10 ^ 16" by blast
  have "go_div (v * 100) (10 ^ 18) = k"
    using k by (simp add: go_div_nonneg)
  moreover have "\<bar>v * 100\<bar> < dLimit D"
    using dec_laws_limit [OF assms] k by simp
  ultimately show "validateVoteThreshold D (PDec v) = Ok ()"
    using k by (simp add: dec_laws_MulInt64 [OF assms] dec_laws_TruncateInt64 [OF assms] in_i64_def
        minVoteThreshold_def oneDec_def dec_consts)
qed

lemmas default_params = DefaultParams_def DefaultAcceptList_def DefaultMandatoryList_def
  DefaultRewardBands_def defaultRewardBand_def DefaultCurrencyPairProviders_def
  DefaultCurrencyDeviationThresholds_def BlocksPerYear_def BlocksPerWeek_def BlocksPerDay_def
  BlocksPerHour_def BlocksPerMinute_def

lemma DefaultParams_ok: "params_ok Y DefaultParams"
  by (simp add: params_ok_def default_params dec_consts)

section \<open>Properties\<close>


text \<open>
  The default parameters pass \<open>Params.Validate\<close> and the validator of every single
  parameter, so that setting them at genesis neither fails nor panics.
\<close>

theorem DefaultParams_valid:
  assumes "dec_laws D"
  shows "Params_Validate Y DefaultParams = Ok () \<and>
     list_all (\<lambda>(k, v, f). f v = Ok ()) (ParamSetPairs D DefaultParams)"
proof -
  have "validateVoteThreshold D (PDec (VoteThreshold DefaultParams)) = Ok ()"
    unfolding validateVoteThreshold_iff [OF assms] by (intro exI [of _ 50]) (simp add: DefaultParams_def dec_consts)
  then have "list_all (\<lambda>(k, v, f). f v = Ok ()) (ParamSetPairs D DefaultParams)"
    by (simp add: ParamSetPairs_def default_params dec_consts del: validateVoteThreshold.simps)
  then show ?thesis
    using DefaultParams_ok [of Y] by (simp add: Params_Validate_Ok)
qed

theorem DefaultParams_valid_witness:
  "Params_Validate SymbolDenom DefaultParams = Ok () \<and>
     list_all (\<lambda>(k, v, f). f v = Ok ()) (ParamSetPairs ref_dec DefaultParams)"
  by (rule DefaultParams_valid [OF ref_dec_laws])

text \<open>
  \<open>validateVoteThreshold\<close> accepts exactly the whole percentages from 34 to 100.
\<close>

theorem validateVoteThreshold_spec:
  assumes "dec_laws D"
  shows "validateVoteThreshold D (PDec v) = Ok () \<longleftrightarrow> (\<exists>k. 34 \<le> k \<and> k \<le> 100 \<and> v = k * 10 ^ 16)"
  by (rule validateVoteThreshold_iff [OF assms])

theorem validateVoteThreshold_spec_witness:
  "validateVoteThreshold ref_dec (PDec (50 * 10 ^ 16)) = Ok ()"
  unfolding validateVoteThreshold_spec [OF ref_dec_laws] by (intro exI [of _ 50]) simp

end
