(* ===== verification/Go_Sort.thy ===== *)
theory Go_Sort
  imports Prelude
begin

text \<open>
  Go's \<open>sort\<close> package as the chain uses it: \<open>sort.Slice\<close> and \<open>sort.Sort\<close> leave a
  permutation of the slice that is sorted by the given \<open>less\<close>, \<open>sort.IsSorted\<close> compares
  neighbours. The package fixes no order among elements that \<open>less\<close> cannot tell apart, so
  \<open>go_sort\<close> is one representative; \<open>go_less.go_sort_perm\<close> says when the choice
  cannot matter, namely when \<open>less\<close> separates the elements of the slice. Every comparison
  function of the repository is an interpretation of the locale \<open>go_less\<close>, the contract
  the package asks of its callers (a strict weak ordering).
\<close>

fun go_insert :: "('a \<Rightarrow> 'a \<Rightarrow> bool) \<Rightarrow> 'a \<Rightarrow> 'a list \<Rightarrow> 'a list" where
  "go_insert lt x [] = [x]"
| "go_insert lt x (y # ys) = (if lt y x then y # go_insert lt x ys else x # y # ys)"

definition go_sort :: "('a \<Rightarrow> 'a \<Rightarrow> bool) \<Rightarrow> 'a list \<Rightarrow> 'a list" where
  "go_sort lt xs = foldr (go_insert lt) xs []"

fun IsSorted :: "('a \<Rightarrow> 'a \<Rightarrow> bool) \<Rightarrow> 'a list \<Rightarrow> bool" where
  "IsSorted lt [] = True"
| "IsSorted lt [x] = True"
| "IsSorted lt (x # y # zs) = (\<not> lt y x \<and> IsSorted lt (y # zs))"

lemma mset_go_insert [simp]: "mset (go_insert lt x xs) = add_mset x (mset xs)"
  by (induction xs) auto

lemma go_sort_Nil [simp]: "go_sort lt [] = []"
  by (simp add: go_sort_def)

lemma go_sort_Cons [simp]: "go_sort lt (x # xs) = go_insert lt x (go_sort lt xs)"
  by (simp add: go_sort_def)

lemma mset_go_sort [simp]: "mset (go_sort lt xs) = mset xs"
  by (induction xs) simp_all

lemma set_go_sort [simp]: "set (go_sort lt xs) = set xs"
  using mset_go_sort [of lt xs] by (metis set_mset_mset)

lemma length_go_sort [simp]: "length (go_sort lt xs) = length xs"
  using mset_go_sort [of lt xs] by (metis size_mset)

lemma distinct_go_sort [simp]: "distinct (map f (go_sort lt xs)) = distinct (map f xs)"
  by (metis mset_eq_imp_distinct_iff mset_go_sort mset_map)

locale go_less =
  fixes lt :: "'a \<Rightarrow> 'a \<Rightarrow> bool"
  assumes irrefl: "\<not> lt x x"
    and trans: "lt x y \<Longrightarrow> lt y z \<Longrightarrow> lt x z"
    and cotrans: "lt x z \<Longrightarrow> lt x y \<or> lt y z"
begin

lemma asym: "lt x y \<Longrightarrow> \<not> lt y x"
  using irrefl trans by blast

lemma not_less_trans: "\<not> lt y x \<Longrightarrow> \<not> lt z y \<Longrightarrow> \<not> lt z x"
  using cotrans by blast

lemma IsSorted_iff: "IsSorted lt xs \<longleftrightarrow> sorted_wrt (\<lambda>x y. \<not> lt y x) xs"
  by (induction xs rule: induct_list012) (auto dest: not_less_trans)

lemma sorted_wrt_go_insert:
  "sorted_wrt (\<lambda>x y. \<not> lt y x) xs \<Longrightarrow> sorted_wrt (\<lambda>x y. \<not> lt y x) (go_insert lt x xs)"
proof (induction xs)
  case (Cons y ys)
  have set: "set (go_insert lt x ys) = insert x (set ys)"
    by (metis mset_go_insert set_mset_add_mset_insert set_mset_mset)
  show ?case
  proof (cases "lt y x")
    case True
    then show ?thesis using Cons set by (auto dest: asym)
  next
    case False
    then show ?thesis using Cons.prems by (auto dest: not_less_trans)
  qed
qed simp

lemma IsSorted_go_sort: "IsSorted lt (go_sort lt xs)"
  by (induction xs) (simp_all add: IsSorted_iff sorted_wrt_go_insert)

lemma go_insert_sorted: "IsSorted lt (x # xs) \<Longrightarrow> go_insert lt x xs = x # xs"
  by (cases xs) auto

lemma IsSorted_tail: "IsSorted lt (x # xs) \<Longrightarrow> IsSorted lt xs"
  by (cases xs) auto

lemma go_sort_id: "IsSorted lt xs \<Longrightarrow> go_sort lt xs = xs"
proof (induction xs)
  case (Cons x xs)
  then show ?case using IsSorted_tail [of x xs] by (simp add: go_insert_sorted)
qed simp

text \<open>Sorted lists with the same elements are equal when \<open>less\<close> separates them.\<close>

lemma sorted_perm_eq:
  assumes "IsSorted lt xs" and "IsSorted lt ys" and "mset xs = mset ys"
    and "\<And>x y. x \<in> set xs \<Longrightarrow> y \<in> set xs \<Longrightarrow> \<not> lt x y \<Longrightarrow> \<not> lt y x \<Longrightarrow> x = y"
  shows "xs = ys"
  using assms
proof (induction xs arbitrary: ys)
  case (Cons x xs)
  then obtain y ys' where ys: "ys = y # ys'"
    by (cases ys) auto
  have sets: "set (x # xs) = set (y # ys')"
    using Cons.prems(3) ys by (metis set_mset_mset)
  have "y \<in> set (x # xs)" "x \<in> set (y # ys')"
    using sets by auto
  then have "\<not> lt y x"
    using Cons.prems(1) by (auto simp: IsSorted_iff irrefl)
  moreover have "\<not> lt x y"
    using Cons.prems(2) ys \<open>x \<in> set (y # ys')\<close> by (auto simp: IsSorted_iff irrefl)
  ultimately have xy: "x = y"
    using Cons.prems(4) [of x y] sets by auto
  have "xs = ys'"
  proof (rule Cons.IH)
    show "IsSorted lt xs" "IsSorted lt ys'"
      using Cons.prems(1,2) ys IsSorted_tail by auto
    show "mset xs = mset ys'"
      using Cons.prems(3) ys xy by simp
  qed (use Cons.prems(4) in auto)
  with ys xy show ?case by simp
qed simp

lemma go_sort_perm:
  assumes "mset xs = mset ys"
    and "\<And>x y. x \<in> set xs \<Longrightarrow> y \<in> set xs \<Longrightarrow> \<not> lt x y \<Longrightarrow> \<not> lt y x \<Longrightarrow> x = y"
  shows "go_sort lt xs = go_sort lt ys"
  by (rule sorted_perm_eq) (use assms in \<open>auto simp: IsSorted_go_sort\<close>)

end

text \<open>Sorting by a key that is compared with a linear order is such a contract.\<close>

lemma go_less_key: "go_less (\<lambda>x y. f x < (f y :: 'k :: linorder))"
  by unfold_locales auto

lemma go_sort_key_perm:
  fixes f :: "'a \<Rightarrow> 'k :: linorder"
  assumes "mset xs = mset ys" and "distinct (map f xs)"
  shows "go_sort (\<lambda>x y. f x < f y) xs = go_sort (\<lambda>x y. f x < f y) ys"
proof (rule go_less.go_sort_perm [OF go_less_key assms(1)])
  fix x y
  assume "x \<in> set xs" "y \<in> set xs" "\<not> f x < f y" "\<not> f y < f x"
  then show "x = y"
    using assms(2) by (metis distinct_map inj_on_def linorder_neqE)
qed

end
