(* ===== verification/Oracle_Ballot.thy ===== *)
theory Oracle_Ballot
  imports Dec Go_Sort Oracle_Params "HOL-Library.Monad_Syntax"
begin

text \<open>
  Ballots and claims (\<open>src/x/oracle/types/ballot.go\<close>). Voting power is an \<open>int64\<close> whose sums
  wrap. \<open>V\<close> stands for \<open>ValAddress.String()\<close>, the bech32 text of an address. A Go map is
  given as the list of its entries in the order in which the loop happens to visit them;
  the results do not depend on that order.
\<close>

record VoteForTally =
  vt_Denom :: string
  ExchangeRate :: dec
  Voter :: bytes
  Power :: int

definition NewVoteForTally :: "dec \<Rightarrow> string \<Rightarrow> bytes \<Rightarrow> int \<Rightarrow> VoteForTally" where
  "NewVoteForTally rate denom voter pow =
     \<lparr>vt_Denom = denom, ExchangeRate = rate, Voter = voter, Power = pow\<rparr>"

type_synonym ExchangeRateBallot = "VoteForTally list"

definition ToMap :: "(bytes \<Rightarrow> string) \<Rightarrow> ExchangeRateBallot \<Rightarrow> (string \<rightharpoonup> dec)" where
  "ToMap V pb = fold (\<lambda>vote m. if IsPositive (ExchangeRate vote)
     then m(V (Voter vote) \<mapsto> ExchangeRate vote) else m) pb Map.empty"

definition ExchangeRateBallot_Power :: "ExchangeRateBallot \<Rightarrow> int" where
  "ExchangeRateBallot_Power pb = fold (\<lambda>vote totalPower. i64 (totalPower + Power vote)) pb 0"

definition ExchangeRateBallot_Less :: "VoteForTally \<Rightarrow> VoteForTally \<Rightarrow> bool" where
  "ExchangeRateBallot_Less v w =
     (if ExchangeRate v < ExchangeRate w then True
      else if ExchangeRate v = ExchangeRate w then Voter v < Voter w
      else False)"

fun pivot_loop :: "int \<Rightarrow> int \<Rightarrow> ExchangeRateBallot \<Rightarrow> dec option" where
  "pivot_loop totalPower pivot [] = None"
| "pivot_loop totalPower pivot (v # pb) =
     (let pivot = i64 (pivot + Power v) in
      if pivot \<ge> go_div totalPower 2 then Some (ExchangeRate v) else pivot_loop totalPower pivot pb)"

definition WeightedMedian :: "ExchangeRateBallot \<Rightarrow> dec res" where
  "WeightedMedian pb =
     (if \<not> IsSorted ExchangeRateBallot_Less pb then Err ErrBallotNotSorted
      else case (if length pb > 0 then pivot_loop (ExchangeRateBallot_Power pb) 0 pb else None) of
             Some r \<Rightarrow> Ok r
           | None \<Rightarrow> Ok LegacyZeroDec)"

text \<open>A vote whose arithmetic panics is recovered from and not counted.\<close>

fun deviation_loop :: "dec_ops \<Rightarrow> dec \<Rightarrow> dec \<Rightarrow> int \<Rightarrow> ExchangeRateBallot \<Rightarrow> dec \<times> int" where
  "deviation_loop D median s ballotLength [] = (s, ballotLength)"
| "deviation_loop D median s ballotLength (v # pb) =
     (case (do { deviation \<leftarrow> dSub D (ExchangeRate v) median;
                 square \<leftarrow> dMul D deviation deviation;
                 dAdd D s square }) of
        Some s' \<Rightarrow> deviation_loop D median s' ballotLength pb
      | None \<Rightarrow> deviation_loop D median s (ballotLength - 1) pb)"

definition StandardDeviation :: "dec_ops \<Rightarrow> ExchangeRateBallot \<Rightarrow> dec res" where
  "StandardDeviation D pb =
     (if length pb = 0 then Ok LegacyZeroDec
      else bind_res (WeightedMedian pb) (\<lambda>median.
        let (s, ballotLength) = deviation_loop D median LegacyZeroDec (int (length pb)) pb in
        bind_res (must (dQuoInt64 D s ballotLength)) (dApproxSqrt D)))"

record BallotDenom =
  bd_Ballot :: ExchangeRateBallot
  bd_Denom :: string

definition BallotMapToSlice :: "(string \<times> ExchangeRateBallot) list \<Rightarrow> BallotDenom list" where
  "BallotMapToSlice votes =
     go_sort (\<lambda>a b. bd_Denom a < bd_Denom b)
       (map (\<lambda>(denom, ballot). \<lparr>bd_Ballot = ballot, bd_Denom = denom\<rparr>) votes)"

record Claim =
  cl_Power :: int
  cl_Weight :: int
  cl_MandatoryWinCount :: int
  cl_Recipient :: bytes

definition NewClaim :: "int \<Rightarrow> int \<Rightarrow> int \<Rightarrow> bytes \<Rightarrow> Claim" where
  "NewClaim pow weight mandatoryWinCount recipient =
     \<lparr>cl_Power = pow, cl_Weight = weight, cl_MandatoryWinCount = mandatoryWinCount,
      cl_Recipient = recipient\<rparr>"

text \<open>The zero value of the elements of a fresh slice.\<close>

definition zero_claim :: Claim where
  "zero_claim = \<lparr>cl_Power = 0, cl_Weight = 0, cl_MandatoryWinCount = 0, cl_Recipient = []\<rparr>"

definition rewardSetToMap :: "string list \<Rightarrow> (string \<rightharpoonup> unit)" where
  "rewardSetToMap rewardSet = fold (\<lambda>v m. m(v \<mapsto> ())) rewardSet Map.empty"

text \<open>The second slice has the length of the reward set: entries that no claim fills stay
  zero, and an entry too many panics.\<close>

definition ClaimMapToSlices ::
  "(bytes \<Rightarrow> string) \<Rightarrow> (string \<times> Claim) list \<Rightarrow> string list \<Rightarrow> (Claim list \<times> Claim list) res" where
  "ClaimMapToSlices V claims rewardSet =
     (let rewardMap = rewardSetToMap rewardSet;
          c = map snd claims;
          hits = filter (\<lambda>claim. rewardMap (V (cl_Recipient claim)) \<noteq> None) c;
          lt = (\<lambda>a b. V (cl_Recipient a) < V (cl_Recipient b)) in
      if length hits > length rewardSet then Panic
      else Ok (go_sort lt c, go_sort lt (hits @ replicate (length rewardSet - length hits) zero_claim)))"

section \<open>Lemmas\<close>

lemma ExchangeRateBallot_Less_eq:
  "ExchangeRateBallot_Less = (\<lambda>v w. (ExchangeRate v, Voter v) < (ExchangeRate w, Voter w))"
  by (auto simp: ExchangeRateBallot_Less_def fun_eq_iff)

interpretation ballot_less: go_less ExchangeRateBallot_Less
  unfolding ExchangeRateBallot_Less_eq by (rule go_less_key)

lemma ballot_sorted_rates:
  "IsSorted ExchangeRateBallot_Less pb \<Longrightarrow> sorted (map ExchangeRate pb)"
  by (auto simp: ballot_less.IsSorted_iff sorted_map ExchangeRateBallot_Less_def not_less
      elim!: sorted_wrt_mono_rel [rotated] split: if_splits)

text \<open>A ballot whose votes have a power and whose total fits the width.\<close>

definition power_ok :: "ExchangeRateBallot \<Rightarrow> bool" where
  "power_ok pb \<longleftrightarrow> (\<forall>v \<in> set pb. 0 \<le> Power v) \<and> sum_list (map Power pb) < 2 ^ 63"

abbreviation total :: "ExchangeRateBallot \<Rightarrow> int" where
  "total pb \<equiv> sum_list (map Power pb)"

lemma power_sum_nonneg: "\<forall>v \<in> set pb. 0 \<le> Power v \<Longrightarrow> 0 \<le> total pb"
  by (induction pb) auto

lemma fold_power:
  assumes "\<forall>v \<in> set pb. 0 \<le> Power v" and "0 \<le> a" and "a + total pb < 2 ^ 63"
  shows "fold (\<lambda>vote t. i64 (t + Power vote)) pb a = a + total pb"
  using assms
proof (induction pb arbitrary: a)
  case (Cons v pb)
  have "0 \<le> total pb" using Cons.prems by (simp add: power_sum_nonneg)
  then have "i64 (a + Power v) = a + Power v"
    using Cons.prems by (intro i64_id) (auto simp: in_i64_def)
  with Cons show ?case by (auto simp: add.assoc)
qed simp

lemma ExchangeRateBallot_Power_eq: "power_ok pb \<Longrightarrow> ExchangeRateBallot_Power pb = total pb"
  by (simp add: ExchangeRateBallot_Power_def fold_power power_ok_def)

text \<open>The loop splits the ballot at the vote it returns.\<close>

lemma pivot_loop_split:
  assumes "\<forall>v \<in> set pb. 0 \<le> Power v" and "0 \<le> a" and "a + total pb < 2 ^ 63"
    and "0 \<le> T" and "T div 2 \<le> a + total pb" and "pb \<noteq> []"
  shows "\<exists>us v ws. pb = us @ v # ws \<and> pivot_loop T a pb = Some (ExchangeRate v) \<and>
     (us = [] \<or> a + total us < T div 2) \<and> T div 2 \<le> a + total us + Power v"
  using assms
proof (induction pb arbitrary: a)
  case (Cons v pb)
  have nn: "0 \<le> total pb" using Cons.prems by (simp add: power_sum_nonneg)
  then have i: "i64 (a + Power v) = a + Power v"
    using Cons.prems by (intro i64_id) (auto simp: in_i64_def)
  show ?case
  proof (cases "T div 2 \<le> a + Power v")
    case True
    then show ?thesis
      using i Cons.prems(4) by (intro exI [of _ "[]"] exI [of _ v] exI [of _ pb]) (simp add: go_div_nonneg)
  next
    case False
    then have "pb \<noteq> []" using Cons.prems(5) by auto
    then obtain us w ws where *: "pb = us @ w # ws" "pivot_loop T (a + Power v) pb = Some (ExchangeRate w)"
      "us = [] \<or> a + Power v + total us < T div 2" "T div 2 \<le> a + Power v + total us + Power w"
      using Cons.IH [of "a + Power v"] Cons.prems by (auto simp: add.assoc)
    then show ?thesis
      using False i Cons.prems(4)
      by (intro exI [of _ "v # us"] exI [of _ w] exI [of _ ws]) (auto simp: go_div_nonneg add.assoc)
  qed
qed simp

text \<open>The power that is strictly below and strictly above a rate.\<close>

definition power_where :: "(dec \<Rightarrow> bool) \<Rightarrow> ExchangeRateBallot \<Rightarrow> int" where
  "power_where P pb = total (filter (\<lambda>v. P (ExchangeRate v)) pb)"

lemma power_where_le:
  "\<forall>v \<in> set pb. 0 \<le> Power v \<Longrightarrow> power_where P pb \<le> total pb"
  by (induction pb) (auto simp: power_where_def)

lemma power_where_mono:
  "\<forall>v \<in> set pb. 0 \<le> Power v \<Longrightarrow> \<forall>v \<in> set pb. P (ExchangeRate v) \<longrightarrow> Q (ExchangeRate v) \<Longrightarrow>
   power_where P pb \<le> power_where Q pb"
  by (induction pb) (auto simp: power_where_def)

lemma power_where_compl: "power_where P pb + power_where (\<lambda>r. \<not> P r) pb = total pb"
  by (induction pb) (auto simp: power_where_def)

lemma power_where_append [simp]: "power_where P (us @ vs) = power_where P us + power_where P vs"
  by (simp add: power_where_def)

lemma power_where_none: "\<forall>v \<in> set pb. \<not> P (ExchangeRate v) \<Longrightarrow> power_where P pb = 0"
  by (simp add: power_where_def filter_False)

lemma WeightedMedian_halves:
  assumes sorted: "IsSorted ExchangeRateBallot_Less pb" and ok: "power_ok pb" and ne: "pb \<noteq> []"
  shows "\<exists>v \<in> set pb. WeightedMedian pb = Ok (ExchangeRate v) \<and>
     2 * power_where (\<lambda>r. r < ExchangeRate v) pb \<le> total pb \<and>
     2 * power_where (\<lambda>r. ExchangeRate v < r) pb \<le> total pb + 1"
proof -
  have nn: "\<forall>v \<in> set pb. 0 \<le> Power v" and T: "0 \<le> total pb" "total pb < 2 ^ 63"
    using ok power_sum_nonneg by (auto simp: power_ok_def)
  have "total pb div 2 \<le> total pb"
    using T by linarith
  then have "\<exists>us v ws. pb = us @ v # ws \<and> pivot_loop (total pb) 0 pb = Some (ExchangeRate v) \<and>
     (us = [] \<or> 0 + total us < total pb div 2) \<and> total pb div 2 \<le> 0 + total us + Power v"
    using T ne by (intro pivot_loop_split [OF nn]) simp_all
  then obtain us v ws where pb: "pb = us @ v # ws"
    and res: "pivot_loop (total pb) 0 pb = Some (ExchangeRate v)"
    and lo: "us = [] \<or> total us < total pb div 2" and hi: "total pb div 2 \<le> total us + Power v"
    unfolding add_0 by (elim exE conjE)
  have rates: "\<forall>u \<in> set us. ExchangeRate u \<le> ExchangeRate v" "\<forall>w \<in> set ws. ExchangeRate v \<le> ExchangeRate w"
    using ballot_sorted_rates [OF sorted] by (auto simp: pb sorted_append)
  have "power_where (\<lambda>r. r < ExchangeRate v) pb = power_where (\<lambda>r. r < ExchangeRate v) us"
    using rates(2) by (auto simp: pb power_where_def filter_empty_conv not_less)
  moreover have "power_where (\<lambda>r. r < ExchangeRate v) us \<le> total us"
    using nn by (intro power_where_le) (simp add: pb)
  moreover have "power_where (\<lambda>r. ExchangeRate v < r) pb = power_where (\<lambda>r. ExchangeRate v < r) ws"
    using rates(1) by (auto simp: pb power_where_def filter_empty_conv not_less)
  moreover have "power_where (\<lambda>r. ExchangeRate v < r) ws \<le> total ws"
    using nn by (intro power_where_le) (simp add: pb)
  moreover have "total pb = total us + Power v + total ws"
    by (simp add: pb)
  moreover have "2 * total us \<le> total pb" "total pb \<le> 2 * (total pb div 2) + 1"
    using lo T by auto
  ultimately have "2 * power_where (\<lambda>r. r < ExchangeRate v) pb \<le> total pb"
    "2 * power_where (\<lambda>r. ExchangeRate v < r) pb \<le> total pb + 1"
    using hi by linarith+
  moreover have "WeightedMedian pb = Ok (ExchangeRate v)"
    using res sorted ne ExchangeRateBallot_Power_eq [OF ok] by (simp add: WeightedMedian_def)
  ultimately show ?thesis
    by (intro bexI [of _ v]) (simp_all add: pb)
qed

lemma ballot_less_separates:
  "\<not> ExchangeRateBallot_Less v w \<Longrightarrow> \<not> ExchangeRateBallot_Less w v \<Longrightarrow>
   ExchangeRate v = ExchangeRate w \<and> Voter v = Voter w"
  by (auto simp: ExchangeRateBallot_Less_eq)

lemma BallotMapToSlice_perm:
  assumes "mset votes = mset votes'" and "distinct (map fst votes)"
  shows "BallotMapToSlice votes = BallotMapToSlice votes'"
  unfolding BallotMapToSlice_def
proof (rule go_sort_key_perm)
  show "mset (map (\<lambda>(denom, ballot). \<lparr>bd_Ballot = ballot, bd_Denom = denom\<rparr>) votes) =
      mset (map (\<lambda>(denom, ballot). \<lparr>bd_Ballot = ballot, bd_Denom = denom\<rparr>) votes')"
    using assms(1) by (metis mset_map)
  show "distinct (map bd_Denom (map (\<lambda>(denom, ballot). \<lparr>bd_Ballot = ballot, bd_Denom = denom\<rparr>) votes))"
    using assms(2) by (simp add: comp_def case_prod_beta')
qed

lemma rewardSetToMap_iff: "rewardSetToMap rewardSet s \<noteq> None \<longleftrightarrow> s \<in> set rewardSet"
proof -
  have "fold (\<lambda>v m. m(v \<mapsto> ())) rewardSet m s \<noteq> None \<longleftrightarrow> m s \<noteq> None \<or> s \<in> set rewardSet" for m
    by (induction rewardSet arbitrary: m) auto
  then show ?thesis by (simp add: rewardSetToMap_def)
qed

text \<open>Recipients are told apart by their text, and none is the text of the zero claim.\<close>

definition recipients_ok :: "(bytes \<Rightarrow> string) \<Rightarrow> Claim list \<Rightarrow> bool" where
  "recipients_ok V c \<longleftrightarrow> distinct (map (\<lambda>x. V (cl_Recipient x)) c) \<and>
     V [] \<notin> (\<lambda>x. V (cl_Recipient x)) ` set c"

lemma recipients_eq:
  "recipients_ok V c \<Longrightarrow> x \<in> set c \<Longrightarrow> y \<in> set c \<Longrightarrow> V (cl_Recipient x) = V (cl_Recipient y) \<Longrightarrow> x = y"
  by (auto simp: recipients_ok_def distinct_map inj_on_def)

lemma recipients_zero:
  "recipients_ok V c \<Longrightarrow> x \<in> set c \<Longrightarrow> V (cl_Recipient x) \<noteq> V (cl_Recipient zero_claim)"
  by (auto simp: recipients_ok_def zero_claim_def image_iff)

lemma ClaimMapToSlices_perm:
  assumes "mset claims = mset claims'" and "recipients_ok V (map snd claims)"
  shows "ClaimMapToSlices V claims rs = ClaimMapToSlices V claims' rs"
proof -
  let ?lt = "\<lambda>a b. V (cl_Recipient a) < V (cl_Recipient b)"
  let ?P = "\<lambda>x. rewardSetToMap rs (V (cl_Recipient x)) \<noteq> None"
  let ?c = "map snd claims" and ?c' = "map snd claims'"
  have ms: "mset ?c = mset ?c'" using assms(1) by (metis mset_map)
  then have msf: "mset (filter ?P ?c) = mset (filter ?P ?c')" by (metis mset_filter)
  then have len: "length (filter ?P ?c) = length (filter ?P ?c')" by (metis size_mset)
  have "go_sort ?lt ?c = go_sort ?lt ?c'"
    using ms assms(2) by (intro go_sort_key_perm) (simp_all add: recipients_ok_def)
  moreover have "go_sort ?lt (filter ?P ?c @ replicate k zero_claim) =
      go_sort ?lt (filter ?P ?c' @ replicate k zero_claim)" for k
  proof (rule go_less.go_sort_perm [OF go_less_key])
    fix x y
    assume "x \<in> set (filter ?P ?c @ replicate k zero_claim)" "y \<in> set (filter ?P ?c @ replicate k zero_claim)"
      "\<not> ?lt x y" "\<not> ?lt y x"
    then have "V (cl_Recipient x) = V (cl_Recipient y)" "x \<in> set ?c \<or> x = zero_claim" "y \<in> set ?c \<or> y = zero_claim"
      by (auto split: if_splits)
    then show "x = y"
      using recipients_eq [OF assms(2), of x y] recipients_zero [OF assms(2)] by metis
  qed (use msf in simp)
  ultimately show ?thesis
    using len by (simp add: ClaimMapToSlices_def Let_def)
qed

lemma WeightedMedian_interval:
  assumes "IsSorted ExchangeRateBallot_Less pb" and "power_ok pb"
    and "2 * power_where (\<lambda>r. \<not> (lo \<le> r \<and> r \<le> hi)) pb + 1 < total pb"
  shows "\<exists>m. WeightedMedian pb = Ok m \<and> lo \<le> m \<and> m \<le> hi"
proof -
  have nn: "\<forall>v \<in> set pb. 0 \<le> Power v" using assms(2) by (simp add: power_ok_def)
  have ne: "pb \<noteq> []" using assms(3) by (auto simp: power_where_def)
  obtain v :: VoteForTally where v: "WeightedMedian pb = Ok (ExchangeRate v)"
    and below: "2 * power_where (\<lambda>r. r < ExchangeRate v) pb \<le> total pb"
    and above: "2 * power_where (\<lambda>r. ExchangeRate v < r) pb \<le> total pb + 1"
    using WeightedMedian_halves [OF assms(1,2) ne] by (elim bexE conjE)
  have inside: "power_where (\<lambda>r. lo \<le> r \<and> r \<le> hi) pb
      + power_where (\<lambda>r. \<not> (lo \<le> r \<and> r \<le> hi)) pb = total pb"
    by (rule power_where_compl)
  have "lo \<le> ExchangeRate v"
  proof (rule ccontr)
    assume "\<not> lo \<le> ExchangeRate v"
    then have "power_where (\<lambda>r. lo \<le> r \<and> r \<le> hi) pb \<le> power_where (\<lambda>r. ExchangeRate v < r) pb"
      by (intro power_where_mono [OF nn]) auto
    then show False using inside above assms(3) by linarith
  qed
  moreover have "ExchangeRate v \<le> hi"
  proof (rule ccontr)
    assume "\<not> ExchangeRate v \<le> hi"
    then have "power_where (\<lambda>r. lo \<le> r \<and> r \<le> hi) pb \<le> power_where (\<lambda>r. r < ExchangeRate v) pb"
      by (intro power_where_mono [OF nn]) auto
    then show False using inside below assms(3) by linarith
  qed
  ultimately show ?thesis using v by blast
qed

section \<open>Properties\<close>


definition sample_ballot :: ExchangeRateBallot where
  "sample_ballot =
     [NewVoteForTally 3 ''ATOM'' ''a'' 10, NewVoteForTally 5 ''ATOM'' ''b'' 30,
      NewVoteForTally 900 ''ATOM'' ''c'' 25]"

lemma sample_ballot_ok:
  "IsSorted ExchangeRateBallot_Less sample_ballot" "power_ok sample_ballot" "sample_ballot \<noteq> []"
  by (simp_all add: sample_ballot_def NewVoteForTally_def ExchangeRateBallot_Less_def power_ok_def)




text \<open>
  C32. The slices of ballots and claims that every node computes from a Go map do not depend
  on the order in which the map is iterated.
\<close>

theorem map_iteration_order_irrelevant:
  assumes "mset votes = mset votes'" and "distinct (map fst votes)"
    and "mset claims = mset claims'" and "recipients_ok V (map snd claims)"
  shows "BallotMapToSlice votes = BallotMapToSlice votes' \<and>
     ClaimMapToSlices V claims rewardSet = ClaimMapToSlices V claims' rewardSet"
  using BallotMapToSlice_perm [OF assms(1,2)] ClaimMapToSlices_perm [OF assms(3,4)] by simp

theorem map_iteration_order_irrelevant_witness:
  "BallotMapToSlice [(''ATOM'', sample_ballot), (''DM'', [])] =
     BallotMapToSlice [(''DM'', []), (''ATOM'', sample_ballot)] \<and>
   ClaimMapToSlices (\<lambda>a. a) [(''x'', NewClaim 1 0 0 ''v1''), (''y'', NewClaim 2 0 0 ''v2'')] [''v1'', ''v2'', ''v3''] =
     ClaimMapToSlices (\<lambda>a. a) [(''y'', NewClaim 2 0 0 ''v2''), (''x'', NewClaim 1 0 0 ''v1'')] [''v1'', ''v2'', ''v3'']"
  by (rule map_iteration_order_irrelevant) (simp_all add: recipients_ok_def NewClaim_def)

end
