(* ===== verification/Oracle_Vote.thy ===== *)
theory Oracle_Vote
  imports Dec Go_Sort Oracle_Params
begin

text \<open>
  Prevotes and votes (\<open>vote.go\<close>), the hash that commits to a vote (\<open>hash.go\<close>) and price
  stamps (\<open>price_stamp.go\<close>) of \<open>src/x/oracle/types\<close>.

  Parameters: \<open>V\<close> is \<open>ValAddress.String()\<close>, \<open>tm\<close> the truncated hash of
  \<open>tmhash\<close>, \<open>fromStr\<close> is \<open>math.LegacyNewDecFromStr\<close>, and \<open>okDenom\<close> the SDK's
  check of a denom, on which \<open>sdk.NewDecCoinFromDec\<close> panics.
\<close>

record DecCoin =
  dc_Denom :: string
  dc_Amount :: dec

type_synonym DecCoins = "DecCoin list"

record AggregateExchangeRatePrevote =
  pv_Hash :: string
  pv_Voter :: string
  pv_SubmitBlock :: uint64

record AggregateExchangeRateVote =
  av_ExchangeRates :: DecCoins
  av_Voter :: string

section \<open>hash.go\<close>

text \<open>\<open>encoding/hex\<close>.\<close>

definition hex_digit :: "nat \<Rightarrow> char" where
  "hex_digit n = ''0123456789abcdef'' ! n"

definition EncodeToString :: "bytes \<Rightarrow> string" where
  "EncodeToString b = concat (map (\<lambda>c. [hex_digit (of_char c div 16), hex_digit (of_char c mod 16)]) b)"

definition fromHexChar :: "char \<Rightarrow> nat option" where
  "fromHexChar c = (let n = (of_char c :: nat) in
     if 48 \<le> n \<and> n \<le> 57 then Some (n - 48)
     else if 97 \<le> n \<and> n \<le> 102 then Some (n - 87)
     else if 65 \<le> n \<and> n \<le> 70 then Some (n - 55)
     else None)"

fun DecodeString :: "string \<Rightarrow> bytes res" where
  "DecodeString [] = Ok []"
| "DecodeString [c] = Err (Errorf ''encoding/hex'')"
| "DecodeString (c # d # s) =
     (case (fromHexChar c, fromHexChar d) of
        (Some a, Some b) \<Rightarrow> bind_res (DecodeString s) (\<lambda>r. Ok (char_of (16 * a + b) # r))
      | _ \<Rightarrow> Err (Errorf ''encoding/hex''))"

type_synonym AggregateVoteHash = bytes

definition GetAggregateVoteHash ::
  "(bytes \<Rightarrow> bytes) \<Rightarrow> (bytes \<Rightarrow> string) \<Rightarrow> string \<Rightarrow> string \<Rightarrow> bytes \<Rightarrow> AggregateVoteHash" where
  "GetAggregateVoteHash tm V salt exchangeRatesStr voter =
     tm (salt @ '':'' @ exchangeRatesStr @ '':'' @ V voter)"

definition AggregateVoteHashFromHexString :: "string \<Rightarrow> AggregateVoteHash res" where
  "AggregateVoteHashFromHexString s = DecodeString s"

definition AggregateVoteHash_String :: "AggregateVoteHash \<Rightarrow> string" where
  "AggregateVoteHash_String h = EncodeToString h"

definition AggregateVoteHash_Equal :: "AggregateVoteHash \<Rightarrow> AggregateVoteHash \<Rightarrow> bool" where
  "AggregateVoteHash_Equal h h2 \<longleftrightarrow> h = h2"

definition AggregateVoteHash_Empty :: "AggregateVoteHash \<Rightarrow> bool" where
  "AggregateVoteHash_Empty h \<longleftrightarrow> length h = 0"

section \<open>vote.go\<close>

definition NewAggregateExchangeRatePrevote ::
  "(bytes \<Rightarrow> string) \<Rightarrow> AggregateVoteHash \<Rightarrow> bytes \<Rightarrow> uint64 \<Rightarrow> AggregateExchangeRatePrevote" where
  "NewAggregateExchangeRatePrevote V hash voter submitBlock =
     \<lparr>pv_Hash = AggregateVoteHash_String hash, pv_Voter = V voter, pv_SubmitBlock = submitBlock\<rparr>"

definition NewAggregateExchangeRateVote ::
  "(bytes \<Rightarrow> string) \<Rightarrow> DecCoins \<Rightarrow> bytes \<Rightarrow> AggregateExchangeRateVote" where
  "NewAggregateExchangeRateVote V decCoins voter = \<lparr>av_ExchangeRates = decCoins, av_Voter = V voter\<rparr>"

text \<open>\<open>strings.Split\<close> at a one-byte separator.\<close>

fun Split :: "char \<Rightarrow> string \<Rightarrow> string list" where
  "Split sep [] = [[]]"
| "Split sep (c # s) =
     (if c = sep then [] # Split sep s
      else case Split sep s of f # fs \<Rightarrow> (c # f) # fs | [] \<Rightarrow> [[c]])"

fun parse_loop ::
  "(string \<Rightarrow> dec res) \<Rightarrow> (string \<Rightarrow> bool) \<Rightarrow> string list \<Rightarrow> DecCoins \<Rightarrow> string list \<Rightarrow> DecCoins res" where
  "parse_loop fromStr okDenom seen coins [] = Ok coins"
| "parse_loop fromStr okDenom seen coins (decCoinStr # rest) =
     (case Split (CHR '':'') decCoinStr of
        [denomStr, amountStr] \<Rightarrow>
          bind_res (fromStr amountStr) (\<lambda>d.
            if \<not> IsPositive d then Err ErrInvalidOraclePrice
            else let denom = ToUpper denomStr in
              if \<not> okDenom denom then Panic
              else if denom \<in> set seen then Err (Errorf (''duplicated denom '' @ denom))
              else parse_loop fromStr okDenom (denom # seen) (coins @ [\<lparr>dc_Denom = denom, dc_Amount = d\<rparr>]) rest)
      | _ \<Rightarrow> Err (Errorf (''invalid exchange rate '' @ decCoinStr)))"

definition ParseExchangeRateDecCoins ::
  "(string \<Rightarrow> dec res) \<Rightarrow> (string \<Rightarrow> bool) \<Rightarrow> string \<Rightarrow> DecCoins res" where
  "ParseExchangeRateDecCoins fromStr okDenom tuplesStr =
     (if length tuplesStr = 0 then Ok []
      else parse_loop fromStr okDenom [] [] (Split (CHR '','') tuplesStr))"

section \<open>price_stamp.go\<close>

record PriceStamp =
  ps_ExchangeRate :: DecCoin
  ps_BlockNum :: uint64

type_synonym PriceStamps = "PriceStamp list"

definition NewPriceStamp :: "dec \<Rightarrow> string \<Rightarrow> uint64 \<Rightarrow> PriceStamp" where
  "NewPriceStamp exchangeRate denom blockNum =
     \<lparr>ps_ExchangeRate = \<lparr>dc_Denom = denom, dc_Amount = exchangeRate\<rparr>, ps_BlockNum = blockNum\<rparr>"

definition Decs :: "PriceStamps \<Rightarrow> dec list" where
  "Decs p = map (\<lambda>s. dc_Amount (ps_ExchangeRate s)) p"

definition FilterByBlock :: "uint64 \<Rightarrow> PriceStamps \<Rightarrow> PriceStamps" where
  "FilterByBlock blockNum p = filter (\<lambda>s. ps_BlockNum s = blockNum) p"

definition FilterByDenom :: "string \<Rightarrow> PriceStamps \<Rightarrow> PriceStamps" where
  "FilterByDenom denom p = filter (\<lambda>s. dc_Denom (ps_ExchangeRate s) = denom) p"

definition PriceStamps_less :: "PriceStamp \<Rightarrow> PriceStamp \<Rightarrow> bool" where
  "PriceStamps_less a b =
     (if ps_BlockNum a = ps_BlockNum b then dc_Denom (ps_ExchangeRate a) < dc_Denom (ps_ExchangeRate b)
      else ps_BlockNum a < ps_BlockNum b)"

definition PriceStamps_Sort :: "PriceStamps \<Rightarrow> PriceStamps" where
  "PriceStamps_Sort p = go_sort PriceStamps_less p"

definition NewestBlockNum :: "PriceStamps \<Rightarrow> uint64" where
  "NewestBlockNum p = fold (\<lambda>price blockNum. if ps_BlockNum price > blockNum then ps_BlockNum price else blockNum) p 0"

definition NewestPrices :: "PriceStamps \<Rightarrow> PriceStamps" where
  "NewestPrices p = FilterByBlock (NewestBlockNum p) p"

section \<open>Lemmas\<close>

lemma fromHexChar_hex_digit: "n < 16 \<Longrightarrow> fromHexChar (hex_digit n) = Some n"
proof -
  assume "n < 16"
  then have "n \<in> set [0 ..< 16]" by simp
  moreover have "\<forall>n \<in> set [0 ..< 16]. fromHexChar (hex_digit n) = Some n"
    by (simp add: upt_rec fromHexChar_def hex_digit_def numeral_eq_Suc)
  ultimately show ?thesis by blast
qed

lemma DecodeString_EncodeToString [simp]: "DecodeString (EncodeToString b) = Ok b"
proof (induction b)
  case (Cons c b)
  have "of_char c < (256 :: nat)" by simp
  then have "of_char c div 16 < (16 :: nat)" by (simp add: less_mult_imp_div_less)
  then have "fromHexChar (hex_digit (of_char c div 16)) = Some (of_char c div 16)"
    "fromHexChar (hex_digit (of_char c mod 16)) = Some (of_char c mod 16)"
    by (simp_all add: fromHexChar_hex_digit)
  with Cons show ?case by (simp add: EncodeToString_def)
qed (simp add: EncodeToString_def)

lemma EncodeToString_inj [simp]: "EncodeToString a = EncodeToString b \<longleftrightarrow> a = b"
  by (metis DecodeString_EncodeToString res.inject(1))

lemma parse_loop_Ok:
  assumes "parse_loop fromStr okDenom seen coins strs = Ok r"
  shows "\<exists>new. r = coins @ new \<and> length new = length strs \<and>
     distinct (map dc_Denom new) \<and> set (map dc_Denom new) \<inter> set seen = {} \<and>
     (\<forall>c \<in> set new. 0 < dc_Amount c \<and> okDenom (dc_Denom c) \<and> ToUpper (dc_Denom c) = dc_Denom c)"
  using assms
proof (induction strs arbitrary: seen coins)
  case (Cons str strs)
  then obtain denomStr amountStr where split: "Split (CHR '':'') str = [denomStr, amountStr]"
    by (auto split: list.splits)
  define d where "d = ToUpper denomStr"
  obtain amount where amount: "fromStr amountStr = Ok amount" "0 < amount" "okDenom d" "d \<notin> set seen"
    and rest: "parse_loop fromStr okDenom (d # seen) (coins @ [\<lparr>dc_Denom = d, dc_Amount = amount\<rparr>]) strs = Ok r"
    using Cons.prems split by (auto simp: res_simps Let_def d_def IsPositive_def split: if_splits)
  from Cons.IH [OF rest] obtain new where "r = coins @ \<lparr>dc_Denom = d, dc_Amount = amount\<rparr> # new"
    "length new = length strs" "distinct (map dc_Denom new)" "set (map dc_Denom new) \<inter> set (d # seen) = {}"
    "\<forall>c \<in> set new. 0 < dc_Amount c \<and> okDenom (dc_Denom c) \<and> ToUpper (dc_Denom c) = dc_Denom c"
    by auto
  then show ?case
    using amount by (intro exI [of _ "\<lparr>dc_Denom = d, dc_Amount = amount\<rparr> # new"]) (auto simp: d_def)
qed simp

lemma PriceStamps_less_eq:
  "PriceStamps_less = (\<lambda>a b. (ps_BlockNum a, dc_Denom (ps_ExchangeRate a)) < (ps_BlockNum b, dc_Denom (ps_ExchangeRate b)))"
  by (auto simp: PriceStamps_less_def fun_eq_iff)

interpretation stamp_less: go_less PriceStamps_less
  unfolding PriceStamps_less_eq by (rule go_less_key)

lemma NewestBlockNum_eq: "p \<noteq> [] \<Longrightarrow> NewestBlockNum p = Max (ps_BlockNum ` set p)"
proof -
  have fold: "fold (\<lambda>price b. if ps_BlockNum price > b then ps_BlockNum price else b) p m
      = fold max (map ps_BlockNum p) m" for m :: uint64
    by (induction p arbitrary: m) (auto simp: max_def)
  assume "p \<noteq> []"
  then obtain x xs where p: "p = x # xs" by (cases p) auto
  have "fold max (map ps_BlockNum p) 0 = Max (set (ps_BlockNum x # map ps_BlockNum xs))"
    unfolding Max.set_eq_fold by (simp add: p max_def)
  then show ?thesis unfolding NewestBlockNum_def fold by (simp add: p)
qed

section \<open>Properties\<close>

text \<open>
  Decoding the hexadecimal text of a vote hash gives the hash back, so two hashes have
  the same text only if they are equal: comparing the stored text of a prevote with the
  text of the recomputed hash compares the hashes.
\<close>

theorem vote_hash_round_trip:
  "AggregateVoteHashFromHexString (AggregateVoteHash_String h) = Ok h \<and>
   (AggregateVoteHash_String h = AggregateVoteHash_String h' \<longleftrightarrow> AggregateVoteHash_Equal h h')"
  by (simp add: AggregateVoteHashFromHexString_def AggregateVoteHash_String_def AggregateVoteHash_Equal_def)

text \<open>
  The exchange rates a vote is parsed to have pairwise different denoms in upper case
  that the SDK accepts, and strictly positive amounts, one for every comma-separated entry.
\<close>

theorem ParseExchangeRateDecCoins_spec:
  assumes "ParseExchangeRateDecCoins fromStr okDenom str = Ok coins" and "str \<noteq> []"
  shows "length coins = length (Split (CHR '','') str) \<and> distinct (map dc_Denom coins) \<and>
     (\<forall>c \<in> set coins. 0 < dc_Amount c \<and> okDenom (dc_Denom c) \<and> ToUpper (dc_Denom c) = dc_Denom c)"
  using assms parse_loop_Ok [of fromStr okDenom "[]" "[]" "Split (CHR '','') str" coins]
  by (auto simp: ParseExchangeRateDecCoins_def)

text \<open>A parser for the examples: the decimal is a number in unary.\<close>

definition tally_dec :: "string \<Rightarrow> dec res" where
  "tally_dec s = (if set s \<subseteq> {CHR ''1''} then Ok (int (length s)) else Err (Errorf ''decimal''))"

theorem ParseExchangeRateDecCoins_spec_witness:
  "distinct (map dc_Denom [\<lparr>dc_Denom = ''ATOM'', dc_Amount = 2\<rparr>, \<lparr>dc_Denom = ''DM'', dc_Amount = 3\<rparr>]) \<and>
   ParseExchangeRateDecCoins tally_dec (\<lambda>d. d \<noteq> []) ''atom:11,dm:111''
     = Ok [\<lparr>dc_Denom = ''ATOM'', dc_Amount = 2\<rparr>, \<lparr>dc_Denom = ''DM'', dc_Amount = 3\<rparr>]"
proof -
  have "ParseExchangeRateDecCoins tally_dec (\<lambda>d. d \<noteq> []) ''atom:11,dm:111''
     = Ok [\<lparr>dc_Denom = ''ATOM'', dc_Amount = 2\<rparr>, \<lparr>dc_Denom = ''DM'', dc_Amount = 3\<rparr>]"
    by code_simp
  with ParseExchangeRateDecCoins_spec [OF this] show ?thesis by simp
qed

end
