(* ===== verification/Coins.thy ===== *)
theory Coins
  imports Oracle_Vote
begin

text \<open>
  Coins and lists of decimal coins of the SDK, with which rewards are computed. Their
  arithmetic is not part of the repository: it is the record \<open>coin_ops\<close>, where \<open>None\<close> is a
  panic, and \<open>coin_laws\<close> states what its documentation promises about the amounts. \<open>amt\<close>
  and \<open>camt\<close> are the amounts of a denom in a list.
\<close>

record Coin =
  c_Denom :: string
  c_Amount :: int

record coin_ops =
  DecCoins_Add :: "DecCoin list \<Rightarrow> DecCoin list \<Rightarrow> DecCoin list option"
  DecCoins_MulDec :: "DecCoin list \<Rightarrow> dec \<Rightarrow> DecCoin list option"
  DecCoins_TruncateDecimal :: "DecCoin list \<Rightarrow> (Coin list \<times> DecCoin list) option"
  NewDecCoinFromDec :: "string \<Rightarrow> dec \<Rightarrow> DecCoin option"
  NewDecCoinsFromCoins :: "Coin list \<Rightarrow> DecCoin list option"
  Coins_Add :: "Coin list \<Rightarrow> Coin list \<Rightarrow> Coin list option"

definition amt :: "DecCoin list \<Rightarrow> string \<Rightarrow> dec" where
  "amt cs d = sum_list (map dc_Amount (filter (\<lambda>c. dc_Denom c = d) cs))"

definition camt :: "Coin list \<Rightarrow> string \<Rightarrow> int" where
  "camt cs d = sum_list (map c_Amount (filter (\<lambda>c. c_Denom c = d) cs))"

text \<open>\<open>Coins.IsZero\<close>: no coin has an amount.\<close>

definition Coins_IsZero :: "Coin list \<Rightarrow> bool" where
  "Coins_IsZero cs \<longleftrightarrow> (\<forall>c \<in> set cs. c_Amount c = 0)"

text \<open>A list of decimal coins is well formed when it has one entry per denom.\<close>

definition coins_ok :: "DecCoin list \<Rightarrow> bool" where
  "coins_ok cs \<longleftrightarrow> distinct (map dc_Denom cs)"

text \<open>
  On well-formed lists, sums add the amounts per denom; a product with a decimal is within one unit of the last
  place; the integer part is not negative (a negative coin panics) and not above the
  amount; a coin carries the denom and amount it is made of.
\<close>

definition coin_laws :: "coin_ops \<Rightarrow> bool" where
  "coin_laws K \<longleftrightarrow>
     (\<forall>cs ds r d. coins_ok cs \<longrightarrow> coins_ok ds \<longrightarrow> DecCoins_Add K cs ds = Some r \<longrightarrow>
        coins_ok r \<and> amt r d = amt cs d + amt ds d) \<and>
     (\<forall>cs x r d. coins_ok cs \<longrightarrow> DecCoins_MulDec K cs x = Some r \<longrightarrow>
        coins_ok r \<and> \<bar>amt r d * 10 ^ 18 - amt cs d * x\<bar> \<le> 10 ^ 18) \<and>
     (\<forall>cs t c d. coins_ok cs \<longrightarrow> DecCoins_TruncateDecimal K cs = Some (t, c) \<longrightarrow> 0 \<le> camt t d \<and> camt t d * 10 ^ 18 \<le> amt cs d) \<and>
     (\<forall>d a c. NewDecCoinFromDec K d a = Some c \<longrightarrow> 0 \<le> a \<and> c = \<lparr>dc_Denom = d, dc_Amount = a\<rparr>) \<and>
     (\<forall>cs ds r d. Coins_Add K cs ds = Some r \<longrightarrow> camt r d = camt cs d + camt ds d)"

lemma coin_laws_Add: "coin_laws K \<Longrightarrow> coins_ok cs \<Longrightarrow> coins_ok ds \<Longrightarrow> DecCoins_Add K cs ds = Some r \<Longrightarrow>
    coins_ok r \<and> amt r d = amt cs d + amt ds d"
  and coin_laws_MulDec: "coin_laws K \<Longrightarrow> coins_ok cs \<Longrightarrow> DecCoins_MulDec K cs x = Some r \<Longrightarrow>
    coins_ok r \<and> \<bar>amt r d * 10 ^ 18 - amt cs d * x\<bar> \<le> 10 ^ 18"
  and coin_laws_Truncate: "coin_laws K \<Longrightarrow> coins_ok cs \<Longrightarrow> DecCoins_TruncateDecimal K cs = Some (t, c) \<Longrightarrow>
    0 \<le> camt t d \<and> camt t d * 10 ^ 18 \<le> amt cs d"
  and coin_laws_New: "coin_laws K \<Longrightarrow> NewDecCoinFromDec K d a = Some v \<Longrightarrow>
    0 \<le> a \<and> v = \<lparr>dc_Denom = d, dc_Amount = a\<rparr>"
  and coin_laws_Coins_Add: "coin_laws K \<Longrightarrow> Coins_Add K ks ls = Some q \<Longrightarrow> camt q d = camt ks d + camt ls d"
  unfolding coin_laws_def by iprover+

lemma amt_Nil [simp]: "amt [] d = 0"
  and amt_Cons [simp]: "amt (c # cs) d = (if dc_Denom c = d then dc_Amount c else 0) + amt cs d"
  and amt_append [simp]: "amt (cs @ ds) d = amt cs d + amt ds d"
  by (simp_all add: amt_def)

lemma camt_Nil [simp]: "camt [] d = 0"
  and camt_Cons [simp]: "camt (v # vs) d = (if c_Denom v = d then c_Amount v else 0) + camt vs d"
  and camt_append [simp]: "camt (vs @ ws) d = camt vs d + camt ws d"
  by (simp_all add: camt_def)

section \<open>A concrete arithmetic\<close>

text \<open>Lists rebuilt with one entry per denom.\<close>

definition denoms_of :: "DecCoin list \<Rightarrow> string list" where
  "denoms_of cs = remdups (map dc_Denom cs)"

definition ref_add :: "DecCoin list \<Rightarrow> DecCoin list \<Rightarrow> DecCoin list" where
  "ref_add cs ds = map (\<lambda>d. \<lparr>dc_Denom = d, dc_Amount = amt (cs @ ds) d\<rparr>) (denoms_of (cs @ ds))"

definition ref_scale :: "dec \<Rightarrow> DecCoin list \<Rightarrow> DecCoin list" where
  "ref_scale x cs = map (\<lambda>d. \<lparr>dc_Denom = d, dc_Amount = amt cs d * x div 10 ^ 18\<rparr>) (denoms_of cs)"

definition ref_truncate :: "DecCoin list \<Rightarrow> Coin list" where
  "ref_truncate cs = map (\<lambda>d. \<lparr>c_Denom = d, c_Amount = amt cs d div 10 ^ 18\<rparr>) (denoms_of cs)"

definition ref_coins :: coin_ops where
  "ref_coins = \<lparr>DecCoins_Add = (\<lambda>cs ds. Some (ref_add cs ds)), DecCoins_MulDec = (\<lambda>cs x. Some (ref_scale x cs)),
     DecCoins_TruncateDecimal = (\<lambda>cs. if list_all (\<lambda>d. 0 \<le> amt cs d) (denoms_of cs)
        then Some (ref_truncate cs, []) else None),
     NewDecCoinFromDec = (\<lambda>d a. if 0 \<le> a then Some \<lparr>dc_Denom = d, dc_Amount = a\<rparr> else None),
     NewDecCoinsFromCoins = (\<lambda>cs. Some (map (\<lambda>c. \<lparr>dc_Denom = c_Denom c, dc_Amount = c_Amount c * 10 ^ 18\<rparr>) cs)),
     Coins_Add = (\<lambda>cs ds. Some (cs @ ds))\<rparr>"

lemma amt_map_distinct:
  "distinct ds \<Longrightarrow> amt (map (\<lambda>d. \<lparr>dc_Denom = d, dc_Amount = f d\<rparr>) ds) d = (if d \<in> set ds then f d else 0)"
  by (induction ds) auto

lemma camt_map_distinct:
  "distinct ds \<Longrightarrow> camt (map (\<lambda>d. \<lparr>c_Denom = d, c_Amount = f d\<rparr>) ds) d = (if d \<in> set ds then f d else 0)"
  by (induction ds) auto

lemma set_denoms_of [simp]: "set (denoms_of cs) = dc_Denom ` set cs"
  and distinct_denoms_of [simp]: "distinct (denoms_of cs)"
  by (simp_all add: denoms_of_def)

lemma amt_absent: "d \<notin> dc_Denom ` set cs \<Longrightarrow> amt cs d = 0"
  by (induction cs) auto

lemma amt_rebuild:
  "f 0 = 0 \<Longrightarrow> amt (map (\<lambda>d. \<lparr>dc_Denom = d, dc_Amount = f (amt cs d)\<rparr>) (denoms_of cs)) d = f (amt cs d)"
  by (simp add: amt_map_distinct amt_absent)

lemma ref_lists_ok: "coins_ok (ref_add cs ds)" "coins_ok (ref_scale x cs)"
  by (simp_all add: coins_ok_def ref_add_def ref_scale_def comp_def)

lemma amt_ref_add: "amt (ref_add cs ds) d = amt cs d + amt ds d"
  using amt_rebuild [of "\<lambda>a. a" "cs @ ds" d] by (simp add: ref_add_def)

lemma div_near: "\<bar>a div 10 ^ 18 * 10 ^ 18 - a\<bar> \<le> (10 ^ 18 :: int)"
proof -
  have "a div 10 ^ 18 * 10 ^ 18 - a = - (a mod 10 ^ 18)"
    using minus_mod_eq_div_mult [of a "10 ^ 18"] by linarith
  moreover have "0 \<le> a mod 10 ^ 18" "a mod 10 ^ 18 < (10 ^ 18 :: int)"
    by simp_all
  ultimately show ?thesis by linarith
qed

lemma ref_scale_near: "\<bar>amt (ref_scale x cs) d * 10 ^ 18 - amt cs d * x\<bar> \<le> 10 ^ 18"
  using div_near [of "amt cs d * x"] amt_rebuild [of "\<lambda>a. a * x div 10 ^ 18" cs d] by (simp add: ref_scale_def)

lemma ref_truncate_bound:
  assumes "list_all (\<lambda>d. 0 \<le> amt cs d) (denoms_of cs)"
  shows "0 \<le> camt (ref_truncate cs) d \<and> camt (ref_truncate cs) d * 10 ^ 18 \<le> amt cs d"
proof -
  have "0 \<le> amt cs d"
    using assms amt_absent [of d cs] by (cases "d \<in> dc_Denom ` set cs") (auto simp: list_all_iff)
  moreover have "camt (ref_truncate cs) d = amt cs d div 10 ^ 18"
    using amt_absent [of d cs] by (auto simp: ref_truncate_def camt_map_distinct)
  moreover have "amt cs d div 10 ^ 18 * 10 ^ 18 \<le> amt cs d"
    using minus_mod_eq_div_mult [of "amt cs d" "10 ^ 18"] pos_mod_sign [of "10 ^ 18" "amt cs d"] by simp
  ultimately show ?thesis
    by (simp add: pos_imp_zdiv_nonneg_iff)
qed

lemma ref_coins_laws: "coin_laws ref_coins"
  unfolding coin_laws_def
  using ref_scale_near ref_truncate_bound
  by (auto simp: ref_coins_def ref_lists_ok amt_ref_add split: if_splits)

end
