(* ===== verification/Util.thy ===== *)
theory Util
  imports Prelude
begin

text \<open>
  The helpers of \<open>src/util\<close> that the modules use: byte slices (\<open>bytes.go\<close>), saturating
  integer conversions (\<open>int_convert.go\<close>), lists of strings (\<open>strings.go\<close>), maps
  (\<open>genmap\<close>) and the check of a governance proposal's text (\<open>checkers\<close>).
\<close>

section \<open>bytes.go\<close>

text \<open>\<open>copy(out[offset:], bz)\<close>: the slice expression panics past the end of \<open>out\<close>, and
  \<open>copy\<close> stops at the shorter of the two slices.\<close>

definition copy_at :: "bytes \<Rightarrow> nat \<Rightarrow> bytes \<Rightarrow> bytes res" where
  "copy_at out offset bz =
     (if offset > length out then Panic
      else Ok (take offset out @ take (length out - offset) bz @ drop (offset + length bz) out))"

fun concat_loop :: "bytes \<Rightarrow> nat \<Rightarrow> bytes list \<Rightarrow> bytes res" where
  "concat_loop out offset [] = Ok out"
| "concat_loop out offset (bz # bzs) =
     bind_res (copy_at out offset bz) (\<lambda>out. concat_loop out (offset + length bz) bzs)"

definition ConcatBytes :: "int \<Rightarrow> bytes list \<Rightarrow> bytes res" where
  "ConcatBytes margin bzs =
     (let l = int (sum_list (map length bzs)) in
      if l + margin < 0 then Panic
      else concat_loop (replicate (nat (l + margin)) (CHR 0x00)) 0 bzs)"

text \<open>\<open>binary.LittleEndian\<close>.\<close>

fun le_bytes :: "nat \<Rightarrow> nat \<Rightarrow> bytes" where
  "le_bytes 0 n = []"
| "le_bytes (Suc k) n = char_of (n mod 256) # le_bytes k (n div 256)"

fun le_nat :: "bytes \<Rightarrow> nat" where
  "le_nat [] = 0"
| "le_nat (b # bs) = of_char b + 256 * le_nat bs"

definition PutUint64 :: "uint64 \<Rightarrow> bytes" where
  "PutUint64 n = le_bytes 8 (unat n)"

definition Uint64 :: "bytes \<Rightarrow> uint64 res" where
  "Uint64 b = (if length b < 8 then Panic else Ok (of_nat (le_nat (take 8 b))))"

definition UintWithNullPrefix :: "uint64 \<Rightarrow> bytes" where
  "UintWithNullPrefix n = CHR 0x00 # PutUint64 n"

section \<open>int_convert.go\<close>

definition SafeIntToUint32 :: "int \<Rightarrow> uint32" where
  "SafeIntToUint32 i = (if i < 0 then 0 else if i > max_uint32 then of_int max_uint32 else of_int i)"

definition SafeIntToUint64 :: "int \<Rightarrow> uint64" where
  "SafeIntToUint64 i = (if i < 0 then 0 else of_int i)"

definition SafeInt64ToUint64 :: "int \<Rightarrow> uint64" where
  "SafeInt64ToUint64 i = (if i < 0 then 0 else of_int i)"

definition SafeUint64ToUint32 :: "uint64 \<Rightarrow> uint32" where
  "SafeUint64ToUint32 i = (if i > of_int max_uint32 then of_int max_uint32 else ucast i)"

definition SafeUint64ToInt64 :: "uint64 \<Rightarrow> int" where
  "SafeUint64ToInt64 i = (if i > of_int max_int64 then max_int64 else i64 (uint i))"

section \<open>strings.go\<close>

definition AppendUniqueString :: "string list \<Rightarrow> string \<Rightarrow> string list" where
  "AppendUniqueString keys key =
     (let duplicate = fold (\<lambda>v dup. if key = v then True else dup) keys False in
      if \<not> duplicate then keys @ [key] else keys)"

section \<open>genmap\<close>

fun Contains :: "'a \<Rightarrow> 'a list \<Rightarrow> bool" where
  "Contains x [] = False"
| "Contains x (y # ls) = (if y = x then True else Contains x ls)"

definition Pick :: "('k \<rightharpoonup> 'v) \<Rightarrow> 'k list \<Rightarrow> ('k \<rightharpoonup> 'v)" where
  "Pick m keys =
     fold (\<lambda>k picked. case m k of Some v \<Rightarrow> picked(k \<mapsto> v) | None \<Rightarrow> picked) keys Map.empty"

section \<open>checkers\<close>

text \<open>
  \<open>acc\<close> is \<open>sdk.AccAddressFromBech32\<close>, \<open>maxTitle\<close> and \<open>maxDescription\<close> are the limits
  of the gov module. \<open>strings.TrimSpace\<close> is modelled on ASCII text.
\<close>

definition is_space :: "char \<Rightarrow> bool" where
  "is_space c \<longleftrightarrow> c \<in> {CHR 0x09, CHR 0x0A, CHR 0x0B, CHR 0x0C, CHR 0x0D, CHR 0x20}"

definition TrimSpace :: "string \<Rightarrow> string" where
  "TrimSpace s = rev (dropWhile is_space (rev (dropWhile is_space s)))"

definition ValidateProposal ::
  "(string \<Rightarrow> bytes res) \<Rightarrow> nat \<Rightarrow> nat \<Rightarrow> string \<Rightarrow> string \<Rightarrow> string \<Rightarrow> unit res" where
  "ValidateProposal acc maxTitle maxDescription title description authority =
     bind_res (acc authority) (\<lambda>_.
       if length (TrimSpace title) = 0 then Err (Errorf ''proposal title cannot be blank'')
       else if length title > maxTitle then Err (Errorf ''proposal title is longer than max length'')
       else if length description = 0 then Err (Errorf ''proposal description cannot be blank'')
       else if length description > maxDescription
       then Err (Errorf ''proposal description is longer than max length'')
       else Ok ())"

text \<open>An address that does not parse is the nil address.\<close>

definition checkers_Signers :: "(string \<Rightarrow> bytes res) \<Rightarrow> string list \<Rightarrow> bytes list" where
  "checkers_Signers acc signers = map (\<lambda>s. case acc s of Ok a \<Rightarrow> a | _ \<Rightarrow> []) signers"

section \<open>Lemmas\<close>

lemma concat_loop_Ok:
  assumes "length out = offset + sum_list (map length bzs) + m"
  shows "concat_loop out offset bzs =
     Ok (take offset out @ concat bzs @ drop (offset + sum_list (map length bzs)) out)"
  using assms
proof (induction bzs arbitrary: out offset)
  case (Cons bz bzs)
  let ?out = "take offset out @ bz @ drop (offset + length bz) out"
  have "take (length out - offset) bz = bz"
    using Cons.prems by simp
  then have "concat_loop out offset (bz # bzs) = concat_loop ?out (offset + length bz) bzs"
    using Cons.prems by (simp add: copy_at_def)
  also have "\<dots> = Ok (take (offset + length bz) ?out @ concat bzs
      @ drop (offset + length bz + sum_list (map length bzs)) ?out)"
    using Cons.prems by (intro Cons.IH) simp
  also have "take (offset + length bz) ?out = take offset out @ bz"
    using Cons.prems by simp
  also have "drop (offset + length bz + sum_list (map length bzs)) ?out =
      drop (offset + length bz + sum_list (map length bzs)) out"
    using Cons.prems by (simp add: add_ac)
  finally show ?case by (simp add: add.assoc)
qed simp

lemma ConcatBytes_Ok:
  assumes "0 \<le> margin"
  shows "ConcatBytes margin bzs = Ok (concat bzs @ replicate (nat margin) (CHR 0x00))"
proof -
  have "nat (int (sum_list (map length bzs)) + margin) = sum_list (map length bzs) + nat margin"
    using assms by simp
  then show ?thesis
    using assms concat_loop_Ok
      [of "replicate (sum_list (map length bzs) + nat margin) (CHR 0x00)" 0 bzs "nat margin"]
    by (simp add: ConcatBytes_def Let_def)
qed

lemma length_le_bytes [simp]: "length (le_bytes k n) = k"
  by (induction k arbitrary: n) auto

lemma le_nat_le_bytes: "le_nat (le_bytes k n) = n mod 256 ^ k"
  by (induction k arbitrary: n) (auto simp: mod_mult2_eq)

lemma length_PutUint64 [simp]: "length (PutUint64 n) = 8"
  by (simp add: PutUint64_def)

lemma Uint64_PutUint64 [simp]: "Uint64 (PutUint64 n) = Ok n"
proof -
  have "unat n < 256 ^ 8"
    using unsigned_less [of n] by simp
  then show ?thesis
    by (simp add: Uint64_def PutUint64_def le_nat_le_bytes)
qed

lemma PutUint64_inj [simp]: "PutUint64 m = PutUint64 n \<longleftrightarrow> m = n"
  by (metis Uint64_PutUint64 res.inject(1))

lemma length_UintWithNullPrefix [simp]: "length (UintWithNullPrefix n) = 9"
  by (simp add: UintWithNullPrefix_def)

lemma UintWithNullPrefix_inj [simp]: "UintWithNullPrefix m = UintWithNullPrefix n \<longleftrightarrow> m = n"
  by (simp add: UintWithNullPrefix_def)

lemma Contains_iff [simp]: "Contains x ls \<longleftrightarrow> x \<in> set ls"
  by (induction ls) auto

lemma AppendUniqueString_eq:
  "AppendUniqueString keys key = (if key \<in> set keys then keys else keys @ [key])"
proof -
  have "fold (\<lambda>v dup. if key = v then True else dup) keys b \<longleftrightarrow> b \<or> key \<in> set keys" for b
    by (induction keys arbitrary: b) auto
  then show ?thesis by (simp add: AppendUniqueString_def)
qed

lemma Pick_eq: "Pick m keys = m |` set keys"
proof -
  have "fold (\<lambda>k picked. case m k of Some v \<Rightarrow> picked(k \<mapsto> v) | None \<Rightarrow> picked) keys p
      = p ++ (m |` set keys)" for p
    by (induction keys arbitrary: p)
      (auto simp: map_add_def restrict_map_def fun_eq_iff split: option.splits)
  then show ?thesis by (simp add: Pick_def)
qed

lemma SafeInt64ToUint64_id: "0 \<le> i \<Longrightarrow> i < 2 ^ 64 \<Longrightarrow> uint (SafeInt64ToUint64 i) = i"
  by (simp add: SafeInt64ToUint64_def uint_word_of_int_eq take_bit_int_eq_self)

lemma SafeUint64ToInt64_eq: "SafeUint64ToInt64 i = min (uint i) max_int64"
proof (cases "i > of_int max_int64")
  case True
  then show ?thesis
    by (simp add: SafeUint64ToInt64_def max_int64_def word_less_def)
next
  case False
  then have le: "uint i \<le> max_int64"
    by (simp add: max_int64_def word_less_def)
  then have "in_i64 (uint i)"
    using order_trans [OF _ uint_ge_0 [of i], of "- (2 ^ 63)"] by (simp add: in_i64_def max_int64_def)
  with le False show ?thesis
    by (simp add: SafeUint64ToInt64_def)
qed

lemma SafeUint64ToUint32_eq: "uint (SafeUint64ToUint32 i) = min (uint i) max_uint32"
proof (cases "i > of_int max_uint32")
  case True
  then show ?thesis
    by (simp add: SafeUint64ToUint32_def max_uint32_def word_less_def)
next
  case False
  then have "uint i \<le> max_uint32"
    by (simp add: max_uint32_def word_less_def)
  then show ?thesis
    using False by (simp add: SafeUint64ToUint32_def max_uint32_def unsigned_ucast_eq take_bit_int_eq_self)
qed

lemma SafeIntToUint32_eq: "uint (SafeIntToUint32 i) = max 0 (min i max_uint32)"
  by (auto simp: SafeIntToUint32_def max_uint32_def uint_word_of_int_eq take_bit_int_eq_self)

end
