(* ===== verification/Price_Feeder.thy ===== *)
theory Price_Feeder
  imports Prelude
begin

text \<open>
  The price feeder beside the node (\<open>src/pricefeeder\<close>): its configuration, read from the
  options of the application, and the structure the oracle keeper points to. The feeder
  itself is a third-party program; of a running one the state machine reads only the text
  of its exchange rates (\<open>GenerateExchangeRatesString(GetPrices())\<close>), so the pointer to it
  is that text, or \<open>None\<close> when it is nil. \<open>Start\<close> runs servers and a signal handler and
  has no model; \<open>SetOracle\<close> is the change it makes to the structure.

  Parameters: \<open>opts\<close> is \<open>AppOptions.Get\<close>, which finds a value of any type \<open>'v\<close> or nil;
  \<open>ToStringE\<close> and \<open>ToBoolE\<close> are the conversions of package \<open>cast\<close>, a value together with
  an error.
\<close>

section \<open>config.go\<close>

record AppConfig =
  ConfigPath :: string
  LogLevel :: string
  Enable :: bool

definition zero_AppConfig :: AppConfig where
  "zero_AppConfig = \<lparr>ConfigPath = [], LogLevel = [], Enable = False\<rparr>"

definition FlagConfigPath :: string where "FlagConfigPath = ''pricefeeder.config_path''"
definition FlagLogLevel :: string where "FlagLogLevel = ''pricefeeder.log_level''"
definition FlagEnablePriceFeeder :: string where "FlagEnablePriceFeeder = ''pricefeeder.enable''"

definition AppConfig_ValidateBasic :: "AppConfig \<Rightarrow> unit res" where
  "AppConfig_ValidateBasic c =
     (if ConfigPath c = [] then Err (Errorf ''path to price feeder config must be set'') else Ok ())"

text \<open>One option: nil leaves the field, a value is converted and assigned, with its error.\<close>

definition read_opt ::
  "(string \<Rightarrow> 'v option) \<Rightarrow> string \<Rightarrow> ('v \<Rightarrow> 'a \<times> unit res) \<Rightarrow> ('a \<Rightarrow> AppConfig \<Rightarrow> AppConfig) \<Rightarrow> AppConfig
    \<Rightarrow> AppConfig \<times> unit res" where
  "read_opt opts flag conv assign cfg =
     (case opts flag of None \<Rightarrow> (cfg, Ok ()) | Some v \<Rightarrow> (assign (fst (conv v)) cfg, snd (conv v)))"

definition ReadConfigFromAppOpts ::
  "('v \<Rightarrow> string \<times> unit res) \<Rightarrow> ('v \<Rightarrow> bool \<times> unit res) \<Rightarrow> (string \<Rightarrow> 'v option) \<Rightarrow> AppConfig \<times> unit res" where
  "ReadConfigFromAppOpts ToStringE ToBoolE opts =
     then_st (read_opt opts FlagConfigPath ToStringE (\<lambda>x cfg. cfg\<lparr>ConfigPath := x\<rparr>) zero_AppConfig) (\<lambda>cfg _.
     then_st (read_opt opts FlagLogLevel ToStringE (\<lambda>x cfg. cfg\<lparr>LogLevel := x\<rparr>) cfg) (\<lambda>cfg _.
     then_st (read_opt opts FlagEnablePriceFeeder ToBoolE (\<lambda>x cfg. cfg\<lparr>Enable := x\<rparr>) cfg) (\<lambda>cfg _.
       (cfg, AppConfig_ValidateBasic cfg))))"

section \<open>pricefeeder.go\<close>

record PriceFeeder =
  pf_Oracle :: "string option"
  pf_AppConfig :: AppConfig

definition SetOracle :: "string option \<Rightarrow> PriceFeeder \<Rightarrow> PriceFeeder" where
  "SetOracle orc pf = pf\<lparr>pf_Oracle := orc\<rparr>"

definition GetOracle :: "PriceFeeder \<Rightarrow> string option" where
  "GetOracle pf = pf_Oracle pf"

section \<open>Properties\<close>

lemma read_opt_Ok:
  "read_opt opts flag conv assign cfg = (cfg', Ok ()) \<longleftrightarrow>
     (case opts flag of None \<Rightarrow> cfg' = cfg | Some v \<Rightarrow> \<exists>x. conv v = (x, Ok ()) \<and> cfg' = assign x cfg)"
  by (auto simp: read_opt_def prod_eq_iff split: option.splits)

text \<open>
  A configuration is read without an error exactly when a non-empty path is given and
  every option that is given converts; the fields are then the converted options, and an
  option that is not given leaves the zero value, in particular a feeder that is not enabled.
\<close>

theorem ReadConfigFromAppOpts_spec:
  "ReadConfigFromAppOpts ToStringE ToBoolE opts = (cfg, Ok ()) \<longleftrightarrow>
     ConfigPath cfg \<noteq> [] \<and>
     (\<exists>v. opts FlagConfigPath = Some v \<and> ToStringE v = (ConfigPath cfg, Ok ())) \<and>
     (case opts FlagLogLevel of None \<Rightarrow> LogLevel cfg = [] | Some v \<Rightarrow> ToStringE v = (LogLevel cfg, Ok ())) \<and>
     (case opts FlagEnablePriceFeeder of None \<Rightarrow> \<not> Enable cfg | Some v \<Rightarrow> ToBoolE v = (Enable cfg, Ok ()))"
  by (cases cfg) (auto simp: ReadConfigFromAppOpts_def res_simps read_opt_Ok AppConfig_ValidateBasic_def zero_AppConfig_def
      split: option.splits if_splits)

end
