(* ===== verification/Oracle_Keeper.thy ===== *)
theory Oracle_Keeper
  imports Oracle_Params Oracle_Ballot Oracle_Vote Coins Collections Util Price_Feeder
begin

text \<open>
  The keeper of the oracle module: its state, the code it depends on, and the accessors of
  \<open>src/x/oracle/keeper/keeper.go\<close>, \<open>params.go\<close>, \<open>miss_counter.go\<close> and
  \<open>ballot.go\<close>.

  \<^item> \<open>ostate\<close> has a field per collection of the Go \<open>Keeper\<close>, the parameters of the subspace,
    and \<open>world\<close>, the state of the modules it calls.
  \<^item> \<open>oracle_env\<close> holds the functions of other packages: the decimals, the bech32 codec, the
    hash, the staking, bank and distribution keepers, which act on \<open>world\<close>, and the keeper's
    pointer to the price feeder.
  \<^item> The subspace is read and written after genesis has set the parameters. \<open>Set\<close> stores
    without running a validator; \<open>SetParamSet\<close> runs all of them and panics on an error.
  \<^item> Events, logging and metrics are not part of the state.
\<close>

section \<open>State and environment\<close>

text \<open>What the oracle observes of a validator of the staking module.\<close>

record validator =
  vi_IsBonded :: bool
  vi_IsJailed :: bool
  vi_GetOperator :: string
  vi_GetConsAddr :: "bytes res"
  vi_GetConsensusPower :: "int \<Rightarrow> int"

record ValidatorRewardSet =
  ValidatorSet :: "string list"

record 'w ostate =
  params :: Params
  ExchangeRates :: "(string, dec) coll"
  FeederDelegations :: "(bytes, bytes) coll"
  Prevotes :: "(bytes, AggregateExchangeRatePrevote) coll"
  Votes :: "(bytes, AggregateExchangeRateVote) coll"
  HistoricPrices :: "(string \<times> uint64, dec) coll"
  MedianPrices :: "(string \<times> uint64, dec) coll"
  MedianDeviations :: "(string \<times> uint64, dec) coll"
  LastHistoricPriceBlock :: "(string, uint64) coll"
  Averages :: "(string \<times> string, dec) coll"
  MissCounters :: "(bytes, uint64) coll"
  RewardSetItem :: "ValidatorRewardSet option"
  ParamUpdatePlans :: "(uint64, ParamUpdatePlan) coll"
  world :: 'w

record 'w oracle_env =
  D :: dec_ops
  Y :: "Denom \<Rightarrow> string"
  ValString :: "bytes \<Rightarrow> string"
  AccString :: "bytes \<Rightarrow> string"
  ValAddressFromBech32 :: "string \<Rightarrow> bytes res"
  AccAddressFromBech32 :: "string \<Rightarrow> bytes res"
  LegacyNewDecFromStr :: "string \<Rightarrow> dec res"
  ValidateDenom :: "string \<Rightarrow> bool"
  tmhash :: "bytes \<Rightarrow> bytes"
  authority :: string
  sk_Validator :: "'w \<Rightarrow> bytes \<Rightarrow> validator option res"
  sk_GetBondedValidatorsByPower :: "'w \<Rightarrow> validator list res"
  sk_PowerReduction :: "'w \<Rightarrow> int"
  sk_Slash :: "'w \<Rightarrow> bytes \<Rightarrow> int \<Rightarrow> int \<Rightarrow> dec \<Rightarrow> 'w \<times> unit res"
  sk_Jail :: "'w \<Rightarrow> bytes \<Rightarrow> 'w \<times> unit res"
  ak_GetModuleAccount :: "'w \<Rightarrow> string \<Rightarrow> bytes option"
  bk_GetBalance :: "'w \<Rightarrow> bytes \<Rightarrow> string \<Rightarrow> Coin"
  bk_SendCoinsFromModuleToModule :: "'w \<Rightarrow> string \<Rightarrow> string \<Rightarrow> Coin list \<Rightarrow> 'w \<times> unit res"
  dk_AllocateTokensToValidator :: "'w \<Rightarrow> validator \<Rightarrow> DecCoin list \<Rightarrow> 'w \<times> unit res"
  distrName :: string
  coinOps :: coin_ops
  keeper_PriceFeeder :: "PriceFeeder option"

section \<open>params.go\<close>

definition GetParams :: "'w ostate \<Rightarrow> Params" where "GetParams s = params s"

fun run_validators :: "(string \<times> param_value \<times> (param_value \<Rightarrow> unit res)) list \<Rightarrow> bool" where
  "run_validators [] = True"
| "run_validators ((k, v, f) # ps) = (is_ok (f v) \<and> run_validators ps)"

definition SetParams :: "'w oracle_env \<Rightarrow> Params \<Rightarrow> 'w ostate \<Rightarrow> 'w ostate \<times> unit res" where
  "SetParams E p s =
     (if run_validators (ParamSetPairs (D E) p) then (s\<lparr>params := p\<rparr>, Ok ()) else (s, Panic))"

definition Keeper_VotePeriod :: "'w ostate \<Rightarrow> uint64" where
  "Keeper_VotePeriod s = VotePeriod (params s)"

definition SetVotePeriod :: "uint64 \<Rightarrow> 'w ostate \<Rightarrow> 'w ostate" where
  "SetVotePeriod votePeriod s = s\<lparr>params := (params s)\<lparr>VotePeriod := votePeriod\<rparr>\<rparr>"

definition Keeper_VoteThreshold :: "'w ostate \<Rightarrow> dec" where
  "Keeper_VoteThreshold s = VoteThreshold (params s)"

definition SetVoteThreshold :: "dec \<Rightarrow> 'w ostate \<Rightarrow> 'w ostate" where
  "SetVoteThreshold voteThreshold s = s\<lparr>params := (params s)\<lparr>VoteThreshold := voteThreshold\<rparr>\<rparr>"

definition Keeper_RewardBands :: "'w ostate \<Rightarrow> RewardBandList" where
  "Keeper_RewardBands s = RewardBands (params s)"

definition SetRewardBand :: "RewardBandList \<Rightarrow> 'w ostate \<Rightarrow> 'w ostate" where
  "SetRewardBand rewardBands s = s\<lparr>params := (params s)\<lparr>RewardBands := rewardBands\<rparr>\<rparr>"

definition Keeper_RewardDistributionWindow :: "'w ostate \<Rightarrow> uint64" where
  "Keeper_RewardDistributionWindow s = RewardDistributionWindow (params s)"

definition SetRewardDistributionWindow :: "uint64 \<Rightarrow> 'w ostate \<Rightarrow> 'w ostate" where
  "SetRewardDistributionWindow rewardDistributionWindow s = s\<lparr>params := (params s)\<lparr>RewardDistributionWindow := rewardDistributionWindow\<rparr>\<rparr>"

definition Keeper_AcceptList :: "'w ostate \<Rightarrow> DenomList" where
  "Keeper_AcceptList s = AcceptList (params s)"

definition SetAcceptList :: "DenomList \<Rightarrow> 'w ostate \<Rightarrow> 'w ostate" where
  "SetAcceptList acceptList s = s\<lparr>params := (params s)\<lparr>AcceptList := acceptList\<rparr>\<rparr>"

definition Keeper_MandatoryList :: "'w ostate \<Rightarrow> DenomList" where
  "Keeper_MandatoryList s = MandatoryList (params s)"

definition SetMandatoryList :: "DenomList \<Rightarrow> 'w ostate \<Rightarrow> 'w ostate" where
  "SetMandatoryList mandatoryList s = s\<lparr>params := (params s)\<lparr>MandatoryList := mandatoryList\<rparr>\<rparr>"

definition Keeper_SlashFraction :: "'w ostate \<Rightarrow> dec" where
  "Keeper_SlashFraction s = SlashFraction (params s)"

definition SetSlashFraction :: "dec \<Rightarrow> 'w ostate \<Rightarrow> 'w ostate" where
  "SetSlashFraction slashFraction s = s\<lparr>params := (params s)\<lparr>SlashFraction := slashFraction\<rparr>\<rparr>"

definition Keeper_SlashWindow :: "'w ostate \<Rightarrow> uint64" where
  "Keeper_SlashWindow s = SlashWindow (params s)"

definition SetSlashWindow :: "uint64 \<Rightarrow> 'w ostate \<Rightarrow> 'w ostate" where
  "SetSlashWindow slashWindow s = s\<lparr>params := (params s)\<lparr>SlashWindow := slashWindow\<rparr>\<rparr>"

definition Keeper_MinValidPerWindow :: "'w ostate \<Rightarrow> dec" where
  "Keeper_MinValidPerWindow s = MinValidPerWindow (params s)"

definition SetMinValidPerWindow :: "dec \<Rightarrow> 'w ostate \<Rightarrow> 'w ostate" where
  "SetMinValidPerWindow minValidPerWindow s = s\<lparr>params := (params s)\<lparr>MinValidPerWindow := minValidPerWindow\<rparr>\<rparr>"

definition Keeper_SlashingEnabled :: "'w ostate \<Rightarrow> bool" where
  "Keeper_SlashingEnabled s = SlashingEnabled (params s)"

definition SetSlashingEnabled :: "bool \<Rightarrow> 'w ostate \<Rightarrow> 'w ostate" where
  "SetSlashingEnabled val s = s\<lparr>params := (params s)\<lparr>SlashingEnabled := val\<rparr>\<rparr>"

definition Keeper_HistoricStampPeriod :: "'w ostate \<Rightarrow> uint64" where
  "Keeper_HistoricStampPeriod s = HistoricStampPeriod (params s)"

definition SetHistoricStampPeriod :: "uint64 \<Rightarrow> 'w ostate \<Rightarrow> 'w ostate" where
  "SetHistoricStampPeriod period s = s\<lparr>params := (params s)\<lparr>HistoricStampPeriod := period\<rparr>\<rparr>"

definition Keeper_MedianStampPeriod :: "'w ostate \<Rightarrow> uint64" where
  "Keeper_MedianStampPeriod s = MedianStampPeriod (params s)"

definition SetMedianStampPeriod :: "uint64 \<Rightarrow> 'w ostate \<Rightarrow> 'w ostate" where
  "SetMedianStampPeriod period s = s\<lparr>params := (params s)\<lparr>MedianStampPeriod := period\<rparr>\<rparr>"

definition Keeper_MaximumPriceStamps :: "'w ostate \<Rightarrow> uint64" where
  "Keeper_MaximumPriceStamps s = MaximumPriceStamps (params s)"

definition SetMaximumPriceStamps :: "uint64 \<Rightarrow> 'w ostate \<Rightarrow> 'w ostate" where
  "SetMaximumPriceStamps stamps s = s\<lparr>params := (params s)\<lparr>MaximumPriceStamps := stamps\<rparr>\<rparr>"

definition Keeper_MaximumMedianStamps :: "'w ostate \<Rightarrow> uint64" where
  "Keeper_MaximumMedianStamps s = MaximumMedianStamps (params s)"

definition SetMaximumMedianStamps :: "uint64 \<Rightarrow> 'w ostate \<Rightarrow> 'w ostate" where
  "SetMaximumMedianStamps stamps s = s\<lparr>params := (params s)\<lparr>MaximumMedianStamps := stamps\<rparr>\<rparr>"

definition Keeper_CurrencyPairProviders :: "'w ostate \<Rightarrow> CurrencyPairProvidersList" where
  "Keeper_CurrencyPairProviders s = CurrencyPairProviders (params s)"

definition SetCurrencyPairProviders :: "CurrencyPairProvidersList \<Rightarrow> 'w ostate \<Rightarrow> 'w ostate" where
  "SetCurrencyPairProviders providers s = s\<lparr>params := (params s)\<lparr>CurrencyPairProviders := providers\<rparr>\<rparr>"

definition Keeper_CurrencyDeviationThresholds :: "'w ostate \<Rightarrow> CurrencyDeviationThresholdList" where
  "Keeper_CurrencyDeviationThresholds s = CurrencyDeviationThresholds (params s)"

definition SetCurrencyDeviationThresholds :: "CurrencyDeviationThresholdList \<Rightarrow> 'w ostate \<Rightarrow> 'w ostate" where
  "SetCurrencyDeviationThresholds thresholds s = s\<lparr>params := (params s)\<lparr>CurrencyDeviationThresholds := thresholds\<rparr>\<rparr>"

definition Keeper_UsdcIbcDenom :: "'w ostate \<Rightarrow> string" where
  "Keeper_UsdcIbcDenom s = UsdcIbcDenom (params s)"

definition SetUsdcIbcDenom :: "string \<Rightarrow> 'w ostate \<Rightarrow> 'w ostate" where
  "SetUsdcIbcDenom val s = s\<lparr>params := (params s)\<lparr>UsdcIbcDenom := val\<rparr>\<rparr>"

text \<open>The getter reads the \<open>uint64\<close> parameter into a \<open>bool\<close>, on which the subspace panics.\<close>

definition Keeper_AveragingWindow :: "'w ostate \<Rightarrow> bool res" where
  "Keeper_AveragingWindow s = Panic"

definition SetAveragingWindow :: "uint64 \<Rightarrow> 'w ostate \<Rightarrow> 'w ostate" where
  "SetAveragingWindow val s = s\<lparr>params := (params s)\<lparr>AveragingWindow := val\<rparr>\<rparr>"

fun exponent_loop :: "string \<Rightarrow> DenomList \<Rightarrow> uint32 res" where
  "exponent_loop denom [] = Err (Errorf (''unable to find exponent for '' @ denom))"
| "exponent_loop denom (v # vs) =
     (if EqualFold (SymbolDenom v) denom then Ok (Exponent v) else exponent_loop denom vs)"

definition GetExponent :: "'w ostate \<Rightarrow> string \<Rightarrow> uint32 res" where
  "GetExponent s denom = exponent_loop denom (AcceptList (GetParams s))"

section \<open>keeper.go: exchange rates\<close>

definition ten :: dec where "ten = LegacyNewDec 10"

definition GetExchangeRate :: "'w ostate \<Rightarrow> string \<Rightarrow> dec res" where
  "GetExchangeRate s symbol =
     (case coll_get (ExchangeRates s) (ToUpper symbol) of
        None \<Rightarrow> Err ErrUnknownDenom
      | Some rate \<Rightarrow> Ok rate)"

definition GetExchangeRateBase :: "'w oracle_env \<Rightarrow> 'w ostate \<Rightarrow> string \<Rightarrow> dec res" where
  "GetExchangeRateBase E s denom =
     (let (symbol, exponent) =
        (case List.find (\<lambda>d. BaseDenom d = denom) (AcceptList (GetParams s)) of
           Some d \<Rightarrow> (SymbolDenom d, unat (Exponent d))
         | None \<Rightarrow> ([], 0)) in
      if length symbol = 0 then Err ErrUnknownDenom
      else bind_res (GetExchangeRate s symbol) (\<lambda>exchangeRate.
        bind_res (must (dPower (D E) ten exponent)) (\<lambda>powerReduction.
          must (dQuo (D E) exchangeRate powerReduction))))"

definition SetExchangeRate :: "string \<Rightarrow> dec \<Rightarrow> 'w ostate \<Rightarrow> 'w ostate" where
  "SetExchangeRate denom exchangeRate s =
     s\<lparr>ExchangeRates := coll_set (ToUpper denom) exchangeRate (ExchangeRates s)\<rparr>"

definition SetExchangeRateWithEvent :: "string \<Rightarrow> dec \<Rightarrow> 'w ostate \<Rightarrow> 'w ostate \<times> unit res" where
  "SetExchangeRateWithEvent denom exchangeRate s = (SetExchangeRate denom exchangeRate s, Ok ())"

definition IterateExchangeRates :: "'w ostate \<Rightarrow> (string \<Rightarrow> dec \<Rightarrow> 'a \<Rightarrow> 'a \<times> bool) \<Rightarrow> 'a \<Rightarrow> 'a" where
  "IterateExchangeRates s handler a = coll_walk handler (ExchangeRates s) a"

definition ClearExchangeRates :: "'w ostate \<Rightarrow> 'w ostate" where
  "ClearExchangeRates s = s\<lparr>ExchangeRates := []\<rparr>"

section \<open>keeper.go: feeder delegations\<close>

definition GetFeederDelegation :: "'w oracle_env \<Rightarrow> 'w ostate \<Rightarrow> bytes \<Rightarrow> bytes res" where
  "GetFeederDelegation E s vAddr =
     bind_res (sk_Validator E (world s) vAddr) (\<lambda>val.
       case val of
         None \<Rightarrow> Err (SdkErr ''ErrNoValidatorFound'')
       | Some val \<Rightarrow>
           if \<not> vi_IsBonded val then Err (SdkErr ''ErrNoValidatorFound'')
           else case coll_get (FeederDelegations s) vAddr of
                  None \<Rightarrow> Ok vAddr
                | Some feeder \<Rightarrow> Ok feeder)"

definition SetFeederDelegation :: "bytes \<Rightarrow> bytes \<Rightarrow> 'w ostate \<Rightarrow> 'w ostate" where
  "SetFeederDelegation operator delegatedFeeder s =
     s\<lparr>FeederDelegations := coll_set operator delegatedFeeder (FeederDelegations s)\<rparr>"

definition IterateFeederDelegations :: "'w ostate \<Rightarrow> (bytes \<Rightarrow> bytes \<Rightarrow> 'a \<Rightarrow> 'a \<times> bool) \<Rightarrow> 'a \<Rightarrow> 'a" where
  "IterateFeederDelegations s handler a = coll_walk handler (FeederDelegations s) a"

section \<open>keeper.go: prevotes and votes\<close>

definition GetAggregateExchangeRatePrevote ::
  "'w ostate \<Rightarrow> bytes \<Rightarrow> AggregateExchangeRatePrevote res" where
  "GetAggregateExchangeRatePrevote s voter =
     (case coll_get (Prevotes s) voter of None \<Rightarrow> Err ErrNoAggregatePrevote | Some p \<Rightarrow> Ok p)"

definition HasAggregateExchangeRatePrevote :: "'w ostate \<Rightarrow> bytes \<Rightarrow> bool" where
  "HasAggregateExchangeRatePrevote s voter \<longleftrightarrow> coll_get (Prevotes s) voter \<noteq> None"

definition SetAggregateExchangeRatePrevote ::
  "bytes \<Rightarrow> AggregateExchangeRatePrevote \<Rightarrow> 'w ostate \<Rightarrow> 'w ostate" where
  "SetAggregateExchangeRatePrevote voter prevote s = s\<lparr>Prevotes := coll_set voter prevote (Prevotes s)\<rparr>"

definition DeleteAggregateExchangeRatePrevote :: "bytes \<Rightarrow> 'w ostate \<Rightarrow> 'w ostate" where
  "DeleteAggregateExchangeRatePrevote voter s = s\<lparr>Prevotes := coll_remove voter (Prevotes s)\<rparr>"

definition IterateAggregateExchangeRatePrevotes ::
  "'w ostate \<Rightarrow> (bytes \<Rightarrow> AggregateExchangeRatePrevote \<Rightarrow> 'a \<Rightarrow> 'a \<times> bool) \<Rightarrow> 'a \<Rightarrow> 'a" where
  "IterateAggregateExchangeRatePrevotes s handler a = coll_walk handler (Prevotes s) a"

definition GetAggregateExchangeRateVote :: "'w ostate \<Rightarrow> bytes \<Rightarrow> AggregateExchangeRateVote res" where
  "GetAggregateExchangeRateVote s voter =
     (case coll_get (Votes s) voter of None \<Rightarrow> Err ErrNoAggregateVote | Some v \<Rightarrow> Ok v)"

definition SetAggregateExchangeRateVote ::
  "bytes \<Rightarrow> AggregateExchangeRateVote \<Rightarrow> 'w ostate \<Rightarrow> 'w ostate" where
  "SetAggregateExchangeRateVote voter vote s = s\<lparr>Votes := coll_set voter vote (Votes s)\<rparr>"

definition DeleteAggregateExchangeRateVote :: "bytes \<Rightarrow> 'w ostate \<Rightarrow> 'w ostate" where
  "DeleteAggregateExchangeRateVote voter s = s\<lparr>Votes := coll_remove voter (Votes s)\<rparr>"

definition IterateAggregateExchangeRateVotes ::
  "'w ostate \<Rightarrow> (bytes \<Rightarrow> AggregateExchangeRateVote \<Rightarrow> 'a \<Rightarrow> 'a \<times> bool) \<Rightarrow> 'a \<Rightarrow> 'a" where
  "IterateAggregateExchangeRateVotes s handler a = coll_walk handler (Votes s) a"

definition ValidateFeeder :: "'w oracle_env \<Rightarrow> 'w ostate \<Rightarrow> bytes \<Rightarrow> bytes \<Rightarrow> unit res" where
  "ValidateFeeder E s feederAddr valAddr =
     bind_res (GetFeederDelegation E s valAddr) (\<lambda>delegate.
       if delegate \<noteq> feederAddr then Err ErrNoVotingPermission else Ok ())"

section \<open>miss_counter.go\<close>

definition GetMissCounter :: "'w ostate \<Rightarrow> bytes \<Rightarrow> uint64" where
  "GetMissCounter s operator =
     (case coll_get (MissCounters s) operator of None \<Rightarrow> 0 | Some v \<Rightarrow> v)"

definition SetMissCounter :: "bytes \<Rightarrow> uint64 \<Rightarrow> 'w ostate \<Rightarrow> 'w ostate" where
  "SetMissCounter operator missCounter s =
     s\<lparr>MissCounters := coll_set operator missCounter (MissCounters s)\<rparr>"

definition DeleteMissCounter :: "bytes \<Rightarrow> 'w ostate \<Rightarrow> 'w ostate" where
  "DeleteMissCounter operator s = s\<lparr>MissCounters := coll_remove operator (MissCounters s)\<rparr>"

definition IterateMissCounters :: "'w ostate \<Rightarrow> (bytes \<Rightarrow> uint64 \<Rightarrow> 'a \<Rightarrow> 'a \<times> bool) \<Rightarrow> 'a \<Rightarrow> 'a" where
  "IterateMissCounters s handler a = coll_walk handler (MissCounters s) a"

section \<open>ballot.go\<close>

text \<open>Reading an absent key of a Go map of slices gives the empty slice.\<close>

definition ballot_of :: "(string, ExchangeRateBallot) coll \<Rightarrow> string \<Rightarrow> ExchangeRateBallot" where
  "ballot_of votes denom = (case coll_get votes denom of None \<Rightarrow> [] | Some b \<Rightarrow> b)"

definition aggregateHandler ::
  "(string, Claim) coll \<Rightarrow> bytes \<Rightarrow> AggregateExchangeRateVote
    \<Rightarrow> (string, ExchangeRateBallot) coll \<Rightarrow> (string, ExchangeRateBallot) coll \<times> bool" where
  "aggregateHandler validatorClaimMap voterAddr vote votes =
     (case coll_get validatorClaimMap (av_Voter vote) of
        None \<Rightarrow> (votes, False)
      | Some claim \<Rightarrow>
          (fold (\<lambda>decCoin votes. coll_set (dc_Denom decCoin)
             (ballot_of votes (dc_Denom decCoin) @
              [NewVoteForTally (dc_Amount decCoin) (dc_Denom decCoin) voterAddr (cl_Power claim)]) votes)
             (av_ExchangeRates vote) votes, False))"

definition OrganizeBallotByDenom :: "'w ostate \<Rightarrow> (string, Claim) coll \<Rightarrow> BallotDenom list" where
  "OrganizeBallotByDenom s validatorClaimMap =
     (let votes = IterateAggregateExchangeRateVotes s (aggregateHandler validatorClaimMap) [] in
      BallotMapToSlice (map (\<lambda>(denom, ballot). (denom, go_sort ExchangeRateBallot_Less ballot)) votes))"

definition ClearBallots :: "int \<Rightarrow> uint64 \<Rightarrow> 'w ostate \<Rightarrow> 'w ostate" where
  "ClearBallots blockHeight votePeriod s =
     (let s = IterateAggregateExchangeRatePrevotes s (\<lambda>voterAddr aggPrevote s.
            (if SafeInt64ToUint64 blockHeight > pv_SubmitBlock aggPrevote + votePeriod
             then DeleteAggregateExchangeRatePrevote voterAddr s else s, False)) s
      in IterateAggregateExchangeRateVotes s
           (\<lambda>voterAddr _ s. (DeleteAggregateExchangeRateVote voterAddr s, False)) s)"

section \<open>Lemmas\<close>

subsection \<open>Parameters\<close>

lemma run_validators_iff: "run_validators ps \<longleftrightarrow> list_all (\<lambda>(k, v, f). f v = Ok ()) ps"
  by (induction ps) (auto simp: res_simps)

text \<open>
  The contract between a setter of the subspace and the field it writes: the parameter
  record is changed in that field, every collection stays as it is.
\<close>

locale param_setter =
  fixes set_p :: "'v \<Rightarrow> 'w ostate \<Rightarrow> 'w ostate"
    and get_p :: "'w ostate \<Rightarrow> 'v"
    and upd :: "('v \<Rightarrow> 'v) \<Rightarrow> Params \<Rightarrow> Params"
  assumes writes: "set_p v s = s\<lparr>params := upd (\<lambda>_. v) (params s)\<rparr>"
    and reads: "get_p (set_p v s) = v"
    and absorbs: "upd f (upd g p) = upd (\<lambda>x. f (g x)) p"
begin

lemma params_set: "params (set_p v s) = upd (\<lambda>_. v) (params s)"
  by (simp add: writes)

lemma set_set: "set_p v (set_p u s) = set_p v s"
  by (simp add: writes absorbs)

lemma keeps_stores: "(set_p v s)\<lparr>params := p\<rparr> = s\<lparr>params := p\<rparr>"
  by (simp add: writes)

end

interpretation p_VotePeriod: param_setter SetVotePeriod Keeper_VotePeriod VotePeriod_update
  by unfold_locales (simp_all add: SetVotePeriod_def Keeper_VotePeriod_def)
interpretation p_VoteThreshold: param_setter SetVoteThreshold Keeper_VoteThreshold VoteThreshold_update
  by unfold_locales (simp_all add: SetVoteThreshold_def Keeper_VoteThreshold_def)
interpretation p_RewardBands: param_setter SetRewardBand Keeper_RewardBands RewardBands_update
  by unfold_locales (simp_all add: SetRewardBand_def Keeper_RewardBands_def)
interpretation p_RewardDistributionWindow: param_setter SetRewardDistributionWindow Keeper_RewardDistributionWindow RewardDistributionWindow_update
  by unfold_locales (simp_all add: SetRewardDistributionWindow_def Keeper_RewardDistributionWindow_def)
interpretation p_AcceptList: param_setter SetAcceptList Keeper_AcceptList AcceptList_update
  by unfold_locales (simp_all add: SetAcceptList_def Keeper_AcceptList_def)
interpretation p_MandatoryList: param_setter SetMandatoryList Keeper_MandatoryList MandatoryList_update
  by unfold_locales (simp_all add: SetMandatoryList_def Keeper_MandatoryList_def)
interpretation p_SlashFraction: param_setter SetSlashFraction Keeper_SlashFraction SlashFraction_update
  by unfold_locales (simp_all add: SetSlashFraction_def Keeper_SlashFraction_def)
interpretation p_SlashWindow: param_setter SetSlashWindow Keeper_SlashWindow SlashWindow_update
  by unfold_locales (simp_all add: SetSlashWindow_def Keeper_SlashWindow_def)
interpretation p_MinValidPerWindow: param_setter SetMinValidPerWindow Keeper_MinValidPerWindow MinValidPerWindow_update
  by unfold_locales (simp_all add: SetMinValidPerWindow_def Keeper_MinValidPerWindow_def)
interpretation p_SlashingEnabled: param_setter SetSlashingEnabled Keeper_SlashingEnabled SlashingEnabled_update
  by unfold_locales (simp_all add: SetSlashingEnabled_def Keeper_SlashingEnabled_def)
interpretation p_HistoricStampPeriod: param_setter SetHistoricStampPeriod Keeper_HistoricStampPeriod HistoricStampPeriod_update
  by unfold_locales (simp_all add: SetHistoricStampPeriod_def Keeper_HistoricStampPeriod_def)
interpretation p_MedianStampPeriod: param_setter SetMedianStampPeriod Keeper_MedianStampPeriod MedianStampPeriod_update
  by unfold_locales (simp_all add: SetMedianStampPeriod_def Keeper_MedianStampPeriod_def)
interpretation p_MaximumPriceStamps: param_setter SetMaximumPriceStamps Keeper_MaximumPriceStamps MaximumPriceStamps_update
  by unfold_locales (simp_all add: SetMaximumPriceStamps_def Keeper_MaximumPriceStamps_def)
interpretation p_MaximumMedianStamps: param_setter SetMaximumMedianStamps Keeper_MaximumMedianStamps MaximumMedianStamps_update
  by unfold_locales (simp_all add: SetMaximumMedianStamps_def Keeper_MaximumMedianStamps_def)
interpretation p_CurrencyPairProviders: param_setter SetCurrencyPairProviders Keeper_CurrencyPairProviders CurrencyPairProviders_update
  by unfold_locales (simp_all add: SetCurrencyPairProviders_def Keeper_CurrencyPairProviders_def)
interpretation p_CurrencyDeviationThresholds: param_setter SetCurrencyDeviationThresholds Keeper_CurrencyDeviationThresholds CurrencyDeviationThresholds_update
  by unfold_locales (simp_all add: SetCurrencyDeviationThresholds_def Keeper_CurrencyDeviationThresholds_def)
interpretation p_UsdcIbcDenom: param_setter SetUsdcIbcDenom Keeper_UsdcIbcDenom UsdcIbcDenom_update
  by unfold_locales (simp_all add: SetUsdcIbcDenom_def Keeper_UsdcIbcDenom_def)
interpretation p_AveragingWindow: param_setter SetAveragingWindow "\<lambda>s. AveragingWindow (params s)" AveragingWindow_update
  by unfold_locales (simp_all add: SetAveragingWindow_def)

lemmas param_set_simps =
  p_VotePeriod.params_set
  p_VoteThreshold.params_set
  p_RewardBands.params_set
  p_RewardDistributionWindow.params_set
  p_AcceptList.params_set
  p_MandatoryList.params_set
  p_SlashFraction.params_set
  p_SlashWindow.params_set
  p_MinValidPerWindow.params_set
  p_SlashingEnabled.params_set
  p_HistoricStampPeriod.params_set
  p_MedianStampPeriod.params_set
  p_MaximumPriceStamps.params_set
  p_MaximumMedianStamps.params_set
  p_CurrencyPairProviders.params_set
  p_CurrencyDeviationThresholds.params_set
  p_UsdcIbcDenom.params_set
  p_AveragingWindow.params_set

lemmas param_writes =
  p_VotePeriod.writes
  p_VoteThreshold.writes
  p_RewardBands.writes
  p_RewardDistributionWindow.writes
  p_AcceptList.writes
  p_MandatoryList.writes
  p_SlashFraction.writes
  p_SlashWindow.writes
  p_MinValidPerWindow.writes
  p_SlashingEnabled.writes
  p_HistoricStampPeriod.writes
  p_MedianStampPeriod.writes
  p_MaximumPriceStamps.writes
  p_MaximumMedianStamps.writes
  p_CurrencyPairProviders.writes
  p_CurrencyDeviationThresholds.writes
  p_UsdcIbcDenom.writes
  p_AveragingWindow.writes

subsection \<open>Ballots\<close>

text \<open>The votes of active validators for a denom, in the order of the store.\<close>

definition votes_for ::
  "(bytes \<times> AggregateExchangeRateVote) list \<Rightarrow> (string, Claim) coll \<Rightarrow> string \<Rightarrow> ExchangeRateBallot" where
  "votes_for vs claims denom = concat (map (\<lambda>(addr, vote).
     case coll_get claims (av_Voter vote) of
       None \<Rightarrow> []
     | Some claim \<Rightarrow> map (\<lambda>dc. NewVoteForTally (dc_Amount dc) denom addr (cl_Power claim))
         (filter (\<lambda>dc. dc_Denom dc = denom) (av_ExchangeRates vote))) vs)"

definition add_votes :: "(string, ExchangeRateBallot) coll \<Rightarrow> string \<Rightarrow> ExchangeRateBallot \<Rightarrow> ExchangeRateBallot option" where
  "add_votes votes denom new = (if new = [] then coll_get votes denom else Some (ballot_of votes denom @ new))"

lemma collect_coins:
  "coll_get (fold (\<lambda>dc votes. coll_set (dc_Denom dc) (ballot_of votes (dc_Denom dc) @
       [NewVoteForTally (dc_Amount dc) (dc_Denom dc) addr p]) votes) coins votes) denom =
   add_votes votes denom (map (\<lambda>dc. NewVoteForTally (dc_Amount dc) denom addr p)
     (filter (\<lambda>dc. dc_Denom dc = denom) coins))"
  by (induction coins arbitrary: votes) (auto simp: add_votes_def ballot_of_def)

lemma wf_collect_coins:
  "coll_wf votes \<Longrightarrow> coll_wf (fold (\<lambda>dc votes. coll_set (dc_Denom dc) (f dc votes) votes) coins votes)"
  by (induction coins arbitrary: votes) auto

lemma add_votes_add:
  "coll_get votes' denom = add_votes votes denom new \<Longrightarrow>
   add_votes votes' denom new' = add_votes votes denom (new @ new')"
  by (auto simp: add_votes_def ballot_of_def split: if_splits)

lemma votes_for_Cons:
  "votes_for ((addr, vote) # vs) claims denom =
     (case coll_get claims (av_Voter vote) of
        None \<Rightarrow> []
      | Some claim \<Rightarrow> map (\<lambda>dc. NewVoteForTally (dc_Amount dc) denom addr (cl_Power claim))
         (filter (\<lambda>dc. dc_Denom dc = denom) (av_ExchangeRates vote))) @ votes_for vs claims denom"
  by (simp add: votes_for_def)

lemma handler_adds:
  "coll_get (fst (aggregateHandler claims addr vote votes)) denom =
   add_votes votes denom (votes_for [(addr, vote)] claims denom)"
  by (auto simp: aggregateHandler_def votes_for_Cons collect_coins votes_for_def add_votes_def split: option.splits)

lemma handler_goes_on: "snd (aggregateHandler claims addr vote votes) = False"
  by (simp add: aggregateHandler_def split: option.split)

lemma collect_votes:
  "coll_get (coll_walk (aggregateHandler claims) vs votes) denom =
   add_votes votes denom (votes_for vs claims denom)"
proof (induction vs arbitrary: votes)
  case (Cons v vs)
  obtain addr vote where v: "v = (addr, vote)" by fastforce
  let ?votes = "fst (aggregateHandler claims addr vote votes)"
  obtain m where "aggregateHandler claims addr vote votes = (m, False)"
    by (metis handler_goes_on prod.collapse)
  then have "coll_walk (aggregateHandler claims) (v # vs) votes = coll_walk (aggregateHandler claims) vs ?votes"
    by (simp add: v)
  then have "coll_get (coll_walk (aggregateHandler claims) (v # vs) votes) denom =
      add_votes ?votes denom (votes_for vs claims denom)"
    by (simp add: Cons.IH)
  also have "\<dots> = add_votes votes denom (votes_for (v # vs) claims denom)"
    by (subst add_votes_add [OF handler_adds]) (simp add: v votes_for_def)
  finally show ?case .
qed (simp add: votes_for_def add_votes_def)

lemma wf_collect_votes: "coll_wf votes \<Longrightarrow> coll_wf (coll_walk (aggregateHandler claims) vs votes)"
proof (induction vs arbitrary: votes)
  case (Cons v vs)
  then show ?case
    by (cases v) (auto simp: aggregateHandler_def wf_collect_coins split: option.splits)
qed simp

lemma BallotMapToSlice_wf:
  assumes "coll_wf votes"
  shows "BallotMapToSlice votes = map (\<lambda>(denom, ballot). \<lparr>bd_Ballot = ballot, bd_Denom = denom\<rparr>) votes"
proof -
  have "sorted_wrt (\<lambda>x y. \<not> bd_Denom y < bd_Denom x)
      (map (\<lambda>(denom, ballot). \<lparr>bd_Ballot = ballot, bd_Denom = denom\<rparr>) votes)"
    using assms by (auto simp: coll_wf_def sorted_wrt_map case_prod_beta' elim!: sorted_wrt_mono_rel [rotated])
  then show ?thesis
    unfolding BallotMapToSlice_def
    by (intro go_less.go_sort_id [OF go_less_key]) (simp add: go_less.IsSorted_iff [OF go_less_key])
qed

lemma coll_get_map_val: "coll_get (map (\<lambda>(k, v). (k, f v)) s) k = map_option f (coll_get s k)"
  by (induction s) (auto simp: coll_get_def)

lemma coll_wf_map_val: "coll_wf (map (\<lambda>(k, v). (k, f v)) s) = coll_wf s"
  by (simp add: coll_wf_def comp_def case_prod_beta')

lemma OrganizeBallotByDenom_ballots:
  "map bd_Denom (OrganizeBallotByDenom s claims) =
     sorted_list_of_set {d. votes_for (Votes s) claims d \<noteq> []} \<and>
   (\<forall>b \<in> set (OrganizeBallotByDenom s claims).
      bd_Ballot b = go_sort ExchangeRateBallot_Less (votes_for (Votes s) claims (bd_Denom b)) \<and>
      IsSorted ExchangeRateBallot_Less (bd_Ballot b))"
proof -
  let ?votes = "coll_walk (aggregateHandler claims) (Votes s) []"
  let ?sorted = "map (\<lambda>(d, b). (d, go_sort ExchangeRateBallot_Less b)) ?votes"
  have wf: "coll_wf ?votes" by (simp add: wf_collect_votes)
  have get: "coll_get ?votes d = (if votes_for (Votes s) claims d = [] then None
      else Some (votes_for (Votes s) claims d))" for d
    by (simp add: collect_votes add_votes_def ballot_of_def)
  have org: "OrganizeBallotByDenom s claims =
      map (\<lambda>(denom, ballot). \<lparr>bd_Ballot = ballot, bd_Denom = denom\<rparr>) ?sorted"
    by (simp add: OrganizeBallotByDenom_def IterateAggregateExchangeRateVotes_def Let_def
        BallotMapToSlice_wf coll_wf_map_val wf)
  have "d \<in> fst ` set ?votes \<longleftrightarrow> votes_for (Votes s) claims d \<noteq> []" for d
    using coll_get_None [of ?votes d] get [of d] by (simp split: if_splits)
  then have "{d. votes_for (Votes s) claims d \<noteq> []} = set (map fst ?votes)" by auto
  moreover have "sorted_list_of_set (set (map fst ?votes)) = map fst ?votes"
    using wf by (metis coll_wf_def strict_sorted_iff sorted_list_of_set.idem_if_sorted_distinct)
  moreover have "map bd_Denom (OrganizeBallotByDenom s claims) = map fst ?votes"
    by (simp add: org comp_def case_prod_beta')
  moreover have "b = votes_for (Votes s) claims d" if "(d, b) \<in> set ?votes" for d b
    using that coll_entries_get [OF wf, of d b] get [of d] by (auto split: if_splits)
  ultimately show ?thesis
    by (auto simp: org ballot_less.IsSorted_go_sort)
qed

lemma ClearBallots_eq:
  "ClearBallots h vp s =
     s\<lparr>Prevotes := fold (\<lambda>e p. if SafeInt64ToUint64 h > pv_SubmitBlock (snd e) + vp
          then coll_remove (fst e) p else p) (Prevotes s) (Prevotes s),
       Votes := fold (\<lambda>e p. if True then coll_remove (fst e) p else p) (Votes s) (Votes s)\<rparr>"
proof -
  have pv: "fold (\<lambda>(k, v) s. if P v then DeleteAggregateExchangeRatePrevote k s else s) es s =
      s\<lparr>Prevotes := fold (\<lambda>e p. if P (snd e) then coll_remove (fst e) p else p) es (Prevotes s)\<rparr>"
    for P es and s :: "'a ostate"
    by (induction es arbitrary: s) (auto simp: DeleteAggregateExchangeRatePrevote_def)
  have vt: "fold (\<lambda>(k, v) s. DeleteAggregateExchangeRateVote k s) es s =
      s\<lparr>Votes := fold (\<lambda>e p. coll_remove (fst e) p) es (Votes s)\<rparr>"
    for es and s :: "'a ostate"
    by (induction es arbitrary: s) (auto simp: DeleteAggregateExchangeRateVote_def)
  show ?thesis
    by (simp add: ClearBallots_def Let_def IterateAggregateExchangeRatePrevotes_def
        IterateAggregateExchangeRateVotes_def coll_walk_fold pv vt)
qed

section \<open>A concrete environment\<close>

text \<open>
  A world that is a list of validators and the record of whom it slashed and jailed, bech32
  texts that are the address itself, a hash that keeps twenty bytes, and a module account
  that holds a thousand \<open>udm\<close>.
\<close>

type_synonym ref_world = "(bytes \<times> validator) list \<times> bytes list \<times> bytes list"

definition ref_validator :: "bool \<Rightarrow> bool \<Rightarrow> bytes \<Rightarrow> int \<Rightarrow> validator" where
  "ref_validator bonded jailed addr tokens =
     \<lparr>vi_IsBonded = bonded, vi_IsJailed = jailed, vi_GetOperator = addr, vi_GetConsAddr = Ok addr,
      vi_GetConsensusPower = (\<lambda>r. tokens div r)\<rparr>"

definition ref_env :: "ref_world oracle_env" where
  "ref_env = \<lparr>D = ref_dec, Y = (\<lambda>d. SymbolDenom d @ '':'' @ BaseDenom d),
     ValString = (\<lambda>a. a), AccString = (\<lambda>a. a),
     ValAddressFromBech32 = (\<lambda>s. if s = [] then Err (Errorf ''empty address'') else Ok s),
     AccAddressFromBech32 = (\<lambda>s. if s = [] then Err (Errorf ''empty address'') else Ok s),
     LegacyNewDecFromStr = tally_dec, ValidateDenom = (\<lambda>d. d \<noteq> []), tmhash = take 20, authority = ''gov'',
     sk_Validator = (\<lambda>w a. Ok (map_of (fst w) a)),
     sk_GetBondedValidatorsByPower = (\<lambda>w. Ok (filter vi_IsBonded (map snd (fst w)))),
     sk_PowerReduction = (\<lambda>w. 1),
     sk_Slash = (\<lambda>w c h p f. ((fst w, c # fst (snd w), snd (snd w)), Ok ())),
     sk_Jail = (\<lambda>w c. ((fst w, fst (snd w), c # snd (snd w)), Ok ())),
     ak_GetModuleAccount = (\<lambda>w n. Some n),
     bk_GetBalance = (\<lambda>w a d. \<lparr>c_Denom = d, c_Amount = (if a = ''oracle'' \<and> d = ''udm'' then 1000 else 0)\<rparr>),
     bk_SendCoinsFromModuleToModule = (\<lambda>w from to cs. (w, Ok ())),
     dk_AllocateTokensToValidator = (\<lambda>w v cs. (w, Ok ())),
     distrName = ''distribution'', coinOps = ref_coins,
     keeper_PriceFeeder = Some \<lparr>pf_Oracle = Some ''dm:5,xyz:5'',
       pf_AppConfig = \<lparr>ConfigPath = ''feeder.toml'', LogLevel = ''info'', Enable = True\<rparr>\<rparr>\<rparr>"

definition ref_state :: "ref_world ostate" where
  "ref_state = \<lparr>params = DefaultParams, ExchangeRates = [], FeederDelegations = [(''val2'', ''feeder2'')],
     Prevotes = [(''val1'', \<lparr>pv_Hash = ''00'', pv_Voter = ''val1'', pv_SubmitBlock = 3\<rparr>)],
     Votes = [(''val1'', \<lparr>av_ExchangeRates = [\<lparr>dc_Denom = ''DM'', dc_Amount = 7\<rparr>, \<lparr>dc_Denom = ''USDC'', dc_Amount = 1\<rparr>],
                         av_Voter = ''val1''\<rparr>),
              (''val2'', \<lparr>av_ExchangeRates = [\<lparr>dc_Denom = ''DM'', dc_Amount = 5\<rparr>], av_Voter = ''val2''\<rparr>)],
     HistoricPrices = [], MedianPrices = [], MedianDeviations = [], LastHistoricPriceBlock = [],
     Averages = [], MissCounters = [(''val1'', 2), (''val2'', 1000000)], RewardSetItem = None, ParamUpdatePlans = [],
     world = ([(''val1'', ref_validator True False ''val1'' 60), (''val2'', ref_validator True False ''val2'' 40)], [], [])\<rparr>"

definition ref_claims :: "(string, Claim) coll" where
  "ref_claims = [(''val1'', NewClaim 60 0 0 ''val1''), (''val2'', NewClaim 40 0 0 ''val2'')]"

section \<open>Properties\<close>

text \<open>
  C15. \<open>OrganizeBallotByDenom\<close> returns, in ascending order of denoms, one ballot for every
  denom that an active validator voted on and for no other denom; the ballot holds exactly
  the votes of validators in the claim map, with the power of their claim, sorted for the
  weighted median.
\<close>

theorem OrganizeBallotByDenom_spec:
  "map bd_Denom (OrganizeBallotByDenom s claims) =
     sorted_list_of_set {d. votes_for (Votes s) claims d \<noteq> []} \<and>
   (\<forall>b \<in> set (OrganizeBallotByDenom s claims).
      bd_Ballot b = go_sort ExchangeRateBallot_Less (votes_for (Votes s) claims (bd_Denom b)) \<and>
      IsSorted ExchangeRateBallot_Less (bd_Ballot b))"
  by (rule OrganizeBallotByDenom_ballots)

theorem OrganizeBallotByDenom_spec_witness:
  "map bd_Denom (OrganizeBallotByDenom ref_state ref_claims) =
     sorted_list_of_set {d. votes_for (Votes ref_state) ref_claims d \<noteq> []} \<and>
   map bd_Denom (OrganizeBallotByDenom ref_state ref_claims) = [''DM'', ''USDC'']"
proof -
  have "map bd_Denom (OrganizeBallotByDenom ref_state ref_claims) = [''DM'', ''USDC'']"
    by code_simp
  with OrganizeBallotByDenom_spec [of ref_state ref_claims] show ?thesis by simp
qed

text \<open>
  C28. \<open>ClearBallots\<close> removes every vote and exactly the prevotes that can no longer be
  revealed, those submitted more than a vote period ago; it changes nothing else.
\<close>

theorem ClearBallots_spec:
  assumes "coll_wf (Prevotes s)" and "coll_wf (Votes s)"
  shows "Votes (ClearBallots h vp s) = [] \<and>
     coll_get (Prevotes (ClearBallots h vp s)) a =
       (case coll_get (Prevotes s) a of
          None \<Rightarrow> None
        | Some p \<Rightarrow> if SafeInt64ToUint64 h > pv_SubmitBlock p + vp then None else Some p) \<and>
     (ClearBallots h vp s)\<lparr>Prevotes := [], Votes := []\<rparr> = s\<lparr>Prevotes := [], Votes := []\<rparr>"
proof -
  let ?votes = "fold (\<lambda>e p. if True then coll_remove (fst e) p else p) (Votes s) (Votes s)"
  have "coll_wf ?votes"
    by (rule coll.wf_fold_remove [OF assms(2)])
  moreover have "coll_get ?votes k = None" for k
    using coll.get_walk_remove [OF assms(2), of "\<lambda>_. True"] by (simp split: option.splits)
  ultimately have "?votes = []"
    by (intro coll_ext) simp_all
  then show ?thesis
    using coll.get_walk_remove [OF assms(1), of "\<lambda>e. SafeInt64ToUint64 h > pv_SubmitBlock (snd e) + vp"]
    by (simp add: ClearBallots_eq split: option.split)
qed

theorem ClearBallots_spec_witness:
  "Votes (ClearBallots 14 10 ref_state) = [] \<and>
   coll_get (Prevotes (ClearBallots 14 10 ref_state)) ''val1'' = None \<and>
   coll_get (Prevotes (ClearBallots 13 10 ref_state)) ''val1'' \<noteq> None"
  using ClearBallots_spec [of ref_state 14 10 "''val1''"] ClearBallots_spec [of ref_state 13 10 "''val1''"]
  by (simp add: ref_state_def coll_wf_def coll_get_def SafeInt64ToUint64_def)

end
