(* ===== verification/Oracle_Plan.thy ===== *)
theory Oracle_Plan
  imports Oracle_Keeper
begin

text \<open>
  Parameter update plans (\<open>src/x/oracle/keeper/param_update_plan.go\<close>): a plan is validated
  against the current parameters when it is scheduled, stored under its height, and
  executed by the end blocker of that height.

  \<open>DenomList.Normalize\<close> works in place, and the lists of \<open>changes\<close> are those of the plan
  that is stored afterwards, so \<open>ValidateParamChanges\<close> returns the changed \<open>changes\<close>
  beside its result.
\<close>

text \<open>One iteration of the switch of \<open>ValidateParamChanges\<close>, on \<open>changes\<close> and \<open>params\<close>.\<close>

definition change_param :: "string \<Rightarrow> Params \<times> Params \<Rightarrow> Params \<times> Params" where
  "change_param key cp = (case cp of (changes, p) \<Rightarrow>
     if key = KeyVotePeriod then (changes, p\<lparr>VotePeriod := VotePeriod changes\<rparr>)
     else if key = KeyVoteThreshold then (changes, p\<lparr>VoteThreshold := VoteThreshold changes\<rparr>)
     else if key = KeyRewardBands then (changes, p\<lparr>RewardBands := RewardBands changes\<rparr>)
     else if key = KeyRewardDistributionWindow then (changes, p\<lparr>RewardDistributionWindow := RewardDistributionWindow changes\<rparr>)
     else if key = KeyAcceptList
     then (let l = Normalize (AcceptList changes) in (changes\<lparr>AcceptList := l\<rparr>, p\<lparr>AcceptList := l\<rparr>))
     else if key = KeyMandatoryList
     then (let l = Normalize (MandatoryList changes) in (changes\<lparr>MandatoryList := l\<rparr>, p\<lparr>MandatoryList := l\<rparr>))
     else if key = KeySlashFraction then (changes, p\<lparr>SlashFraction := SlashFraction changes\<rparr>)
     else if key = KeySlashWindow then (changes, p\<lparr>SlashWindow := SlashWindow changes\<rparr>)
     else if key = KeyMinValidPerWindow then (changes, p\<lparr>MinValidPerWindow := MinValidPerWindow changes\<rparr>)
     else if key = KeyHistoricStampPeriod then (changes, p\<lparr>HistoricStampPeriod := HistoricStampPeriod changes\<rparr>)
     else if key = KeyMedianStampPeriod then (changes, p\<lparr>MedianStampPeriod := MedianStampPeriod changes\<rparr>)
     else if key = KeyMaximumPriceStamps then (changes, p\<lparr>MaximumPriceStamps := MaximumPriceStamps changes\<rparr>)
     else if key = KeyMaximumMedianStamps then (changes, p\<lparr>MaximumMedianStamps := MaximumMedianStamps changes\<rparr>)
     else if key = KeyCurrencyPairProviders then (changes, p\<lparr>CurrencyPairProviders := CurrencyPairProviders changes\<rparr>)
     else if key = KeyCurrencyDeviationThresholds then (changes, p\<lparr>CurrencyDeviationThresholds := CurrencyDeviationThresholds changes\<rparr>)
     else if key = KeyUsdcIbcDenom then (changes, p\<lparr>UsdcIbcDenom := UsdcIbcDenom changes\<rparr>)
     else if key = KeySlashingEnabled then (changes, p\<lparr>SlashingEnabled := SlashingEnabled changes\<rparr>)
     else if key = KeyAveragingWindow then (changes, p\<lparr>AveragingWindow := AveragingWindow changes\<rparr>)
     else (changes, p))"

definition ValidateParamChanges ::
  "'w oracle_env \<Rightarrow> 'w ostate \<Rightarrow> string list \<Rightarrow> Params \<Rightarrow> Params \<times> unit res" where
  "ValidateParamChanges E s keys changes =
     (let (changes, p) = fold change_param keys (changes, GetParams s) in
      (changes, Params_Validate (Y E) p))"

definition haveParamUpdatePlan :: "'w ostate \<Rightarrow> uint64 \<Rightarrow> bool" where
  "haveParamUpdatePlan s planHeight \<longleftrightarrow> coll_get (ParamUpdatePlans s) planHeight \<noteq> None"

definition ScheduleParamUpdatePlan ::
  "'w oracle_env \<Rightarrow> int \<Rightarrow> ParamUpdatePlan \<Rightarrow> 'w ostate \<Rightarrow> 'w ostate \<times> unit res" where
  "ScheduleParamUpdatePlan E blockHeight plan s =
     (if Height plan < blockHeight then (s, Err ErrInvalidRequest)
      else
        let (changes, r) = ValidateParamChanges E s (Keys plan) (Changes plan) in
        read_st s r (\<lambda>_.
          (s\<lparr>ParamUpdatePlans := coll_set (SafeInt64ToUint64 (Height plan))
               (plan\<lparr>Changes := changes\<rparr>) (ParamUpdatePlans s)\<rparr>, Ok ())))"

definition ClearParamUpdatePlan :: "uint64 \<Rightarrow> 'w ostate \<Rightarrow> 'w ostate \<times> unit res" where
  "ClearParamUpdatePlan planHeight s =
     (if \<not> haveParamUpdatePlan s planHeight then (s, Err ErrInvalidRequest)
      else (s\<lparr>ParamUpdatePlans := coll_remove planHeight (ParamUpdatePlans s)\<rparr>, Ok ()))"

definition IterateParamUpdatePlans :: "'w ostate \<Rightarrow> (ParamUpdatePlan \<Rightarrow> 'a \<Rightarrow> 'a \<times> bool) \<Rightarrow> 'a \<Rightarrow> 'a" where
  "IterateParamUpdatePlans s handler a = coll_walk (\<lambda>h plan a. handler plan a) (ParamUpdatePlans s) a"

definition GetParamUpdatePlans :: "'w ostate \<Rightarrow> ParamUpdatePlan list" where
  "GetParamUpdatePlans s = IterateParamUpdatePlans s (\<lambda>plan plans. (plans @ [plan], False)) []"

definition GetPlansUpToHeight :: "'w ostate \<Rightarrow> uint64 \<Rightarrow> ParamUpdatePlan list res" where
  "GetPlansUpToHeight s currentHeight =
     Ok (coll_walk (\<lambda>h plan plans. (plans @ [plan], False))
           (filter (\<lambda>e. fst e \<le> currentHeight) (ParamUpdatePlans s)) [])"

text \<open>One iteration of the switch of \<open>ExecuteParamUpdatePlan\<close>.\<close>

definition execute_key :: "Params \<Rightarrow> string \<Rightarrow> 'w ostate \<Rightarrow> 'w ostate" where
  "execute_key changes key s =
     (if key = KeyVotePeriod then SetVotePeriod (VotePeriod changes) s
      else if key = KeyVoteThreshold then SetVoteThreshold (VoteThreshold changes) s
      else if key = KeyRewardBands then SetRewardBand (RewardBands changes) s
      else if key = KeyRewardDistributionWindow then SetRewardDistributionWindow (RewardDistributionWindow changes) s
      else if key = KeyAcceptList then SetAcceptList (Normalize (AcceptList changes)) s
      else if key = KeyMandatoryList then SetMandatoryList (Normalize (MandatoryList changes)) s
      else if key = KeySlashFraction then SetSlashFraction (SlashFraction changes) s
      else if key = KeySlashWindow then SetSlashWindow (SlashWindow changes) s
      else if key = KeyMinValidPerWindow then SetMinValidPerWindow (MinValidPerWindow changes) s
      else if key = KeyHistoricStampPeriod then SetHistoricStampPeriod (HistoricStampPeriod changes) s
      else if key = KeyMedianStampPeriod then SetMedianStampPeriod (MedianStampPeriod changes) s
      else if key = KeyMaximumPriceStamps then SetMaximumPriceStamps (MaximumPriceStamps changes) s
      else if key = KeyMaximumMedianStamps then SetMaximumMedianStamps (MaximumMedianStamps changes) s
      else if key = KeyCurrencyPairProviders then SetCurrencyPairProviders (CurrencyPairProviders changes) s
      else if key = KeyCurrencyDeviationThresholds then SetCurrencyDeviationThresholds (CurrencyDeviationThresholds changes) s
      else if key = KeyUsdcIbcDenom then SetUsdcIbcDenom (UsdcIbcDenom changes) s
      else if key = KeySlashingEnabled then SetSlashingEnabled (SlashingEnabled changes) s
      else if key = KeyAveragingWindow then SetAveragingWindow (AveragingWindow changes) s
      else s)"

definition ExecuteParamUpdatePlan :: "ParamUpdatePlan \<Rightarrow> 'w ostate \<Rightarrow> 'w ostate \<times> unit res" where
  "ExecuteParamUpdatePlan plan s =
     ClearParamUpdatePlan (SafeInt64ToUint64 (Height plan)) (fold (execute_key (Changes plan)) (Keys plan) s)"

section \<open>Lemmas\<close>

text \<open>What a key assigns, as a function of the parameters alone.\<close>

definition assign_key :: "Params \<Rightarrow> string \<Rightarrow> Params \<Rightarrow> Params" where
  "assign_key changes key p = snd (change_param key (changes, p))"

lemma execute_key_eq: "execute_key c key s = s\<lparr>params := assign_key c key (params s)\<rparr>"
  unfolding execute_key_def assign_key_def change_param_def param_writes by (simp add: Let_def)

lemma fold_execute_key:
  "fold (execute_key c) keys s = s\<lparr>params := fold (assign_key c) keys (params s)\<rparr>"
  by (induction keys arbitrary: s) (simp_all add: execute_key_eq)

text \<open>Changes that differ only in the case of the symbols of the two denom lists.\<close>

definition same_changes :: "Params \<Rightarrow> Params \<Rightarrow> bool" where
  "same_changes c c' \<longleftrightarrow>
     c\<lparr>AcceptList := Normalize (AcceptList c), MandatoryList := Normalize (MandatoryList c)\<rparr> =
     c'\<lparr>AcceptList := Normalize (AcceptList c'), MandatoryList := Normalize (MandatoryList c')\<rparr>"

lemma same_changes_refl [simp]: "same_changes c c"
  by (simp add: same_changes_def)

lemma same_changes_sym: "same_changes c c' \<Longrightarrow> same_changes c' c"
  by (simp add: same_changes_def)

lemma change_param_same: "same_changes c c' \<Longrightarrow> same_changes c (fst (change_param key (c', p)))"
  unfolding change_param_def by (simp add: Let_def same_changes_def)

lemma assign_key_same: "same_changes c c' \<Longrightarrow> assign_key c key p = assign_key c' key p"
  unfolding assign_key_def change_param_def by (cases c; cases c') (simp add: Let_def same_changes_def)

lemma fold_assign_key_same: "same_changes c c' \<Longrightarrow> fold (assign_key c) keys p = fold (assign_key c') keys p"
  by (induction keys arbitrary: p) (simp_all add: assign_key_same)

lemma fold_change_param:
  assumes "same_changes c c'"
  shows "same_changes c (fst (fold change_param keys (c', p))) \<and>
     snd (fold change_param keys (c', p)) = fold (assign_key c) keys p"
  using assms
proof (induction keys arbitrary: c' p)
  case (Cons key keys)
  obtain c1 p1 where step: "change_param key (c', p) = (c1, p1)" by fastforce
  have "same_changes c c1" using change_param_same [OF Cons.prems, of key p] by (simp add: step)
  moreover have "p1 = assign_key c key p"
    using assign_key_same [OF Cons.prems] by (simp add: assign_key_def step)
  ultimately show ?case using Cons.IH by (simp add: step)
qed simp

lemma ValidateParamChanges_eq:
  "\<exists>c. ValidateParamChanges E s keys changes = (c, Params_Validate (Y E) (fold (assign_key changes) keys (params s)))
     \<and> same_changes changes c"
proof -
  obtain c p where "fold change_param keys (changes, params s) = (c, p)" by fastforce
  with fold_change_param [of changes changes keys "params s"] show ?thesis
    by (simp add: ValidateParamChanges_def GetParams_def)
qed

lemma ScheduleParamUpdatePlan_Ok:
  assumes "ScheduleParamUpdatePlan E h plan s = (s', Ok ())"
  shows "h \<le> Height plan \<and> params_ok (Y E) (fold (assign_key (Changes plan)) (Keys plan) (params s)) \<and>
     (\<exists>c. same_changes (Changes plan) c \<and>
        s' = s\<lparr>ParamUpdatePlans := coll_set (SafeInt64ToUint64 (Height plan)) (plan\<lparr>Changes := c\<rparr>)
                (ParamUpdatePlans s)\<rparr>)"
proof -
  obtain c where c: "ValidateParamChanges E s (Keys plan) (Changes plan) =
      (c, Params_Validate (Y E) (fold (assign_key (Changes plan)) (Keys plan) (params s)))"
    "same_changes (Changes plan) c"
    using ValidateParamChanges_eq by blast
  have v: "Params_Validate (Y E) p = Ok u \<longleftrightarrow> params_ok (Y E) p" for p u
    using Params_Validate_Ok [of "Y E" p] by (cases u) simp
  from assms c show ?thesis
    by (auto simp: ScheduleParamUpdatePlan_def res_simps v split: if_splits)
qed

section \<open>Properties\<close>


text \<open>Two plans that are valid one by one: a longer vote period with matching historic
  stamps, and a longer slash window.\<close>

definition period_plan :: ParamUpdatePlan where
  "period_plan = \<lparr>Keys = [KeyVotePeriod, KeyHistoricStampPeriod], Height = 100,
     Changes = DefaultParams\<lparr>VotePeriod := 20, HistoricStampPeriod := 40\<rparr>\<rparr>"

definition window_plan :: ParamUpdatePlan where
  "window_plan = \<lparr>Keys = [KeySlashWindow], Height = 101, Changes = DefaultParams\<lparr>SlashWindow := 100810\<rparr>\<rparr>"

lemmas sample_plans = period_plan_def window_plan_def param_keys change_param_def

lemma period_plan_validated:
  "ValidateParamChanges E s (Keys period_plan) (Changes period_plan) =
     (Changes period_plan, Params_Validate (Y E) ((params s)\<lparr>VotePeriod := 20, HistoricStampPeriod := 40\<rparr>))"
  by (simp add: ValidateParamChanges_def sample_plans GetParams_def)

lemma window_plan_validated:
  "ValidateParamChanges E s (Keys window_plan) (Changes window_plan) =
     (Changes window_plan, Params_Validate (Y E) ((params s)\<lparr>SlashWindow := 100810\<rparr>))"
  by (simp add: ValidateParamChanges_def sample_plans GetParams_def)

lemma sample_plans_ok:
  "params_ok y (DefaultParams\<lparr>VotePeriod := 20, HistoricStampPeriod := 40\<rparr>)"
  "params_ok y (DefaultParams\<lparr>SlashWindow := 100810\<rparr>)"
  "\<not> params_ok y (DefaultParams\<lparr>VotePeriod := 20, HistoricStampPeriod := 40, SlashWindow := 100810\<rparr>)"
  by (simp_all add: params_ok_def default_params dec_consts)

lemma period_plan_scheduled:
  assumes "params s = DefaultParams"
  shows "ScheduleParamUpdatePlan E 50 period_plan s =
     (s\<lparr>ParamUpdatePlans := coll_set 100 period_plan (ParamUpdatePlans s)\<rparr>, Ok ())"
  using period_plan_validated [of E s]
  by (simp add: ScheduleParamUpdatePlan_def iffD2 [OF Params_Validate_Ok sample_plans_ok(1)] assms period_plan_def SafeInt64ToUint64_def)

lemma window_plan_scheduled:
  assumes "params s = DefaultParams"
  shows "ScheduleParamUpdatePlan E 50 window_plan s =
     (s\<lparr>ParamUpdatePlans := coll_set 101 window_plan (ParamUpdatePlans s)\<rparr>, Ok ())"
  using window_plan_validated [of E s]
  by (simp add: ScheduleParamUpdatePlan_def iffD2 [OF Params_Validate_Ok sample_plans_ok(2)] assms window_plan_def SafeInt64ToUint64_def)


text \<open>
  C34. Plans are validated one by one against the parameters at scheduling time: from the
  default parameters two plans can both be accepted, and executing both, each at its
  height, leaves parameters that \<open>Params.Validate\<close> rejects.
\<close>

theorem accepted_plans_can_conflict:
  assumes "params s = DefaultParams"
  shows "\<exists>s1 s2 s3 s4.
     ScheduleParamUpdatePlan E 50 period_plan s = (s1, Ok ()) \<and>
     ScheduleParamUpdatePlan E 50 window_plan s1 = (s2, Ok ()) \<and>
     ExecuteParamUpdatePlan period_plan s2 = (s3, Ok ()) \<and>
     ExecuteParamUpdatePlan window_plan s3 = (s4, Ok ()) \<and>
     Params_Validate (Y E) (params s4) = Err ErrInvalidParamValue"
proof -
  let ?s1 = "s\<lparr>ParamUpdatePlans := coll_set 100 period_plan (ParamUpdatePlans s)\<rparr>"
  let ?s2 = "?s1\<lparr>ParamUpdatePlans := coll_set 101 window_plan (ParamUpdatePlans ?s1)\<rparr>"
  let ?p = "DefaultParams\<lparr>VotePeriod := 20, HistoricStampPeriod := 40, SlashWindow := 100810\<rparr>"
  have "ScheduleParamUpdatePlan E 50 period_plan s = (?s1, Ok ())"
    by (rule period_plan_scheduled [OF assms])
  moreover have "ScheduleParamUpdatePlan E 50 window_plan ?s1 = (?s2, Ok ())"
    by (rule window_plan_scheduled) (simp add: assms)
  moreover have "\<exists>s3. ExecuteParamUpdatePlan period_plan ?s2 = (s3, Ok ()) \<and>
      params s3 = DefaultParams\<lparr>VotePeriod := 20, HistoricStampPeriod := 40\<rparr> \<and>
      coll_get (ParamUpdatePlans s3) 101 = Some window_plan"
    by (simp add: ExecuteParamUpdatePlan_def execute_key_eq assign_key_def sample_plans assms
        ClearParamUpdatePlan_def haveParamUpdatePlan_def SafeInt64ToUint64_def)
  then obtain s3 where "ExecuteParamUpdatePlan period_plan ?s2 = (s3, Ok ())"
    and s3: "params s3 = DefaultParams\<lparr>VotePeriod := 20, HistoricStampPeriod := 40\<rparr>"
      "coll_get (ParamUpdatePlans s3) 101 = Some window_plan"
    by blast
  moreover have "\<exists>s4. ExecuteParamUpdatePlan window_plan s3 = (s4, Ok ()) \<and> params s4 = ?p"
    using s3 by (simp add: ExecuteParamUpdatePlan_def execute_key_eq assign_key_def sample_plans
        ClearParamUpdatePlan_def haveParamUpdatePlan_def SafeInt64ToUint64_def)
  moreover have "Params_Validate (Y E) ?p = Err ErrInvalidParamValue"
    using Params_Validate_total [of "Y E" ?p] sample_plans_ok(3) by (auto simp: invalid_param_def Params_Validate_Ok)
  ultimately show ?thesis by metis
qed

theorem accepted_plans_can_conflict_witness:
  "\<exists>s1 s2 s3 s4.
     ScheduleParamUpdatePlan ref_env 50 period_plan ref_state = (s1, Ok ()) \<and>
     ScheduleParamUpdatePlan ref_env 50 window_plan s1 = (s2, Ok ()) \<and>
     ExecuteParamUpdatePlan period_plan s2 = (s3, Ok ()) \<and>
     ExecuteParamUpdatePlan window_plan s3 = (s4, Ok ()) \<and>
     Params_Validate (Y ref_env) (params s4) = Err ErrInvalidParamValue"
  by (rule accepted_plans_can_conflict) (simp add: ref_state_def)

end
