(* ===== verification/Decmath.thy ===== *)
theory Decmath
  imports Dec Go_Sort
begin

text \<open>
  The statistics of \<open>src/util/decmath/decmath.go\<close> over lists of decimals. \<open>Median\<close> sorts the
  slice it is given, which is the caller's, so the model returns the sorted slice beside
  the result.
\<close>

definition ErrEmptyList :: error where
  "ErrEmptyList = Errorf ''empty price list passed in''"

definition Median :: "dec_ops \<Rightarrow> dec list \<Rightarrow> dec list \<times> dec res" where
  "Median D ds =
     (if length ds = 0 then (ds, Err ErrEmptyList)
      else
        let ds = go_sort (\<lambda>x y. x < y) ds; n = length ds in
        (ds, if n mod 2 = 0
             then bind_res (must (dAdd D (ds ! (n div 2 - 1)) (ds ! (n div 2)))) (\<lambda>s. must (dQuoInt64 D s 2))
             else Ok (ds ! (n div 2))))"

fun variance_loop :: "dec_ops \<Rightarrow> dec \<Rightarrow> int \<Rightarrow> dec \<Rightarrow> dec list \<Rightarrow> dec res" where
  "variance_loop D median n variance [] = Ok variance"
| "variance_loop D median n variance (d # ds) =
     bind_res (must (dSub D d median)) (\<lambda>x.
     bind_res (must (dPower D \<bar>x\<bar> 2)) (\<lambda>p.
     bind_res (must (dQuoInt64 D p n)) (\<lambda>q.
     bind_res (must (dAdd D variance q)) (\<lambda>variance. variance_loop D median n variance ds))))"

definition MedianDeviation :: "dec_ops \<Rightarrow> dec \<Rightarrow> dec list \<Rightarrow> dec res" where
  "MedianDeviation D median ds =
     (if length ds = 0 then Err ErrEmptyList
      else bind_res (variance_loop D median (int (length ds)) LegacyZeroDec ds) (dApproxSqrt D))"

fun sum_loop :: "dec_ops \<Rightarrow> dec \<Rightarrow> dec list \<Rightarrow> dec res" where
  "sum_loop D sumPrices [] = Ok sumPrices"
| "sum_loop D sumPrices (d # ds) = bind_res (must (dAdd D sumPrices d)) (\<lambda>s. sum_loop D s ds)"

definition Average :: "dec_ops \<Rightarrow> dec list \<Rightarrow> dec res" where
  "Average D ds =
     (if length ds = 0 then Err ErrEmptyList
      else bind_res (sum_loop D LegacyZeroDec ds) (\<lambda>s. must (dQuoInt64 D s (int (length ds)))))"

definition Max :: "dec list \<Rightarrow> dec res" where
  "Max ds = (case ds of [] \<Rightarrow> Err ErrEmptyList
     | d # ds \<Rightarrow> Ok (fold (\<lambda>d m. if d > m then d else m) ds d))"

definition Min :: "dec list \<Rightarrow> dec res" where
  "Min ds = (case ds of [] \<Rightarrow> Err ErrEmptyList
     | d # ds \<Rightarrow> Ok (fold (\<lambda>d m. if d < m then d else m) ds d))"

section \<open>Lemmas\<close>

interpretation dec_less: go_less "\<lambda>x y :: dec. x < y"
  by unfold_locales auto

lemma IsSorted_less: "IsSorted (\<lambda>x y :: dec. x < y) xs \<longleftrightarrow> sorted xs"
  by (simp add: dec_less.IsSorted_iff linorder_not_less)

lemma sorted_go_sort: "sorted (go_sort (\<lambda>x y :: dec. x < y) xs)"
  using dec_less.IsSorted_go_sort by (simp add: IsSorted_less)

lemma go_sort_less_perm: "mset xs = mset ys \<Longrightarrow> go_sort (\<lambda>x y :: dec. x < y) xs = go_sort (\<lambda>x y. x < y) ys"
  by (rule dec_less.go_sort_perm) auto

text \<open>The truncated mean of two integers lies between them.\<close>

lemma go_div_2_between:
  assumes "a \<le> b"
  shows "a \<le> go_div (a + b) 2 \<and> go_div (a + b) 2 \<le> b"
proof (cases "0 \<le> a + b")
  case True
  then show ?thesis using assms by (auto simp: go_div_nonneg)
next
  case False
  then have "go_div (a + b) 2 = - ((- a - b) div 2)"
    by (simp add: go_div_def sgn_if algebra_simps)
  then show ?thesis using assms by auto
qed

text \<open>Truncated division by a positive number keeps bounds.\<close>

lemma div_bounds:
  fixes s :: int
  assumes "0 < n" and "lo * n \<le> s" and "s \<le> hi * n"
  shows "lo \<le> s div n \<and> s div n \<le> hi"
  using zdiv_mono1 [OF assms(2,1)] zdiv_mono1 [OF assms(3,1)] assms(1) by simp

lemma go_div_bounds:
  assumes "0 < n" and "lo * n \<le> s" and "s \<le> hi * n"
  shows "lo \<le> go_div s n \<and> go_div s n \<le> hi"
proof (cases "0 \<le> s")
  case True
  then show ?thesis using div_bounds [OF assms] assms(1) by (simp add: go_div_nonneg)
next
  case False
  then have "go_div s n = - (- s div n)"
    using assms(1) by (simp add: go_div_def sgn_if)
  then show ?thesis
    using div_bounds [of n "- hi" "- s" "- lo"] assms by simp
qed

lemma go_div_near: "0 < n \<Longrightarrow> \<bar>n * go_div s n - s\<bar> < n"
proof -
  assume n: "0 < n"
  have "\<bar>n * (\<bar>s\<bar> div n) - \<bar>s\<bar>\<bar> < n"
    using n by (simp add: minus_mod_eq_mult_div [symmetric])
  moreover have "n * go_div s n - s = sgn s * (n * (\<bar>s\<bar> div n) - \<bar>s\<bar>)"
    using n by (simp add: go_div_def algebra_simps abs_sgn)
  ultimately show ?thesis
    using n by (auto simp: abs_mult sgn_if)
qed

lemma sum_list_bounds:
  fixes ds :: "int list"
  shows "(\<forall>d \<in> set ds. lo \<le> d \<and> d \<le> hi) \<Longrightarrow>
    lo * int (length ds) \<le> sum_list ds \<and> sum_list ds \<le> hi * int (length ds)"
  by (induction ds) (auto simp: algebra_simps)

text \<open>The loop adds up exactly as long as no partial sum reaches the limit.\<close>

lemma sum_loop_Ok:
  assumes "dec_laws D" and "\<forall>d \<in> set ds. \<bar>d\<bar> \<le> b"
    and "\<bar>s\<bar> + b * int (length ds) < dLimit D"
  shows "sum_loop D s ds = Ok (s + sum_list ds)"
  using assms(2,3)
proof (induction ds arbitrary: s)
  case (Cons d ds)
  have "0 \<le> b * int (length ds)"
    using Cons.prems(1) by auto
  moreover have "\<bar>s\<bar> + b + b * int (length ds) < dLimit D" "\<bar>d\<bar> \<le> b"
    using Cons.prems by (simp_all add: algebra_simps)
  ultimately have "\<bar>s + d\<bar> < dLimit D" "\<bar>s + d\<bar> + b * int (length ds) < dLimit D"
    by linarith+
  then show ?case
    using Cons by (simp add: dec_laws_Add [OF assms(1)])
qed simp

lemma fold_max: "fold (\<lambda>d m. if d > m then d else m) ds (d :: int) = fold max ds d"
  by (induction ds arbitrary: d) (auto simp: max_def)

lemma fold_min: "fold (\<lambda>d m. if d < m then d else m) ds (d :: int) = fold min ds d"
  by (induction ds arbitrary: d) (auto simp: min_def)

lemma Max_eq: "ds \<noteq> [] \<Longrightarrow> Max ds = Ok (Lattices_Big.Max (set ds))"
  by (cases ds) (simp_all add: Max_def fold_max Max.set_eq_fold [symmetric] del: list.set)

lemma Min_eq: "ds \<noteq> [] \<Longrightarrow> Min ds = Ok (Lattices_Big.Min (set ds))"
  by (cases ds) (simp_all add: Min_def fold_min Min.set_eq_fold [symmetric] del: list.set)

text \<open>In a sorted list, the elements up to and from a position are on its two sides.\<close>

lemma sorted_count_le:
  assumes "sorted xs" and "i < length xs" and "xs ! i \<le> m"
  shows "i + 1 \<le> length (filter (\<lambda>x. x \<le> m) xs)"
proof -
  have "xs ! j \<le> m" if "j \<le> i" for j
    using sorted_nth_mono [OF assms(1) that assms(2)] assms(3) by simp
  then have "filter (\<lambda>x. x \<le> m) (take (i + 1) xs) = take (i + 1) xs"
    by (auto simp: filter_id_conv in_set_conv_nth)
  then have "length (filter (\<lambda>x. x \<le> m) (take (i + 1) xs)) = i + 1"
    using assms(2) by simp
  moreover have "filter (\<lambda>x. x \<le> m) xs =
      filter (\<lambda>x. x \<le> m) (take (i + 1) xs) @ filter (\<lambda>x. x \<le> m) (drop (i + 1) xs)"
    by (metis append_take_drop_id filter_append)
  ultimately show ?thesis by simp
qed

lemma sorted_count_ge:
  assumes "sorted xs" and "i < length xs" and "m \<le> xs ! i"
  shows "length xs - i \<le> length (filter (\<lambda>x. m \<le> x) xs)"
proof -
  have "m \<le> xs ! (i + j)" if "j < length xs - i" for j
  proof -
    have "i + j < length xs"
      using that by linarith
    with sorted_nth_mono [OF assms(1), of i "i + j"] assms(3) show ?thesis by simp
  qed
  then have "filter (\<lambda>x. m \<le> x) (drop i xs) = drop i xs"
    by (auto simp: filter_id_conv in_set_conv_nth)
  then have "length (filter (\<lambda>x. m \<le> x) (drop i xs)) = length xs - i"
    by simp
  moreover have "filter (\<lambda>x. m \<le> x) xs =
      filter (\<lambda>x. m \<le> x) (take i xs) @ filter (\<lambda>x. m \<le> x) (drop i xs)"
    by (metis append_take_drop_id filter_append)
  ultimately show ?thesis by simp
qed

lemma length_filter_go_sort [simp]: "length (filter P (go_sort lt xs)) = length (filter P xs)"
  by (metis mset_filter mset_go_sort size_mset)

lemma Median_perm: "mset ds = mset ds' \<Longrightarrow> Median D ds = Median D ds' \<or> ds = []"
  by (cases "ds = []") (auto simp: Median_def go_sort_less_perm [of ds ds'] dest: mset_eq_length)

text \<open>The middle of the sorted list.\<close>

lemma Median_middle:
  assumes "dec_laws D" and "ds \<noteq> []" and "\<forall>d \<in> set ds. \<bar>d\<bar> \<le> b" and "2 * b < dLimit D"
  defines "xs \<equiv> go_sort (\<lambda>x y. x < y) ds" and "n \<equiv> length ds"
  shows "\<exists>m. Median D ds = (xs, Ok m) \<and> xs ! ((n - 1) div 2) \<le> m \<and> m \<le> xs ! (n div 2)"
proof (cases "n mod 2 = 0")
  case True
  then have i: "n div 2 - 1 = (n - 1) div 2" "n div 2 < n" "(n - 1) div 2 < n"
    using assms(2) by (cases ds; simp add: n_def; presburger)+
  have "xs ! i \<in> set ds" if "i < n" for i
    using that nth_mem [of i xs] by (simp add: xs_def n_def)
  then have "\<bar>xs ! ((n - 1) div 2)\<bar> \<le> b" "\<bar>xs ! (n div 2)\<bar> \<le> b"
    using i assms(3) by blast+
  then have "\<bar>xs ! ((n - 1) div 2) + xs ! (n div 2)\<bar> < dLimit D"
    using assms(4) by linarith
  moreover have "xs ! ((n - 1) div 2) \<le> xs ! (n div 2)"
    using i(2) by (intro sorted_nth_mono) (auto simp: xs_def n_def sorted_go_sort div_le_mono)
  ultimately show ?thesis
    using True i(1) assms(2) go_div_2_between
    by (simp add: Median_def Let_def xs_def n_def dec_laws_Add [OF assms(1)] dec_laws_QuoInt64 [OF assms(1)])
next
  case False
  then have "(n - 1) div 2 = n div 2"
    by presburger
  then show ?thesis
    using False assms(2) by (simp add: Median_def Let_def xs_def n_def)
qed

lemma Median_halves:
  assumes "dec_laws D" and "ds \<noteq> []" and "\<forall>d \<in> set ds. \<bar>d\<bar> \<le> b" and "2 * b < dLimit D"
  shows "\<exists>m. Median D ds = (go_sort (\<lambda>x y. x < y) ds, Ok m) \<and>
     length ds \<le> 2 * length (filter (\<lambda>d. d \<le> m) ds) \<and>
     length ds \<le> 2 * length (filter (\<lambda>d. m \<le> d) ds)"
proof -
  let ?xs = "go_sort (\<lambda>x y. x < y) ds" and ?n = "length ds"
  obtain m where m: "Median D ds = (?xs, Ok m)" "?xs ! ((?n - 1) div 2) \<le> m" "m \<le> ?xs ! (?n div 2)"
    using Median_middle [OF assms] by blast
  have "0 < ?n"
    using assms(2) by simp
  then have n: "(?n - 1) div 2 < length ?xs" "?n div 2 < length ?xs"
    unfolding length_go_sort by presburger+
  have "(?n - 1) div 2 + 1 \<le> length (filter (\<lambda>d. d \<le> m) ds)"
    using sorted_count_le [OF sorted_go_sort n(1) m(2)] by simp
  moreover have "?n - ?n div 2 \<le> length (filter (\<lambda>d. m \<le> d) ds)"
    using sorted_count_ge [OF sorted_go_sort n(2) m(3)] by simp
  moreover have "?n \<le> 2 * ((?n - 1) div 2 + 1)" "?n \<le> 2 * (?n - ?n div 2)"
    by presburger+
  ultimately have "?n \<le> 2 * length (filter (\<lambda>d. d \<le> m) ds)" "?n \<le> 2 * length (filter (\<lambda>d. m \<le> d) ds)"
    by linarith+
  then show ?thesis using m(1) by auto
qed

lemma variance_loop_nonneg:
  assumes "dec_laws D" and "0 < n"
  shows "variance_loop D m n v ds = Ok w \<Longrightarrow> 0 \<le> v \<Longrightarrow> 0 \<le> w"
proof (induction ds arbitrary: v)
  case (Cons d ds)
  then obtain x p q u where "dPower D \<bar>x\<bar> 2 = Some p" "dQuoInt64 D p n = Some q" "dAdd D v q = Some u"
    and rest: "variance_loop D m n u ds = Ok w"
    by (auto simp: res_simps)
  then have "0 \<le> p" "q = go_div p n" "u = v + q"
    using dec_laws_Power [OF assms(1), of "\<bar>x\<bar>" 2 p] assms(2)
    by (auto simp: dec_laws_QuoInt64 [OF assms(1)] dec_laws_Add [OF assms(1)] split: if_splits)
  then have "0 \<le> u"
    using Cons.prems(2) assms(2) by (simp add: go_div_nonneg pos_imp_zdiv_nonneg_iff)
  with rest show ?case by (rule Cons.IH)
qed simp

lemma MedianDeviation_nonneg:
  assumes "dec_laws D" and "MedianDeviation D m ds = Ok d"
  shows "0 \<le> d"
proof -
  obtain v where "variance_loop D m (int (length ds)) LegacyZeroDec ds = Ok v" "dApproxSqrt D v = Ok d" "ds \<noteq> []"
    using assms(2) by (auto simp: MedianDeviation_def res_simps split: if_splits)
  then show ?thesis
    using variance_loop_nonneg [OF assms(1)] dec_laws_Sqrt [OF assms(1)]
    by (metis LegacyZeroDec_def length_greater_0_conv of_nat_0_less_iff order_refl)
qed

section \<open>Properties\<close>

text \<open>
  C37. The median of a non-empty list that is within half the range of the decimals is
  computed without error, lies between two elements of the list, and at least half of the
  elements are on each side of it.
\<close>

theorem Median_spec:
  assumes "dec_laws D" and "ds \<noteq> []" and "\<forall>d \<in> set ds. \<bar>d\<bar> \<le> b" and "2 * b < dLimit D"
  shows "\<exists>m. snd (Median D ds) = Ok m \<and>
     length ds \<le> 2 * length (filter (\<lambda>d. d \<le> m) ds) \<and>
     length ds \<le> 2 * length (filter (\<lambda>d. m \<le> d) ds)"
  using Median_halves [OF assms] by auto

theorem Median_spec_witness:
  "\<exists>m. snd (Median ref_dec [5, 1, 4, 2]) = Ok m \<and>
     length [5 :: int, 1, 4, 2] \<le> 2 * length (filter (\<lambda>d. d \<le> m) [5, 1, 4, 2]) \<and>
     length [5 :: int, 1, 4, 2] \<le> 2 * length (filter (\<lambda>d. m \<le> d) [5, 1, 4, 2])"
  by (rule Median_spec [OF ref_dec_laws, where b = 5]) (simp_all add: ref_dec_exact(5) ref_limit_def)

text \<open>
  The average of a non-empty list whose sum stays within the range is computed without
  error, lies between the smallest and the largest element, and differs from the exact
  mean by less than one unit of the last place.
\<close>

theorem Average_spec:
  assumes "dec_laws D" and "ds \<noteq> []" and "\<forall>d \<in> set ds. \<bar>d\<bar> \<le> b"
    and "b * int (length ds) < dLimit D"
  shows "\<exists>a lo hi. Average D ds = Ok a \<and> Min ds = Ok lo \<and> Max ds = Ok hi \<and> lo \<le> a \<and> a \<le> hi \<and>
     \<bar>int (length ds) * a - sum_list ds\<bar> < int (length ds)"
proof -
  let ?n = "int (length ds)" and ?lo = "Lattices_Big.Min (set ds)" and ?hi = "Lattices_Big.Max (set ds)"
  have n: "0 < ?n" using assms(2) by simp
  have "sum_loop D LegacyZeroDec ds = Ok (sum_list ds)"
    using sum_loop_Ok [OF assms(1,3), of 0] assms(4) by (simp add: LegacyZeroDec_def)
  then have "Average D ds = Ok (go_div (sum_list ds) ?n)"
    using assms(2) by (simp add: Average_def dec_laws_QuoInt64 [OF assms(1)])
  moreover have "?lo * ?n \<le> sum_list ds \<and> sum_list ds \<le> ?hi * ?n"
    by (rule sum_list_bounds) simp
  ultimately show ?thesis
    using go_div_bounds [OF n, of ?lo "sum_list ds" ?hi] go_div_near [OF n]
      Min_eq [OF assms(2)] Max_eq [OF assms(2)] by simp
qed

theorem Average_spec_witness:
  "\<exists>a lo hi. Average ref_dec [5, 1, 4] = Ok a \<and> Min [5, 1, 4] = Ok lo \<and> Max [5, 1, 4] = Ok hi \<and>
     lo \<le> a \<and> a \<le> hi \<and> \<bar>3 * a - 10\<bar> < 3"
  using Average_spec [OF ref_dec_laws, of "[5, 1, 4]" 5]
  by (simp add: ref_dec_exact(5) ref_limit_def)

end
