(* ===== verification/Oracle_Prices.thy ===== *)
theory Oracle_Prices
  imports Oracle_Keeper Decmath
begin

text \<open>
  Historic prices, their medians and deviations: the iterators of
  \<open>src/x/oracle/keeper/genesis.go\<close>, the operations of \<open>historic_price.go\<close> and the pruning of
  \<open>end_blocker.go\<close>. \<open>h\<close> is \<open>ctx.BlockHeight()\<close>. A remainder by a period of zero panics.
\<close>

section \<open>genesis.go: iterators over all stamps\<close>

definition IterateAllHistoricPrices :: "'w ostate \<Rightarrow> (PriceStamp \<Rightarrow> 'a \<Rightarrow> 'a \<times> bool) \<Rightarrow> 'a \<Rightarrow> 'a" where
  "IterateAllHistoricPrices s handler a =
     coll_walk (\<lambda>key v a. handler (NewPriceStamp v (fst key) (snd key)) a) (HistoricPrices s) a"

definition AllHistoricPrices :: "'w ostate \<Rightarrow> PriceStamps" where
  "AllHistoricPrices s = IterateAllHistoricPrices s (\<lambda>price prices. (prices @ [price], False)) []"

definition IterateAllMedianPrices :: "'w ostate \<Rightarrow> (PriceStamp \<Rightarrow> 'a \<Rightarrow> 'a \<times> bool) \<Rightarrow> 'a \<Rightarrow> 'a" where
  "IterateAllMedianPrices s handler a =
     coll_walk (\<lambda>key v a. handler (NewPriceStamp v (fst key) (snd key)) a) (MedianPrices s) a"

definition AllMedianPrices :: "'w ostate \<Rightarrow> PriceStamps" where
  "AllMedianPrices s = IterateAllMedianPrices s (\<lambda>median prices. (prices @ [median], False)) []"

definition IterateAllMedianDeviationPrices :: "'w ostate \<Rightarrow> (PriceStamp \<Rightarrow> 'a \<Rightarrow> 'a \<times> bool) \<Rightarrow> 'a \<Rightarrow> 'a" where
  "IterateAllMedianDeviationPrices s handler a =
     coll_walk (\<lambda>key v a. handler (NewPriceStamp v (fst key) (snd key)) a) (MedianDeviations s) a"

definition AllMedianDeviationPrices :: "'w ostate \<Rightarrow> PriceStamps" where
  "AllMedianDeviationPrices s =
     IterateAllMedianDeviationPrices s (\<lambda>median prices. (prices @ [median], False)) []"

section \<open>historic_price.go\<close>

text \<open>\<open>collections.NewPrefixedPairRange(denom).Descending()\<close>: the entries of a denom, newest
  block first.\<close>

definition prefix_descending :: "string \<Rightarrow> (string \<times> uint64, 'v) coll \<Rightarrow> (string \<times> uint64, 'v) coll" where
  "prefix_descending denom st = rev (filter (\<lambda>e. fst (fst e) = denom) st)"

text \<open>The handler of the three iterators by denom counts \<open>numStamps\<close> down and stops at zero.\<close>

definition counted ::
  "((string \<times> uint64) \<Rightarrow> 'v \<Rightarrow> 'a \<Rightarrow> 'a \<times> bool) \<Rightarrow> (string \<times> uint64) \<Rightarrow> 'v \<Rightarrow> uint64 \<times> 'a \<Rightarrow> (uint64 \<times> 'a) \<times> bool" where
  "counted handler key v st =
     (case st of (numStamps, a) \<Rightarrow>
        if numStamps = 0 then ((numStamps, a), True)
        else (case handler key v a of (a, stop) \<Rightarrow> ((numStamps - 1, a), stop)))"

definition IterateHistoricPrices ::
  "'w ostate \<Rightarrow> string \<Rightarrow> uint64 \<Rightarrow> (dec \<Rightarrow> 'a \<Rightarrow> 'a \<times> bool) \<Rightarrow> 'a \<Rightarrow> 'a" where
  "IterateHistoricPrices s denom numStamps handler a =
     snd (coll_walk (counted (\<lambda>key v. handler v)) (prefix_descending denom (HistoricPrices s)) (numStamps, a))"

text \<open>The iterator over medians walks the historic prices, as the code does.\<close>

definition IterateHistoricMedians ::
  "'w ostate \<Rightarrow> string \<Rightarrow> uint64 \<Rightarrow> (PriceStamp \<Rightarrow> 'a \<Rightarrow> 'a \<times> bool) \<Rightarrow> 'a \<Rightarrow> 'a" where
  "IterateHistoricMedians s denom numStamps handler a =
     snd (coll_walk (counted (\<lambda>key v. handler (NewPriceStamp v (fst key) (snd key))))
       (prefix_descending denom (HistoricPrices s)) (numStamps, a))"

definition IterateHistoricDeviations ::
  "'w ostate \<Rightarrow> string \<Rightarrow> uint64 \<Rightarrow> (PriceStamp \<Rightarrow> 'a \<Rightarrow> 'a \<times> bool) \<Rightarrow> 'a \<Rightarrow> 'a" where
  "IterateHistoricDeviations s denom numStamps handler a =
     snd (coll_walk (counted (\<lambda>key v. handler (NewPriceStamp v (fst key) (snd key))))
       (prefix_descending denom (MedianDeviations s)) (numStamps, a))"

definition HistoricMedians :: "'w ostate \<Rightarrow> string \<Rightarrow> uint64 \<Rightarrow> PriceStamps" where
  "HistoricMedians s denom numStamps =
     IterateHistoricMedians s denom numStamps (\<lambda>median medians. (medians @ [median], False)) []"

definition HistoricDeviations :: "'w ostate \<Rightarrow> string \<Rightarrow> uint64 \<Rightarrow> PriceStamps" where
  "HistoricDeviations s denom numStamps =
     IterateHistoricDeviations s denom numStamps (\<lambda>median deviations. (deviations @ [median], False)) []"

definition historicPrices :: "'w ostate \<Rightarrow> string \<Rightarrow> uint64 \<Rightarrow> dec list" where
  "historicPrices s denom numStamps =
     IterateHistoricPrices s denom numStamps (\<lambda>rate prices. (prices @ [rate], False)) []"

definition SetHistoricMedian :: "string \<Rightarrow> uint64 \<Rightarrow> dec \<Rightarrow> 'w ostate \<Rightarrow> 'w ostate" where
  "SetHistoricMedian denom blockNum median s =
     s\<lparr>MedianPrices := coll_set (denom, blockNum) median (MedianPrices s)\<rparr>"

definition SetHistoricMedianDeviation :: "string \<Rightarrow> uint64 \<Rightarrow> dec \<Rightarrow> 'w ostate \<Rightarrow> 'w ostate" where
  "SetHistoricMedianDeviation denom blockNum medianDeviation s =
     s\<lparr>MedianDeviations := coll_set (denom, blockNum) medianDeviation (MedianDeviations s)\<rparr>"

definition calcAndSetHistoricMedianDeviation ::
  "'w oracle_env \<Rightarrow> int \<Rightarrow> string \<Rightarrow> dec \<Rightarrow> dec list \<Rightarrow> 'w ostate \<Rightarrow> 'w ostate \<times> unit res" where
  "calcAndSetHistoricMedianDeviation E h denom median prices s =
     read_st s (MedianDeviation (D E) median prices) (\<lambda>medianDeviation.
       (SetHistoricMedianDeviation denom (SafeInt64ToUint64 h) medianDeviation s, Ok ()))"

definition CalcAndSetHistoricMedian :: "'w oracle_env \<Rightarrow> int \<Rightarrow> string \<Rightarrow> 'w ostate \<Rightarrow> 'w ostate \<times> unit res" where
  "CalcAndSetHistoricMedian E h denom s =
     (let (historicPrices, result) = Median (D E) (historicPrices s denom (Keeper_MaximumPriceStamps s)) in
      read_st s result (\<lambda>median.
        calcAndSetHistoricMedianDeviation E h denom median historicPrices
          (SetHistoricMedian denom (SafeInt64ToUint64 h) median s)))"

definition HistoricMedianDeviation :: "'w ostate \<Rightarrow> int \<Rightarrow> string \<Rightarrow> PriceStamp res" where
  "HistoricMedianDeviation s h denom =
     (if Keeper_MedianStampPeriod s = 0 then Panic
      else
        let blockDiff = SafeInt64ToUint64 h mod Keeper_MedianStampPeriod s + 1;
            blockNum = SafeInt64ToUint64 h - blockDiff in
        case coll_get (MedianDeviations s) (denom, blockNum) of
          None \<Rightarrow> Err ErrNoMedianDeviation
        | Some median \<Rightarrow> Ok (NewPriceStamp median denom blockNum))"

definition WithinHistoricMedianDeviation :: "'w oracle_env \<Rightarrow> 'w ostate \<Rightarrow> int \<Rightarrow> string \<Rightarrow> bool res" where
  "WithinHistoricMedianDeviation E s h denom =
     (case HistoricMedians s denom 1 of
        [] \<Rightarrow> Err ErrNoMedian
      | m # _ \<Rightarrow>
        (case historicPrices s denom 1 of
           [] \<Rightarrow> Err ErrNoHistoricPrice
         | price # _ \<Rightarrow>
           bind_res (HistoricMedianDeviation s h denom) (\<lambda>medianDeviation.
           bind_res (must (dSub (D E) price (dc_Amount (ps_ExchangeRate m)))) (\<lambda>diff.
             Ok (\<bar>diff\<bar> \<le> dc_Amount (ps_ExchangeRate medianDeviation))))))"

definition MedianOfHistoricMedians :: "'w oracle_env \<Rightarrow> 'w ostate \<Rightarrow> string \<Rightarrow> uint64 \<Rightarrow> (dec \<times> uint32) res" where
  "MedianOfHistoricMedians E s denom numStamps =
     (let medians = HistoricMedians s denom numStamps in
      if length medians = 0 then Ok (LegacyZeroDec, 0)
      else bind_res (snd (Median (D E) (Decs medians))) (\<lambda>median.
        Ok (median, SafeIntToUint32 (int (length medians)))))"

definition AverageOfHistoricMedians :: "'w oracle_env \<Rightarrow> 'w ostate \<Rightarrow> string \<Rightarrow> uint64 \<Rightarrow> (dec \<times> uint32) res" where
  "AverageOfHistoricMedians E s denom numStamps =
     (let medians = HistoricMedians s denom numStamps in
      if length medians = 0 then Ok (LegacyZeroDec, 0)
      else bind_res (Average (D E) (Decs medians)) (\<lambda>average.
        Ok (average, SafeIntToUint32 (int (length medians)))))"

definition MaxOfHistoricMedians :: "'w ostate \<Rightarrow> string \<Rightarrow> uint64 \<Rightarrow> (dec \<times> uint32) res" where
  "MaxOfHistoricMedians s denom numStamps =
     (let medians = HistoricMedians s denom numStamps in
      if length medians = 0 then Ok (LegacyZeroDec, 0)
      else bind_res (Decmath.Max (Decs medians)) (\<lambda>max.
        Ok (max, SafeIntToUint32 (int (length medians)))))"

definition MinOfHistoricMedians :: "'w ostate \<Rightarrow> string \<Rightarrow> uint64 \<Rightarrow> (dec \<times> uint32) res" where
  "MinOfHistoricMedians s denom numStamps =
     (let medians = HistoricMedians s denom numStamps in
      if length medians = 0 then Ok (LegacyZeroDec, 0)
      else bind_res (Decmath.Min (Decs medians)) (\<lambda>min.
        Ok (min, SafeIntToUint32 (int (length medians)))))"

definition SetHistoricPrice :: "string \<Rightarrow> uint64 \<Rightarrow> dec \<Rightarrow> 'w ostate \<Rightarrow> 'w ostate" where
  "SetHistoricPrice denom blockNum exchangeRate s =
     s\<lparr>HistoricPrices := coll_set (denom, blockNum) exchangeRate (HistoricPrices s),
       LastHistoricPriceBlock := coll_set denom blockNum (LastHistoricPriceBlock s)\<rparr>"

definition AddHistoricPrice :: "int \<Rightarrow> string \<Rightarrow> dec \<Rightarrow> 'w ostate \<Rightarrow> 'w ostate" where
  "AddHistoricPrice h denom exchangeRate s = SetHistoricPrice denom (SafeInt64ToUint64 h) exchangeRate s"

definition DeleteHistoricPrice :: "string \<Rightarrow> uint64 \<Rightarrow> 'w ostate \<Rightarrow> 'w ostate" where
  "DeleteHistoricPrice denom blockNum s =
     s\<lparr>HistoricPrices := coll_remove (denom, blockNum) (HistoricPrices s)\<rparr>"

definition DeleteHistoricMedian :: "string \<Rightarrow> uint64 \<Rightarrow> 'w ostate \<Rightarrow> 'w ostate" where
  "DeleteHistoricMedian denom blockNum s =
     s\<lparr>MedianPrices := coll_remove (denom, blockNum) (MedianPrices s)\<rparr>"

definition DeleteHistoricMedianDeviation :: "string \<Rightarrow> uint64 \<Rightarrow> 'w ostate \<Rightarrow> 'w ostate" where
  "DeleteHistoricMedianDeviation denom blockNum s =
     s\<lparr>MedianDeviations := coll_remove (denom, blockNum) (MedianDeviations s)\<rparr>"

definition PruneHistoricPricesBeforeBlock :: "uint64 \<Rightarrow> 'w ostate \<Rightarrow> 'w ostate" where
  "PruneHistoricPricesBeforeBlock blockNum s =
     IterateAllHistoricPrices s (\<lambda>price s.
       (if ps_BlockNum price \<le> blockNum
        then DeleteHistoricPrice (dc_Denom (ps_ExchangeRate price)) (ps_BlockNum price) s else s, False)) s"

definition PruneMediansBeforeBlock :: "uint64 \<Rightarrow> 'w ostate \<Rightarrow> 'w ostate" where
  "PruneMediansBeforeBlock blockNum s =
     IterateAllMedianPrices s (\<lambda>price s.
       (if ps_BlockNum price \<le> blockNum
        then DeleteHistoricMedian (dc_Denom (ps_ExchangeRate price)) (ps_BlockNum price) s else s, False)) s"

definition PruneMedianDeviationsBeforeBlock :: "uint64 \<Rightarrow> 'w ostate \<Rightarrow> 'w ostate" where
  "PruneMedianDeviationsBeforeBlock blockNum s =
     IterateAllMedianDeviationPrices s (\<lambda>price s.
       (if ps_BlockNum price \<le> blockNum
        then DeleteHistoricMedianDeviation (dc_Denom (ps_ExchangeRate price)) (ps_BlockNum price) s else s, False)) s"

section \<open>end_blocker.go\<close>

definition IsPeriodLastBlock :: "int \<Rightarrow> uint64 \<Rightarrow> bool res" where
  "IsPeriodLastBlock h blocksPerPeriod =
     (if blocksPerPeriod = 0 then Panic else Ok ((SafeInt64ToUint64 h + 1) mod blocksPerPeriod = 0))"

definition PruneAllPrices :: "int \<Rightarrow> 'w ostate \<Rightarrow> 'w ostate \<times> unit res" where
  "PruneAllPrices h s =
     (let p = GetParams s; blockHeight = SafeInt64ToUint64 h in
      read_st s (IsPeriodLastBlock h (HistoricStampPeriod p)) (\<lambda>last.
        if \<not> last then (s, Ok ())
        else
          let pruneHistoricPeriod = HistoricStampPeriod p * MaximumPriceStamps p;
              s = (if pruneHistoricPeriod < blockHeight
                   then PruneHistoricPricesBeforeBlock (blockHeight - pruneHistoricPeriod) s else s) in
          read_st s (IsPeriodLastBlock h (MedianStampPeriod p)) (\<lambda>last.
            if \<not> last then (s, Ok ())
            else
              let pruneMedianPeriod = MedianStampPeriod p * MaximumMedianStamps p in
              if pruneMedianPeriod < blockHeight
              then (PruneMedianDeviationsBeforeBlock (blockHeight - pruneMedianPeriod)
                     (PruneMediansBeforeBlock (blockHeight - pruneMedianPeriod) s), Ok ())
              else (s, Ok ()))))"

section \<open>Lemmas\<close>

lemma coll_fold_remove_filter:
  "fold (\<lambda>e t. if P (fst e) then coll_remove (fst e) t else t) es t =
     filter (\<lambda>e. \<not> (P (fst e) \<and> fst e \<in> fst ` set es)) t"
  by (induction es arbitrary: t) (auto simp: coll_remove_def intro!: filter_cong)

text \<open>
  The three stores of stamps share one contract: pruning walks over the stamps and removes
  those up to a block, one by one.
\<close>

locale stamp_store =
  fixes st :: "'w ostate \<Rightarrow> (string \<times> uint64, dec) coll"
    and st_upd :: "((string \<times> uint64, dec) coll \<Rightarrow> (string \<times> uint64, dec) coll) \<Rightarrow> 'w ostate \<Rightarrow> 'w ostate"
    and prune :: "uint64 \<Rightarrow> 'w ostate \<Rightarrow> 'w ostate"
  assumes st_st_upd: "st (st_upd f s) = f (st s)"
    and upd_upd: "st_upd f (st_upd g s) = st_upd (\<lambda>x. f (g x)) s"
    and upd_id: "st_upd (\<lambda>_. st s) s = s"
    and prune_walk: "prune b s =
      coll_walk (\<lambda>key v s. (if snd key \<le> b then st_upd (\<lambda>_. coll_remove key (st s)) s else s, False)) (st s) s"
begin

lemma fold_prune:
  "fold (\<lambda>(key, v) s. if snd key \<le> b then st_upd (\<lambda>_. coll_remove key (st s)) s else s) es s =
     st_upd (\<lambda>_. fold (\<lambda>e t. if snd (fst e) \<le> b then coll_remove (fst e) t else t) es (st s)) s"
  by (induction es arbitrary: s) (auto simp: upd_id upd_upd st_st_upd)

lemma prune_eq: "prune b s = st_upd (\<lambda>_. filter (\<lambda>e. b < snd (fst e)) (st s)) s"
proof -
  have "fold (\<lambda>e t. if snd (fst e) \<le> b then coll_remove (fst e) t else t) (st s) (st s) =
      filter (\<lambda>e. b < snd (fst e)) (st s)"
    by (auto simp: coll_fold_remove_filter [of "\<lambda>key. snd key \<le> b"] not_le intro!: filter_cong)
  then show ?thesis
    by (simp add: prune_walk coll_walk_fold fold_prune)
qed

end

interpretation hist: stamp_store HistoricPrices HistoricPrices_update PruneHistoricPricesBeforeBlock
  by unfold_locales (simp_all add: PruneHistoricPricesBeforeBlock_def IterateAllHistoricPrices_def
      DeleteHistoricPrice_def NewPriceStamp_def cong: if_cong)
interpretation med: stamp_store MedianPrices MedianPrices_update PruneMediansBeforeBlock
  by unfold_locales (simp_all add: PruneMediansBeforeBlock_def IterateAllMedianPrices_def
      DeleteHistoricMedian_def NewPriceStamp_def cong: if_cong)
interpretation dev: stamp_store MedianDeviations MedianDeviations_update PruneMedianDeviationsBeforeBlock
  by unfold_locales (simp_all add: PruneMedianDeviationsBeforeBlock_def IterateAllMedianDeviationPrices_def
      DeleteHistoricMedianDeviation_def NewPriceStamp_def cong: if_cong)

lemmas prune_eqs = hist.prune_eq med.prune_eq dev.prune_eq

text \<open>The iterators by denom see the newest stamps.\<close>

lemma counted_append:
  "counted (\<lambda>k v l. (l @ [f k v], False)) k v (n, l) =
     (if n = 0 then ((n, l), True) else ((n - 1, l @ [f k v]), False))"
  by (simp add: counted_def)

lemma counted_walk:
  "snd (coll_walk (counted (\<lambda>k v l. (l @ [f k v], False))) es (n, l)) =
     l @ map (\<lambda>(k, v). f k v) (take (unat n) es)"
proof (induction es arbitrary: n l)
  case (Cons e es)
  show ?case
  proof (cases "n = 0")
    case False
    then have "unat n = Suc (unat (n - 1))" by (simp add: unat_minus_one unat_gt_0)
    with False show ?thesis by (cases e) (simp add: counted_append Cons.IH)
  qed (cases e, simp add: counted_append)
qed simp

lemma historicPrices_eq:
  "historicPrices s denom n = map snd (take (unat n) (prefix_descending denom (HistoricPrices s)))"
  by (simp add: historicPrices_def IterateHistoricPrices_def counted_walk [of "\<lambda>k v. v"] case_prod_beta')

lemma HistoricMedians_eq:
  "HistoricMedians s denom n =
     map (\<lambda>((d, b), v). NewPriceStamp v d b) (take (unat n) (prefix_descending denom (HistoricPrices s)))"
  by (simp add: HistoricMedians_def IterateHistoricMedians_def
      counted_walk [of "\<lambda>k v. NewPriceStamp v (fst k) (snd k)"] case_prod_beta')

text \<open>The stamped blocks are the last blocks of the stamp period.\<close>

definition stamps_ok :: "uint64 \<Rightarrow> int \<Rightarrow> (string \<times> uint64, dec) coll \<Rightarrow> bool" where
  "stamps_ok period h st \<longleftrightarrow> coll_wf st \<and>
     (\<forall>((d, b), v) \<in> set st. 0 < b \<and> uint b \<le> h \<and> (uint b + 1) mod uint period = 0)"

lemma IsPeriodLastBlock_Ok:
  assumes "0 \<le> h" and "h < 2 ^ 63"
  shows "IsPeriodLastBlock h period = Ok isLast \<longleftrightarrow> period \<noteq> 0 \<and> isLast = ((h + 1) mod uint period = 0)"
proof -
  have "uint (SafeInt64ToUint64 h + 1) = h + 1"
    using assms SafeInt64ToUint64_id [of h] by (simp add: uint_word_ariths(1))
  then have "(SafeInt64ToUint64 h + 1) mod period = 0 \<longleftrightarrow> (h + 1) mod uint period = 0"
    unfolding word_uint_eq_iff uint_mod by simp
  then show ?thesis
    by (auto simp: IsPeriodLastBlock_def)
qed

lemma distinct_blocks:
  assumes "coll_wf st"
  shows "distinct (map (\<lambda>e. uint (snd (fst e))) (prefix_descending denom st))"
  using coll_wf_distinct [OF assms]
  by (fastforce simp: prefix_descending_def distinct_map inj_on_def word_uint_eq_iff [symmetric])

lemma stamps_count:
  fixes h p n :: int
  assumes "0 < p" and "(h + 1) mod p = 0" and "0 \<le> n"
    and "\<forall>b \<in> B. b \<le> h \<and> (b + 1) mod p = 0 \<and> h - b < p * n"
  shows "card B \<le> nat n"
proof -
  have "B \<subseteq> (\<lambda>j. h - p * j) ` {0..<n}"
  proof
    fix b assume "b \<in> B"
    with assms have b: "b \<le> h" "(b + 1) mod p = 0" "h - b < p * n" by auto
    then have "(h + 1 - (b + 1)) mod p = 0"
      using assms(2) by (metis mod_diff_eq diff_zero mod_0)
    then obtain j where j: "h - b = p * j" by (auto simp: mod_eq_0_iff_dvd)
    have "0 \<le> j" "j < n"
      using b j assms(1) by (simp_all add: zero_le_mult_iff mult_less_cancel_left)
        (metis diff_ge_0_iff_ge linorder_not_less mult_pos_neg)
    with j show "b \<in> (\<lambda>j. h - p * j) ` {0..<n}" by (intro image_eqI [of _ _ j]) auto
  qed
  then have "card B \<le> card ((\<lambda>j. h - p * j) ` {0..<n})" by (simp add: card_mono)
  also have "\<dots> \<le> card {0..<n}" by (rule card_image_le) simp
  finally show ?thesis by simp
qed


lemma no_period_end:
  fixes p :: int
  assumes "0 < p" and "h - (h mod p + 1) < c" and "c < h"
  shows "(c + 1) mod p \<noteq> 0"
proof
  assume "(c + 1) mod p = 0"
  then obtain k where k: "c + 1 = p * k" by (auto simp: mod_eq_0_iff_dvd)
  have "h = p * (h div p) + h mod p" by simp
  then have "p * (h div p) < p * k" "p * k < p * (h div p) + p"
    using assms k pos_mod_bound [OF assms(1), of h] by linarith+
  then have "p * (h div p) < p * k" "p * k < p * (h div p + 1)"
    by (simp_all add: distrib_left)
  then show False
    using assms(1) by (simp add: mult_less_cancel_left)
qed

text \<open>The prices a median is taken of.\<close>

definition newest_prices :: "'w ostate \<Rightarrow> string \<Rightarrow> dec list" where
  "newest_prices s denom =
     map snd (take (unat (MaximumPriceStamps (params s))) (prefix_descending denom (HistoricPrices s)))"

lemma CalcAndSetHistoricMedian_newest:
  "CalcAndSetHistoricMedian E h denom s =
     read_st s (snd (Median (D E) (newest_prices s denom))) (\<lambda>median.
       calcAndSetHistoricMedianDeviation E h denom median (fst (Median (D E) (newest_prices s denom)))
         (SetHistoricMedian denom (SafeInt64ToUint64 h) median s))"
  by (simp add: CalcAndSetHistoricMedian_def historicPrices_eq newest_prices_def
      Keeper_MaximumPriceStamps_def case_prod_beta' Let_def)

section \<open>Properties\<close>


definition stamped_state :: "ref_world ostate" where
  "stamped_state = ref_state\<lparr>params := DefaultParams\<lparr>HistoricStampPeriod := 5, MaximumPriceStamps := 2\<rparr>,
     HistoricPrices := [((''ATOM'', 4), 7), ((''ATOM'', 9), 8), ((''ATOM'', 14), 9), ((''DM'', 14), 1)]\<rparr>"


text \<open>
  C23. \<open>CalcAndSetHistoricMedian\<close> stamps at the current block a median of the newest
  \<open>MaximumPriceStamps\<close> prices of the denom (at least half of them on each side) and a
  non-negative deviation, and writes nothing else; without a historic price it fails and
  writes nothing.
\<close>

theorem CalcAndSetHistoricMedian_spec:
  assumes laws: "dec_laws (D E)" and bound: "\<forall>e \<in> set (HistoricPrices s). \<bar>snd e\<bar> \<le> 10 ^ 58"
  shows "(newest_prices s denom = [] \<longrightarrow> CalcAndSetHistoricMedian E h denom s = (s, Err ErrEmptyList)) \<and>
    (\<forall>s'. CalcAndSetHistoricMedian E h denom s = (s', Ok ()) \<longrightarrow>
      (\<exists>m d. s' = s\<lparr>MedianPrices := coll_set (denom, SafeInt64ToUint64 h) m (MedianPrices s),
                  MedianDeviations := coll_set (denom, SafeInt64ToUint64 h) d (MedianDeviations s)\<rparr> \<and>
        length (newest_prices s denom) \<le> 2 * length (filter (\<lambda>x. x \<le> m) (newest_prices s denom)) \<and>
        length (newest_prices s denom) \<le> 2 * length (filter (\<lambda>x. m \<le> x) (newest_prices s denom)) \<and>
        0 \<le> d))"
proof (intro conjI impI allI)
  assume "newest_prices s denom = []"
  then show "CalcAndSetHistoricMedian E h denom s = (s, Err ErrEmptyList)"
    by (simp add: CalcAndSetHistoricMedian_newest Median_def)
next
  fix s' assume run: "CalcAndSetHistoricMedian E h denom s = (s', Ok ())"
  then have ne: "newest_prices s denom \<noteq> []"
    by (auto simp: CalcAndSetHistoricMedian_newest Median_def)
  have "\<forall>d \<in> set (newest_prices s denom). \<bar>d\<bar> \<le> 10 ^ 58"
    using bound by (auto simp: newest_prices_def prefix_descending_def dest!: in_set_takeD)
  moreover have "2 * 10 ^ 58 < dLimit (D E)"
    using dec_laws_limit [OF laws] by simp
  ultimately obtain m where
    "Median (D E) (newest_prices s denom) = (go_sort (\<lambda>x y. x < y) (newest_prices s denom), Ok m)"
    "length (newest_prices s denom) \<le> 2 * length (filter (\<lambda>x. x \<le> m) (newest_prices s denom))"
    "length (newest_prices s denom) \<le> 2 * length (filter (\<lambda>x. m \<le> x) (newest_prices s denom))"
    using Median_halves [OF laws ne] by blast
  with run show "\<exists>m d. s' = s\<lparr>MedianPrices := coll_set (denom, SafeInt64ToUint64 h) m (MedianPrices s),
      MedianDeviations := coll_set (denom, SafeInt64ToUint64 h) d (MedianDeviations s)\<rparr> \<and>
      length (newest_prices s denom) \<le> 2 * length (filter (\<lambda>x. x \<le> m) (newest_prices s denom)) \<and>
      length (newest_prices s denom) \<le> 2 * length (filter (\<lambda>x. m \<le> x) (newest_prices s denom)) \<and> 0 \<le> d"
    using MedianDeviation_nonneg [OF laws]
    by (fastforce simp: CalcAndSetHistoricMedian_newest calcAndSetHistoricMedianDeviation_def res_simps
        SetHistoricMedian_def SetHistoricMedianDeviation_def)
qed

theorem CalcAndSetHistoricMedian_spec_witness:
  "CalcAndSetHistoricMedian ref_env 19 ''USDC'' stamped_state = (stamped_state, Err ErrEmptyList) \<and>
   (\<exists>m d. fst (CalcAndSetHistoricMedian ref_env 19 ''ATOM'' stamped_state) =
        stamped_state\<lparr>MedianPrices := coll_set (''ATOM'', SafeInt64ToUint64 19) m (MedianPrices stamped_state),
                  MedianDeviations := coll_set (''ATOM'', SafeInt64ToUint64 19) d (MedianDeviations stamped_state)\<rparr> \<and> 0 \<le> d)"
proof -
  have laws: "dec_laws (D ref_env)" by (simp add: ref_env_def ref_dec_laws)
  have bound: "\<forall>e \<in> set (HistoricPrices stamped_state). \<bar>snd e\<bar> \<le> 10 ^ 58" by (simp add: stamped_state_def)
  have "newest_prices stamped_state ''USDC'' = []" by code_simp
  moreover have "snd (CalcAndSetHistoricMedian ref_env 19 ''ATOM'' stamped_state) = Ok ()" by code_simp
  ultimately show ?thesis
    using CalcAndSetHistoricMedian_spec [OF laws bound, of "''USDC''" 19]
      CalcAndSetHistoricMedian_spec [OF laws bound, of "''ATOM''" 19]
    by (metis prod.collapse)
qed

text \<open>
  \<open>HistoricMedianDeviation\<close> reads the stamp at the last end of the median period strictly
  before the current block: no other end of the period lies between the two. A deviation
  stamped at the current block itself is not the one it returns.
\<close>

theorem HistoricMedianDeviation_block:
  assumes "h < 2 ^ 63" and "MedianStampPeriod (params s) \<noteq> 0" and "uint (MedianStampPeriod (params s)) \<le> h"
  shows "\<exists>b. uint b < h \<and> (uint b + 1) mod uint (MedianStampPeriod (params s)) = 0 \<and>
     (\<forall>c. uint b < c \<and> c < h \<longrightarrow> (c + 1) mod uint (MedianStampPeriod (params s)) \<noteq> 0) \<and>
     HistoricMedianDeviation s h denom =
       (case coll_get (MedianDeviations s) (denom, b) of
          None \<Rightarrow> Err ErrNoMedianDeviation
        | Some d \<Rightarrow> Ok (NewPriceStamp d denom b))"
proof -
  let ?p = "MedianStampPeriod (params s)"
  let ?b = "SafeInt64ToUint64 h - (SafeInt64ToUint64 h mod ?p + 1)"
  have p: "0 < uint ?p" using assms(2) by (simp add: word_neq_0_conv word_less_def)
  have h: "0 \<le> h" using p assms(3) by linarith
  have m: "0 \<le> h mod uint ?p" "h mod uint ?p < uint ?p" using p by simp_all
  have hw: "uint (SafeInt64ToUint64 h) = h" using h assms(1) SafeInt64ToUint64_id [of h] by simp
  have "uint (SafeInt64ToUint64 h mod ?p + 1) = h mod uint ?p + 1"
    using m assms by (simp add: uint_word_ariths(1) uint_mod hw)
  then have b: "uint ?b = h - (h mod uint ?p + 1)"
    using m assms by (simp add: uint_sub_if' hw)
  have "(uint ?b + 1) mod uint ?p = 0"
    by (simp add: b minus_mod_eq_mult_div)
  moreover have "(c + 1) mod uint ?p \<noteq> 0" if "uint ?b < c" "c < h" for c
    using that p by (intro no_period_end [of "uint ?p" h]) (simp_all add: b)
  moreover have "HistoricMedianDeviation s h denom =
      (case coll_get (MedianDeviations s) (denom, ?b) of
         None \<Rightarrow> Err ErrNoMedianDeviation | Some d \<Rightarrow> Ok (NewPriceStamp d denom ?b))"
    using assms(2) by (simp add: HistoricMedianDeviation_def Keeper_MedianStampPeriod_def Let_def)
  ultimately show ?thesis using b m(1) by (intro exI [of _ ?b]) auto
qed

theorem HistoricMedianDeviation_block_witness:
  "\<exists>b. uint b < 9 \<and> (uint b + 1) mod 5 = 0 \<and>
     (\<forall>c. uint b < c \<and> c < 9 \<longrightarrow> (c + 1) mod 5 \<noteq> 0) \<and>
     HistoricMedianDeviation (stamped_state\<lparr>params := DefaultParams\<lparr>MedianStampPeriod := 5\<rparr>\<rparr>) 9 ''ATOM'' =
       (case coll_get (MedianDeviations stamped_state) (''ATOM'', b) of
          None \<Rightarrow> Err ErrNoMedianDeviation
        | Some d \<Rightarrow> Ok (NewPriceStamp d ''ATOM'' b))"
  using HistoricMedianDeviation_block [of 9 "stamped_state\<lparr>params := DefaultParams\<lparr>MedianStampPeriod := 5\<rparr>\<rparr>" "''ATOM''"]
  by simp

text \<open>
  C36. \<open>WithinHistoricMedianDeviation\<close> never answers that the price is outside the deviation:
  the median it compares with is read from the historic prices, so it is the latest price
  itself.
\<close>

theorem WithinHistoricMedianDeviation_never_false:
  assumes "dec_laws (D E)" and "\<forall>e \<in> set (MedianDeviations s). 0 \<le> snd e"
  shows "WithinHistoricMedianDeviation E s h denom \<noteq> Ok False"
proof (cases "prefix_descending denom (HistoricPrices s)")
  case (Cons e es)
  obtain d b v where e: "e = ((d, b), v)" by (metis prod.exhaust)
  have "dSub (D E) v v = Some 0"
    using dec_laws_limit [OF assms(1)] by (simp add: dec_laws_Sub [OF assms(1)])
  moreover have "0 \<le> dc_Amount (ps_ExchangeRate st)" if "HistoricMedianDeviation s h denom = Ok st" for st
    using that assms(2)
    by (fastforce simp: HistoricMedianDeviation_def Let_def NewPriceStamp_def coll_get_def
        dest: map_of_SomeD split: if_splits option.splits)
  ultimately show ?thesis
    by (auto simp: WithinHistoricMedianDeviation_def HistoricMedians_eq historicPrices_eq Cons e
        NewPriceStamp_def res_simps)
qed (simp add: WithinHistoricMedianDeviation_def HistoricMedians_eq)

theorem WithinHistoricMedianDeviation_never_false_witness:
  "WithinHistoricMedianDeviation ref_env (stamped_state\<lparr>MedianDeviations := [((''ATOM'', 14), 0)],
     MedianPrices := [((''ATOM'', 14), 1000)], params := DefaultParams\<lparr>MedianStampPeriod := 15\<rparr>\<rparr>) 16 ''ATOM'' = Ok True"
proof -
  let ?s = "stamped_state\<lparr>MedianDeviations := [((''ATOM'', 14), 0)],
     MedianPrices := [((''ATOM'', 14), 1000)], params := DefaultParams\<lparr>MedianStampPeriod := 15\<rparr>\<rparr>"
  have "WithinHistoricMedianDeviation ref_env ?s 16 ''ATOM'' \<noteq> Ok False"
    by (rule WithinHistoricMedianDeviation_never_false) (simp_all add: ref_env_def ref_dec_laws)
  moreover have "is_ok (WithinHistoricMedianDeviation ref_env ?s 16 ''ATOM'')" by code_simp
  ultimately show ?thesis by (auto simp: is_ok_iff)
qed

end
