(* ===== verification/Oracle_Slash.thy ===== *)
theory Oracle_Slash
  imports Oracle_Keeper
begin

text \<open>
  Slashing and the reward set (\<open>src/x/oracle/keeper/slash.go\<close>). \<open>h\<close> is \<open>ctx.BlockHeight()\<close>.
  A handler that panics ends the iteration over the miss counters. \<open>ValidatorUpdateDelay\<close> is
  the constant of the SDK.
\<close>

definition ValidatorUpdateDelay :: int where "ValidatorUpdateDelay = 1"

definition PossibleWinsPerSlashWindow :: "'w oracle_env \<Rightarrow> 'w ostate \<Rightarrow> int res" where
  "PossibleWinsPerSlashWindow E s =
     (let slashWindow = SafeUint64ToInt64 (Keeper_SlashWindow s);
          votePeriod = SafeUint64ToInt64 (Keeper_VotePeriod s) in
      bind_res (must (dQuoInt64 (D E) (LegacyNewDec slashWindow) votePeriod)) (\<lambda>q.
      bind_res (must (dTruncateInt64 (D E) q)) (\<lambda>votePeriodsPerWindow.
        Ok (i64 (votePeriodsPerWindow * int (length (MandatoryList (GetParams s))))))))"

definition evaluateAndSlashIfNeeded ::
  "'w oracle_env \<Rightarrow> bytes \<Rightarrow> uint64 \<Rightarrow> int \<Rightarrow> dec \<Rightarrow> int \<Rightarrow> dec \<Rightarrow> int \<Rightarrow> 'w ostate \<Rightarrow> 'w ostate \<times> unit res" where
  "evaluateAndSlashIfNeeded E operator missCount possibleWinsPerSlashWindow minValidRate
      distributionHeight slashFraction powerReduction s =
     (let validVotes = i64 (possibleWinsPerSlashWindow - SafeUint64ToInt64 missCount) in
      read_st s (must (dQuoInt64 (D E) (LegacyNewDec validVotes) possibleWinsPerSlashWindow)) (\<lambda>validRate.
        if \<not> validRate < minValidRate then (s, Ok ())
        else
          let oracleParams = GetParams s in
          case sk_Validator E (world s) operator of
            Err e \<Rightarrow> (s, Ok ())
          | Panic \<Rightarrow> (s, Panic)
          | Ok None \<Rightarrow> (s, Panic)
          | Ok (Some validator) \<Rightarrow>
              if \<not> vi_IsBonded validator \<or> vi_IsJailed validator \<or> \<not> SlashingEnabled oracleParams then (s, Ok ())
              else case vi_GetConsAddr validator of
                Err e \<Rightarrow> (s, Panic)
              | Panic \<Rightarrow> (s, Panic)
              | Ok consAddr \<Rightarrow>
                  (case sk_Slash E (world s) consAddr distributionHeight
                          (vi_GetConsensusPower validator powerReduction) slashFraction of
                     (w, Ok _) \<Rightarrow>
                       (case sk_Jail E w consAddr of
                          (w, Ok _) \<Rightarrow> (s\<lparr>world := w\<rparr>, Ok ())
                        | (w, _) \<Rightarrow> (s\<lparr>world := w\<rparr>, Panic))
                   | (w, _) \<Rightarrow> (s\<lparr>world := w\<rparr>, Panic))))"

definition SlashAndResetMissCounters :: "'w oracle_env \<Rightarrow> int \<Rightarrow> 'w ostate \<Rightarrow> 'w ostate \<times> unit res" where
  "SlashAndResetMissCounters E h s =
     read_st s (PossibleWinsPerSlashWindow E s) (\<lambda>possibleWins.
       let minValidRate = Keeper_MinValidPerWindow s;
           distributionHeight = i64 (h - ValidatorUpdateDelay - 1);
           slashFraction = Keeper_SlashFraction s;
           powerReduction = sk_PowerReduction E (world s) in
       IterateMissCounters s (\<lambda>operator missCount (s, r).
         (case evaluateAndSlashIfNeeded E operator missCount possibleWins minValidRate
                 distributionHeight slashFraction powerReduction s of
            (s, Ok _) \<Rightarrow> ((DeleteMissCounter operator s, Ok ()), False)
          | (s, _) \<Rightarrow> ((s, Panic), True))) (s, Ok ()))"

definition SetValidatorRewardSet :: "'w oracle_env \<Rightarrow> 'w ostate \<Rightarrow> 'w ostate \<times> unit res" where
  "SetValidatorRewardSet E s =
     read_st s (sk_GetBondedValidatorsByPower E (world s)) (\<lambda>vals.
       (s\<lparr>RewardSetItem := Some \<lparr>ValidatorSet = map vi_GetOperator vals\<rparr>\<rparr>, Ok ()))"

definition GetValidatorRewardSet :: "'w ostate \<Rightarrow> ValidatorRewardSet" where
  "GetValidatorRewardSet s = (case RewardSetItem s of None \<Rightarrow> \<lparr>ValidatorSet = []\<rparr> | Some v \<Rightarrow> v)"

section \<open>Lemmas\<close>

lemma SafeUint64ToInt64_range: "0 \<le> SafeUint64ToInt64 m" "SafeUint64ToInt64 m < 2 ^ 63"
  by (simp_all add: SafeUint64ToInt64_eq max_int64_def)

lemma div_mult_le_dividend_int: "0 < n \<Longrightarrow> x div n * n \<le> (x :: int)"
  using minus_mod_eq_div_mult [of x n] pos_mod_sign [of n x] by linarith

lemma go_div_less:
  assumes "0 < n" and "0 < r"
  shows "go_div x n < r \<longleftrightarrow> x < r * n"
proof (cases "0 \<le> x")
  case True
  have "r * n \<le> x" if "r \<le> x div n"
    using mult_right_mono [OF that, of n] assms(1) div_mult_le_dividend_int [OF assms(1), of x] by linarith
  moreover have "r \<le> x div n" if "r * n \<le> x"
    using zdiv_mono1 [OF that assms(1)] assms(1) by simp
  ultimately show ?thesis
    using True assms by (auto simp: go_div_nonneg linorder_not_le [symmetric])
next
  case False
  then have "go_div x n \<le> 0" "x < r * n"
    using assms by (auto simp: go_div_def sgn_if pos_imp_zdiv_nonneg_iff intro: less_le_trans [of _ 0])
  then show ?thesis using assms by simp
qed

text \<open>The valid vote rate is below the minimum.\<close>

definition below_min :: "dec \<Rightarrow> int \<Rightarrow> uint64 \<Rightarrow> bool" where
  "below_min minValid n miss \<longleftrightarrow> (n - SafeUint64ToInt64 miss) * 10 ^ 18 < minValid * n"

text \<open>What happens to the staking module for one miss counter.\<close>

definition punish ::
  "'w oracle_env \<Rightarrow> Params \<Rightarrow> int \<Rightarrow> int \<Rightarrow> int \<Rightarrow> bytes \<times> uint64 \<Rightarrow> 'w \<Rightarrow> 'w" where
  "punish E p h pr n e w =
     (if below_min (MinValidPerWindow p) n (snd e) then
        case sk_Validator E w (fst e) of
          Ok (Some v) \<Rightarrow>
            if vi_IsBonded v \<and> \<not> vi_IsJailed v \<and> SlashingEnabled p then
              case vi_GetConsAddr v of
                Ok c \<Rightarrow> fst (sk_Jail E (fst (sk_Slash E w c (i64 (h - 2)) (vi_GetConsensusPower v pr) (SlashFraction p))) c)
              | _ \<Rightarrow> w
            else w
        | _ \<Rightarrow> w
      else w)"

text \<open>The part of \<open>evaluateAndSlashIfNeeded\<close> behind the check of the rate.\<close>

definition slash_validator :: "'w oracle_env \<Rightarrow> bytes \<Rightarrow> int \<Rightarrow> dec \<Rightarrow> int \<Rightarrow> 'w ostate \<Rightarrow> 'w ostate \<times> unit res" where
  "slash_validator E a dh frac pr s =
     (case sk_Validator E (world s) a of
        Err e \<Rightarrow> (s, Ok ())
      | Panic \<Rightarrow> (s, Panic)
      | Ok None \<Rightarrow> (s, Panic)
      | Ok (Some v) \<Rightarrow>
          if \<not> vi_IsBonded v \<or> vi_IsJailed v \<or> \<not> SlashingEnabled (params s) then (s, Ok ())
          else case vi_GetConsAddr v of
            Err e \<Rightarrow> (s, Panic)
          | Panic \<Rightarrow> (s, Panic)
          | Ok c \<Rightarrow>
              (case sk_Slash E (world s) c dh (vi_GetConsensusPower v pr) frac of
                 (w, Ok _) \<Rightarrow>
                   (case sk_Jail E w c of
                      (w, Ok _) \<Rightarrow> (s\<lparr>world := w\<rparr>, Ok ())
                    | (w, _) \<Rightarrow> (s\<lparr>world := w\<rparr>, Panic))
               | (w, _) \<Rightarrow> (s\<lparr>world := w\<rparr>, Panic)))"

lemma evaluateAndSlashIfNeeded_eq:
  "evaluateAndSlashIfNeeded E a m n minRate dh frac pr s =
     read_st s (must (dQuoInt64 (D E) (LegacyNewDec (i64 (n - SafeUint64ToInt64 m))) n)) (\<lambda>rate.
       if \<not> rate < minRate then (s, Ok ()) else slash_validator E a dh frac pr s)"
  by (simp only: evaluateAndSlashIfNeeded_def slash_validator_def Let_def GetParams_def)

lemma slash_validator_Ok:
  assumes "slash_validator E a (i64 (h - 2)) (SlashFraction (params s)) pr s = (s', Ok ())"
    and "below_min (MinValidPerWindow (params s)) n m"
  shows "s' = s\<lparr>world := punish E (params s) h pr n (a, m) (world s)\<rparr>"
proof (cases "sk_Validator E (world s) a")
  case (Ok v)
  show ?thesis
  proof (cases v)
    case None
    with Ok assms(1) show ?thesis by (simp add: slash_validator_def)
  next
    case (Some u)
    show ?thesis
    proof (cases "vi_IsBonded u \<and> \<not> vi_IsJailed u \<and> SlashingEnabled (params s)")
      case True
      obtain c where c: "vi_GetConsAddr u = Ok c"
        using True assms(1) by (cases "vi_GetConsAddr u") (simp_all add: slash_validator_def Ok Some)
      obtain w x where slash: "sk_Slash E (world s) c (i64 (h - 2)) (vi_GetConsensusPower u pr) (SlashFraction (params s)) = (w, x)"
        by fastforce
      obtain w' y where jail: "sk_Jail E w c = (w', y)" by fastforce
      show ?thesis
        using True assms by (cases x; cases y) (simp_all add: slash_validator_def punish_def Ok Some c slash jail)
    next
      case False
      then have "punish E (params s) h pr n (a, m) (world s) = world s"
        by (auto simp: punish_def Ok Some)
      moreover have "slash_validator E a (i64 (h - 2)) (SlashFraction (params s)) pr s = (s, Ok ())"
        using False by (auto simp: slash_validator_def Ok Some)
      ultimately show ?thesis using assms(1) by simp
    qed
  qed
qed (use assms in \<open>simp_all add: slash_validator_def punish_def\<close>)

lemma evaluateAndSlashIfNeeded_Ok:
  assumes laws: "dec_laws (D E)" and n: "0 < n" "n < 2 ^ 63" and "0 < MinValidPerWindow (params s)"
    and run: "evaluateAndSlashIfNeeded E a m n (MinValidPerWindow (params s)) (i64 (h - 2)) (SlashFraction (params s)) pr s = (s', Ok ())"
  shows "s' = s\<lparr>world := punish E (params s) h pr n (a, m) (world s)\<rparr>"
proof -
  have "i64 (n - SafeUint64ToInt64 m) = n - SafeUint64ToInt64 m"
    using n SafeUint64ToInt64_range [of m] by (intro i64_id) (simp add: in_i64_def)
  then have "dQuoInt64 (D E) (LegacyNewDec (i64 (n - SafeUint64ToInt64 m))) n =
      Some (go_div ((n - SafeUint64ToInt64 m) * 10 ^ 18) n)"
    using n by (simp add: dec_laws_QuoInt64 [OF laws] LegacyNewDec_def)
  moreover have "go_div ((n - SafeUint64ToInt64 m) * 10 ^ 18) n < MinValidPerWindow (params s) \<longleftrightarrow>
      below_min (MinValidPerWindow (params s)) n m"
    using go_div_less [OF n(1) assms(4)] by (simp add: below_min_def)
  ultimately have run': "(if \<not> below_min (MinValidPerWindow (params s)) n m then (s, Ok ())
      else slash_validator E a (i64 (h - 2)) (SlashFraction (params s)) pr s) = (s', Ok ())"
    using run by (simp add: evaluateAndSlashIfNeeded_eq Let_def)
  show ?thesis
  proof (cases "below_min (MinValidPerWindow (params s)) n m")
    case True
    with run' have "slash_validator E a (i64 (h - 2)) (SlashFraction (params s)) pr s = (s', Ok ())" by simp
    then show ?thesis
      by (rule slash_validator_Ok [OF _ True])
  qed (use run' in \<open>simp add: punish_def\<close>)
qed

lemma PossibleWins_eq:
  assumes laws: "dec_laws (D E)" and vp: "VotePeriod (params s) \<noteq> 0"
    and r: "uint (SlashWindow (params s)) < 2 ^ 63" "uint (VotePeriod (params s)) < 2 ^ 63"
  shows "PossibleWinsPerSlashWindow E s =
     Ok (i64 (uint (SlashWindow (params s)) div uint (VotePeriod (params s)) * int (length (MandatoryList (params s)))))"
proof -
  let ?sw = "uint (SlashWindow (params s))" and ?vp = "uint (VotePeriod (params s))"
  have vp: "0 < ?vp" using vp by (simp add: word_neq_0_conv word_less_def)
  have "SafeUint64ToInt64 (SlashWindow (params s)) = ?sw" "SafeUint64ToInt64 (VotePeriod (params s)) = ?vp"
    using r by (simp_all add: SafeUint64ToInt64_eq max_int64_def)
  moreover have "dQuoInt64 (D E) (LegacyNewDec ?sw) ?vp = Some (?sw * 10 ^ 18 div ?vp)"
    using vp by (simp add: dec_laws_QuoInt64 [OF laws] LegacyNewDec_def go_div_nonneg)
  moreover have "go_div (?sw * 10 ^ 18 div ?vp) (10 ^ 18) = ?sw div ?vp"
    using vp by (simp add: go_div_nonneg pos_imp_zdiv_nonneg_iff zdiv_zmult2_eq [symmetric] mult.commute [of ?vp])
  moreover have "in_i64 (?sw div ?vp)"
    using vp r(1) zdiv_mono2 [of ?sw 1 ?vp] pos_imp_zdiv_nonneg_iff [OF vp, of ?sw] by (simp add: in_i64_def)
  ultimately show ?thesis
    by (simp add: PossibleWinsPerSlashWindow_def Keeper_SlashWindow_def Keeper_VotePeriod_def Let_def
        dec_laws_TruncateInt64 [OF laws] GetParams_def)
qed

text \<open>One step of the walk over the miss counters, and the walk.\<close>

lemma slash_walk:
  fixes s :: "'w ostate"
  assumes laws: "dec_laws (D E)" and n: "0 < n" "n < 2 ^ 63" and mv: "0 < MinValidPerWindow p"
  shows "coll_walk (\<lambda>operator missCount (s, r).
         (case evaluateAndSlashIfNeeded E operator missCount n (MinValidPerWindow p) (i64 (h - 2)) (SlashFraction p) pr s of
            (s, Ok _) \<Rightarrow> ((DeleteMissCounter operator s, Ok ()), False)
          | (s, _) \<Rightarrow> ((s, Panic), True))) es (s, Ok ()) = (s', Ok ()) \<Longrightarrow> params s = p \<Longrightarrow>
     s' = s\<lparr>world := fold (punish E p h pr n) es (world s),
           MissCounters := fold (\<lambda>e. coll_remove (fst e)) es (MissCounters s)\<rparr>"
proof (induction es arbitrary: s)
  case (Cons e es)
  obtain a m where e: "e = (a, m)" by force
  obtain s1 r where ev: "evaluateAndSlashIfNeeded E a m n (MinValidPerWindow p) (i64 (h - 2)) (SlashFraction p) pr s = (s1, r)"
    by fastforce
  show ?case
  proof (cases r)
    case (Ok u)
    have "s1 = s\<lparr>world := punish E p h pr n (a, m) (world s)\<rparr>"
      using evaluateAndSlashIfNeeded_Ok [OF laws n, of s a m h pr s1] ev Ok mv Cons.prems(2) by simp
    then have del: "DeleteMissCounter a s1 =
        s\<lparr>world := punish E p h pr n (a, m) (world s), MissCounters := coll_remove a (MissCounters s)\<rparr>"
      by (simp add: DeleteMissCounter_def)
    show ?thesis
      using Cons.IH [of "DeleteMissCounter a s1"] Cons.prems by (simp add: e ev Ok del)
  qed (use Cons.prems(1) in \<open>simp_all add: e ev\<close>)
qed simp

lemma fold_remove_all: "fold (\<lambda>e. coll_remove (fst e)) es t = filter (\<lambda>e. fst e \<notin> fst ` set es) t"
  by (induction es arbitrary: t) (auto simp: coll_remove_def intro!: filter_cong)

section \<open>Properties\<close>

text \<open>
  C16. At the end of a slash window exactly the validators are slashed and jailed whose share of
  valid votes, out of the vote periods of the window times the mandatory denoms, is below
  the minimum, if they are bonded, not jailed and slashing is enabled; the miss counters
  of all validators are reset, and the oracle changes nothing else.
\<close>

theorem SlashAndResetMissCounters_spec:
  fixes s :: "'w ostate"
  defines "n \<equiv> uint (SlashWindow (params s)) div uint (VotePeriod (params s)) * int (length (MandatoryList (params s)))"
  assumes laws: "dec_laws (D E)" and vp: "VotePeriod (params s) \<noteq> 0"
    and r: "uint (SlashWindow (params s)) < 2 ^ 63" "uint (VotePeriod (params s)) < 2 ^ 63"
    and n: "0 < n" "n < 2 ^ 63" and mv: "0 < MinValidPerWindow (params s)"
    and run: "SlashAndResetMissCounters E h s = (s', Ok ())"
  shows "s' = s\<lparr>MissCounters := [],
     world := fold (punish E (params s) h (sk_PowerReduction E (world s)) n) (MissCounters s) (world s)\<rparr>"
proof -
  have wins: "PossibleWinsPerSlashWindow E s = Ok n"
    using PossibleWins_eq [OF laws vp r] n by (simp add: n_def in_i64_def)
  have "s' = s\<lparr>world := fold (punish E (params s) h (sk_PowerReduction E (world s)) n) (MissCounters s) (world s),
      MissCounters := fold (\<lambda>e. coll_remove (fst e)) (MissCounters s) (MissCounters s)\<rparr>"
    using run by (intro slash_walk [OF laws n mv])
      (simp_all add: SlashAndResetMissCounters_def wins Keeper_MinValidPerWindow_def Keeper_SlashFraction_def
        IterateMissCounters_def ValidatorUpdateDelay_def Let_def)
  moreover have "filter (\<lambda>e. fst e \<notin> fst ` set (MissCounters s)) (MissCounters s) = []"
    by (simp add: filter_empty_conv)
  ultimately show ?thesis
    by (simp add: fold_remove_all)
qed

definition slash_state :: "ref_world ostate" where
  "slash_state = ref_state\<lparr>params := DefaultParams\<lparr>VotePeriod := 10, SlashWindow := 1000,
     MinValidPerWindow := LegacyNewDecWithPrec 5 2, SlashingEnabled := True\<rparr>\<rparr>"

theorem SlashAndResetMissCounters_spec_witness:
  "snd (world (fst (SlashAndResetMissCounters ref_env 100 slash_state))) = ([''val2''], [''val2'']) \<and>
   MissCounters (fst (SlashAndResetMissCounters ref_env 100 slash_state)) = []"
proof -
  have laws: "dec_laws (D ref_env)" by (simp add: ref_env_def ref_dec_laws)
  let ?n = "100 * int (length DefaultMandatoryList)"
  have p: "VotePeriod (params slash_state) = 10" "SlashWindow (params slash_state) = 1000"
    "MinValidPerWindow (params slash_state) = 5 * 10 ^ 16" "MandatoryList (params slash_state) = DefaultMandatoryList"
    by (simp_all add: slash_state_def LegacyNewDecWithPrec_def DefaultParams_def)
  have "snd (SlashAndResetMissCounters ref_env 100 slash_state) = Ok ()" by code_simp
  then have run: "SlashAndResetMissCounters ref_env 100 slash_state =
      (fst (SlashAndResetMissCounters ref_env 100 slash_state), Ok ())"
    by (metis prod.collapse)
  have n: "0 < ?n" "?n < 2 ^ 63" by (simp_all add: DefaultMandatoryList_def)
  have "snd (fold (punish ref_env (params slash_state) 100 (sk_PowerReduction ref_env (world slash_state)) ?n)
      (MissCounters slash_state) (world slash_state)) = ([''val2''], [''val2''])"
    by code_simp
  then show ?thesis
    using SlashAndResetMissCounters_spec [OF laws _ _ _ _ _ _ run] n by (simp add: p)
qed

text \<open>
  With an empty mandatory list, which \<open>Params.Validate\<close> accepts, the end of the slash window
  panics as soon as a single miss counter is left: the valid vote rate is a quotient by zero.
\<close>

theorem slash_panics_without_mandatory_denoms:
  assumes laws: "dec_laws (D E)" and vp: "VotePeriod (params s) \<noteq> 0"
    and r: "uint (SlashWindow (params s)) < 2 ^ 63" "uint (VotePeriod (params s)) < 2 ^ 63"
    and "MandatoryList (params s) = []" and "MissCounters s \<noteq> []"
  shows "snd (SlashAndResetMissCounters E h s) = Panic"
proof -
  have wins: "PossibleWinsPerSlashWindow E s = Ok 0"
    using PossibleWins_eq [OF laws vp r] assms(5) by (simp add: i64_def)
  obtain a m es where "MissCounters s = (a, m) # es"
    using assms(6) by (metis list.exhaust surj_pair)
  then show ?thesis
    by (simp add: SlashAndResetMissCounters_def wins IterateMissCounters_def evaluateAndSlashIfNeeded_eq
        dec_laws_QuoInt64 [OF laws] Let_def)
qed

theorem slash_panics_without_mandatory_denoms_witness:
  "Params_Validate (Y ref_env) (DefaultParams\<lparr>MandatoryList := []\<rparr>) = Ok () \<and>
   snd (SlashAndResetMissCounters ref_env 100 (slash_state\<lparr>params := DefaultParams\<lparr>MandatoryList := []\<rparr>\<rparr>)) = Panic"
proof
  show "Params_Validate (Y ref_env) (DefaultParams\<lparr>MandatoryList := []\<rparr>) = Ok ()" by code_simp
  show "snd (SlashAndResetMissCounters ref_env 100 (slash_state\<lparr>params := DefaultParams\<lparr>MandatoryList := []\<rparr>\<rparr>)) = Panic"
    by (rule slash_panics_without_mandatory_denoms)
      (simp_all add: ref_env_def ref_dec_laws DefaultParams_def BlocksPerMinute_def BlocksPerHour_def
        BlocksPerDay_def BlocksPerWeek_def slash_state_def ref_state_def)
qed

end
