(* ===== verification/Oracle_Reward.thy ===== *)
theory Oracle_Reward
  imports Decmath Oracle_Slash
begin

text \<open>
  Rewards of ballot winners (\<open>src/x/oracle/keeper/reward.go\<close>, \<open>alias_functions.go\<close>,
  \<open>src/util/reward/reward.go\<close>, \<open>NewDecFromFloat\<close> of \<open>decmath.go\<close>). Go's \<open>float64\<close> arithmetic,
  \<open>math.Log\<close> and \<open>strconv.FormatFloat\<close> are the record \<open>float_ops\<close>; \<open>float_laws\<close> states the
  facts of IEEE arithmetic the bound on a reward rests on.
\<close>

record 'f float_ops =
  f_of_int :: "int \<Rightarrow> 'f"
  f_add :: "'f \<Rightarrow> 'f \<Rightarrow> 'f"
  f_sub :: "'f \<Rightarrow> 'f \<Rightarrow> 'f"
  f_div :: "'f \<Rightarrow> 'f \<Rightarrow> 'f"
  f_le :: "'f \<Rightarrow> 'f \<Rightarrow> bool"
  Log :: "'f \<Rightarrow> 'f"
  IsNaN :: "'f \<Rightarrow> bool"
  IsInf :: "'f \<Rightarrow> bool"
  FormatFloat :: "'f \<Rightarrow> string"

definition ModuleName :: string where "ModuleName = ''oracle''"
definition DmDenom :: string where "DmDenom = ''udm''"

section \<open>reward.go, decmath.go\<close>

definition CalculateRewardFactor :: "'f float_ops \<Rightarrow> int \<Rightarrow> int \<Rightarrow> int \<Rightarrow> 'f" where
  "CalculateRewardFactor F missCount m s =
     (let logBase = f_add F (f_of_int F (i64 (m - s))) (f_of_int F 1);
          logKey = f_add F (f_of_int F (i64 (missCount - s))) (f_of_int F 1);
          rewardFactor = f_sub F (f_of_int F 1) (f_div F (Log F logKey) (Log F logBase)) in
      if IsNaN F rewardFactor \<or> IsInf F rewardFactor then f_of_int F 0 else rewardFactor)"

definition NewDecFromFloat :: "'w oracle_env \<Rightarrow> 'f float_ops \<Rightarrow> 'f \<Rightarrow> dec res" where
  "NewDecFromFloat E F f = LegacyNewDecFromStr E (FormatFloat F f)"

section \<open>alias_functions.go\<close>

definition GetOracleAccount :: "'w oracle_env \<Rightarrow> 'w ostate \<Rightarrow> bytes option" where
  "GetOracleAccount E s = ak_GetModuleAccount E (world s) ModuleName"

definition GetRewardPool :: "'w oracle_env \<Rightarrow> 'w ostate \<Rightarrow> string \<Rightarrow> Coin res" where
  "GetRewardPool E s denom =
     (case ak_GetModuleAccount E (world s) ModuleName of
        None \<Rightarrow> Panic
      | Some acc \<Rightarrow> Ok (bk_GetBalance E (world s) acc denom))"

section \<open>keeper/reward.go\<close>

definition prependOjoIfUnique :: "string list \<Rightarrow> string list" where
  "prependOjoIfUnique voteTargets =
     (if Contains DmDenom voteTargets then voteTargets else DmDenom # voteTargets)"

definition smallestMissCountInBallot :: "'w ostate \<Rightarrow> Claim list \<Rightarrow> int res" where
  "smallestMissCountInBallot s ballotWinners =
     (case ballotWinners of
        [] \<Rightarrow> Panic
      | w # ws \<Rightarrow>
          Ok (SafeUint64ToInt64 (fold (\<lambda>winner missCount.
            let count = GetMissCounter s (cl_Recipient winner) in
            if count < missCount then count else missCount) ws (GetMissCounter s (cl_Recipient w)))))"

fun period_rewards :: "'w oracle_env \<Rightarrow> 'w ostate \<Rightarrow> dec \<Rightarrow> DecCoin list \<Rightarrow> string list \<Rightarrow> DecCoin list res" where
  "period_rewards E s distributionRatio periodRewards [] = Ok periodRewards"
| "period_rewards E s distributionRatio periodRewards (denom # denoms) =
     bind_res (GetRewardPool E s denom) (\<lambda>rewardPool.
       if c_Amount rewardPool = 0 then period_rewards E s distributionRatio periodRewards denoms
       else
         bind_res (must (dMul (D E) (LegacyNewDec (c_Amount rewardPool)) distributionRatio)) (\<lambda>a.
         bind_res (must (NewDecCoinFromDec (coinOps E) denom a)) (\<lambda>c.
         bind_res (must (DecCoins_Add (coinOps E) periodRewards [c])) (\<lambda>periodRewards.
           period_rewards E s distributionRatio periodRewards denoms))))"

text \<open>The loop over the winners: \<open>Ok None\<close> is the early return, which sends nothing.\<close>

fun winners_loop ::
  "'w oracle_env \<Rightarrow> 'f float_ops \<Rightarrow> nat \<Rightarrow> nat \<Rightarrow> int \<Rightarrow> DecCoin list \<Rightarrow> Coin list \<Rightarrow> Claim list
    \<Rightarrow> 'w ostate \<Rightarrow> 'w ostate \<times> Coin list option res" where
  "winners_loop E F targets ballotLength smallest periodRewards distributedReward [] s =
     (s, Ok (Some distributedReward))"
| "winners_loop E F targets ballotLength smallest periodRewards distributedReward (winner # winners) s =
     (case sk_Validator E (world s) (cl_Recipient winner) of
        Panic \<Rightarrow> (s, Panic)
      | Err e \<Rightarrow> winners_loop E F targets ballotLength smallest periodRewards distributedReward winners s
      | Ok None \<Rightarrow> winners_loop E F targets ballotLength smallest periodRewards distributedReward winners s
      | Ok (Some receiverVal) \<Rightarrow>
          if Keeper_VotePeriod s = 0 then (s, Panic)
          else
            let missCount = SafeUint64ToInt64 (GetMissCounter s (cl_Recipient winner));
                maxMissCount = i64 (int targets * SafeUint64ToInt64 (Keeper_SlashWindow s div Keeper_VotePeriod s)) in
            (case NewDecFromFloat E F (CalculateRewardFactor F missCount maxMissCount smallest) of
               Panic \<Rightarrow> (s, Panic)
             | Err e \<Rightarrow> (s, Ok None)
             | Ok rewardDec \<Rightarrow>
                 read_st s (must (dQuoInt64 (D E) rewardDec (int ballotLength))) (\<lambda>factor.
                 read_st s (must (DecCoins_MulDec (coinOps E) periodRewards factor)) (\<lambda>coins.
                 read_st s (must (DecCoins_TruncateDecimal (coinOps E) coins)) (\<lambda>(rewardCoins, _).
                   if Coins_IsZero rewardCoins
                   then winners_loop E F targets ballotLength smallest periodRewards distributedReward winners s
                   else
                     read_st s (must (NewDecCoinsFromCoins (coinOps E) rewardCoins)) (\<lambda>tokens.
                       (case dk_AllocateTokensToValidator E (world s) receiverVal tokens of
                          (w, Panic) \<Rightarrow> (s\<lparr>world := w\<rparr>, Panic)
                        | (w, Err e) \<Rightarrow> (s\<lparr>world := w\<rparr>, Ok None)
                        | (w, Ok _) \<Rightarrow>
                            read_st (s\<lparr>world := w\<rparr>) (must (Coins_Add (coinOps E) distributedReward rewardCoins))
                              (\<lambda>distributedReward.
                                winners_loop E F targets ballotLength smallest periodRewards distributedReward
                                  winners (s\<lparr>world := w\<rparr>)))))))))"

definition RewardBallotWinners ::
  "'w oracle_env \<Rightarrow> 'f float_ops \<Rightarrow> int \<Rightarrow> int \<Rightarrow> string list \<Rightarrow> Claim list \<Rightarrow> 'w ostate \<Rightarrow> 'w ostate \<times> unit res" where
  "RewardBallotWinners E F votePeriod rewardDistributionWindow voteTargets ballotWinners s =
     (if length ballotWinners = 0 then (s, Ok ())
      else
        read_st s (must (dQuoInt64 (D E) (LegacyNewDec votePeriod) rewardDistributionWindow)) (\<lambda>distributionRatio.
        read_st s (period_rewards E s distributionRatio [] (prependOjoIfUnique voteTargets)) (\<lambda>periodRewards.
        read_st s (smallestMissCountInBallot s ballotWinners) (\<lambda>smallestMissCount.
        then_st (winners_loop E F (length voteTargets) (length ballotWinners) smallestMissCount periodRewards []
            ballotWinners s) (\<lambda>s distributed.
          case distributed of
            None \<Rightarrow> (s, Ok ())
          | Some distributedReward \<Rightarrow>
              (case bk_SendCoinsFromModuleToModule E (world s) ModuleName (distrName E) distributedReward of
                 (w, Ok _) \<Rightarrow> (s\<lparr>world := w\<rparr>, Ok ())
               | (w, _) \<Rightarrow> (s\<lparr>world := w\<rparr>, Panic)))))))"

section \<open>Lemmas\<close>

text \<open>
  With \<open>1 \<le> x\<close> the logarithm is not negative; a non-negative number divided by the logarithm
  of an integer is not negative, or not a number; a non-negative number taken from one is
  at most one; a number that is at most one is written as such a decimal.
\<close>

definition float_laws :: "'w oracle_env \<Rightarrow> 'f float_ops \<Rightarrow> bool" where
  "float_laws E F \<longleftrightarrow>
     (\<forall>k. 0 \<le> k \<longrightarrow> f_le F (f_of_int F 1) (f_add F (f_of_int F k) (f_of_int F 1))) \<and>
     (\<forall>x. f_le F (f_of_int F 1) x \<longrightarrow> f_le F (f_of_int F 0) (Log F x)) \<and>
     (\<forall>k x. f_le F (f_of_int F 0) x \<longrightarrow>
        f_le F (f_of_int F 0) (f_div F x (Log F (f_add F (f_of_int F k) (f_of_int F 1)))) \<or>
        IsNaN F (f_div F x (Log F (f_add F (f_of_int F k) (f_of_int F 1))))) \<and>
     (\<forall>q. f_le F (f_of_int F 0) q \<longrightarrow> f_le F (f_sub F (f_of_int F 1) q) (f_of_int F 1)) \<and>
     (\<forall>q. IsNaN F q \<longrightarrow> IsNaN F (f_sub F (f_of_int F 1) q)) \<and>
     f_le F (f_of_int F 0) (f_of_int F 1) \<and>
     (\<forall>x r. f_le F x (f_of_int F 1) \<longrightarrow> LegacyNewDecFromStr E (FormatFloat F x) = Ok r \<longrightarrow> r \<le> LegacyOneDec)"

lemma reward_factor_le_one:
  assumes "float_laws E F" and "s \<le> missCount" and "0 \<le> s" and "missCount < 2 ^ 63"
    and "NewDecFromFloat E F (CalculateRewardFactor F missCount m s) = Ok r"
  shows "r \<le> 10 ^ 18"
proof -
  let ?key = "f_add F (f_of_int F (missCount - s)) (f_of_int F 1)"
  let ?q = "f_div F (Log F ?key) (Log F (f_add F (f_of_int F (i64 (m - s))) (f_of_int F 1)))"
  have key: "i64 (missCount - s) = missCount - s"
    using assms(2-4) by (intro i64_id) (simp add: in_i64_def)
  have "f_le F (f_of_int F 0) (Log F ?key)"
    using assms(1,2) by (simp add: float_laws_def)
  then have "f_le F (f_of_int F 0) ?q \<or> IsNaN F ?q"
    using assms(1) unfolding float_laws_def by iprover
  then have "f_le F (f_sub F (f_of_int F 1) ?q) (f_of_int F 1) \<or> IsNaN F (f_sub F (f_of_int F 1) ?q)"
    using assms(1) unfolding float_laws_def by iprover
  then have "f_le F (CalculateRewardFactor F missCount m s) (f_of_int F 1)"
    using assms(1) by (auto simp: CalculateRewardFactor_def Let_def key float_laws_def)
  then show ?thesis
    using assms(1,5) unfolding float_laws_def NewDecFromFloat_def LegacyOneDec_def by iprover
qed

text \<open>The reward of a winner is at most an equal share of the rewards of the period.\<close>

lemma winner_share:
  assumes "coin_laws K" and "coins_ok P" and "0 \<le> amt P d" and n: "0 < n"
    and "x \<le> 10 ^ 18" and "DecCoins_MulDec K P (go_div x n) = Some cs"
    and "DecCoins_TruncateDecimal K cs = Some (t, ch)"
  shows "0 \<le> camt t d \<and> n * camt t d * 10 ^ 18 \<le> amt P d + n"
proof -
  have cs: "coins_ok cs" "\<bar>amt cs d * 10 ^ 18 - amt P d * go_div x n\<bar> \<le> 10 ^ 18"
    using coin_laws_MulDec [OF assms(1,2,6)] by auto
  have t: "0 \<le> camt t d" "camt t d * 10 ^ 18 \<le> amt cs d"
    using coin_laws_Truncate [OF assms(1) cs(1) assms(7)] by auto
  have "n * go_div x n \<le> 10 ^ 18"
  proof (cases "0 \<le> x")
    case True
    then have "go_div x n = x div n" using n by (simp add: go_div_nonneg)
    then show ?thesis
      using div_mult_le_dividend_int [OF n, of x] assms(5) by (simp add: mult.commute)
  next
    case False
    then have "go_div x n \<le> 0"
      using n by (simp add: go_div_def sgn_if pos_imp_zdiv_nonneg_iff)
    then show ?thesis
      using n by (simp add: mult_nonneg_nonpos order_trans [of _ 0])
  qed
  then have "amt P d * (n * go_div x n) \<le> amt P d * 10 ^ 18"
    using assms(3) by (rule mult_left_mono)
  moreover have "n * (amt cs d * 10 ^ 18) \<le> n * (amt P d * go_div x n + 10 ^ 18)"
    using cs(2) n by (intro mult_left_mono) auto
  moreover have "n * (camt t d * 10 ^ 18) * 10 ^ 18 \<le> n * amt cs d * 10 ^ 18"
    using t(2) n by (intro mult_right_mono mult_left_mono) auto
  ultimately have "(n * camt t d * 10 ^ 18) * 10 ^ 18 \<le> (amt P d + n) * 10 ^ 18"
    by (simp add: algebra_simps)
  then show ?thesis using t(1) by simp
qed

text \<open>A step of the loop either skips the winner or pays it.\<close>

lemma winners_loop_step:
  assumes "winners_loop E F tg n sm P dist (w # ws) s = (s', Ok (Some dist'))"
  obtains (skip) "winners_loop E F tg n sm P dist ws s = (s', Ok (Some dist'))"
  | (pay) m x cs t ch world' dist1 where
      "NewDecFromFloat E F (CalculateRewardFactor F (SafeUint64ToInt64 (GetMissCounter s (cl_Recipient w))) m sm) = Ok x"
      "dQuoInt64 (D E) x (int n) \<noteq> None"
      "DecCoins_MulDec (coinOps E) P (the (dQuoInt64 (D E) x (int n))) = Some cs"
      "DecCoins_TruncateDecimal (coinOps E) cs = Some (t, ch)"
      "Coins_Add (coinOps E) dist t = Some dist1"
      "winners_loop E F tg n sm P dist1 ws (s\<lparr>world := world'\<rparr>) = (s', Ok (Some dist'))"
proof (cases "sk_Validator E (world s) (cl_Recipient w)")
  case (Ok v)
  show thesis
  proof (cases v)
    case (Some u)
    let ?m = "i64 (int tg * SafeUint64ToInt64 (Keeper_SlashWindow s div Keeper_VotePeriod s))"
    let ?f = "NewDecFromFloat E F (CalculateRewardFactor F (SafeUint64ToInt64 (GetMissCounter s (cl_Recipient w))) ?m sm)"
    obtain x where x: "?f = Ok x"
      using assms by (cases ?f) (auto simp: Ok Some Let_def split: if_splits)
    obtain y cs t ch where y: "dQuoInt64 (D E) x (int n) = Some y" "DecCoins_MulDec (coinOps E) P y = Some cs"
      "DecCoins_TruncateDecimal (coinOps E) cs = Some (t, ch)"
      using assms x by (auto simp: Ok Some Let_def res_simps split: if_splits)
    show thesis
    proof (cases "Coins_IsZero t")
      case True
      then show thesis
        using assms x y by (intro skip) (auto simp: Ok Some Let_def split: if_splits)
    next
      case False
      then obtain tk where tk: "NewDecCoinsFromCoins (coinOps E) t = Some tk"
        using assms x y by (auto simp: Ok Some Let_def res_simps split: if_splits)
      obtain w' r where r: "dk_AllocateTokensToValidator E (world s) u tk = (w', r)" by fastforce
      obtain z where z: "r = Ok z"
        using assms x y tk r False by (cases r) (auto simp: Ok Some Let_def split: if_splits)
      obtain dist1 where "Coins_Add (coinOps E) dist t = Some dist1"
        "winners_loop E F tg n sm P dist1 ws (s\<lparr>world := w'\<rparr>) = (s', Ok (Some dist'))"
        using assms x y tk r z False by (auto simp: Ok Some Let_def res_simps split: if_splits)
      then show thesis
        using x y by (intro pay [of ?m x cs t ch dist1 w']) simp_all
    qed
  qed (use assms in \<open>auto simp: Ok intro: skip\<close>)
qed (use assms in \<open>auto intro: skip\<close>)

lemma winners_loop_bound:
  assumes float: "float_laws E F" and dec: "dec_laws (D E)" and coins: "coin_laws (coinOps E)"
    and P: "coins_ok P" "0 \<le> amt P d" and n: "0 < n"
  shows "winners_loop E F tg n sm P dist ws s = (s', Ok (Some dist')) \<Longrightarrow> 0 \<le> sm \<Longrightarrow>
     \<forall>w \<in> set ws. sm \<le> SafeUint64ToInt64 (GetMissCounter s (cl_Recipient w)) \<Longrightarrow>
     int n * camt dist' d * 10 ^ 18 \<le> int n * camt dist d * 10 ^ 18 + int (length ws) * (amt P d + int n)"
proof (induction ws arbitrary: dist s)
  case (Cons w ws)
  have nn: "0 \<le> amt P d + int n" using P(2) by simp
  from Cons.prems(1) show ?case
  proof (cases rule: winners_loop_step)
    case skip
    then show ?thesis using Cons nn by (fastforce simp: distrib_right)
  next
    case (pay m x cs t ch w' dist1)
    have "x \<le> 10 ^ 18"
      using Cons.prems(2,3) SafeUint64ToInt64_range
      by (intro reward_factor_le_one [OF float _ _ _ pay(1)]) auto
    moreover have "the (dQuoInt64 (D E) x (int n)) = go_div x (int n)"
      using n by (simp add: dec_laws_QuoInt64 [OF dec])
    ultimately have "int n * camt t d * 10 ^ 18 \<le> amt P d + int n"
      using winner_share [OF coins P, of "int n" x cs t ch] n pay(3,4) by simp
    moreover have "camt dist1 d = camt dist d + camt t d"
      by (rule coin_laws_Coins_Add [OF coins pay(5)])
    moreover have "int n * camt dist' d * 10 ^ 18 \<le> int n * camt dist1 d * 10 ^ 18 + int (length ws) * (amt P d + int n)"
      using Cons.prems(2,3) by (intro Cons.IH [OF pay(6)]) (simp_all add: GetMissCounter_def)
    ultimately show ?thesis
      by (simp add: distrib_left distrib_right)
  qed
qed simp

text \<open>The amount of a denom that the module account holds.\<close>

definition pool :: "'w oracle_env \<Rightarrow> 'w ostate \<Rightarrow> string \<Rightarrow> int" where
  "pool E s d = (case GetRewardPool E s d of Ok c \<Rightarrow> c_Amount c | _ \<Rightarrow> 0)"

lemma period_rewards_bound:
  assumes dec: "dec_laws (D E)" and coins: "coin_laws (coinOps E)" and ratio: "0 \<le> ratio" "ratio \<le> 10 ^ 18"
    and pools: "\<forall>d. 0 \<le> pool E s d"
  shows "period_rewards E s ratio R ds = Ok P \<Longrightarrow> coins_ok R \<Longrightarrow> 0 \<le> amt R d \<Longrightarrow> distinct ds \<Longrightarrow>
     coins_ok P \<and> 0 \<le> amt P d \<and> amt P d \<le> amt R d + (if d \<in> set ds then pool E s d * 10 ^ 18 + 1 else 0)"
proof (induction ds arbitrary: R)
  case (Cons e ds)
  obtain c where c: "GetRewardPool E s e = Ok c"
    using Cons.prems(1) by (auto simp: res_simps)
  then have pool: "pool E s e = c_Amount c" by (simp add: pool_def)
  then have nonneg: "0 \<le> c_Amount c" using pools by metis
  show ?case
  proof (cases "c_Amount c = 0")
    case True
    then show ?thesis using Cons pool c by fastforce
  next
    case False
    obtain a v R' where a: "dMul (D E) (LegacyNewDec (c_Amount c)) ratio = Some a"
      and v: "NewDecCoinFromDec (coinOps E) e a = Some v" and R': "DecCoins_Add (coinOps E) R [v] = Some R'"
      and rest: "period_rewards E s ratio R' ds = Ok P"
      using Cons.prems(1) False c by (auto simp: res_simps)
    have v': "0 \<le> a" "v = \<lparr>dc_Denom = e, dc_Amount = a\<rparr>"
      using coin_laws_New [OF coins v] by auto
    have "\<bar>a * 10 ^ 18 - LegacyNewDec (c_Amount c) * ratio\<bar> \<le> 10 ^ 18"
      using dec a unfolding dec_laws_def by iprover
    moreover have "c_Amount c * ratio \<le> c_Amount c * 10 ^ 18"
      using ratio(2) nonneg by (rule mult_left_mono)
    ultimately have "a \<le> c_Amount c * 10 ^ 18 + 1"
      by (simp add: LegacyNewDec_def)
    moreover have "coins_ok R'" "amt R' f = amt R f + (if e = f then a else 0)" for f
      using coin_laws_Add [OF coins Cons.prems(2) _ R', of f] v' by (auto simp: coins_ok_def)
    ultimately show ?thesis
      using Cons.IH [OF rest] Cons.prems(3,4) v'(1) pool by (cases "e = d") auto
  qed
qed simp

lemma fold_least:
  fixes f :: "'a \<Rightarrow> 'b :: linorder"
  shows "fold (\<lambda>w c. if f w < c then f w else c) vs c \<le> c \<and>
    (\<forall>w \<in> set vs. fold (\<lambda>w c. if f w < c then f w else c) vs c \<le> f w)"
proof (induction vs arbitrary: c)
  case (Cons v vs)
  define c' where "c' = (if f v < c then f v else c)"
  have "c' \<le> c" "c' \<le> f v" by (auto simp: c'_def)
  then show ?case
    using Cons.IH [of c'] by (simp add: c'_def [symmetric]) (meson order_trans)
qed simp

lemma smallest_le:
  assumes "smallestMissCountInBallot s ws = Ok m"
  shows "0 \<le> m \<and> (\<forall>w \<in> set ws. m \<le> SafeUint64ToInt64 (GetMissCounter s (cl_Recipient w)))"
proof -
  let ?f = "\<lambda>w. GetMissCounter s (cl_Recipient w)"
  obtain v vs where ws: "ws = v # vs" and m: "m = SafeUint64ToInt64 (fold (\<lambda>w c. if ?f w < c then ?f w else c) vs (?f v))"
    using assms by (auto simp: smallestMissCountInBallot_def Let_def split: list.splits)
  have "\<forall>w \<in> set ws. fold (\<lambda>w c. if ?f w < c then ?f w else c) vs (?f v) \<le> ?f w"
    using fold_least [of ?f vs "?f v"] by (auto simp: ws)
  then show ?thesis
    using SafeUint64ToInt64_range by (auto simp: m SafeUint64ToInt64_eq word_le_def min.coboundedI1)
qed

text \<open>A bank that refuses to move more than the module account held in state \<open>s\<close>.\<close>

definition capped :: "'w oracle_env \<Rightarrow> 'w ostate \<Rightarrow> 'w oracle_env" where
  "capped E s = E\<lparr>bk_SendCoinsFromModuleToModule := (\<lambda>w from to cs.
     if \<forall>d. camt cs d \<le> pool E s d then bk_SendCoinsFromModuleToModule E w from to cs else (w, Panic))\<rparr>"

lemma capped_simps [simp]:
  "D (capped E s) = D E" "coinOps (capped E s) = coinOps E" "distrName (capped E s) = distrName E"
  "sk_Validator (capped E s) = sk_Validator E" "ak_GetModuleAccount (capped E s) = ak_GetModuleAccount E"
  "bk_GetBalance (capped E s) = bk_GetBalance E" "LegacyNewDecFromStr (capped E s) = LegacyNewDecFromStr E"
  "dk_AllocateTokensToValidator (capped E s) = dk_AllocateTokensToValidator E"
  "bk_SendCoinsFromModuleToModule (capped E s) = (\<lambda>w from to cs.
     if \<forall>d. camt cs d \<le> pool E s d then bk_SendCoinsFromModuleToModule E w from to cs else (w, Panic))"
  by (simp_all add: capped_def)

lemma capped_period_rewards: "period_rewards (capped E u) s ratio R ds = period_rewards E s ratio R ds"
  by (induction ds arbitrary: R) (simp_all add: GetRewardPool_def cong: if_cong option.case_cong)

lemma capped_winners_loop: "winners_loop (capped E u) F tg n sm P dist ws s = winners_loop E F tg n sm P dist ws s"
  by (induction ws arbitrary: dist s) (simp_all add: NewDecFromFloat_def Let_def cong: if_cong res.case_cong option.case_cong)

text \<open>Paying rewards changes no store of the oracle.\<close>

lemma winners_loop_world:
  "(fst (winners_loop E F tg n sm P dist ws s))\<lparr>world := v\<rparr> = s\<lparr>world := v\<rparr>"
proof (induction ws arbitrary: dist s)
  case (Cons w ws)
  let ?keeps = "\<lambda>s'. s'\<lparr>world := v\<rparr> = s\<lparr>world := v\<rparr>"
  show ?case
    by (auto simp: Cons.IH Let_def case_prod_beta' split: res.splits option.splits if_splits prod.splits
        intro!: read_st_keeps [where P = ?keeps])
qed simp

lemma RewardBallotWinners_world:
  "(fst (RewardBallotWinners E F vp rdw targets winners s))\<lparr>world := v\<rparr> = s\<lparr>world := v\<rparr>"
proof -
  let ?keeps = "\<lambda>s'. s'\<lparr>world := v\<rparr> = s\<lparr>world := v\<rparr>"
  show ?thesis
    unfolding RewardBallotWinners_def
    by (auto simp: winners_loop_world split: option.splits prod.splits res.splits
        intro!: read_st_keeps [where P = ?keeps] then_st_keeps [where P = ?keeps])
qed

lemma RewardBallotWinners_state:
  assumes "RewardBallotWinners E F vp rdw targets winners s = (s', r)"
  shows "s' = s\<lparr>world := world s'\<rparr>"
  using RewardBallotWinners_world [of "world s'" E F vp rdw targets winners s] assms by simp

section \<open>Properties\<close>


text \<open>Numbers that are integers or not a number, with a logarithm of two steps.\<close>

fun lift_op :: "(int \<Rightarrow> int \<Rightarrow> int) \<Rightarrow> int option \<Rightarrow> int option \<Rightarrow> int option" where
  "lift_op g (Some x) (Some y) = Some (g x y)"
| "lift_op g _ _ = None"

definition ref_float :: "int option float_ops" where
  "ref_float = \<lparr>f_of_int = Some, f_add = lift_op (+), f_sub = lift_op (-),
     f_div = (\<lambda>x y. if y = Some 0 then None else lift_op (div) x y),
     f_le = (\<lambda>x y. case (x, y) of (Some a, Some b) \<Rightarrow> a \<le> b | _ \<Rightarrow> False),
     Log = (\<lambda>x. case x of Some a \<Rightarrow> if a < 1 then None else if a = 1 then Some 0 else Some 1 | None \<Rightarrow> None),
     IsNaN = (\<lambda>x. x = None), IsInf = (\<lambda>x. False),
     FormatFloat = (\<lambda>x. if x = Some 1 then ''1'' else ''0'')\<rparr>"

definition reward_env :: "ref_world oracle_env" where
  "reward_env = ref_env\<lparr>LegacyNewDecFromStr := (\<lambda>t. if t = ''1'' then Ok LegacyOneDec else Ok LegacyZeroDec)\<rparr>"

lemma ref_float_laws: "float_laws reward_env ref_float"
  by (auto simp: float_laws_def ref_float_def reward_env_def dec_consts split: option.splits if_splits)


end
