(* ===== verification/Oracle_Abci.thy ===== *)
theory Oracle_Abci
  imports Oracle_Plan Oracle_Prices Oracle_Reward
begin

text \<open>
  The end of a block (\<open>src/x/oracle/abci/endblocker.go\<close>): tallying the ballots, updating the
  exchange rates, the historic prices, the miss counters and the rewards, and running the
  parameter plans. \<open>h\<close> is the block height. The Go map of claims that \<open>CalcPrices\<close> builds and
  \<open>Tally\<close> changes is a store that is passed along.

  The price feeder that \<open>EndBlocker\<close> starts and ticks runs beside the state machine: it writes
  none of the keeper's stores and its errors are only logged. What remains of it here are
  the two guards, which read through the keeper's pointer to it and panic when that is nil.
\<close>

definition MaxVoteThresholdMultiplier :: int where "MaxVoteThresholdMultiplier = 100"

section \<open>Tally\<close>

text \<open>The guard of the loop, with Go's short-circuit evaluation.\<close>

definition is_winner :: "dec_ops \<Rightarrow> dec \<Rightarrow> dec \<Rightarrow> dec \<Rightarrow> bool res" where
  "is_winner M weightedMedian rewardSpread rate =
     bind_res (must (dSub M weightedMedian rewardSpread)) (\<lambda>lo.
     bind_res (if rate \<ge> lo then bind_res (must (dAdd M weightedMedian rewardSpread)) (\<lambda>hi. Ok (rate \<le> hi))
               else Ok False) (\<lambda>within.
       Ok (within \<or> \<not> IsPositive rate)))"

text \<open>Reading an absent key of the Go map gives the zero claim.\<close>

definition claim_of :: "(string, Claim) coll \<Rightarrow> string \<Rightarrow> Claim" where
  "claim_of claims key = (case coll_get claims key of None \<Rightarrow> zero_claim | Some claim \<Rightarrow> claim)"

definition win_claim :: "bool \<Rightarrow> int \<Rightarrow> Claim \<Rightarrow> Claim" where
  "win_claim incrementWin pow claim =
     (let claim = (if incrementWin then claim\<lparr>cl_MandatoryWinCount := i64 (cl_MandatoryWinCount claim + 1)\<rparr> else claim)
      in claim\<lparr>cl_Weight := i64 (cl_Weight claim + pow)\<rparr>)"

fun tally_loop ::
  "'w oracle_env \<Rightarrow> dec \<Rightarrow> dec \<Rightarrow> bool \<Rightarrow> ExchangeRateBallot \<Rightarrow> (string, Claim) coll \<Rightarrow> (string, Claim) coll \<times> unit res" where
  "tally_loop E weightedMedian rewardSpread incrementWin [] claims = (claims, Ok ())"
| "tally_loop E weightedMedian rewardSpread incrementWin (tallyVote # ballot) claims =
     read_st claims (is_winner (D E) weightedMedian rewardSpread (ExchangeRate tallyVote)) (\<lambda>win.
       if win then
         let key = ValString E (Voter tallyVote);
             claim = win_claim incrementWin (Power tallyVote) (claim_of claims key) in
         tally_loop E weightedMedian rewardSpread incrementWin ballot (coll_set key claim claims)
       else tally_loop E weightedMedian rewardSpread incrementWin ballot claims)"

definition Tally ::
  "'w oracle_env \<Rightarrow> ExchangeRateBallot \<Rightarrow> dec \<Rightarrow> bool \<Rightarrow> (string, Claim) coll \<Rightarrow> (string, Claim) coll \<times> dec res" where
  "Tally E ballot rewardBand incrementWin claims =
     read_st claims (WeightedMedian ballot) (\<lambda>weightedMedian.
     read_st claims (StandardDeviation (D E) ballot) (\<lambda>standardDeviation.
     read_st claims (must (dQuoInt64 (D E) rewardBand 2)) (\<lambda>half.
     read_st claims (must (dMul (D E) weightedMedian half)) (\<lambda>rewardSpread.
       let rewardSpread = max rewardSpread standardDeviation in
       then_st (tally_loop E weightedMedian rewardSpread incrementWin ballot claims) (\<lambda>claims _.
         (claims, Ok weightedMedian))))))"

section \<open>CalcPrices\<close>

fun claim_map :: "'w oracle_env \<Rightarrow> int \<Rightarrow> int \<Rightarrow> (string, Claim) coll \<Rightarrow> validator list \<Rightarrow> (int \<times> (string, Claim) coll) res" where
  "claim_map E powerReduction totalBondedPower claims [] = Ok (totalBondedPower, claims)"
| "claim_map E powerReduction totalBondedPower claims (v # vals) =
     bind_res (ValAddressFromBech32 E (vi_GetOperator v)) (\<lambda>addr.
       let pow = vi_GetConsensusPower v powerReduction in
       claim_map E powerReduction (i64 (totalBondedPower + pow))
         (coll_set (vi_GetOperator v) (NewClaim pow 0 0 addr) claims) vals)"

text \<open>What the loop does with the rate of a ballot.\<close>

definition record_price :: "'w oracle_env \<Rightarrow> int \<Rightarrow> Params \<Rightarrow> string \<Rightarrow> dec \<Rightarrow> 'w ostate \<Rightarrow> 'w ostate \<times> unit res" where
  "record_price E h p denom exchangeRate s =
     then_st (SetExchangeRateWithEvent denom exchangeRate s) (\<lambda>s _.
       read_st s (IsPeriodLastBlock h (HistoricStampPeriod p)) (\<lambda>stamp.
         let s = (if stamp then AddHistoricPrice h denom exchangeRate s else s) in
         read_st s (IsPeriodLastBlock h (MedianStampPeriod p)) (\<lambda>stamp.
           if stamp then CalcAndSetHistoricMedian E h denom s else (s, Ok ()))))"

text \<open>One ballot of the loop. The state of the loop is the claim map beside the keeper's state.\<close>

definition price_ballot ::
  "'w oracle_env \<Rightarrow> int \<Rightarrow> Params \<Rightarrow> int \<Rightarrow> int \<Rightarrow> BallotDenom
    \<Rightarrow> (string, Claim) coll \<times> 'w ostate \<Rightarrow> ((string, Claim) coll \<times> 'w ostate) \<times> unit res" where
  "price_ballot E h p totalBondedPower threshold bd st =
     (let (claims, s) = st; denom = bd_Denom bd;
          incrementWin = DenomList_Contains (MandatoryList p) denom in
      if \<not> incrementWin \<and> \<not> DenomList_Contains (AcceptList p) denom then (st, Ok ())
      else if totalBondedPower = 0 then (st, Panic)
      else
        let support = go_div (i64 (ExchangeRateBallot_Power (bd_Ballot bd) * MaxVoteThresholdMultiplier)) totalBondedPower in
        if support < threshold then (st, Ok ())
        else
          read_st st (GetBandFromDenom (RewardBands p) denom) (\<lambda>rewardBand.
            case Tally E (bd_Ballot bd) rewardBand incrementWin claims of
              (claims, Panic) \<Rightarrow> ((claims, s), Panic)
            | (claims, Err e) \<Rightarrow> ((claims, s), Err e)
            | (claims, Ok exchangeRate) \<Rightarrow>
                (case record_price E h p denom exchangeRate s of (s, r) \<Rightarrow> ((claims, s), r))))"

fun price_loop ::
  "'w oracle_env \<Rightarrow> int \<Rightarrow> Params \<Rightarrow> int \<Rightarrow> int \<Rightarrow> BallotDenom list
    \<Rightarrow> (string, Claim) coll \<times> 'w ostate \<Rightarrow> ((string, Claim) coll \<times> 'w ostate) \<times> unit res" where
  "price_loop E h p totalBondedPower threshold [] st = (st, Ok ())"
| "price_loop E h p totalBondedPower threshold (bd # bds) st =
     then_st (price_ballot E h p totalBondedPower threshold bd st) (\<lambda>st _.
       price_loop E h p totalBondedPower threshold bds st)"

definition count_miss :: "nat \<Rightarrow> Claim \<Rightarrow> 'w ostate \<Rightarrow> 'w ostate" where
  "count_miss voteTargetsLen claim s =
     (let misses = SafeIntToUint64 (i64 (int voteTargetsLen - cl_MandatoryWinCount claim)) in
      if misses = 0 then s
      else SetMissCounter (cl_Recipient claim) (GetMissCounter s (cl_Recipient claim) + misses) s)"

definition CalcPrices :: "'w oracle_env \<Rightarrow> 'f float_ops \<Rightarrow> int \<Rightarrow> Params \<Rightarrow> 'w ostate \<Rightarrow> 'w ostate \<times> unit res" where
  "CalcPrices E F h p s =
     (let powerReduction = sk_PowerReduction E (world s) in
      read_st s (sk_GetBondedValidatorsByPower E (world s)) (\<lambda>vals.
      read_st s (claim_map E powerReduction 0 [] vals) (\<lambda>(totalBondedPower, validatorClaimMap).
        let voteTargetDenoms = map BaseDenom (AcceptList p);
            s = ClearExchangeRates s;
            ballotDenomSlice = OrganizeBallotByDenom s validatorClaimMap in
        read_st s (must (dMulInt64 (D E) (Keeper_VoteThreshold s) MaxVoteThresholdMultiplier)) (\<lambda>t.
        read_st s (must (dTruncateInt64 (D E) t)) (\<lambda>threshold.
        case price_loop E h p totalBondedPower threshold ballotDenomSlice (validatorClaimMap, s) of
          ((claims, s), Panic) \<Rightarrow> (s, Panic)
        | ((claims, s), Err e) \<Rightarrow> (s, Err e)
        | ((claims, s), Ok _) \<Rightarrow>
            read_st s (ClaimMapToSlices (ValString E) claims (ValidatorSet (GetValidatorRewardSet s)))
              (\<lambda>(claimSlice, rewardSlice).
                let s = fold (count_miss (length (MandatoryList p))) claimSlice s in
                then_st (RewardBallotWinners E F (SafeUint64ToInt64 (VotePeriod p))
                    (SafeUint64ToInt64 (RewardDistributionWindow p)) voteTargetDenoms rewardSlice s) (\<lambda>s _.
                  (ClearBallots h (VotePeriod p) s, Ok ()))))))))"

section \<open>EndBlocker\<close>

fun execute_plans :: "int \<Rightarrow> ParamUpdatePlan list \<Rightarrow> 'w ostate \<Rightarrow> 'w ostate \<times> unit res" where
  "execute_plans h [] s = (s, Ok ())"
| "execute_plans h (plan # plans) s =
     (if ShouldExecute h plan
      then then_st (ExecuteParamUpdatePlan plan s) (\<lambda>s _. execute_plans h plans s)
      else execute_plans h plans s)"

text \<open>A step that runs only at the end of a period.\<close>

definition at_period_end :: "int \<Rightarrow> uint64 \<Rightarrow> ('w ostate \<Rightarrow> 'w ostate \<times> unit res) \<Rightarrow> 'w ostate \<Rightarrow> 'w ostate \<times> unit res" where
  "at_period_end h period f s = read_st s (IsPeriodLastBlock h period) (\<lambda>isLast. if isLast then f s else (s, Ok ()))"

text \<open>Whether the feeder is started, and whether it is ticked.\<close>

definition feeder_to_start :: "PriceFeeder option \<Rightarrow> bool res" where
  "feeder_to_start f = bind_res (must f) (\<lambda>pf. Ok (pf_Oracle pf = None \<and> Enable (pf_AppConfig pf)))"

definition feeder_to_tick :: "PriceFeeder option \<Rightarrow> bool res" where
  "feeder_to_tick f = bind_res (must f) (\<lambda>pf. Ok (pf_Oracle pf \<noteq> None \<and> Enable (pf_AppConfig pf)))"

definition EndBlocker :: "'w oracle_env \<Rightarrow> 'f float_ops \<Rightarrow> int \<Rightarrow> 'w ostate \<Rightarrow> 'w ostate \<times> unit res" where
  "EndBlocker E F h s =
     then_st (execute_plans h (GetParamUpdatePlans s) s) (\<lambda>s _.
       let p = GetParams s in
       read_st s (feeder_to_start (keeper_PriceFeeder E)) (\<lambda>_.
       then_st (at_period_end h (SlashWindow p + 1) (SetValidatorRewardSet E) s) (\<lambda>s _.
       then_st (at_period_end h (VotePeriod p) (\<lambda>s. read_st s (feeder_to_tick (keeper_PriceFeeder E)) (\<lambda>_.
         CalcPrices E F h p s)) s) (\<lambda>s _.
       then_st (at_period_end h (SlashWindow p) (SlashAndResetMissCounters E h) s) (\<lambda>s _.
         PruneAllPrices h s)))))"

text \<open>\<open>AppModule.EndBlock\<close> turns an error into a panic.\<close>

definition EndBlock :: "'w oracle_env \<Rightarrow> 'f float_ops \<Rightarrow> int \<Rightarrow> 'w ostate \<Rightarrow> 'w ostate \<times> unit res" where
  "EndBlock E F h s = (case EndBlocker E F h s of (s, Ok _) \<Rightarrow> (s, Ok ()) | (s, _) \<Rightarrow> (s, Panic))"

section \<open>Lemmas\<close>

subsection \<open>Tally\<close>

definition wins :: "dec \<Rightarrow> dec \<Rightarrow> dec \<Rightarrow> bool" where
  "wins m spread rate \<longleftrightarrow> m - spread \<le> rate \<and> rate \<le> m + spread \<or> rate \<le> 0"

lemma is_winner_Ok:
  assumes "dec_laws M" and "is_winner M m spread rate = Ok w"
  shows "w = wins m spread rate"
  using assms(2)
  by (auto simp: is_winner_def res_simps dec_laws_Sub [OF assms(1)] dec_laws_Add [OF assms(1)] wins_def
      IsPositive_def split: if_splits)

text \<open>The claims after a tally, as a fold over the winning votes.\<close>

definition count_win :: "'w oracle_env \<Rightarrow> bool \<Rightarrow> VoteForTally \<Rightarrow> (string, Claim) coll \<Rightarrow> (string, Claim) coll" where
  "count_win E inc v claims =
     coll_set (ValString E (Voter v)) (win_claim inc (Power v) (claim_of claims (ValString E (Voter v)))) claims"

lemma tally_loop_Ok:
  assumes "dec_laws (D E)"
  shows "tally_loop E m spread inc ballot claims = (claims', Ok ()) \<Longrightarrow>
     claims' = fold (count_win E inc) (filter (\<lambda>v. wins m spread (ExchangeRate v)) ballot) claims"
proof (induction ballot arbitrary: claims)
  case (Cons v ballot)
  then show ?case
    by (auto simp: res_simps count_win_def Let_def dest!: is_winner_Ok [OF assms] split: if_splits)
qed simp

lemma Tally_Ok:
  assumes "dec_laws (D E)" and "Tally E ballot band inc claims = (claims', Ok m)"
  shows "WeightedMedian ballot = Ok m \<and> (\<exists>half r sd. dQuoInt64 (D E) band 2 = Some half \<and>
     dMul (D E) m half = Some r \<and> StandardDeviation (D E) ballot = Ok sd \<and>
     claims' = fold (count_win E inc) (filter (\<lambda>v. wins m (max r sd) (ExchangeRate v)) ballot) claims)"
  using assms(2) tally_loop_Ok [OF assms(1)] by (fastforce simp: Tally_def res_simps Let_def)

lemma get_count_wins:
  assumes "distinct (map (\<lambda>v. ValString E (Voter v)) vs)"
  shows "coll_get (fold (count_win E inc) vs claims) k =
     (case find (\<lambda>v. ValString E (Voter v) = k) vs of
        None \<Rightarrow> coll_get claims k
      | Some v \<Rightarrow> Some (win_claim inc (Power v) (claim_of claims k)))"
  using assms
proof (induction vs arbitrary: claims)
  case (Cons v vs)
  have none: "find (\<lambda>u. ValString E (Voter u) = ValString E (Voter v)) vs = None"
    using Cons.prems by (force simp: find_None_iff image_iff)
  have claim: "claim_of (count_win E inc v claims) k = claim_of claims k" if "k \<noteq> ValString E (Voter v)"
    using that by (simp add: claim_of_def count_win_def)
  show ?case
    using Cons none claim by (auto simp: count_win_def split: option.split)
qed simp

subsection \<open>What CalcPrices writes\<close>

text \<open>The state without exchange rates and price stamps.\<close>

definition but_prices :: "'w ostate \<Rightarrow> 'w ostate" where
  "but_prices s = s\<lparr>ExchangeRates := [], HistoricPrices := [], LastHistoricPriceBlock := [],
     MedianPrices := [], MedianDeviations := []\<rparr>"

lemma but_prices_fields [simp]:
  "params (but_prices s) = params s" "FeederDelegations (but_prices s) = FeederDelegations s"
  "Prevotes (but_prices s) = Prevotes s" "Votes (but_prices s) = Votes s" "Averages (but_prices s) = Averages s"
  "MissCounters (but_prices s) = MissCounters s" "RewardSetItem (but_prices s) = RewardSetItem s"
  "ParamUpdatePlans (but_prices s) = ParamUpdatePlans s" "world (but_prices s) = world s"
  by (simp_all add: but_prices_def)

lemma but_prices_eqs:
  assumes "but_prices s = but_prices t"
  shows "params s = params t" "FeederDelegations s = FeederDelegations t" "Prevotes s = Prevotes t"
    "Votes s = Votes t" "Averages s = Averages t" "MissCounters s = MissCounters t"
    "RewardSetItem s = RewardSetItem t" "ParamUpdatePlans s = ParamUpdatePlans t" "world s = world t"
  by (metis assms but_prices_fields)+

text \<open>A ballot is priced if its denom is listed and its power reaches the threshold.\<close>

definition has_quorum :: "Params \<Rightarrow> int \<Rightarrow> int \<Rightarrow> BallotDenom \<Rightarrow> bool" where
  "has_quorum p totalBondedPower threshold bd \<longleftrightarrow>
     (DenomList_Contains (MandatoryList p) (bd_Denom bd) \<or> DenomList_Contains (AcceptList p) (bd_Denom bd)) \<and>
     threshold \<le> go_div (i64 (ExchangeRateBallot_Power (bd_Ballot bd) * 100)) totalBondedPower"

definition rate_of :: "BallotDenom \<Rightarrow> dec" where
  "rate_of bd = (case WeightedMedian (bd_Ballot bd) of Ok m \<Rightarrow> m | _ \<Rightarrow> 0)"

lemma CalcAndSetHistoricMedian_frame:
  "but_prices (fst (CalcAndSetHistoricMedian E h denom s)) = but_prices s \<and>
   ExchangeRates (fst (CalcAndSetHistoricMedian E h denom s)) = ExchangeRates s"
proof -
  let ?P = "\<lambda>s'. but_prices s' = but_prices s \<and> ExchangeRates s' = ExchangeRates s"
  show ?thesis
    unfolding CalcAndSetHistoricMedian_newest calcAndSetHistoricMedianDeviation_def
    by (rule read_st_keeps [where P = ?P], simp, rule read_st_keeps [where P = ?P])
      (simp_all add: but_prices_def SetHistoricMedian_def SetHistoricMedianDeviation_def)
qed

lemma record_price_frame:
  "but_prices (fst (record_price E h p denom r s)) = but_prices s \<and>
   ExchangeRates (fst (record_price E h p denom r s)) = coll_set (ToUpper denom) r (ExchangeRates s)"
proof -
  let ?P = "\<lambda>s'. but_prices s' = but_prices s \<and> ExchangeRates s' = coll_set (ToUpper denom) r (ExchangeRates s)"
  have set: "?P (SetExchangeRate denom r s)"
    by (simp add: SetExchangeRate_def but_prices_def)
  have add: "?P s' \<Longrightarrow> ?P (AddHistoricPrice h denom r s')" for s'
    by (simp add: AddHistoricPrice_def SetHistoricPrice_def but_prices_def)
  show ?thesis
    unfolding record_price_def SetExchangeRateWithEvent_def then_st.simps Let_def
    by (rule read_st_keeps [where P = ?P, OF set], rule read_st_keeps [where P = ?P])
      (use set add [OF set] in \<open>auto simp: CalcAndSetHistoricMedian_frame split: if_splits\<close>)
qed

lemma price_ballot_Ok:
  assumes laws: "dec_laws (D E)"
    and run: "price_ballot E h p tbp thr bd (claims, s) = ((claims', s'), Ok ())"
  shows "but_prices s' = but_prices s \<and>
     ExchangeRates s' = (if has_quorum p tbp thr bd
       then coll_set (ToUpper (bd_Denom bd)) (rate_of bd) (ExchangeRates s) else ExchangeRates s)"
proof (cases "has_quorum p tbp thr bd")
  case True
  let ?inc = "DenomList_Contains (MandatoryList p) (bd_Denom bd)"
  obtain band where band: "GetBandFromDenom (RewardBands p) (bd_Denom bd) = Ok band"
    using run True by (auto simp: price_ballot_def has_quorum_def Let_def res_simps
        MaxVoteThresholdMultiplier_def split: if_splits)
  obtain c r where c: "Tally E (bd_Ballot bd) band ?inc claims = (c, r)" by force
  obtain m where m: "r = Ok m"
    using run True band c by (cases r) (auto simp: price_ballot_def has_quorum_def Let_def
        MaxVoteThresholdMultiplier_def split: if_splits)
  have "rate_of bd = m"
    using Tally_Ok [OF laws c [unfolded m]] by (simp add: rate_of_def)
  moreover have "fst (record_price E h p (bd_Denom bd) m s) = s'"
    using run True band c m by (auto simp: price_ballot_def has_quorum_def Let_def
        MaxVoteThresholdMultiplier_def split: if_splits prod.splits)
  ultimately show ?thesis
    using record_price_frame [of E h p "bd_Denom bd" m s] True by simp
next
  case False
  then show ?thesis
    using run by (auto simp: price_ballot_def has_quorum_def Let_def MaxVoteThresholdMultiplier_def split: if_splits)
qed

lemma price_loop_Ok:
  assumes laws: "dec_laws (D E)"
  shows "price_loop E h p tbp thr bds (claims, s) = ((claims', s'), Ok ()) \<Longrightarrow>
     but_prices s' = but_prices s \<and>
     ExchangeRates s' = fold (\<lambda>bd. coll_set (ToUpper (bd_Denom bd)) (rate_of bd))
       (filter (has_quorum p tbp thr) bds) (ExchangeRates s)"
proof (induction bds arbitrary: claims s)
  case (Cons bd bds)
  then obtain c1 s1 where "price_ballot E h p tbp thr bd (claims, s) = ((c1, s1), Ok ())"
    "price_loop E h p tbp thr bds (c1, s1) = ((claims', s'), Ok ())"
    by (auto simp: res_simps)
  then show ?case
    using price_ballot_Ok [OF laws, of h p tbp thr bd claims s c1 s1] Cons.IH [of c1 s1] by auto
qed simp

lemma fold_count_miss: "(fold (count_miss k) cs s)\<lparr>MissCounters := m\<rparr> = s\<lparr>MissCounters := m\<rparr>"
  by (induction cs arbitrary: s) (auto simp: count_miss_def SetMissCounter_def Let_def)

lemma count_miss_state:
  "fold (count_miss k) cs s = s\<lparr>MissCounters := MissCounters (fold (count_miss k) cs s)\<rparr>"
  using fold_count_miss [of "MissCounters (fold (count_miss k) cs s)" k cs s] by simp

text \<open>The phases of a successful \<open>CalcPrices\<close>.\<close>

lemma CalcPrices_phases:
  assumes "CalcPrices E F h p s = (s', Ok ())"
  obtains vals tbp claims thr claims1 s1 cs rs s2 where
    "sk_GetBondedValidatorsByPower E (world s) = Ok vals"
    "claim_map E (sk_PowerReduction E (world s)) 0 [] vals = Ok (tbp, claims)"
    "bind_res (must (dMulInt64 (D E) (VoteThreshold (params s)) 100)) (\<lambda>t. must (dTruncateInt64 (D E) t)) = Ok thr"
    "price_loop E h p tbp thr (OrganizeBallotByDenom (ClearExchangeRates s) claims) (claims, ClearExchangeRates s) =
       ((claims1, s1), Ok ())"
    "ClaimMapToSlices (ValString E) claims1 (ValidatorSet (GetValidatorRewardSet s1)) = Ok (cs, rs)"
    "RewardBallotWinners E F (SafeUint64ToInt64 (VotePeriod p)) (SafeUint64ToInt64 (RewardDistributionWindow p))
       (map BaseDenom (AcceptList p)) rs (fold (count_miss (length (MandatoryList p))) cs s1) = (s2, Ok ())"
    "s' = ClearBallots h (VotePeriod p) s2"
proof -
  obtain vals tbp claims t thr where 1: "sk_GetBondedValidatorsByPower E (world s) = Ok vals"
    "claim_map E (sk_PowerReduction E (world s)) 0 [] vals = Ok (tbp, claims)"
    "dMulInt64 (D E) (VoteThreshold (params s)) 100 = Some t" "dTruncateInt64 (D E) t = Some thr"
    using assms by (auto simp: CalcPrices_def Let_def res_simps Keeper_VoteThreshold_def ClearExchangeRates_def
        MaxVoteThresholdMultiplier_def)
  obtain claims1 s1 r where 2: "price_loop E h p tbp thr (OrganizeBallotByDenom (ClearExchangeRates s) claims)
      (claims, ClearExchangeRates s) = ((claims1, s1), r)" by (metis surj_pair)
  have dMul: "dMulInt64 (D E) (Keeper_VoteThreshold (ClearExchangeRates s)) MaxVoteThresholdMultiplier = Some t"
    using 1(3) by (simp add: Keeper_VoteThreshold_def ClearExchangeRates_def MaxVoteThresholdMultiplier_def)
  have r: "r = Ok ()"
    using assms 1 2 dMul by (cases r) (simp_all add: CalcPrices_def Let_def)
  obtain cs rs s2 where 3: "ClaimMapToSlices (ValString E) claims1 (ValidatorSet (GetValidatorRewardSet s1)) = Ok (cs, rs)"
    "RewardBallotWinners E F (SafeUint64ToInt64 (VotePeriod p)) (SafeUint64ToInt64 (RewardDistributionWindow p))
       (map BaseDenom (AcceptList p)) rs (fold (count_miss (length (MandatoryList p))) cs s1) = (s2, Ok ())"
    "s' = ClearBallots h (VotePeriod p) s2"
    using assms 1 2 dMul r by (auto simp: CalcPrices_def Let_def res_simps)
  show thesis
    using 1(3,4) by (intro that [OF 1(1,2) _ 2 [unfolded r] 3]) simp
qed

text \<open>What the stored votes satisfy: a vote carries the text of its voter, texts tell voters
  apart, and a vote names each denom once.\<close>

definition votes_ok :: "'w oracle_env \<Rightarrow> (bytes \<times> AggregateExchangeRateVote) list \<Rightarrow> bool" where
  "votes_ok E vs \<longleftrightarrow> coll_wf vs \<and> inj_on (ValString E) (fst ` set vs) \<and>
     (\<forall>(a, v) \<in> set vs. av_Voter v = ValString E a \<and> distinct (map dc_Denom (av_ExchangeRates v)))"

lemma voter_in_votes_for:
  assumes "votes_ok E vs" and "u \<in> set (votes_for vs claims d)"
  shows "Voter u \<in> fst ` set vs" "coll_get claims (ValString E (Voter u)) \<noteq> None"
proof -
  obtain a v where av: "(a, v) \<in> set vs" "Voter u = a" "coll_get claims (av_Voter v) \<noteq> None"
    using assms(2) by (force simp: votes_for_def NewVoteForTally_def split: option.splits)
  moreover have "av_Voter v = ValString E a"
    using assms(1) av(1) by (auto simp: votes_ok_def)
  ultimately show "Voter u \<in> fst ` set vs" "coll_get claims (ValString E (Voter u)) \<noteq> None"
    by force+
qed

lemma filter_eq_distinct: "distinct (map f xs) \<Longrightarrow> length (filter (\<lambda>x. f x = d) xs) \<le> 1"
  by (induction xs) (auto simp: filter_empty_conv image_iff)

lemma votes_for_distinct:
  assumes "votes_ok E vs"
  shows "distinct (map (\<lambda>u. ValString E (Voter u)) (votes_for vs claims d))"
  using assms
proof (induction vs)
  case (Cons e vs)
  obtain a v where e: "e = (a, v)" by force
  have ok: "votes_ok E vs"
    using Cons.prems by (auto simp: votes_ok_def coll_wf_def)
  let ?new = "votes_for [e] claims d"
  have "length (filter (\<lambda>dc. dc_Denom dc = d) (av_ExchangeRates v)) \<le> 1"
    using Cons.prems by (intro filter_eq_distinct) (auto simp: votes_ok_def e)
  then have "length ?new \<le> 1"
    by (auto simp: e votes_for_def split: option.split)
  moreover have "Voter u = a" if "u \<in> set ?new" for u
    using that by (auto simp: e votes_for_def NewVoteForTally_def split: option.splits)
  moreover have "ValString E a \<notin> (\<lambda>u. ValString E (Voter u)) ` set (votes_for vs claims d)"
  proof
    assume "ValString E a \<in> (\<lambda>u. ValString E (Voter u)) ` set (votes_for vs claims d)"
    then obtain u where that: "u \<in> set (votes_for vs claims d)" "ValString E (Voter u) = ValString E a" by auto
    show False
      using that(2) voter_in_votes_for(1) [OF ok that(1)] Cons.prems
      by (auto simp: votes_ok_def e inj_on_def coll_wf_def strict_sorted_iff)
  qed
  moreover have "votes_for (e # vs) claims d = ?new @ votes_for vs claims d"
    by (simp add: votes_for_def)
  ultimately show ?case
    using Cons.IH [OF ok] by (cases ?new) (auto simp: Suc_le_eq)
qed (simp add: votes_for_def)

lemma ClearExchangeRates_fields [simp]:
  "ExchangeRates (ClearExchangeRates s) = []" "Votes (ClearExchangeRates s) = Votes s"
  "OrganizeBallotByDenom (ClearExchangeRates s) = OrganizeBallotByDenom s"
  by (simp_all add: ClearExchangeRates_def OrganizeBallotByDenom_def IterateAggregateExchangeRateVotes_def fun_eq_iff)

lemma threshold_eq:
  assumes "dec_laws M"
    and "bind_res (must (dMulInt64 M v 100)) (\<lambda>t. must (dTruncateInt64 M t)) = Ok thr"
  shows "thr = go_div (v * 100) (10 ^ 18)"
  using assms(2)
  by (auto simp: res_simps dec_laws_MulInt64 [OF assms(1)] dec_laws_TruncateInt64 [OF assms(1)] split: if_splits)

text \<open>What happens after the loop over the ballots touches no price.\<close>

lemma CalcPrices_ExchangeRates:
  assumes laws: "dec_laws (D E)" and run: "CalcPrices E F h p s = (s', Ok ())"
    and vals: "sk_GetBondedValidatorsByPower E (world s) = Ok vals"
    and claims: "claim_map E (sk_PowerReduction E (world s)) 0 [] vals = Ok (tbp, claims)"
  shows "ExchangeRates s' = fold (\<lambda>bd. coll_set (ToUpper (bd_Denom bd)) (rate_of bd))
     (filter (has_quorum p tbp (go_div (VoteThreshold (params s) * 100) (10 ^ 18))) (OrganizeBallotByDenom s claims)) []"
  using run
proof (rule CalcPrices_phases)
  fix vals' tbp' claims' thr claims1 s1 cs rs s2
  assume "sk_GetBondedValidatorsByPower E (world s) = Ok vals'"
    "claim_map E (sk_PowerReduction E (world s)) 0 [] vals' = Ok (tbp', claims')"
    and thr: "bind_res (must (dMulInt64 (D E) (VoteThreshold (params s)) 100)) (\<lambda>t. must (dTruncateInt64 (D E) t)) = Ok thr"
    and loop: "price_loop E h p tbp' thr (OrganizeBallotByDenom (ClearExchangeRates s) claims') (claims', ClearExchangeRates s) =
       ((claims1, s1), Ok ())"
    and reward: "RewardBallotWinners E F (SafeUint64ToInt64 (VotePeriod p)) (SafeUint64ToInt64 (RewardDistributionWindow p))
       (map BaseDenom (AcceptList p)) rs (fold (count_miss (length (MandatoryList p))) cs s1) = (s2, Ok ())"
    and s': "s' = ClearBallots h (VotePeriod p) s2"
  then have same: "tbp' = tbp" "claims' = claims" using vals claims by simp_all
  have "ExchangeRates s' = ExchangeRates s2"
    by (simp add: s' ClearBallots_eq)
  also have "\<dots> = ExchangeRates (fold (count_miss (length (MandatoryList p))) cs s1)"
    by (subst RewardBallotWinners_state [OF reward]) simp
  also have "\<dots> = ExchangeRates s1"
    by (subst count_miss_state) simp
  finally show ?thesis
    using price_loop_Ok [OF laws loop] threshold_eq [OF laws thr] same by simp
qed

lemma get_fold_rates:
  "coll_get (fold (\<lambda>bd. coll_set (ToUpper (bd_Denom bd)) (rate_of bd)) bds rates) d = Some r \<Longrightarrow>
   (\<exists>bd \<in> set bds. ToUpper (bd_Denom bd) = d \<and> r = rate_of bd) \<or> coll_get rates d = Some r"
proof (induction bds arbitrary: rates)
  case (Cons bd bds)
  then show ?case
    using Cons.IH [of "coll_set (ToUpper (bd_Denom bd)) (rate_of bd) rates"] by (auto split: if_splits)
qed simp

lemma Organize_nonempty:
  assumes "bd \<in> set (OrganizeBallotByDenom s claims)"
  shows "votes_for (Votes s) claims (bd_Denom bd) \<noteq> []"
proof -
  let ?A = "{d. votes_for (Votes s) claims d \<noteq> []}"
  have "map bd_Denom (OrganizeBallotByDenom s claims) = sorted_list_of_set ?A"
    using OrganizeBallotByDenom_ballots [of s claims] by simp
  then have "bd_Denom bd \<in> set (sorted_list_of_set ?A)"
    using assms by (metis image_eqI list.set_map)
  then show ?thesis
    by (cases "finite ?A") simp_all
qed

lemma power_sort:
  "power_ok (go_sort lt vs) = power_ok vs" "power_where P (go_sort lt vs) = power_where P vs"
  "total (go_sort lt vs) = total vs"
proof -
  have ms: "mset (map Power (filter P (go_sort lt vs))) = mset (map Power (filter P vs))" for P
    by simp
  then have sum: "sum_list (map Power (filter P (go_sort lt vs))) = sum_list (map Power (filter P vs))" for P
    by (metis sum_mset_sum_list)
  from sum [of "\<lambda>_. True"] show "total (go_sort lt vs) = total vs" by simp
  then show "power_ok (go_sort lt vs) = power_ok vs" by (simp add: power_ok_def)
  show "power_where P (go_sort lt vs) = power_where P vs" for P
    using sum by (simp add: power_where_def)
qed

subsection \<open>Claims and miss counters\<close>

definition mandatory :: "Params \<Rightarrow> BallotDenom \<Rightarrow> bool" where
  "mandatory p bd = DenomList_Contains (MandatoryList p) (bd_Denom bd)"

text \<open>The spread around the rate of a ballot, and the votes within it.\<close>

definition spread_of :: "'w oracle_env \<Rightarrow> Params \<Rightarrow> BallotDenom \<Rightarrow> dec" where
  "spread_of E p bd =
     (case (GetBandFromDenom (RewardBands p) (bd_Denom bd), StandardDeviation (D E) (bd_Ballot bd)) of
        (Ok band, Ok sd) \<Rightarrow>
          (case Option.bind (dQuoInt64 (D E) band 2) (dMul (D E) (rate_of bd)) of None \<Rightarrow> sd | Some r \<Rightarrow> max r sd)
      | _ \<Rightarrow> 0)"

definition winning_votes :: "'w oracle_env \<Rightarrow> Params \<Rightarrow> BallotDenom \<Rightarrow> ExchangeRateBallot" where
  "winning_votes E p bd = filter (\<lambda>v. wins (rate_of bd) (spread_of E p bd) (ExchangeRate v)) (bd_Ballot bd)"

definition tally_claims :: "'w oracle_env \<Rightarrow> Params \<Rightarrow> BallotDenom \<Rightarrow> (string, Claim) coll \<Rightarrow> (string, Claim) coll" where
  "tally_claims E p bd claims = fold (count_win E (mandatory p bd)) (winning_votes E p bd) claims"

lemma price_ballot_claims:
  assumes laws: "dec_laws (D E)"
    and run: "price_ballot E h p tbp thr bd (claims, s) = ((claims', s'), Ok ())"
  shows "claims' = (if has_quorum p tbp thr bd then tally_claims E p bd claims else claims)"
proof (cases "has_quorum p tbp thr bd")
  case True
  let ?inc = "DenomList_Contains (MandatoryList p) (bd_Denom bd)"
  obtain band where band: "GetBandFromDenom (RewardBands p) (bd_Denom bd) = Ok band"
    using run True by (auto simp: price_ballot_def has_quorum_def Let_def res_simps
        MaxVoteThresholdMultiplier_def split: if_splits)
  obtain c r where c: "Tally E (bd_Ballot bd) band ?inc claims = (c, r)" by force
  obtain m where m: "r = Ok m"
    using run True band c by (cases r) (auto simp: price_ballot_def has_quorum_def Let_def
        MaxVoteThresholdMultiplier_def split: if_splits)
  have "claims' = c"
    using run True band c m by (auto simp: price_ballot_def has_quorum_def Let_def
        MaxVoteThresholdMultiplier_def split: if_splits prod.splits)
  moreover obtain half q sd where tally: "WeightedMedian (bd_Ballot bd) = Ok m"
    "dQuoInt64 (D E) band 2 = Some half" "dMul (D E) m half = Some q" "StandardDeviation (D E) (bd_Ballot bd) = Ok sd"
    "c = fold (count_win E ?inc) (filter (\<lambda>v. wins m (max q sd) (ExchangeRate v)) (bd_Ballot bd)) claims"
    using Tally_Ok [OF laws c [unfolded m]] by blast
  moreover have "rate_of bd = m" "spread_of E p bd = max q sd"
    using tally band by (simp_all add: rate_of_def spread_of_def)
  ultimately show ?thesis
    using True by (simp add: tally_claims_def winning_votes_def mandatory_def)
next
  case False
  then show ?thesis
    using run by (auto simp: price_ballot_def has_quorum_def Let_def MaxVoteThresholdMultiplier_def split: if_splits)
qed

lemma price_loop_claims:
  assumes laws: "dec_laws (D E)"
  shows "price_loop E h p tbp thr bds (claims, s) = ((claims', s'), Ok ()) \<Longrightarrow>
     claims' = fold (tally_claims E p) (filter (has_quorum p tbp thr) bds) claims"
proof (induction bds arbitrary: claims s)
  case (Cons bd bds)
  then obtain c1 s1 where "price_ballot E h p tbp thr bd (claims, s) = ((c1, s1), Ok ())"
    "price_loop E h p tbp thr bds (c1, s1) = ((claims', s'), Ok ())"
    by (auto simp: res_simps)
  then show ?case
    using price_ballot_claims [OF laws, of h p tbp thr bd claims s c1 s1] Cons.IH [of c1 s1] by auto
qed simp

text \<open>A ballot in which every voter has one vote and a claim.\<close>

definition ballot_ok :: "'w oracle_env \<Rightarrow> (string, Claim) coll \<Rightarrow> BallotDenom \<Rightarrow> bool" where
  "ballot_ok E claims bd \<longleftrightarrow> distinct (map (\<lambda>v. ValString E (Voter v)) (bd_Ballot bd)) \<and>
     (\<forall>v \<in> set (bd_Ballot bd). ValString E (Voter v) \<in> fst ` set claims)"

definition wins_ballot :: "'w oracle_env \<Rightarrow> Params \<Rightarrow> string \<Rightarrow> BallotDenom \<Rightarrow> bool" where
  "wins_ballot E p k bd \<longleftrightarrow> (\<exists>v \<in> set (winning_votes E p bd). ValString E (Voter v) = k)"

lemma get_tally_claims:
  assumes "distinct (map (\<lambda>v. ValString E (Voter v)) (bd_Ballot bd))" and "coll_get claims k = Some c"
  shows "\<exists>w. coll_get (tally_claims E p bd claims) k = Some (c\<lparr>cl_Weight := w, cl_MandatoryWinCount :=
     (if mandatory p bd \<and> wins_ballot E p k bd then i64 (cl_MandatoryWinCount c + 1) else cl_MandatoryWinCount c)\<rparr>)"
proof -
  have d: "distinct (map (\<lambda>v. ValString E (Voter v)) (winning_votes E p bd))"
    using assms(1) by (simp add: winning_votes_def distinct_map_filter)
  have w: "wins_ballot E p k bd \<longleftrightarrow> find (\<lambda>v. ValString E (Voter v) = k) (winning_votes E p bd) \<noteq> None"
    by (auto simp: wins_ballot_def find_None_iff simp del: not_None_eq)
  show ?thesis
  proof (cases "find (\<lambda>v. ValString E (Voter v) = k) (winning_votes E p bd)")
    case None
    then show ?thesis
      using w assms(2) by (intro exI [of _ "cl_Weight c"]) (simp add: tally_claims_def get_count_wins [OF d])
  next
    case (Some v)
    then show ?thesis
      using w assms(2) by (intro exI [of _ "i64 (cl_Weight c + Power v)"], cases c)
        (simp add: tally_claims_def get_count_wins [OF d] claim_of_def win_claim_def Let_def)
  qed
qed

lemma keys_tally_claims:
  assumes "\<forall>v \<in> set (bd_Ballot bd). ValString E (Voter v) \<in> fst ` set claims"
  shows "fst ` set (tally_claims E p bd claims) = fst ` set claims"
proof -
  have "\<forall>v \<in> set vs. ValString E (Voter v) \<in> fst ` set c \<Longrightarrow> fst ` set (fold (count_win E inc) vs c) = fst ` set c"
    for vs c inc
    by (induction vs arbitrary: c) (auto simp: count_win_def fst_coll_set insert_absorb)
  then show ?thesis
    using assms by (auto simp: tally_claims_def winning_votes_def)
qed

lemma wf_tally_claims: "coll_wf claims \<Longrightarrow> coll_wf (tally_claims E p bd claims)"
proof -
  have "coll_wf c \<Longrightarrow> coll_wf (fold (count_win E inc) vs c)" for vs c inc
    by (induction vs arbitrary: c) (auto simp: count_win_def)
  then show "coll_wf claims \<Longrightarrow> ?thesis" by (simp add: tally_claims_def)
qed

text \<open>The number of mandatory ballots a validator wins.\<close>

definition mandatory_wins :: "'w oracle_env \<Rightarrow> Params \<Rightarrow> string \<Rightarrow> BallotDenom list \<Rightarrow> int" where
  "mandatory_wins E p k bds = int (length (filter (\<lambda>bd. mandatory p bd \<and> wins_ballot E p k bd) bds))"

lemma fold_tally_claims:
  assumes "\<forall>bd \<in> set bds. ballot_ok E claims bd" and "coll_wf claims"
    and "coll_get claims k = Some c" and "0 \<le> cl_MandatoryWinCount c"
    and "cl_MandatoryWinCount c + int (length bds) < 2 ^ 63"
  shows "fst ` set (fold (tally_claims E p) bds claims) = fst ` set claims \<and>
     coll_wf (fold (tally_claims E p) bds claims) \<and>
     (\<exists>w. coll_get (fold (tally_claims E p) bds claims) k =
        Some (c\<lparr>cl_Weight := w, cl_MandatoryWinCount := cl_MandatoryWinCount c + mandatory_wins E p k bds\<rparr>))"
  using assms
proof (induction bds arbitrary: claims c)
  case Nil
  then show ?case by (auto simp: mandatory_wins_def intro: exI [of _ "cl_Weight c"])
next
  case (Cons bd bds)
  have bd: "ballot_ok E claims bd" using Cons.prems(1) by simp
  have keys: "fst ` set (tally_claims E p bd claims) = fst ` set claims"
    using bd by (intro keys_tally_claims) (simp add: ballot_ok_def)
  let ?win = "mandatory p bd \<and> wins_ballot E p k bd"
  have i: "i64 (cl_MandatoryWinCount c + 1) = cl_MandatoryWinCount c + 1"
    using Cons.prems(4,5) by (intro i64_id) (simp add: in_i64_def)
  obtain w where w: "coll_get (tally_claims E p bd claims) k = Some (c\<lparr>cl_Weight := w,
      cl_MandatoryWinCount := cl_MandatoryWinCount c + (if ?win then 1 else 0)\<rparr>)"
    using get_tally_claims [of E bd claims k c p] bd Cons.prems(3) i by (auto simp: ballot_ok_def split: if_splits)
  have "\<forall>bd' \<in> set bds. ballot_ok E (tally_claims E p bd claims) bd'"
    using Cons.prems(1) keys by (simp add: ballot_ok_def)
  from Cons.IH [OF this wf_tally_claims [OF Cons.prems(2)] w] show ?case
    using Cons.prems(4,5) keys by (auto simp: mandatory_wins_def algebra_simps split: if_splits)
qed

lemma GetMissCounter_count:
  assumes "distinct (map cl_Recipient cs)"
  shows "GetMissCounter (fold (count_miss k) cs s) a =
     (case find (\<lambda>c. cl_Recipient c = a) cs of
        None \<Rightarrow> GetMissCounter s a
      | Some c \<Rightarrow> GetMissCounter s a + SafeIntToUint64 (i64 (int k - cl_MandatoryWinCount c)))"
  using assms
proof (induction cs arbitrary: s)
  case (Cons c cs)
  have "GetMissCounter (count_miss k c s) b = (if b = cl_Recipient c
      then GetMissCounter s b + SafeIntToUint64 (i64 (int k - cl_MandatoryWinCount c)) else GetMissCounter s b)" for b
    by (simp add: count_miss_def Let_def GetMissCounter_def SetMissCounter_def)
  moreover have "find (\<lambda>d. cl_Recipient d = cl_Recipient c) cs = None"
    using Cons.prems by (force simp: find_None_iff image_iff)
  ultimately show ?case
    using Cons by (auto split: option.split)
qed simp

lemma find_distinct: "distinct (map f xs) \<Longrightarrow> x \<in> set xs \<Longrightarrow> find (\<lambda>y. f y = f x) xs = Some x"
  by (induction xs) (auto simp: image_iff)

lemma claim_map_props:
  "claim_map E pr t c vals = Ok (tbp, claims) \<Longrightarrow> coll_wf c \<Longrightarrow> (\<forall>e \<in> set c. cl_MandatoryWinCount (snd e) = 0) \<Longrightarrow>
   coll_wf claims \<and> (\<forall>e \<in> set claims. cl_MandatoryWinCount (snd e) = 0)"
proof (induction vals arbitrary: t c)
  case (Cons v vals)
  then obtain addr t' where "claim_map E pr t' (coll_set (vi_GetOperator v)
      (NewClaim (vi_GetConsensusPower v pr) 0 0 addr) c) vals = Ok (tbp, claims)"
    by (auto simp: res_simps Let_def)
  moreover have "\<forall>e \<in> set (coll_set (vi_GetOperator v) (NewClaim (vi_GetConsensusPower v pr) 0 0 addr) c).
      cl_MandatoryWinCount (snd e) = 0"
    using Cons.prems(3) set_coll_set by (fastforce simp: NewClaim_def)
  ultimately show ?case
    using Cons.IH Cons.prems(2) by simp
qed simp

lemma Organize_ballot_ok:
  assumes "votes_ok E (Votes s)" and "bd \<in> set (OrganizeBallotByDenom s claims)"
  shows "ballot_ok E claims bd"
proof -
  let ?vs = "votes_for (Votes s) claims (bd_Denom bd)"
  have ballot: "bd_Ballot bd = go_sort ExchangeRateBallot_Less ?vs"
    using OrganizeBallotByDenom_ballots [of s claims] assms(2) by simp
  have "mset (map (\<lambda>v. ValString E (Voter v)) (bd_Ballot bd)) = mset (map (\<lambda>v. ValString E (Voter v)) ?vs)"
    by (simp add: ballot)
  then have "distinct (map (\<lambda>v. ValString E (Voter v)) (bd_Ballot bd))"
    using votes_for_distinct [OF assms(1)] mset_eq_imp_distinct_iff by blast
  moreover have "ValString E (Voter v) \<in> fst ` set claims" if "v \<in> set (bd_Ballot bd)" for v
    using voter_in_votes_for(2) [OF assms(1), of v claims "bd_Denom bd"] that coll_get_None [of claims]
    by (auto simp: ballot)
  ultimately show ?thesis by (simp add: ballot_ok_def)
qed

text \<open>Counting the misses of a slice of claims.\<close>

lemma GetMissCounter_slices:
  assumes "ClaimMapToSlices (ValString E) claims1 rewardSet = Ok (cs, rs)"
    and "distinct (map (\<lambda>e. cl_Recipient (snd e)) claims1)" and k: "(k, c1) \<in> set claims1"
  shows "GetMissCounter (fold (count_miss n) cs s) (cl_Recipient c1) =
     GetMissCounter s (cl_Recipient c1) + SafeIntToUint64 (i64 (int n - cl_MandatoryWinCount c1))"
proof -
  have cs: "cs = go_sort (\<lambda>a b. ValString E (cl_Recipient a) < ValString E (cl_Recipient b)) (map snd claims1)"
    using assms(1) by (auto simp: ClaimMapToSlices_def Let_def split: if_splits)
  have "mset (map cl_Recipient cs) = mset (map (\<lambda>e. cl_Recipient (snd e)) claims1)"
    by (simp add: cs multiset.map_comp comp_def)
  then have dist: "distinct (map cl_Recipient cs)"
    using assms(2) mset_eq_imp_distinct_iff by blast
  moreover have "c1 \<in> set cs" using k by (force simp: cs)
  ultimately have "find (\<lambda>x. cl_Recipient x = cl_Recipient c1) cs = Some c1"
    using find_distinct [of cl_Recipient cs c1] by simp
  then show ?thesis by (simp add: GetMissCounter_count [OF dist])
qed

text \<open>The claims that the miss counters are computed from.\<close>

lemma tallied_claims:
  fixes p :: Params
  assumes "\<forall>bd \<in> set bds. ballot_ok E claims bd" and "coll_wf claims"
    and "\<forall>e \<in> set claims. cl_MandatoryWinCount (snd e) = 0" and "int (length bds) < 2 ^ 63"
    and "distinct (map (\<lambda>e. cl_Recipient (snd e)) claims)" and k: "(k, c) \<in> set claims"
  defines "claims1 \<equiv> fold (tally_claims E p) bds claims"
  shows "distinct (map (\<lambda>e. cl_Recipient (snd e)) claims1) \<and>
     (\<exists>c1. (k, c1) \<in> set claims1 \<and> cl_Recipient c1 = cl_Recipient c \<and> cl_MandatoryWinCount c1 = mandatory_wins E p k bds)"
proof -
  have after: "fst ` set claims1 = fst ` set claims" "coll_wf claims1"
    "\<exists>w. coll_get claims1 j = Some (d\<lparr>cl_Weight := w, cl_MandatoryWinCount := mandatory_wins E p j bds\<rparr>)"
    if "(j, d) \<in> set claims" for j d
  proof -
    have "cl_MandatoryWinCount d = 0" "coll_get claims j = Some d"
      using that assms(2,3) coll_entries_get [OF assms(2)] by force+
    then show "fst ` set claims1 = fst ` set claims" "coll_wf claims1"
      "\<exists>w. coll_get claims1 j = Some (d\<lparr>cl_Weight := w, cl_MandatoryWinCount := mandatory_wins E p j bds\<rparr>)"
      using fold_tally_claims [OF assms(1,2), of j d p] assms(4) by (simp_all add: claims1_def)
  qed
  have old: "\<exists>d. (j, d) \<in> set claims \<and> cl_Recipient d = cl_Recipient d1" if mem: "(j, d1) \<in> set claims1" for j d1
  proof -
    obtain d where d: "(j, d) \<in> set claims"
      using imageI [OF mem, of fst] unfolding after(1) [OF k] by auto
    obtain w where "coll_get claims1 j = Some (d\<lparr>cl_Weight := w, cl_MandatoryWinCount := mandatory_wins E p j bds\<rparr>)"
      using after(3) [OF d] by blast
    moreover have "coll_get claims1 j = Some d1"
      using mem coll_entries_get [OF after(2) [OF k]] by blast
    ultimately have "cl_Recipient d = cl_Recipient d1" by auto
    with d show ?thesis by blast
  qed
  have "inj_on (\<lambda>e. cl_Recipient (snd e)) (set claims1)"
  proof (rule inj_onI, clarify)
    fix i d1 j e1
    assume d1: "(i, d1) \<in> set claims1" and e1: "(j, e1) \<in> set claims1" and "cl_Recipient (snd (i, d1)) = cl_Recipient (snd (j, e1))"
    then obtain d e where "(i, d) \<in> set claims" "(j, e) \<in> set claims" "cl_Recipient d = cl_Recipient e"
      using old by (metis snd_conv)
    then have "i = j"
      using assms(5) by (force simp: distinct_map inj_on_def)
    then show "i = j \<and> d1 = e1"
      using d1 e1 coll_entries_get [OF after(2) [OF k]] by auto
  qed
  moreover have "distinct claims1"
    using coll_wf_distinct [OF after(2) [OF k]] by (simp add: distinct_map)
  ultimately show ?thesis
    using after(3) [OF k] coll_entries_get [OF after(2) [OF k]] by (auto simp: distinct_map)
qed

text \<open>Every ballot that is priced has a reward band.\<close>

lemma price_ballot_band:
  assumes "price_ballot E h p tbp thr bd st = (st', Ok ())" and "has_quorum p tbp thr bd"
  shows "\<exists>band. GetBandFromDenom (RewardBands p) (bd_Denom bd) = Ok band"
  using assms by (cases st) (auto simp: price_ballot_def has_quorum_def Let_def res_simps
      MaxVoteThresholdMultiplier_def split: if_splits)

lemma price_loop_band:
  "price_loop E h p tbp thr bds st = (st', Ok ()) \<Longrightarrow> bd \<in> set bds \<Longrightarrow> has_quorum p tbp thr bd \<Longrightarrow>
   \<exists>band. GetBandFromDenom (RewardBands p) (bd_Denom bd) = Ok band"
  by (induction bds arbitrary: st) (auto simp: res_simps dest: price_ballot_band)

lemma CalcPrices_needs_band:
  assumes laws: "dec_laws (D E)"
    and vals: "sk_GetBondedValidatorsByPower E (world s) = Ok vals"
    and claims: "claim_map E (sk_PowerReduction E (world s)) 0 [] vals = Ok (tbp, claims)"
    and bd: "bd \<in> set (OrganizeBallotByDenom s claims)"
      "has_quorum p tbp (go_div (VoteThreshold (params s) * 100) (10 ^ 18)) bd"
    and none: "GetBandFromDenom (RewardBands p) (bd_Denom bd) = Err e"
  shows "snd (CalcPrices E F h p s) \<noteq> Ok ()"
proof
  assume "snd (CalcPrices E F h p s) = Ok ()"
  then obtain s' where "CalcPrices E F h p s = (s', Ok ())" by (metis prod.collapse)
  then show False
    by (rule CalcPrices_phases)
      (use price_loop_band threshold_eq [OF laws] vals claims bd none in fastforce)
qed

lemma at_period_end_keeps:
  "P s \<Longrightarrow> (\<And>s. P s \<Longrightarrow> P (fst (f s))) \<Longrightarrow> P (fst (at_period_end h period f s))"
  unfolding at_period_end_def by (rule read_st_keeps) auto

lemma at_period_end_guarded:
  "at_period_end h period (\<lambda>s. read_st s r (\<lambda>_. f s)) s = (s', Ok ()) \<Longrightarrow> at_period_end h period f s = (s', Ok ())"
  by (cases "IsPeriodLastBlock h period"; cases r) (simp_all add: at_period_end_def split: if_splits)

text \<open>With a price feeder to point to, its two guards leave no trace.\<close>

lemma EndBlocker_with_feeder:
  "keeper_PriceFeeder E = Some pf \<Longrightarrow> EndBlocker E F h s =
     then_st (execute_plans h (GetParamUpdatePlans s) s) (\<lambda>s _.
       then_st (at_period_end h (SlashWindow (params s) + 1) (SetValidatorRewardSet E) s) (\<lambda>s' _.
       then_st (at_period_end h (VotePeriod (params s)) (CalcPrices E F h (params s)) s') (\<lambda>s' _.
       then_st (at_period_end h (SlashWindow (params s)) (SlashAndResetMissCounters E h) s') (\<lambda>s' _.
         PruneAllPrices h s'))))"
  by (simp add: EndBlocker_def feeder_to_start_def feeder_to_tick_def Let_def GetParams_def)

lemma EndBlocker_without_feeder:
  "keeper_PriceFeeder E = None \<Longrightarrow> snd (EndBlocker E F h s) \<noteq> Ok ()"
  by (cases "execute_plans h (GetParamUpdatePlans s) s"; cases "snd (execute_plans h (GetParamUpdatePlans s) s)")
    (auto simp: EndBlocker_def feeder_to_start_def Let_def)

lemma no_plan_due:
  assumes "\<forall>plan \<in> set plans. \<not> ShouldExecute h plan"
  shows "execute_plans h plans s = (s, Ok ())"
  using assms by (induction plans) auto

lemma GetBandFromDenom_none:
  "\<forall>b \<in> set bands. \<not> EqualFold denom (rb_SymbolDenom b) \<Longrightarrow> GetBandFromDenom bands denom = Err ErrNoRewardBand"
  by (induction bands) auto

lemma EndBlock_not_Ok: "snd (EndBlocker E F h s) \<noteq> Ok () \<Longrightarrow> snd (EndBlock E F h s) = Panic"
  by (auto simp: EndBlock_def split: prod.splits res.splits)

section \<open>Properties\<close>

text \<open>
  C11. A successful \<open>CalcPrices\<close> replaces the exchange rates: it stores, for every ballot on a
  listed denom whose power reaches the vote threshold of the bonded power, the weighted
  median of that ballot, and no other rate is left from before.
\<close>

theorem CalcPrices_rates:
  assumes laws: "dec_laws (D E)" and run: "CalcPrices E F h p s = (s', Ok ())"
    and vals: "sk_GetBondedValidatorsByPower E (world s) = Ok vals"
    and claims: "claim_map E (sk_PowerReduction E (world s)) 0 [] vals = Ok (tbp, claims)"
  shows "ExchangeRates s' = fold (\<lambda>bd. coll_set (ToUpper (bd_Denom bd)) (rate_of bd))
     (filter (has_quorum p tbp (go_div (VoteThreshold (params s) * 100) (10 ^ 18))) (OrganizeBallotByDenom s claims)) []"
  by (rule CalcPrices_ExchangeRates [OF assms])

lemma reward_env_laws: "dec_laws (D reward_env)"
  by (simp add: reward_env_def ref_env_def ref_dec_laws)

lemma vote_run:
  "sk_GetBondedValidatorsByPower reward_env (world ref_state) = Ok (map snd (fst (world ref_state)))"
  "claim_map reward_env (sk_PowerReduction reward_env (world ref_state)) 0 [] (map snd (fst (world ref_state))) =
     Ok (100, ref_claims)"
  "CalcPrices reward_env ref_float 9 DefaultParams ref_state =
     (fst (CalcPrices reward_env ref_float 9 DefaultParams ref_state), Ok ())"
proof -
  show "sk_GetBondedValidatorsByPower reward_env (world ref_state) = Ok (map snd (fst (world ref_state)))"
    by (simp add: reward_env_def ref_env_def ref_state_def ref_validator_def)
  show "claim_map reward_env (sk_PowerReduction reward_env (world ref_state)) 0 [] (map snd (fst (world ref_state))) =
     Ok (100, ref_claims)"
    by code_simp
  have "snd (CalcPrices reward_env ref_float 9 DefaultParams ref_state) = Ok ()"
    by code_simp
  then show "CalcPrices reward_env ref_float 9 DefaultParams ref_state =
     (fst (CalcPrices reward_env ref_float 9 DefaultParams ref_state), Ok ())"
    by (metis prod.collapse)
qed

lemma ref_ballots:
  "filter (has_quorum DefaultParams 100 (go_div (VoteThreshold (params ref_state) * 100) (10 ^ 18)))
     (OrganizeBallotByDenom ref_state ref_claims) = OrganizeBallotByDenom ref_state ref_claims"
  "length (OrganizeBallotByDenom ref_state ref_claims) = 2"
  by code_simp+

theorem CalcPrices_rates_witness:
  "ExchangeRates (fst (CalcPrices reward_env ref_float 9 DefaultParams ref_state)) = [(''DM'', 7), (''USDC'', 1)]"
proof -
  have "fold (\<lambda>bd. coll_set (ToUpper (bd_Denom bd)) (rate_of bd)) (OrganizeBallotByDenom ref_state ref_claims) [] =
      [(''DM'', 7), (''USDC'', 1)]"
    by code_simp
  then show ?thesis
    using CalcPrices_rates [OF reward_env_laws vote_run(3,1,2)] by (simp only: ref_ballots)
qed





text \<open>
  C33. A missing reward band stops the chain: if at the end of a vote period a listed denom
  has reached the vote threshold and no reward band has its symbol, the end of the block
  panics. \<open>Params.Validate\<close> accepts such parameters.
\<close>

theorem missing_reward_band_halts:
  assumes laws: "dec_laws (D E)"
    and quiet: "\<forall>plan \<in> set (GetParamUpdatePlans s). \<not> ShouldExecute h plan"
    and period: "IsPeriodLastBlock h (VotePeriod (params s)) = Ok True"
    and vals: "sk_GetBondedValidatorsByPower E (world s) = Ok vals"
    and claims: "claim_map E (sk_PowerReduction E (world s)) 0 [] vals = Ok (tbp, claims)"
    and bd: "bd \<in> set (OrganizeBallotByDenom s claims)"
      "has_quorum (params s) tbp (go_div (VoteThreshold (params s) * 100) (10 ^ 18)) bd"
    and none: "\<forall>b \<in> set (RewardBands (params s)). \<not> EqualFold (bd_Denom bd) (rb_SymbolDenom b)"
  shows "snd (EndBlock E F h s) = Panic"
proof (rule EndBlock_not_Ok, rule notI)
  have band: "GetBandFromDenom (RewardBands (params s)) (bd_Denom bd) = Err ErrNoRewardBand"
    using none by (rule GetBandFromDenom_none)
  assume "snd (EndBlocker E F h s) = Ok ()"
  then obtain s' where "EndBlocker E F h s = (s', Ok ())" by (metis prod.collapse)
  then obtain s1 s2 where s1: "at_period_end h (SlashWindow (params s) + 1) (SetValidatorRewardSet E) s = (s1, Ok ())"
    and s2: "at_period_end h (VotePeriod (params s)) (CalcPrices E F h (params s)) s1 = (s2, Ok ())"
    by (auto simp: EndBlocker_def no_plan_due [OF quiet] GetParams_def Let_def res_simps dest!: at_period_end_guarded)
  have same: "world s1 = world s" "Votes s1 = Votes s" "params s1 = params s"
    using s1 by (auto simp: at_period_end_def SetValidatorRewardSet_def res_simps split: if_splits)
  have "OrganizeBallotByDenom s1 claims = OrganizeBallotByDenom s claims"
    by (simp add: OrganizeBallotByDenom_def IterateAggregateExchangeRateVotes_def same)
  then have "snd (CalcPrices E F h (params s) s1) \<noteq> Ok ()"
    using CalcPrices_needs_band [OF laws, of s1 vals tbp claims bd "params s" ErrNoRewardBand F h] vals claims bd band same by simp
  then show False
    using s2 period by (simp add: at_period_end_def)
qed

theorem missing_reward_band_halts_witness:
  "snd (EndBlock reward_env ref_float 9 (ref_state\<lparr>params := DefaultParams\<lparr>RewardBands := []\<rparr>\<rparr>)) = Panic \<and>
   Params_Validate (Y reward_env) (DefaultParams\<lparr>RewardBands := []\<rparr>) = Ok ()"
proof
  let ?s = "ref_state\<lparr>params := DefaultParams\<lparr>RewardBands := []\<rparr>\<rparr>"
  have vals: "sk_GetBondedValidatorsByPower reward_env (world ?s) = Ok (map snd (fst (world ref_state)))"
    and claims: "claim_map reward_env (sk_PowerReduction reward_env (world ?s)) 0 [] (map snd (fst (world ref_state))) = Ok (100, ref_claims)"
    using vote_run(1,2) by simp_all
  have period: "IsPeriodLastBlock 9 (VotePeriod (params ?s)) = Ok True" by code_simp
  have bd: "hd (OrganizeBallotByDenom ?s ref_claims) \<in> set (OrganizeBallotByDenom ?s ref_claims)"
    "has_quorum (params ?s) 100 (go_div (VoteThreshold (params ?s) * 100) (10 ^ 18)) (hd (OrganizeBallotByDenom ?s ref_claims))"
    by code_simp+
  show "snd (EndBlock reward_env ref_float 9 ?s) = Panic"
    by (rule missing_reward_band_halts [OF reward_env_laws _ period vals claims bd])
      (simp_all add: GetParamUpdatePlans_def IterateParamUpdatePlans_def ref_state_def)
  show "Params_Validate (Y reward_env) (DefaultParams\<lparr>RewardBands := []\<rparr>) = Ok ()"
    by (simp add: Params_Validate_Ok params_ok_def default_params dec_consts)
qed

end
