(* ===== verification/Oracle_Msgs.thy ===== *)
theory Oracle_Msgs
  imports Oracle_Vote Util
begin

text \<open>
  The messages of the oracle module and their stateless checks
  (\<open>src/x/oracle/types/msgs.go\<close>). \<open>val\<close> and \<open>acc\<close> are the bech32 codecs of
  validator and account addresses; the limits of a proposal's text come from the gov module.
\<close>

record MsgAggregateExchangeRatePrevote =
  mp_Hash :: string
  mp_Feeder :: string
  mp_Validator :: string

record MsgAggregateExchangeRateVote =
  mv_Salt :: string
  mv_ExchangeRates :: string
  mv_Feeder :: string
  mv_Validator :: string

record MsgDelegateFeedConsent =
  md_Operator :: string
  md_Delegate :: string

record MsgLegacyGovUpdateParams =
  ml_Authority :: string
  ml_Title :: string
  ml_Description :: string
  ml_Keys :: "string list"
  ml_Changes :: Params

record MsgGovUpdateParams =
  mu_Authority :: string
  mu_Title :: string
  mu_Description :: string
  mu_Plan :: ParamUpdatePlan

record MsgGovAddDenoms =
  ma_Authority :: string
  ma_Title :: string
  ma_Description :: string
  ma_Height :: int
  ma_DenomList :: DenomList
  ma_Mandatory :: bool
  ma_RewardBand :: "dec option"
  ma_CurrencyPairProviders :: CurrencyPairProvidersList
  ma_CurrencyDeviationThresholds :: CurrencyDeviationThresholdList

record MsgGovRemoveCurrencyPairProviders =
  mrp_Authority :: string
  mrp_Title :: string
  mrp_Description :: string
  mrp_Height :: int
  mrp_CurrencyPairProviders :: CurrencyPairProvidersList

record MsgGovRemoveCurrencyDeviationThresholds =
  mrt_Authority :: string
  mrt_Title :: string
  mrt_Description :: string
  mrt_Height :: int
  mrt_Currencies :: "string list"

record MsgGovCancelUpdateParamPlan =
  mc_Authority :: string
  mc_Title :: string
  mc_Description :: string
  mc_Height :: int

section \<open>Stateless checks\<close>

text \<open>\<open>sdkerrors.X.Wrapf\<close> of whatever a call reports.\<close>

definition wrap_err :: "error \<Rightarrow> 'a res \<Rightarrow> 'a res" where
  "wrap_err e r = (case r of Ok x \<Rightarrow> Ok x | Err _ \<Rightarrow> Err e | Panic \<Rightarrow> Panic)"

definition TruncatedSize :: nat where "TruncatedSize = 20"

definition MsgAggregateExchangeRatePrevote_ValidateBasic ::
  "(string \<Rightarrow> bytes res) \<Rightarrow> (string \<Rightarrow> bytes res) \<Rightarrow> MsgAggregateExchangeRatePrevote \<Rightarrow> unit res" where
  "MsgAggregateExchangeRatePrevote_ValidateBasic acc val msg =
     bind_res (wrap_err ErrInvalidHash (AggregateVoteHashFromHexString (mp_Hash msg))) (\<lambda>_.
       if length (mp_Hash msg) \<noteq> TruncatedSize * 2 then Err ErrInvalidHashLength
       else
     bind_res (wrap_err (SdkErr ''ErrInvalidAddress'') (acc (mp_Feeder msg))) (\<lambda>_.
     bind_res (wrap_err (SdkErr ''ErrInvalidAddress'') (val (mp_Validator msg))) (\<lambda>_. Ok ())))"

text \<open>\<open>BitLen\<close> of a decimal's integer; the width of its fraction is 60 bits.\<close>

definition BitLen_gt :: "int \<Rightarrow> nat \<Rightarrow> bool" where
  "BitLen_gt x n \<longleftrightarrow> \<bar>x\<bar> \<ge> 2 ^ n"

definition LegacyDecimalPrecisionBits :: nat where "LegacyDecimalPrecisionBits = 60"

definition MsgAggregateExchangeRateVote_ValidateBasic ::
  "(string \<Rightarrow> bytes res) \<Rightarrow> (string \<Rightarrow> bytes res) \<Rightarrow> (string \<Rightarrow> dec res) \<Rightarrow> (string \<Rightarrow> bool)
    \<Rightarrow> MsgAggregateExchangeRateVote \<Rightarrow> unit res" where
  "MsgAggregateExchangeRateVote_ValidateBasic acc val fromStr okDenom msg =
     bind_res (wrap_err (SdkErr ''ErrInvalidAddress'') (acc (mv_Feeder msg))) (\<lambda>_.
     bind_res (wrap_err (SdkErr ''ErrInvalidAddress'') (val (mv_Validator msg))) (\<lambda>_.
       if length (mv_ExchangeRates msg) = 0 then Err (SdkErr ''ErrInvalidRequest'')
       else if length (mv_ExchangeRates msg) > 4096 then Err (SdkErr ''ErrInvalidRequest'')
       else
     bind_res (wrap_err (SdkErr ''ErrInvalidCoins'')
       (ParseExchangeRateDecCoins fromStr okDenom (mv_ExchangeRates msg))) (\<lambda>exchangeRates.
     bind_res (first_error (\<lambda>r. if BitLen_gt (dc_Amount r) (255 + LegacyDecimalPrecisionBits)
        then Err ErrInvalidExchangeRate else Ok ()) exchangeRates) (\<lambda>_.
       if length (mv_Salt msg) \<noteq> 64 then Err ErrInvalidSaltLength
       else
     bind_res (wrap_err ErrInvalidSaltFormat (AggregateVoteHashFromHexString (mv_Salt msg))) (\<lambda>_. Ok ())))))"

definition MsgDelegateFeedConsent_ValidateBasic ::
  "(string \<Rightarrow> bytes res) \<Rightarrow> (string \<Rightarrow> bytes res) \<Rightarrow> MsgDelegateFeedConsent \<Rightarrow> unit res" where
  "MsgDelegateFeedConsent_ValidateBasic acc val msg =
     bind_res (wrap_err (SdkErr ''ErrInvalidAddress'') (val (md_Operator msg))) (\<lambda>_.
     bind_res (wrap_err (SdkErr ''ErrInvalidAddress'') (acc (md_Delegate msg))) (\<lambda>_. Ok ()))"

definition legacy_key_check :: "dec_ops \<Rightarrow> Params \<Rightarrow> string \<Rightarrow> unit res" where
  "legacy_key_check D c key =
     (if key = KeyVotePeriod then validateVotePeriod (PUint64 (VotePeriod c))
      else if key = KeyVoteThreshold then validateVoteThreshold D (PDec (VoteThreshold c))
      else if key = KeyRewardBands then validateRewardBands (PRewardBandList (RewardBands c))
      else if key = KeyRewardDistributionWindow
      then validateRewardDistributionWindow (PUint64 (RewardDistributionWindow c))
      else if key = KeyAcceptList then validateDenomList (PDenomList (AcceptList c))
      else if key = KeyMandatoryList then validateDenomList (PDenomList (MandatoryList c))
      else if key = KeySlashFraction then validateSlashFraction (PDec (SlashFraction c))
      else if key = KeySlashWindow then validateSlashWindow (PUint64 (SlashWindow c))
      else if key = KeyMinValidPerWindow then validateMinValidPerWindow (PDec (MinValidPerWindow c))
      else if key = KeyHistoricStampPeriod then validateHistoricStampPeriod (PUint64 (HistoricStampPeriod c))
      else if key = KeyMedianStampPeriod then validateMedianStampPeriod (PUint64 (MedianStampPeriod c))
      else if key = KeyMaximumPriceStamps then validateMaximumPriceStamps (PUint64 (MaximumPriceStamps c))
      else if key = KeyMaximumMedianStamps then validateMaximumMedianStamps (PUint64 (MaximumMedianStamps c))
      else if key = KeyUsdcIbcDenom then validateString (PString (UsdcIbcDenom c))
      else Err (Errorf ''not an existing oracle param key''))"

definition MsgLegacyGovUpdateParams_ValidateBasic ::
  "dec_ops \<Rightarrow> (string \<Rightarrow> bytes res) \<Rightarrow> nat \<Rightarrow> nat \<Rightarrow> MsgLegacyGovUpdateParams \<Rightarrow> unit res" where
  "MsgLegacyGovUpdateParams_ValidateBasic D acc maxTitle maxDescription msg =
     bind_res (ValidateProposal acc maxTitle maxDescription (ml_Title msg) (ml_Description msg) (ml_Authority msg))
       (\<lambda>_. first_error (legacy_key_check D (ml_Changes msg)) (ml_Keys msg))"

definition MsgGovUpdateParams_ValidateBasic ::
  "dec_ops \<Rightarrow> (string \<Rightarrow> bytes res) \<Rightarrow> nat \<Rightarrow> nat \<Rightarrow> MsgGovUpdateParams \<Rightarrow> unit res" where
  "MsgGovUpdateParams_ValidateBasic D acc maxTitle maxDescription msg =
     bind_res (ValidateProposal acc maxTitle maxDescription (mu_Title msg) (mu_Description msg) (mu_Authority msg))
       (\<lambda>_. ParamUpdatePlan_ValidateBasic D (mu_Plan msg))"

definition MsgGovCancelUpdateParamPlan_ValidateBasic ::
  "(string \<Rightarrow> bytes res) \<Rightarrow> nat \<Rightarrow> nat \<Rightarrow> MsgGovCancelUpdateParamPlan \<Rightarrow> unit res" where
  "MsgGovCancelUpdateParamPlan_ValidateBasic acc maxTitle maxDescription msg =
     ValidateProposal acc maxTitle maxDescription (mc_Title msg) (mc_Description msg) (mc_Authority msg)"

definition MsgGovAddDenoms_ValidateBasic ::
  "(string \<Rightarrow> bytes res) \<Rightarrow> nat \<Rightarrow> nat \<Rightarrow> MsgGovAddDenoms \<Rightarrow> unit res" where
  "MsgGovAddDenoms_ValidateBasic acc maxTitle maxDescription msg =
     ValidateProposal acc maxTitle maxDescription (ma_Title msg) (ma_Description msg) (ma_Authority msg)"

definition MsgGovRemoveCurrencyPairProviders_ValidateBasic ::
  "(string \<Rightarrow> bytes res) \<Rightarrow> nat \<Rightarrow> nat \<Rightarrow> MsgGovRemoveCurrencyPairProviders \<Rightarrow> unit res" where
  "MsgGovRemoveCurrencyPairProviders_ValidateBasic acc maxTitle maxDescription msg =
     ValidateProposal acc maxTitle maxDescription (mrp_Title msg) (mrp_Description msg) (mrp_Authority msg)"

definition MsgGovRemoveCurrencyDeviationThresholds_ValidateBasic ::
  "(string \<Rightarrow> bytes res) \<Rightarrow> nat \<Rightarrow> nat \<Rightarrow> MsgGovRemoveCurrencyDeviationThresholds \<Rightarrow> unit res" where
  "MsgGovRemoveCurrencyDeviationThresholds_ValidateBasic acc maxTitle maxDescription msg =
     ValidateProposal acc maxTitle maxDescription (mrt_Title msg) (mrt_Description msg) (mrt_Authority msg)"

section \<open>Constructors and signers\<close>

definition NewMsgAggregateExchangeRatePrevote ::
  "(bytes \<Rightarrow> string) \<Rightarrow> (bytes \<Rightarrow> string) \<Rightarrow> AggregateVoteHash \<Rightarrow> bytes \<Rightarrow> bytes
    \<Rightarrow> MsgAggregateExchangeRatePrevote" where
  "NewMsgAggregateExchangeRatePrevote accText valText hash feeder validator =
     \<lparr>mp_Hash = AggregateVoteHash_String hash, mp_Feeder = accText feeder, mp_Validator = valText validator\<rparr>"

definition NewMsgAggregateExchangeRateVote ::
  "(bytes \<Rightarrow> string) \<Rightarrow> (bytes \<Rightarrow> string) \<Rightarrow> string \<Rightarrow> string \<Rightarrow> bytes \<Rightarrow> bytes
    \<Rightarrow> MsgAggregateExchangeRateVote" where
  "NewMsgAggregateExchangeRateVote accText valText salt exchangeRates feeder validator =
     \<lparr>mv_Salt = salt, mv_ExchangeRates = exchangeRates, mv_Feeder = accText feeder,
      mv_Validator = valText validator\<rparr>"

definition NewMsgDelegateFeedConsent ::
  "(bytes \<Rightarrow> string) \<Rightarrow> (bytes \<Rightarrow> string) \<Rightarrow> bytes \<Rightarrow> bytes \<Rightarrow> MsgDelegateFeedConsent" where
  "NewMsgDelegateFeedConsent accText valText operatorAddress feederAddress =
     \<lparr>md_Operator = valText operatorAddress, md_Delegate = accText feederAddress\<rparr>"

definition MsgDelegateFeedConsent_GetSigners ::
  "(string \<Rightarrow> bytes res) \<Rightarrow> MsgDelegateFeedConsent \<Rightarrow> bytes list" where
  "MsgDelegateFeedConsent_GetSigners val msg = checkers_Signers val [md_Operator msg]"

definition MsgAggregateExchangeRatePrevote_GetSigners ::
  "(string \<Rightarrow> bytes res) \<Rightarrow> MsgAggregateExchangeRatePrevote \<Rightarrow> bytes list" where
  "MsgAggregateExchangeRatePrevote_GetSigners acc msg = checkers_Signers acc [mp_Feeder msg]"

definition MsgAggregateExchangeRateVote_GetSigners ::
  "(string \<Rightarrow> bytes res) \<Rightarrow> MsgAggregateExchangeRateVote \<Rightarrow> bytes list" where
  "MsgAggregateExchangeRateVote_GetSigners acc msg = checkers_Signers acc [mv_Feeder msg]"

definition NewLegacyMsgUpdateParams ::
  "string \<Rightarrow> string \<Rightarrow> string \<Rightarrow> string list \<Rightarrow> Params \<Rightarrow> MsgLegacyGovUpdateParams" where
  "NewLegacyMsgUpdateParams authority title description keys changes =
     \<lparr>ml_Authority = authority, ml_Title = title, ml_Description = description, ml_Keys = keys, ml_Changes = changes\<rparr>"

definition NewMsgUpdateParams :: "string \<Rightarrow> string \<Rightarrow> string \<Rightarrow> ParamUpdatePlan \<Rightarrow> MsgGovUpdateParams" where
  "NewMsgUpdateParams authority title description plan =
     \<lparr>mu_Authority = authority, mu_Title = title, mu_Description = description, mu_Plan = plan\<rparr>"

definition NewMsgGovCancelUpdateParamPlan :: "string \<Rightarrow> string \<Rightarrow> string \<Rightarrow> MsgGovCancelUpdateParamPlan" where
  "NewMsgGovCancelUpdateParamPlan authority title description =
     \<lparr>mc_Authority = authority, mc_Title = title, mc_Description = description, mc_Height = 0\<rparr>"

definition NewMsgGovAddDenoms ::
  "string \<Rightarrow> string \<Rightarrow> string \<Rightarrow> int \<Rightarrow> DenomList \<Rightarrow> bool \<Rightarrow> dec \<Rightarrow> CurrencyPairProvidersList
    \<Rightarrow> CurrencyDeviationThresholdList \<Rightarrow> MsgGovAddDenoms" where
  "NewMsgGovAddDenoms authority title description height denoms mandatory rewardBand currencyPairProviders
      currencyDeviationThresholds =
     \<lparr>ma_Authority = authority, ma_Title = title, ma_Description = description, ma_Height = height,
      ma_DenomList = denoms, ma_Mandatory = mandatory, ma_RewardBand = Some rewardBand,
      ma_CurrencyPairProviders = currencyPairProviders, ma_CurrencyDeviationThresholds = currencyDeviationThresholds\<rparr>"

definition NewMsgGovRemoveCurrencyPairProviders ::
  "string \<Rightarrow> string \<Rightarrow> string \<Rightarrow> int \<Rightarrow> CurrencyPairProvidersList \<Rightarrow> MsgGovRemoveCurrencyPairProviders" where
  "NewMsgGovRemoveCurrencyPairProviders authority title description height currencyPairProviders =
     \<lparr>mrp_Authority = authority, mrp_Title = title, mrp_Description = description, mrp_Height = height,
      mrp_CurrencyPairProviders = currencyPairProviders\<rparr>"

definition NewMsgGovRemoveCurrencyDeviationThresholds ::
  "string \<Rightarrow> string \<Rightarrow> string \<Rightarrow> int \<Rightarrow> string list \<Rightarrow> MsgGovRemoveCurrencyDeviationThresholds" where
  "NewMsgGovRemoveCurrencyDeviationThresholds authority title description height currencies =
     \<lparr>mrt_Authority = authority, mrt_Title = title, mrt_Description = description, mrt_Height = height,
      mrt_Currencies = currencies\<rparr>"

definition MsgLegacyGovUpdateParams_GetSigners ::
  "(string \<Rightarrow> bytes res) \<Rightarrow> MsgLegacyGovUpdateParams \<Rightarrow> bytes list" where
  "MsgLegacyGovUpdateParams_GetSigners acc msg = checkers_Signers acc [ml_Authority msg]"

definition MsgGovUpdateParams_GetSigners :: "(string \<Rightarrow> bytes res) \<Rightarrow> MsgGovUpdateParams \<Rightarrow> bytes list" where
  "MsgGovUpdateParams_GetSigners acc msg = checkers_Signers acc [mu_Authority msg]"

definition MsgGovCancelUpdateParamPlan_GetSigners ::
  "(string \<Rightarrow> bytes res) \<Rightarrow> MsgGovCancelUpdateParamPlan \<Rightarrow> bytes list" where
  "MsgGovCancelUpdateParamPlan_GetSigners acc msg = checkers_Signers acc [mc_Authority msg]"

definition MsgGovAddDenoms_GetSigners :: "(string \<Rightarrow> bytes res) \<Rightarrow> MsgGovAddDenoms \<Rightarrow> bytes list" where
  "MsgGovAddDenoms_GetSigners acc msg = checkers_Signers acc [ma_Authority msg]"

definition MsgGovRemoveCurrencyPairProviders_GetSigners ::
  "(string \<Rightarrow> bytes res) \<Rightarrow> MsgGovRemoveCurrencyPairProviders \<Rightarrow> bytes list" where
  "MsgGovRemoveCurrencyPairProviders_GetSigners acc msg = checkers_Signers acc [mrp_Authority msg]"

definition MsgGovRemoveCurrencyDeviationThresholds_GetSigners ::
  "(string \<Rightarrow> bytes res) \<Rightarrow> MsgGovRemoveCurrencyDeviationThresholds \<Rightarrow> bytes list" where
  "MsgGovRemoveCurrencyDeviationThresholds_GetSigners acc msg = checkers_Signers acc [mrt_Authority msg]"

section \<open>Properties\<close>

text \<open>Two hexadecimal digits per byte.\<close>

lemma length_EncodeToString: "length (EncodeToString b) = 2 * length b"
  by (induction b) (auto simp: EncodeToString_def)

text \<open>
  A prevote made from a hash of the truncated size and from addresses that can be read
  back passes the stateless checks and is signed by its feeder alone; with a hash of any
  other size it is refused for its length.
\<close>

theorem new_prevote_passes_checks:
  assumes "acc (accText feeder) = Ok feeder" and "val (valText validator) = Ok validator"
  shows "MsgAggregateExchangeRatePrevote_ValidateBasic acc val
      (NewMsgAggregateExchangeRatePrevote accText valText hash feeder validator) =
      (if length hash = TruncatedSize then Ok () else Err ErrInvalidHashLength) \<and>
    MsgAggregateExchangeRatePrevote_GetSigners acc
      (NewMsgAggregateExchangeRatePrevote accText valText hash feeder validator) = [feeder]"
  using assms
  by (simp add: MsgAggregateExchangeRatePrevote_ValidateBasic_def NewMsgAggregateExchangeRatePrevote_def
      MsgAggregateExchangeRatePrevote_GetSigners_def checkers_Signers_def AggregateVoteHashFromHexString_def
      AggregateVoteHash_String_def length_EncodeToString wrap_err_def)

text \<open>
  A vote that passes the stateless checks carries at least one rate; its denoms are upper
  case, well formed and different, its rates positive and within 315 bits; and its salt
  is the hexadecimal text of 32 bytes.
\<close>

theorem checked_vote_rates:
  assumes "MsgAggregateExchangeRateVote_ValidateBasic acc val fromStr okDenom msg = Ok ()"
  shows "\<exists>rates salt. ParseExchangeRateDecCoins fromStr okDenom (mv_ExchangeRates msg) = Ok rates \<and> rates \<noteq> [] \<and>
     distinct (map dc_Denom rates) \<and>
     (\<forall>c \<in> set rates. 0 < dc_Amount c \<and> dc_Amount c < 2 ^ 315 \<and> okDenom (dc_Denom c) \<and>
        ToUpper (dc_Denom c) = dc_Denom c) \<and>
     DecodeString (mv_Salt msg) = Ok salt \<and> length (mv_Salt msg) = 64"
proof -
  obtain rates salt where run: "ParseExchangeRateDecCoins fromStr okDenom (mv_ExchangeRates msg) = Ok rates"
    "mv_ExchangeRates msg \<noteq> []" "length (mv_Salt msg) = 64" "DecodeString (mv_Salt msg) = Ok salt"
    and bits: "\<forall>c \<in> set rates. \<not> BitLen_gt (dc_Amount c) 315"
    using assms
    by (auto simp: MsgAggregateExchangeRateVote_ValidateBasic_def res_simps wrap_err_def first_error_Ok
        AggregateVoteHashFromHexString_def LegacyDecimalPrecisionBits_def split: res.splits if_splits)
  obtain new where "rates = new" "length new = length (Split (CHR '','') (mv_ExchangeRates msg))" "distinct (map dc_Denom new)"
    "\<forall>c \<in> set new. 0 < dc_Amount c \<and> okDenom (dc_Denom c) \<and> ToUpper (dc_Denom c) = dc_Denom c"
    using parse_loop_Ok [of fromStr okDenom "[]" "[]" "Split (CHR '','') (mv_ExchangeRates msg)" rates] run(1,2)
    by (auto simp: ParseExchangeRateDecCoins_def)
  moreover have "Split (CHR '','') (mv_ExchangeRates msg) \<noteq> []"
    by (cases "mv_ExchangeRates msg") (auto split: list.splits)
  ultimately show ?thesis
    using run bits by (auto simp: BitLen_gt_def)
qed

end
