(* ===== verification/Oracle_Msg_Server.thy ===== *)
theory Oracle_Msg_Server
  imports Oracle_Plan Oracle_Msgs
begin

text \<open>
  The message handlers of the oracle module (\<open>src/x/oracle/keeper/msg_server.go\<close>). A handler
  takes the block height of its context and returns the state it has written together with
  its outcome; the response messages are empty.
\<close>

section \<open>Voting\<close>

definition AggregateExchangeRatePrevote ::
  "'w oracle_env \<Rightarrow> int \<Rightarrow> MsgAggregateExchangeRatePrevote \<Rightarrow> 'w ostate \<Rightarrow> 'w ostate \<times> unit res" where
  "AggregateExchangeRatePrevote E blockHeight msg s =
     read_st s (ValAddressFromBech32 E (mp_Validator msg)) (\<lambda>valAddr.
     read_st s (AccAddressFromBech32 E (mp_Feeder msg)) (\<lambda>feederAddr.
     read_st s (ValidateFeeder E s feederAddr valAddr) (\<lambda>_.
       if HasAggregateExchangeRatePrevote s valAddr then (s, Err ErrExistingPrevote)
       else
     read_st s (wrap_err ErrInvalidHash (AggregateVoteHashFromHexString (mp_Hash msg))) (\<lambda>voteHash.
       (SetAggregateExchangeRatePrevote valAddr
          (NewAggregateExchangeRatePrevote (ValString E) voteHash valAddr (SafeInt64ToUint64 blockHeight)) s,
        Ok ())))))"

definition AggregateExchangeRateVote ::
  "'w oracle_env \<Rightarrow> int \<Rightarrow> MsgAggregateExchangeRateVote \<Rightarrow> 'w ostate \<Rightarrow> 'w ostate \<times> unit res" where
  "AggregateExchangeRateVote E blockHeight msg s =
     read_st s (ValAddressFromBech32 E (mv_Validator msg)) (\<lambda>valAddr.
     read_st s (AccAddressFromBech32 E (mv_Feeder msg)) (\<lambda>feederAddr.
     read_st s (ValidateFeeder E s feederAddr valAddr) (\<lambda>_.
       let p = GetParams s in
     read_st s (wrap_err ErrNoAggregatePrevote (GetAggregateExchangeRatePrevote s valAddr)) (\<lambda>aggregatePrevote.
       if VotePeriod p = 0 then (s, Panic)
       else
         let currentPeriod = SafeInt64ToUint64 blockHeight div VotePeriod p;
             prevotePeriod = pv_SubmitBlock aggregatePrevote div VotePeriod p in
       if currentPeriod - prevotePeriod \<noteq> 1 then (s, Err ErrRevealPeriodMissMatch)
       else
     read_st s (wrap_err ErrInvalidExchangeRate
        (ParseExchangeRateDecCoins (LegacyNewDecFromStr E) (ValidateDenom E) (mv_ExchangeRates msg))) (\<lambda>exchangeRates.
       let hash = GetAggregateVoteHash (tmhash E) (ValString E) (mv_Salt msg) (mv_ExchangeRates msg) valAddr in
       if pv_Hash aggregatePrevote \<noteq> AggregateVoteHash_String hash then (s, Err ErrVerificationFailed)
       else
         let filteredDecCoins = filter (\<lambda>decCoin. DenomList_Contains (AcceptList p) (dc_Denom decCoin)) exchangeRates in
         (DeleteAggregateExchangeRatePrevote valAddr
            (SetAggregateExchangeRateVote valAddr
               (NewAggregateExchangeRateVote (ValString E) filteredDecCoins valAddr) s),
          Ok ()))))))"

definition DelegateFeedConsent ::
  "'w oracle_env \<Rightarrow> MsgDelegateFeedConsent \<Rightarrow> 'w ostate \<Rightarrow> 'w ostate \<times> unit res" where
  "DelegateFeedConsent E msg s =
     read_st s (ValAddressFromBech32 E (md_Operator msg)) (\<lambda>operatorAddr.
     read_st s (AccAddressFromBech32 E (md_Delegate msg)) (\<lambda>delegateAddr.
     read_st s (sk_Validator E (world s) operatorAddr) (\<lambda>val.
       case val of
         None \<Rightarrow> (s, Err (SdkErr ''ErrNoValidatorFound''))
       | Some _ \<Rightarrow> (SetFeederDelegation operatorAddr delegateAddr s, Ok ()))))"

section \<open>Governance\<close>

definition mod64 :: "uint64 \<Rightarrow> uint64 \<Rightarrow> uint64 res" where
  "mod64 a b = (if b = 0 then Panic else Ok (a mod b))"

text \<open>One key of \<open>LegacyGovUpdateParams\<close>: written at once, checked against what the store
  holds at that moment.\<close>

definition legacy_update :: "'w oracle_env \<Rightarrow> Params \<Rightarrow> string \<Rightarrow> 'w ostate \<Rightarrow> 'w ostate \<times> unit res" where
  "legacy_update E c key s =
     (if key = KeyVotePeriod then (SetVotePeriod (VotePeriod c) s, Ok ())
      else if key = KeyVoteThreshold then (SetVoteThreshold (VoteThreshold c) s, Ok ())
      else if key = KeyRewardBands then (SetRewardBand (RewardBands c) s, Ok ())
      else if key = KeyRewardDistributionWindow then
        if RewardDistributionWindow c < Keeper_VotePeriod s
        then (s, Err (Errorf ''RewardDistributionWindow must be greater than or equal with VotePeriod''))
        else (SetRewardDistributionWindow (RewardDistributionWindow c) s, Ok ())
      else if key = KeyAcceptList then
        let accept = Normalize (AcceptList c); mandatory = Normalize (Keeper_MandatoryList s) in
        if \<not> ContainDenoms (Y E) accept mandatory
        then (s, Err (Errorf ''denom in MandatoryList not present in AcceptList''))
        else (SetAcceptList accept s, Ok ())
      else if key = KeyMandatoryList then
        let mandatory = Normalize (MandatoryList c); accept = Normalize (Keeper_AcceptList s) in
        if \<not> ContainDenoms (Y E) accept mandatory
        then (s, Err (Errorf ''denom in MandatoryList not present in AcceptList''))
        else (SetMandatoryList mandatory s, Ok ())
      else if key = KeySlashFraction then (SetSlashFraction (SlashFraction c) s, Ok ())
      else if key = KeySlashWindow then
        if SlashWindow c < Keeper_VotePeriod s
        then (s, Err (Errorf ''SlashWindow must be greater than or equal with VotePeriod''))
        else (SetSlashWindow (SlashWindow c) s, Ok ())
      else if key = KeyMinValidPerWindow then (SetMinValidPerWindow (MinValidPerWindow c) s, Ok ())
      else if key = KeyHistoricStampPeriod then
        if HistoricStampPeriod c < 1 then (s, Err (Errorf ''HistoricStampPeriod must be greater than 0''))
        else if HistoricStampPeriod c > Keeper_MedianStampPeriod s
        then (s, Err (Errorf ''HistoricStampPeriod must be less than or equal with MedianStampPeriod''))
        else read_st s (mod64 (HistoricStampPeriod c) (Keeper_VotePeriod s)) (\<lambda>m.
          if m \<noteq> 0 then (s, Err (Errorf ''HistoricStampPeriod must be exact multiples of VotePeriod''))
          else (SetHistoricStampPeriod (HistoricStampPeriod c) s, Ok ()))
      else if key = KeyMedianStampPeriod then
        if MedianStampPeriod c < 1 then (s, Err (Errorf ''MedianStampPeriod must be greater than 0''))
        else if MedianStampPeriod c < Keeper_HistoricStampPeriod s
        then (s, Err (Errorf ''MedianStampPeriod must be greater than or equal with HistoricStampPeriod''))
        else read_st s (mod64 (MedianStampPeriod c) (Keeper_VotePeriod s)) (\<lambda>m.
          if m \<noteq> 0 then (s, Err (Errorf ''MedianStampPeriod must be exact multiples of VotePeriod''))
          else (SetMedianStampPeriod (MedianStampPeriod c) s, Ok ()))
      else if key = KeyMaximumPriceStamps then
        if MaximumPriceStamps c < 1 then (s, Err (Errorf ''MaximumPriceStamps must be greater than 0''))
        else (SetMaximumPriceStamps (MaximumPriceStamps c) s, Ok ())
      else if key = KeyMaximumMedianStamps then
        if MaximumMedianStamps c < 1 then (s, Err (Errorf ''MaximumMedianStamps must be greater than 0''))
        else (SetMaximumMedianStamps (MaximumMedianStamps c) s, Ok ())
      else if key = KeyUsdcIbcDenom then (SetUsdcIbcDenom (UsdcIbcDenom c) s, Ok ())
      else if key = KeySlashingEnabled then (SetSlashingEnabled (SlashingEnabled c) s, Ok ())
      else if key = KeyAveragingWindow then (SetAveragingWindow (AveragingWindow c) s, Ok ())
      else (s, Err (Errorf ''not an existing oracle param key'')))"

fun legacy_loop :: "'w oracle_env \<Rightarrow> Params \<Rightarrow> string list \<Rightarrow> 'w ostate \<Rightarrow> 'w ostate \<times> unit res" where
  "legacy_loop E c [] s = (s, Ok ())"
| "legacy_loop E c (key # keys) s = then_st (legacy_update E c key s) (\<lambda>s _. legacy_loop E c keys s)"

definition LegacyGovUpdateParams ::
  "'w oracle_env \<Rightarrow> MsgLegacyGovUpdateParams \<Rightarrow> 'w ostate \<Rightarrow> 'w ostate \<times> unit res" where
  "LegacyGovUpdateParams E msg s =
     (if ml_Authority msg \<noteq> authority E then (s, Err ErrNoGovAuthority)
      else legacy_loop E (ml_Changes msg) (ml_Keys msg) s)"

definition GovUpdateParams ::
  "'w oracle_env \<Rightarrow> int \<Rightarrow> MsgGovUpdateParams \<Rightarrow> 'w ostate \<Rightarrow> 'w ostate \<times> unit res" where
  "GovUpdateParams E blockHeight msg s =
     (if mu_Authority msg \<noteq> authority E then (s, Err ErrNoGovAuthority)
      else ScheduleParamUpdatePlan E blockHeight (mu_Plan msg) s)"

text \<open>Adding a denom to the plan of \<open>GovAddDenoms\<close>.\<close>

definition add_denom :: "bool \<Rightarrow> dec option \<Rightarrow> Denom \<Rightarrow> ParamUpdatePlan \<Rightarrow> ParamUpdatePlan res" where
  "add_denom mandatory rewardBand denom plan =
     (let c = Changes plan; sym = SymbolDenom denom in
      if DenomList_Contains (AcceptList c) sym \<and> \<not> mandatory then Err ErrInvalidParamValue
      else if DenomList_Contains (MandatoryList c) sym \<and> mandatory then Err ErrInvalidParamValue
      else
        let plan = (if \<not> DenomList_Contains (AcceptList c) sym
              then plan\<lparr>Changes := c\<lparr>AcceptList := AcceptList c @ [denom]\<rparr>,
                        Keys := AppendUniqueString (Keys plan) KeyAcceptList\<rparr>
              else plan);
            plan = (if mandatory
              then plan\<lparr>Changes := (Changes plan)\<lparr>MandatoryList := MandatoryList (Changes plan) @ [denom]\<rparr>,
                        Keys := AppendUniqueString (Keys plan) KeyMandatoryList\<rparr>
              else plan);
            bands = RewardBands (Changes plan) in
        case GetBandFromDenom bands sym of
          Ok _ \<Rightarrow> Ok plan
        | Panic \<Rightarrow> Panic
        | Err e \<Rightarrow>
            if e = ErrNoRewardBand then
              let bands = (case rewardBand of Some b \<Rightarrow> RewardBandList_Add bands sym b | None \<Rightarrow> bands) in
              Ok (plan\<lparr>Changes := (Changes plan)\<lparr>RewardBands := RewardBandList_AddDefault bands sym\<rparr>\<rparr>)
            else Err e)"

fun add_denoms :: "bool \<Rightarrow> dec option \<Rightarrow> Denom list \<Rightarrow> ParamUpdatePlan \<Rightarrow> ParamUpdatePlan res" where
  "add_denoms mandatory rewardBand [] plan = Ok plan"
| "add_denoms mandatory rewardBand (d # ds) plan =
     bind_res (add_denom mandatory rewardBand d plan) (add_denoms mandatory rewardBand ds)"

text \<open>\<open>plan.ValidateBasic\<close>, then schedule.\<close>

definition check_and_schedule ::
  "'w oracle_env \<Rightarrow> int \<Rightarrow> ParamUpdatePlan \<Rightarrow> 'w ostate \<Rightarrow> 'w ostate \<times> unit res" where
  "check_and_schedule E blockHeight plan s =
     read_st s (ParamUpdatePlan_ValidateBasic (D E) plan) (\<lambda>_. ScheduleParamUpdatePlan E blockHeight plan s)"

definition GovAddDenoms ::
  "'w oracle_env \<Rightarrow> int \<Rightarrow> MsgGovAddDenoms \<Rightarrow> 'w ostate \<Rightarrow> 'w ostate \<times> unit res" where
  "GovAddDenoms E blockHeight msg s =
     (if ma_Authority msg \<noteq> authority E then (s, Err ErrNoGovAuthority)
      else
        read_st s (add_denoms (ma_Mandatory msg) (ma_RewardBand msg) (ma_DenomList msg)
            \<lparr>Keys = [], Height = ma_Height msg, Changes = GetParams s\<rparr>) (\<lambda>plan.
          let plan = fold (\<lambda>cpp plan. plan\<lparr>Keys := AppendUniqueString (Keys plan) KeyCurrencyPairProviders,
                  Changes := (Changes plan)\<lparr>CurrencyPairProviders := CurrencyPairProviders (Changes plan) @ [cpp]\<rparr>\<rparr>)
                (ma_CurrencyPairProviders msg) plan;
              plan = fold (\<lambda>cdt plan. plan\<lparr>Keys := AppendUniqueString (Keys plan) KeyCurrencyDeviationThresholds,
                  Changes := (Changes plan)\<lparr>CurrencyDeviationThresholds := CurrencyDeviationThresholds (Changes plan) @ [cdt]\<rparr>\<rparr>)
                (ma_CurrencyDeviationThresholds msg) plan;
              plan = (if length (ma_DenomList msg) \<noteq> 0 then plan\<lparr>Keys := Keys plan @ [KeyRewardBands]\<rparr> else plan)
          in check_and_schedule E blockHeight plan s))"

definition GovRemoveCurrencyPairProviders ::
  "'w oracle_env \<Rightarrow> int \<Rightarrow> MsgGovRemoveCurrencyPairProviders \<Rightarrow> 'w ostate \<Rightarrow> 'w ostate \<times> unit res" where
  "GovRemoveCurrencyPairProviders E blockHeight msg s =
     (if mrp_Authority msg \<noteq> authority E then (s, Err ErrNoGovAuthority)
      else
        let p = GetParams s;
            left = fold (\<lambda>cpp l. CurrencyPairProvidersList_RemovePair l cpp) (mrp_CurrencyPairProviders msg)
              (CurrencyPairProviders p) in
        check_and_schedule E blockHeight
          \<lparr>Keys = [KeyCurrencyPairProviders], Height = mrp_Height msg, Changes = p\<lparr>CurrencyPairProviders := left\<rparr>\<rparr> s)"

definition GovRemoveCurrencyDeviationThresholds ::
  "'w oracle_env \<Rightarrow> int \<Rightarrow> MsgGovRemoveCurrencyDeviationThresholds \<Rightarrow> 'w ostate \<Rightarrow> 'w ostate \<times> unit res" where
  "GovRemoveCurrencyDeviationThresholds E blockHeight msg s =
     (if mrt_Authority msg \<noteq> authority E then (s, Err ErrNoGovAuthority)
      else
        let p = GetParams s;
            left = fold (\<lambda>currency l. CurrencyDeviationThresholdList_RemovePair l (ToUpper currency)) (mrt_Currencies msg)
              (CurrencyDeviationThresholds p) in
        check_and_schedule E blockHeight
          \<lparr>Keys = [KeyCurrencyDeviationThresholds], Height = mrt_Height msg,
           Changes = p\<lparr>CurrencyDeviationThresholds := left\<rparr>\<rparr> s)"

definition GovCancelUpdateParamPlan ::
  "'w oracle_env \<Rightarrow> MsgGovCancelUpdateParamPlan \<Rightarrow> 'w ostate \<Rightarrow> 'w ostate \<times> unit res" where
  "GovCancelUpdateParamPlan E msg s =
     (if mc_Authority msg \<noteq> authority E then (s, Err ErrNoGovAuthority)
      else ClearParamUpdatePlan (SafeInt64ToUint64 (mc_Height msg)) s)"

section \<open>All messages\<close>

datatype oracle_msg =
    PrevoteMsg MsgAggregateExchangeRatePrevote
  | VoteMsg MsgAggregateExchangeRateVote
  | DelegateMsg MsgDelegateFeedConsent
  | LegacyUpdateMsg MsgLegacyGovUpdateParams
  | GovUpdateMsg MsgGovUpdateParams
  | AddDenomsMsg MsgGovAddDenoms
  | RemoveProvidersMsg MsgGovRemoveCurrencyPairProviders
  | RemoveThresholdsMsg MsgGovRemoveCurrencyDeviationThresholds
  | CancelPlanMsg MsgGovCancelUpdateParamPlan

fun oracle_handle :: "'w oracle_env \<Rightarrow> int \<Rightarrow> oracle_msg \<Rightarrow> 'w ostate \<Rightarrow> 'w ostate \<times> unit res" where
  "oracle_handle E h (PrevoteMsg m) s = AggregateExchangeRatePrevote E h m s"
| "oracle_handle E h (VoteMsg m) s = AggregateExchangeRateVote E h m s"
| "oracle_handle E h (DelegateMsg m) s = DelegateFeedConsent E m s"
| "oracle_handle E h (LegacyUpdateMsg m) s = LegacyGovUpdateParams E m s"
| "oracle_handle E h (GovUpdateMsg m) s = GovUpdateParams E h m s"
| "oracle_handle E h (AddDenomsMsg m) s = GovAddDenoms E h m s"
| "oracle_handle E h (RemoveProvidersMsg m) s = GovRemoveCurrencyPairProviders E h m s"
| "oracle_handle E h (RemoveThresholdsMsg m) s = GovRemoveCurrencyDeviationThresholds E h m s"
| "oracle_handle E h (CancelPlanMsg m) s = GovCancelUpdateParamPlan E m s"

section \<open>Lemmas\<close>

lemma wrap_err_Ok [res_simps]: "wrap_err e r = Ok x \<longleftrightarrow> r = Ok x"
  by (cases r) (auto simp: wrap_err_def)

lemma read_st_cases:
  "read_st s r f = (s', x) \<Longrightarrow> s' = s \<or> (\<exists>y. r = Ok y \<and> f y = (s', x))"
  by (cases r) auto

lemma GetPrevote_Ok [res_simps]:
  "GetAggregateExchangeRatePrevote s a = Ok p \<longleftrightarrow> coll_get (Prevotes s) a = Some p"
  by (auto simp: GetAggregateExchangeRatePrevote_def split: option.splits)

lemma ValidateFeeder_Ok [res_simps]:
  "ValidateFeeder E s f a = Ok u \<longleftrightarrow> GetFeederDelegation E s a = Ok f"
  by (auto simp: ValidateFeeder_def res_simps split: if_splits)

text \<open>Everything an accepted prevote and an accepted vote rest on.\<close>

lemma Prevote_Ok:
  "AggregateExchangeRatePrevote E h msg s = (s', Ok ()) \<longleftrightarrow>
     (\<exists>a f hash. ValAddressFromBech32 E (mp_Validator msg) = Ok a \<and> AccAddressFromBech32 E (mp_Feeder msg) = Ok f \<and>
        GetFeederDelegation E s a = Ok f \<and> coll_get (Prevotes s) a = None \<and>
        DecodeString (mp_Hash msg) = Ok hash \<and>
        s' = s\<lparr>Prevotes := coll_set a
               \<lparr>pv_Hash = EncodeToString hash, pv_Voter = ValString E a, pv_SubmitBlock = SafeInt64ToUint64 h\<rparr> (Prevotes s)\<rparr>)"
  by (auto simp: AggregateExchangeRatePrevote_def res_simps HasAggregateExchangeRatePrevote_def
      AggregateVoteHashFromHexString_def SetAggregateExchangeRatePrevote_def
      NewAggregateExchangeRatePrevote_def AggregateVoteHash_String_def split: if_splits)

definition reveal_ok ::
  "'w oracle_env \<Rightarrow> int \<Rightarrow> MsgAggregateExchangeRateVote \<Rightarrow> 'w ostate \<Rightarrow> bytes \<Rightarrow> bytes \<Rightarrow>
    AggregateExchangeRatePrevote \<Rightarrow> DecCoins \<Rightarrow> bool" where
  "reveal_ok E h msg s a f prevote coins \<longleftrightarrow>
     ValAddressFromBech32 E (mv_Validator msg) = Ok a \<and> AccAddressFromBech32 E (mv_Feeder msg) = Ok f \<and>
     GetFeederDelegation E s a = Ok f \<and> coll_get (Prevotes s) a = Some prevote \<and>
     VotePeriod (params s) \<noteq> 0 \<and>
     SafeInt64ToUint64 h div VotePeriod (params s) - pv_SubmitBlock prevote div VotePeriod (params s) = 1 \<and>
     ParseExchangeRateDecCoins (LegacyNewDecFromStr E) (ValidateDenom E) (mv_ExchangeRates msg) = Ok coins \<and>
     pv_Hash prevote = EncodeToString
       (GetAggregateVoteHash (tmhash E) (ValString E) (mv_Salt msg) (mv_ExchangeRates msg) a)"

lemma Vote_Ok:
  "AggregateExchangeRateVote E h msg s = (s', Ok ()) \<longleftrightarrow>
     (\<exists>a f prevote coins. reveal_ok E h msg s a f prevote coins \<and>
        s' = s\<lparr>Votes := coll_set a
               \<lparr>av_ExchangeRates = filter (\<lambda>c. DenomList_Contains (AcceptList (params s)) (dc_Denom c)) coins,
                av_Voter = ValString E a\<rparr> (Votes s),
             Prevotes := coll_remove a (Prevotes s)\<rparr>)"
  by (auto simp: AggregateExchangeRateVote_def reveal_ok_def res_simps Let_def GetParams_def
      AggregateVoteHash_String_def DeleteAggregateExchangeRatePrevote_def SetAggregateExchangeRateVote_def
      NewAggregateExchangeRateVote_def split: if_splits)

text \<open>The voting handlers write only when they succeed.\<close>

lemma Prevote_writes: "AggregateExchangeRatePrevote E h msg s = (s', r) \<Longrightarrow> s' = s \<or> r = Ok ()"
  by (auto simp: AggregateExchangeRatePrevote_def dest!: read_st_cases split: if_splits)

lemma Vote_writes: "AggregateExchangeRateVote E h msg s = (s', r) \<Longrightarrow> s' = s \<or> r = Ok ()"
  by (auto simp: AggregateExchangeRateVote_def Let_def dest!: read_st_cases split: if_splits)

lemma Delegate_writes:
  "DelegateFeedConsent E msg s = (s', r) \<Longrightarrow> params s' = params s \<and> Votes s' = Votes s \<and>
     Prevotes s' = Prevotes s \<and> ParamUpdatePlans s' = ParamUpdatePlans s"
  by (auto simp: DelegateFeedConsent_def SetFeederDelegation_def dest!: read_st_cases split: option.splits)

text \<open>The handlers that schedule or cancel write the plans only.\<close>

definition only_plans :: "'w ostate \<Rightarrow> 'w ostate \<Rightarrow> bool" where
  "only_plans s s' \<longleftrightarrow> s'\<lparr>ParamUpdatePlans := []\<rparr> = s\<lparr>ParamUpdatePlans := []\<rparr>"

lemma Schedule_only_plans: "ScheduleParamUpdatePlan E h plan s = (s', r) \<Longrightarrow> only_plans s s'"
  by (auto simp: ScheduleParamUpdatePlan_def only_plans_def dest!: read_st_cases split: if_splits prod.splits)

lemma check_and_schedule_only_plans: "check_and_schedule E h plan s = (s', r) \<Longrightarrow> only_plans s s'"
  by (auto simp: check_and_schedule_def dest!: read_st_cases Schedule_only_plans) (simp add: only_plans_def)

lemma Clear_only_plans: "ClearParamUpdatePlan h s = (s', r) \<Longrightarrow> only_plans s s'"
  by (auto simp: ClearParamUpdatePlan_def only_plans_def split: if_splits)

lemma only_plans_refl [simp]: "only_plans s s"
  by (simp add: only_plans_def)

lemma GovUpdateParams_only_plans: "GovUpdateParams E h m s = (s', r) \<Longrightarrow> only_plans s s'"
  by (auto simp: GovUpdateParams_def dest!: Schedule_only_plans split: if_splits)

lemma GovAddDenoms_only_plans: "GovAddDenoms E h m s = (s', r) \<Longrightarrow> only_plans s s'"
  by (auto simp: GovAddDenoms_def Let_def dest!: read_st_cases check_and_schedule_only_plans split: if_splits)

lemma GovRemoveProviders_only_plans:
  "GovRemoveCurrencyPairProviders E h m s = (s', r) \<Longrightarrow> only_plans s s'"
  by (auto simp: GovRemoveCurrencyPairProviders_def Let_def dest!: check_and_schedule_only_plans split: if_splits)

lemma GovRemoveThresholds_only_plans:
  "GovRemoveCurrencyDeviationThresholds E h m s = (s', r) \<Longrightarrow> only_plans s s'"
  by (auto simp: GovRemoveCurrencyDeviationThresholds_def Let_def dest!: check_and_schedule_only_plans
      split: if_splits)

lemma GovCancel_only_plans: "GovCancelUpdateParamPlan E m s = (s', r) \<Longrightarrow> only_plans s s'"
  by (auto simp: GovCancelUpdateParamPlan_def dest!: Clear_only_plans split: if_splits)

lemmas gov_only_plans = GovUpdateParams_only_plans GovAddDenoms_only_plans GovRemoveProviders_only_plans
  GovRemoveThresholds_only_plans GovCancel_only_plans

lemma only_plans_fields:
  "only_plans s s' \<Longrightarrow> params s' = params s \<and> Votes s' = Votes s \<and> Prevotes s' = Prevotes s"
  unfolding only_plans_def by (metis ostate.select_convs(1,4,5) ostate.surjective ostate.update_convs(13))

text \<open>The legacy handler writes the parameters only.\<close>

lemma legacy_update_only_params:
  "legacy_update E c key s = (s', r) \<Longrightarrow> s'\<lparr>params := p\<rparr> = s\<lparr>params := p\<rparr>"
  unfolding legacy_update_def param_writes Let_def
  by (auto dest!: read_st_cases split: if_splits)

lemma legacy_loop_only_params:
  "legacy_loop E c keys s = (s', r) \<Longrightarrow> s'\<lparr>params := p\<rparr> = s\<lparr>params := p\<rparr>"
proof (induction keys arbitrary: s)
  case (Cons key keys)
  obtain s1 r1 where step: "legacy_update E c key s = (s1, r1)" by fastforce
  with Cons show ?case
    using legacy_update_only_params [OF step, of p] by (cases r1) auto
qed simp

lemma legacy_loop_votes:
  assumes "legacy_loop E c keys s = (s', r)"
  shows "Votes s' = Votes s \<and> Prevotes s' = Prevotes s \<and> ParamUpdatePlans s' = ParamUpdatePlans s"
  using legacy_loop_only_params [OF assms, of "params s"]
  by (metis ostate.select_convs(4,5,13) ostate.surjective ostate.update_convs(1))

lemma gov_rejects:
  "mu_Authority m1 \<noteq> authority E \<Longrightarrow> GovUpdateParams E h m1 s = (s, Err ErrNoGovAuthority)"
  "ma_Authority m2 \<noteq> authority E \<Longrightarrow> GovAddDenoms E h m2 s = (s, Err ErrNoGovAuthority)"
  "mrp_Authority m3 \<noteq> authority E \<Longrightarrow> GovRemoveCurrencyPairProviders E h m3 s = (s, Err ErrNoGovAuthority)"
  "mrt_Authority m4 \<noteq> authority E \<Longrightarrow>
     GovRemoveCurrencyDeviationThresholds E h m4 s = (s, Err ErrNoGovAuthority)"
  "mc_Authority m5 \<noteq> authority E \<Longrightarrow> GovCancelUpdateParamPlan E m5 s = (s, Err ErrNoGovAuthority)"
  by (simp_all add: GovUpdateParams_def GovAddDenoms_def GovRemoveCurrencyPairProviders_def
      GovRemoveCurrencyDeviationThresholds_def GovCancelUpdateParamPlan_def)

subsection \<open>A concrete exchange of messages\<close>

definition idle_state :: "ref_world ostate" where
  "idle_state = ref_state\<lparr>Prevotes := [], Votes := []\<rparr>"

definition sample_reveal :: MsgAggregateExchangeRateVote where
  "sample_reveal = \<lparr>mv_Salt = ''00'', mv_ExchangeRates = ''dm:111,eth:1'', mv_Feeder = ''feeder2'', mv_Validator = ''val2''\<rparr>"

definition sample_commit :: MsgAggregateExchangeRatePrevote where
  "sample_commit = \<lparr>mp_Hash = AggregateVoteHash_String
       (GetAggregateVoteHash (tmhash ref_env) (ValString ref_env) ''00'' ''dm:111,eth:1'' ''val2''),
     mp_Feeder = ''feeder2'', mp_Validator = ''val2''\<rparr>"

definition committed_state :: "ref_world ostate" where
  "committed_state = fst (AggregateExchangeRatePrevote ref_env 12 sample_commit idle_state)"

lemma sample_feeder: "GetFeederDelegation ref_env s ''val2'' = Ok ''feeder2''"
  if "world s = world ref_state" "FeederDelegations s = FeederDelegations ref_state"
  using that by (simp add: GetFeederDelegation_def ref_env_def ref_state_def ref_validator_def coll_get_def)

lemma ref_env_codecs [simp]:
  "a \<noteq> [] \<Longrightarrow> ValAddressFromBech32 ref_env a = Ok a" "a \<noteq> [] \<Longrightarrow> AccAddressFromBech32 ref_env a = Ok a"
  "ValString ref_env a = a" "authority ref_env = ''gov''"
  by (simp_all add: ref_env_def)

lemma sample_committed:
  "AggregateExchangeRatePrevote ref_env 12 sample_commit idle_state = (committed_state, Ok ())"
proof -
  have "snd (AggregateExchangeRatePrevote ref_env 12 sample_commit idle_state) = Ok ()"
    using sample_feeder [of idle_state]
    by (simp add: AggregateExchangeRatePrevote_def sample_commit_def idle_state_def ValidateFeeder_def
        HasAggregateExchangeRatePrevote_def AggregateVoteHashFromHexString_def AggregateVoteHash_String_def wrap_err_def)
  then show ?thesis by (metis committed_state_def prod.collapse)
qed

lemma committed_state_eq:
  "committed_state = idle_state\<lparr>Prevotes := [(''val2'', \<lparr>pv_Hash = EncodeToString
       (GetAggregateVoteHash (tmhash ref_env) (ValString ref_env) ''00'' ''dm:111,eth:1'' ''val2''),
     pv_Voter = ''val2'', pv_SubmitBlock = SafeInt64ToUint64 12\<rparr>)]\<rparr>"
  using sample_committed by (auto simp: Prevote_Ok sample_commit_def AggregateVoteHash_String_def idle_state_def)

lemma committed_fields:
  "params committed_state = DefaultParams" "world committed_state = world ref_state"
  "FeederDelegations committed_state = FeederDelegations ref_state"
  unfolding committed_state_eq by (simp_all add: idle_state_def ref_state_def)

lemma sample_rates:
  "ParseExchangeRateDecCoins (LegacyNewDecFromStr ref_env) (ValidateDenom ref_env) (mv_ExchangeRates sample_reveal) =
     Ok [\<lparr>dc_Denom = ''DM'', dc_Amount = 3\<rparr>, \<lparr>dc_Denom = ''ETH'', dc_Amount = 1\<rparr>]"
proof -
  have "ParseExchangeRateDecCoins tally_dec (\<lambda>d. d \<noteq> []) ''dm:111,eth:1'' =
     Ok [\<lparr>dc_Denom = ''DM'', dc_Amount = 3\<rparr>, \<lparr>dc_Denom = ''ETH'', dc_Amount = 1\<rparr>]"
    by code_simp
  then show ?thesis by (simp add: ref_env_def sample_reveal_def)
qed

lemma sample_period:
  "VotePeriod (params committed_state) \<noteq> 0"
  "SafeInt64ToUint64 22 div VotePeriod (params committed_state) =
     SafeInt64ToUint64 12 div VotePeriod (params committed_state) + 1"
  by (simp_all add: committed_fields DefaultParams_def SafeInt64ToUint64_def)

lemma sample_revealed:
  "\<exists>s1. AggregateExchangeRateVote ref_env 22 sample_reveal committed_state = (s1, Ok ())"
proof -
  let ?hash = "GetAggregateVoteHash (tmhash ref_env) (ValString ref_env) ''00'' ''dm:111,eth:1'' ''val2''"
  have "coll_get (Prevotes committed_state) ''val2'' =
      Some \<lparr>pv_Hash = EncodeToString ?hash, pv_Voter = ''val2'', pv_SubmitBlock = SafeInt64ToUint64 12\<rparr>"
    by (simp add: committed_state_eq coll_get_def)
  then have "reveal_ok ref_env 22 sample_reveal committed_state ''val2'' ''feeder2''
      \<lparr>pv_Hash = EncodeToString ?hash, pv_Voter = ''val2'', pv_SubmitBlock = SafeInt64ToUint64 12\<rparr>
      [\<lparr>dc_Denom = ''DM'', dc_Amount = 3\<rparr>, \<lparr>dc_Denom = ''ETH'', dc_Amount = 1\<rparr>]"
    using sample_period sample_rates
    by (simp add: reveal_ok_def sample_feeder committed_fields sample_reveal_def)
  then show ?thesis unfolding Vote_Ok by blast
qed

lemmas sample_msgs = sample_commit_def sample_reveal_def AggregateVoteHash_String_def

text \<open>The handlers of plans write no parameter, and nothing at all for a foreign authority.\<close>

lemma gov_writes:
  "GovUpdateParams E h m1 s = (s', r) \<Longrightarrow> params s' = params s \<and> (mu_Authority m1 \<noteq> authority E \<longrightarrow> s' = s)"
  "GovAddDenoms E h m2 s = (s', r) \<Longrightarrow> params s' = params s \<and> (ma_Authority m2 \<noteq> authority E \<longrightarrow> s' = s)"
  "GovRemoveCurrencyPairProviders E h m3 s = (s', r) \<Longrightarrow> params s' = params s \<and> (mrp_Authority m3 \<noteq> authority E \<longrightarrow> s' = s)"
  "GovRemoveCurrencyDeviationThresholds E h m4 s = (s', r) \<Longrightarrow>
     params s' = params s \<and> (mrt_Authority m4 \<noteq> authority E \<longrightarrow> s' = s)"
  "GovCancelUpdateParamPlan E m5 s = (s', r) \<Longrightarrow> params s' = params s \<and> (mc_Authority m5 \<noteq> authority E \<longrightarrow> s' = s)"
  by (auto simp: gov_rejects dest: gov_only_plans [THEN only_plans_fields])

section \<open>Properties\<close>

text \<open>
  C2. A revealed vote is accepted exactly when the feeder is the one the bonded validator
  delegated to, the validator has a prevote from the previous vote period, the rates
  parse, and the hash of the salt, the rates and the validator is the one committed to.
  An accepted reveal stores the rates of accepted denoms as the validator's vote and
  removes the prevote.
\<close>

theorem reveal_accepted_iff:
  "AggregateExchangeRateVote E h msg s = (s', Ok ()) \<longleftrightarrow>
     (\<exists>a f prevote coins. reveal_ok E h msg s a f prevote coins \<and>
        s' = s\<lparr>Votes := coll_set a
               \<lparr>av_ExchangeRates = filter (\<lambda>c. DenomList_Contains (AcceptList (params s)) (dc_Denom c)) coins,
                av_Voter = ValString E a\<rparr> (Votes s),
             Prevotes := coll_remove a (Prevotes s)\<rparr>)"
  by (rule Vote_Ok)

text \<open>
  C4. Commit and reveal: a feeder that had a prevote accepted with the hash of its salt and
  rates gets the reveal of that salt and those rates accepted in the next vote period, if
  the rates parse, the delegation still stands and the prevote is still stored.
\<close>

theorem commit_then_reveal_accepted:
  assumes "AggregateExchangeRatePrevote E h pre s0 = (s1, Ok ())"
    and "mp_Hash pre = AggregateVoteHash_String
           (GetAggregateVoteHash (tmhash E) (ValString E) (mv_Salt msg) (mv_ExchangeRates msg) a)"
    and "ValAddressFromBech32 E (mp_Validator pre) = Ok a"
    and "mv_Validator msg = mp_Validator pre" and "mv_Feeder msg = mp_Feeder pre"
    and "coll_get (Prevotes s) a = coll_get (Prevotes s1) a"
    and "GetFeederDelegation E s a = GetFeederDelegation E s0 a"
    and "VotePeriod (params s) \<noteq> 0"
    and "SafeInt64ToUint64 h' div VotePeriod (params s) = SafeInt64ToUint64 h div VotePeriod (params s) + 1"
    and "ParseExchangeRateDecCoins (LegacyNewDecFromStr E) (ValidateDenom E) (mv_ExchangeRates msg) = Ok coins"
  shows "\<exists>s'. AggregateExchangeRateVote E h' msg s = (s', Ok ()) \<and>
     coll_get (Votes s') a = Some \<lparr>av_ExchangeRates =
        filter (\<lambda>c. DenomList_Contains (AcceptList (params s)) (dc_Denom c)) coins, av_Voter = ValString E a\<rparr> \<and>
     coll_get (Prevotes s') a = None"
proof -
  let ?hash = "GetAggregateVoteHash (tmhash E) (ValString E) (mv_Salt msg) (mv_ExchangeRates msg) a"
  let ?prevote = "\<lparr>pv_Hash = EncodeToString ?hash, pv_Voter = ValString E a, pv_SubmitBlock = SafeInt64ToUint64 h\<rparr>"
  let ?s' = "s\<lparr>Votes := coll_set a
               \<lparr>av_ExchangeRates = filter (\<lambda>c. DenomList_Contains (AcceptList (params s)) (dc_Denom c)) coins,
                av_Voter = ValString E a\<rparr> (Votes s),
             Prevotes := coll_remove a (Prevotes s)\<rparr>"
  obtain f where f: "AccAddressFromBech32 E (mp_Feeder pre) = Ok f" "GetFeederDelegation E s0 a = Ok f"
    and s1: "s1 = s0\<lparr>Prevotes := coll_set a ?prevote (Prevotes s0)\<rparr>"
    using assms(1,2,3) by (auto simp: Prevote_Ok AggregateVoteHash_String_def)
  have "reveal_ok E h' msg s a f ?prevote coins"
    using assms f by (simp add: reveal_ok_def s1)
  then have "AggregateExchangeRateVote E h' msg s = (?s', Ok ())"
    unfolding Vote_Ok by blast
  then show ?thesis by (intro exI [of _ ?s']) simp
qed

theorem commit_then_reveal_accepted_witness:
  "\<exists>s'. AggregateExchangeRateVote ref_env 22 sample_reveal committed_state = (s', Ok ()) \<and>
     coll_get (Votes s') ''val2'' = Some \<lparr>av_ExchangeRates =
        filter (\<lambda>c. DenomList_Contains (AcceptList (params committed_state)) (dc_Denom c))
          [\<lparr>dc_Denom = ''DM'', dc_Amount = 3\<rparr>, \<lparr>dc_Denom = ''ETH'', dc_Amount = 1\<rparr>],
        av_Voter = ValString ref_env ''val2''\<rparr> \<and>
     coll_get (Prevotes s') ''val2'' = None"
  by (rule commit_then_reveal_accepted [OF sample_committed _ _ _ _ refl _ sample_period sample_rates])
    (simp_all add: sample_msgs sample_feeder committed_fields idle_state_def)



text \<open>
  C18. Only the feeder a bonded validator delegated to (the validator itself by default) can
  change the validator's prevote or vote by a message, whatever the outcome of the message.
\<close>

theorem votes_changed_by_feeder_only:
  assumes "oracle_handle E h m s = (s', r)"
    and "coll_get (Votes s') a \<noteq> coll_get (Votes s) a \<or> coll_get (Prevotes s') a \<noteq> coll_get (Prevotes s) a"
  shows "\<exists>f. GetFeederDelegation E s a = Ok f \<and>
     ((\<exists>msg. m = VoteMsg msg \<and> AccAddressFromBech32 E (mv_Feeder msg) = Ok f \<and>
         ValAddressFromBech32 E (mv_Validator msg) = Ok a) \<or>
      (\<exists>msg. m = PrevoteMsg msg \<and> AccAddressFromBech32 E (mp_Feeder msg) = Ok f \<and>
         ValAddressFromBech32 E (mp_Validator msg) = Ok a))"
proof (cases m)
  case (PrevoteMsg msg)
  with assms Prevote_writes [of E h msg s s' r] have "AggregateExchangeRatePrevote E h msg s = (s', Ok ())"
    by auto
  then show ?thesis
    using assms(2) PrevoteMsg by (auto simp: Prevote_Ok split: if_splits)
next
  case (VoteMsg msg)
  with assms Vote_writes [of E h msg s s' r] have "AggregateExchangeRateVote E h msg s = (s', Ok ())"
    by auto
  then show ?thesis
    using assms(2) VoteMsg by (auto simp: Vote_Ok reveal_ok_def split: if_splits)
next
  case (LegacyUpdateMsg msg)
  then show ?thesis
    using assms by (auto simp: LegacyGovUpdateParams_def dest!: legacy_loop_votes split: if_splits)
qed (use assms in \<open>auto dest!: Delegate_writes gov_only_plans [THEN only_plans_fields] split: if_splits\<close>)

theorem votes_changed_by_feeder_only_witness:
  "\<exists>f. GetFeederDelegation ref_env idle_state ''val2'' = Ok f \<and> f = ''feeder2''"
proof -
  have "oracle_handle ref_env 12 (PrevoteMsg sample_commit) idle_state = (committed_state, Ok ())"
    by (simp add: sample_committed)
  moreover have "coll_get (Prevotes committed_state) ''val2'' \<noteq> coll_get (Prevotes idle_state) ''val2''"
    by (simp add: committed_state_eq idle_state_def coll_get_def)
  ultimately show ?thesis
    using votes_changed_by_feeder_only [of ref_env 12 "PrevoteMsg sample_commit" idle_state committed_state "Ok ()" "''val2''"]
    by (auto simp: sample_commit_def)
qed

text \<open>
  C19. The parameters change by a message only if the message is a legacy update signed by
  the governance authority; a governance message from anyone else is rejected without a
  change.
\<close>

theorem params_changed_by_authority_only:
  assumes "oracle_handle E h m s = (s', r)"
  shows "(params s' \<noteq> params s \<longrightarrow> (\<exists>msg. m = LegacyUpdateMsg msg \<and> ml_Authority msg = authority E)) \<and>
     (ParamUpdatePlans s' \<noteq> ParamUpdatePlans s \<longrightarrow>
        (\<exists>msg. m = GovUpdateMsg msg \<and> mu_Authority msg = authority E) \<or>
        (\<exists>msg. m = AddDenomsMsg msg \<and> ma_Authority msg = authority E) \<or>
        (\<exists>msg. m = RemoveProvidersMsg msg \<and> mrp_Authority msg = authority E) \<or>
        (\<exists>msg. m = RemoveThresholdsMsg msg \<and> mrt_Authority msg = authority E) \<or>
        (\<exists>msg. m = CancelPlanMsg msg \<and> mc_Authority msg = authority E))"
proof (cases m)
  case (PrevoteMsg msg)
  then show ?thesis
    using assms Prevote_writes [of E h msg s s' r] by (auto simp: Prevote_Ok)
next
  case (VoteMsg msg)
  then show ?thesis
    using assms Vote_writes [of E h msg s s' r] by (auto simp: Vote_Ok)
next
  case (DelegateMsg msg)
  then show ?thesis using assms by (auto dest!: Delegate_writes)
next
  case (LegacyUpdateMsg msg)
  then show ?thesis
    using assms by (auto simp: LegacyGovUpdateParams_def dest!: legacy_loop_votes split: if_splits)
qed (use assms in \<open>auto dest: gov_writes\<close>)

theorem params_changed_by_authority_only_witness:
  "\<exists>msg. LegacyUpdateMsg \<lparr>ml_Authority = ''gov'', ml_Title = ''t'', ml_Description = ''d'', ml_Keys = [KeyVotePeriod],
      ml_Changes = DefaultParams\<lparr>VotePeriod := 7\<rparr>\<rparr> = LegacyUpdateMsg msg \<and> ml_Authority msg = authority ref_env"
proof -
  let ?m = "LegacyUpdateMsg \<lparr>ml_Authority = ''gov'', ml_Title = ''t'', ml_Description = ''d'', ml_Keys = [KeyVotePeriod],
      ml_Changes = DefaultParams\<lparr>VotePeriod := 7\<rparr>\<rparr>"
  have "oracle_handle ref_env 12 ?m idle_state = (SetVotePeriod 7 idle_state, Ok ())"
    by (simp add: LegacyGovUpdateParams_def legacy_update_def)
  moreover have "params (SetVotePeriod 7 idle_state) \<noteq> params idle_state"
  proof
    assume "params (SetVotePeriod 7 idle_state) = params idle_state"
    then have "VotePeriod (params (SetVotePeriod 7 idle_state)) = VotePeriod (params idle_state)" by simp
    then show False by (simp add: SetVotePeriod_def idle_state_def ref_state_def DefaultParams_def)
  qed
  ultimately show ?thesis
    using params_changed_by_authority_only [of ref_env 12 ?m idle_state "SetVotePeriod 7 idle_state" "Ok ()"] by blast
qed

end
