(* ===== verification/Oracle_Genesis.thy ===== *)
theory Oracle_Genesis
  imports Oracle_Abci Oracle_Msg_Server
begin

text \<open>
  Genesis of the oracle (\<open>src/x/oracle/genesis.go\<close>, \<open>src/x/oracle/types/genesis.go\<close>, the types of
  \<open>genesis.pb.go\<close>): a chain starts from a genesis document and can be exported to one. A
  price stamp of the document holds a pointer to its coin, here an option. The decoding of
  the document (\<open>GetGenesisStateFromAppState\<close>) is the JSON codec's.
\<close>

section \<open>The document\<close>

record FeederDelegation =
  fd_FeederAddress :: string
  fd_ValidatorAddress :: string

record MissCounter =
  mi_ValidatorAddress :: string
  mi_MissCounter :: uint64

record GenesisStamp =
  gp_ExchangeRate :: "DecCoin option"
  gp_BlockNum :: uint64

record GenesisState =
  gs_Params :: Params
  gs_FeederDelegations :: "FeederDelegation list"
  gs_ExchangeRates :: DecCoins
  gs_MissCounters :: "MissCounter list"
  gs_AggregateExchangeRatePrevotes :: "AggregateExchangeRatePrevote list"
  gs_AggregateExchangeRateVotes :: "AggregateExchangeRateVote list"
  gs_Medians :: "GenesisStamp list"
  gs_HistoricPrices :: "GenesisStamp list"
  gs_MedianDeviations :: "GenesisStamp list"

definition NewGenesisState ::
  "Params \<Rightarrow> DecCoins \<Rightarrow> FeederDelegation list \<Rightarrow> MissCounter list \<Rightarrow> AggregateExchangeRatePrevote list \<Rightarrow>
    AggregateExchangeRateVote list \<Rightarrow> GenesisStamp list \<Rightarrow> GenesisStamp list \<Rightarrow> GenesisStamp list \<Rightarrow> GenesisState" where
  "NewGenesisState p rates feederDelegations missCounters aggregateExchangeRatePrevotes aggregateExchangeRateVotes
      historic medianPrices medianDeviationPrices =
     \<lparr>gs_Params = p, gs_FeederDelegations = feederDelegations, gs_ExchangeRates = rates, gs_MissCounters = missCounters,
      gs_AggregateExchangeRatePrevotes = aggregateExchangeRatePrevotes,
      gs_AggregateExchangeRateVotes = aggregateExchangeRateVotes, gs_Medians = medianPrices,
      gs_HistoricPrices = historic, gs_MedianDeviations = medianDeviationPrices\<rparr>"

definition DefaultGenesisState :: GenesisState where
  "DefaultGenesisState =
     \<lparr>gs_Params = DefaultParams, gs_FeederDelegations = [], gs_ExchangeRates = [], gs_MissCounters = [],
      gs_AggregateExchangeRatePrevotes = [], gs_AggregateExchangeRateVotes = [], gs_Medians = [],
      gs_HistoricPrices = [], gs_MedianDeviations = []\<rparr>"

definition ValidateGenesis :: "'w oracle_env \<Rightarrow> GenesisState \<Rightarrow> unit res" where
  "ValidateGenesis E data = Params_Validate (Y E) (gs_Params data)"

section \<open>InitGenesis\<close>

text \<open>\<open>if err != nil { panic(err) }\<close>, and a loop whose body writes the store.\<close>

fun or_panic :: "'a res \<Rightarrow> 'a res" where
  "or_panic (Ok x) = Ok x"
| "or_panic _ = Panic"

fun each_st :: "('a \<Rightarrow> 's \<Rightarrow> 's \<times> unit res) \<Rightarrow> 'a list \<Rightarrow> 's \<Rightarrow> 's \<times> unit res" where
  "each_st f [] s = (s, Ok ())"
| "each_st f (x # xs) s = then_st (f x s) (\<lambda>s _. each_st f xs s)"

definition init_feeder :: "'w oracle_env \<Rightarrow> FeederDelegation \<Rightarrow> 'w ostate \<Rightarrow> 'w ostate \<times> unit res" where
  "init_feeder E d s =
     read_st s (or_panic (ValAddressFromBech32 E (fd_ValidatorAddress d))) (\<lambda>voter.
     read_st s (or_panic (AccAddressFromBech32 E (fd_FeederAddress d))) (\<lambda>feeder.
       (SetFeederDelegation voter feeder s, Ok ())))"

definition init_rate :: "DecCoin \<Rightarrow> 'w ostate \<Rightarrow> 'w ostate \<times> unit res" where
  "init_rate ex s = (SetExchangeRate (dc_Denom ex) (dc_Amount ex) s, Ok ())"

definition init_miss_counter :: "'w oracle_env \<Rightarrow> MissCounter \<Rightarrow> 'w ostate \<Rightarrow> 'w ostate \<times> unit res" where
  "init_miss_counter E mc s =
     read_st s (or_panic (ValAddressFromBech32 E (mi_ValidatorAddress mc))) (\<lambda>operator.
       (SetMissCounter operator (mi_MissCounter mc) s, Ok ()))"

definition init_prevote :: "'w oracle_env \<Rightarrow> AggregateExchangeRatePrevote \<Rightarrow> 'w ostate \<Rightarrow> 'w ostate \<times> unit res" where
  "init_prevote E ap s =
     read_st s (or_panic (ValAddressFromBech32 E (pv_Voter ap))) (\<lambda>valAddr.
       (SetAggregateExchangeRatePrevote valAddr ap s, Ok ()))"

definition init_vote :: "'w oracle_env \<Rightarrow> AggregateExchangeRateVote \<Rightarrow> 'w ostate \<Rightarrow> 'w ostate \<times> unit res" where
  "init_vote E av s =
     read_st s (or_panic (ValAddressFromBech32 E (av_Voter av))) (\<lambda>valAddr.
       (SetAggregateExchangeRateVote valAddr av s, Ok ()))"

definition init_historic_price :: "GenesisStamp \<Rightarrow> 'w ostate \<Rightarrow> 'w ostate \<times> unit res" where
  "init_historic_price hp s = read_st s (must (gp_ExchangeRate hp)) (\<lambda>coin.
     (SetHistoricPrice (dc_Denom coin) (gp_BlockNum hp) (dc_Amount coin) s, Ok ()))"

definition init_median :: "GenesisStamp \<Rightarrow> 'w ostate \<Rightarrow> 'w ostate \<times> unit res" where
  "init_median median s = read_st s (must (gp_ExchangeRate median)) (\<lambda>coin.
     (SetHistoricMedian (dc_Denom coin) (gp_BlockNum median) (dc_Amount coin) s, Ok ()))"

definition init_median_deviation :: "GenesisStamp \<Rightarrow> 'w ostate \<Rightarrow> 'w ostate \<times> unit res" where
  "init_median_deviation medianDeviation s = read_st s (must (gp_ExchangeRate medianDeviation)) (\<lambda>coin.
     (SetHistoricMedianDeviation (dc_Denom coin) (gp_BlockNum medianDeviation) (dc_Amount coin) s, Ok ()))"

definition InitGenesis :: "'w oracle_env \<Rightarrow> GenesisState \<Rightarrow> 'w ostate \<Rightarrow> 'w ostate \<times> unit res" where
  "InitGenesis E genState s =
     then_st (each_st (init_feeder E) (gs_FeederDelegations genState) s) (\<lambda>s _.
     then_st (each_st init_rate (gs_ExchangeRates genState) s) (\<lambda>s _.
     then_st (each_st (init_miss_counter E) (gs_MissCounters genState) s) (\<lambda>s _.
     then_st (each_st (init_prevote E) (gs_AggregateExchangeRatePrevotes genState) s) (\<lambda>s _.
     then_st (each_st (init_vote E) (gs_AggregateExchangeRateVotes genState) s) (\<lambda>s _.
     then_st (each_st init_historic_price (gs_HistoricPrices genState) s) (\<lambda>s _.
     then_st (each_st init_median (gs_Medians genState) s) (\<lambda>s _.
     then_st (each_st init_median_deviation (gs_MedianDeviations genState) s) (\<lambda>s _.
     then_st (SetParams E (gs_Params genState) s) (\<lambda>s _.
       if GetOracleAccount E s = None then (s, Panic) else (s, Ok ()))))))))))"

section \<open>ExportGenesis\<close>

definition genesis_stamp :: "PriceStamp \<Rightarrow> GenesisStamp" where
  "genesis_stamp p = \<lparr>gp_ExchangeRate = Some (ps_ExchangeRate p), gp_BlockNum = ps_BlockNum p\<rparr>"

definition ExportGenesis :: "'w oracle_env \<Rightarrow> 'w ostate \<Rightarrow> GenesisState" where
  "ExportGenesis E s =
     (let feederDelegations = IterateFeederDelegations s (\<lambda>valAddr feederAddr l.
            (l @ [\<lparr>fd_FeederAddress = AccString E feederAddr, fd_ValidatorAddress = ValString E valAddr\<rparr>], False)) [];
          exchangeRates = IterateExchangeRates s (\<lambda>denom rate l.
            (l @ [\<lparr>dc_Denom = denom, dc_Amount = rate\<rparr>], False)) [];
          missCounters = IterateMissCounters s (\<lambda>operator missCounter l.
            (l @ [\<lparr>mi_ValidatorAddress = ValString E operator, mi_MissCounter = missCounter\<rparr>], False)) [];
          aggregateExchangeRatePrevotes = IterateAggregateExchangeRatePrevotes s (\<lambda>_ aggregatePrevote l.
            (l @ [aggregatePrevote], False)) [];
          aggregateExchangeRateVotes = IterateAggregateExchangeRateVotes s (\<lambda>_ aggregateVote l.
            (l @ [aggregateVote], False)) [];
          historicPrices = IterateAllHistoricPrices s (\<lambda>historicPrice l. (l @ [genesis_stamp historicPrice], False)) [];
          medianPrices = IterateAllMedianPrices s (\<lambda>medianPrice l. (l @ [genesis_stamp medianPrice], False)) [];
          medianDeviationPrices = IterateAllMedianDeviationPrices s
            (\<lambda>medianDeviationPrice l. (l @ [genesis_stamp medianDeviationPrice], False)) [] in
      NewGenesisState (GetParams s) exchangeRates feederDelegations missCounters aggregateExchangeRatePrevotes
        aggregateExchangeRateVotes historicPrices medianPrices medianDeviationPrices)"

section \<open>Lemmas\<close>

lemma each_st_map:
  assumes "\<And>e s. e \<in> set es \<Longrightarrow> f (g e) s = (upd e s, Ok ())"
  shows "each_st f (map g es) s = (fold upd es s, Ok ())"
  using assms by (induction es arbitrary: s) auto

lemma coll_rebuild:
  assumes "coll_wf es"
  shows "fold (\<lambda>e. coll_set (fst e) (snd e)) es [] = es"
proof (rule coll_ext)
  show "coll_wf (fold (\<lambda>e. coll_set (fst e) (snd e)) es [])"
    using coll.wf_fold_put [of "[]" es] by (simp add: case_prod_unfold)
  have "map_of (rev es) = map_of es"
    using coll_wf_distinct [OF assms] by (subst map_of_inject_set) (simp_all add: rev_map [symmetric])
  then show "coll_get (fold (\<lambda>e. coll_set (fst e) (snd e)) es []) k = coll_get es k" for k
    using coll.get_fold_put [of es "[]" k] by (simp add: case_prod_unfold coll_get_def split: option.splits)
qed (rule assms)

text \<open>A store is a field of the keeper's state: a loop that writes one store entry by entry
  is one write of that field.\<close>

locale store_field =
  fixes get :: "'s \<Rightarrow> 'f" and put :: "'f \<Rightarrow> 's \<Rightarrow> 's"
  assumes get_put: "get (put x s) = x"
    and put_put: "put x (put y s) = put x s"
    and put_get: "put (get s) s = s"
begin

lemma fold_put: "fold (\<lambda>e s. put (F e (get s)) s) es s = put (fold F es (get s)) s"
  by (induction es arbitrary: s) (simp_all add: get_put put_put put_get)

lemma each_put:
  assumes "\<And>e s. e \<in> set es \<Longrightarrow> f (g e) s = (put (F e (get s)) s, Ok ())"
  shows "each_st f (map g es) s = (put (fold F es (get s)) s, Ok ())"
  unfolding fold_put [symmetric] by (rule each_st_map) (rule assms)

end

interpretation f_FeederDelegations: store_field "FeederDelegations :: 'w ostate \<Rightarrow> _" "\<lambda>x s. s\<lparr>FeederDelegations := x\<rparr>"
  by unfold_locales simp_all
interpretation f_ExchangeRates: store_field "ExchangeRates :: 'w ostate \<Rightarrow> _" "\<lambda>x s. s\<lparr>ExchangeRates := x\<rparr>"
  by unfold_locales simp_all
interpretation f_MissCounters: store_field "MissCounters :: 'w ostate \<Rightarrow> _" "\<lambda>x s. s\<lparr>MissCounters := x\<rparr>"
  by unfold_locales simp_all
interpretation f_Prevotes: store_field "Prevotes :: 'w ostate \<Rightarrow> _" "\<lambda>x s. s\<lparr>Prevotes := x\<rparr>"
  by unfold_locales simp_all
interpretation f_Votes: store_field "Votes :: 'w ostate \<Rightarrow> _" "\<lambda>x s. s\<lparr>Votes := x\<rparr>"
  by unfold_locales simp_all
interpretation f_MedianPrices: store_field "MedianPrices :: 'w ostate \<Rightarrow> _" "\<lambda>x s. s\<lparr>MedianPrices := x\<rparr>"
  by unfold_locales simp_all
interpretation f_MedianDeviations: store_field "MedianDeviations :: 'w ostate \<Rightarrow> _" "\<lambda>x s. s\<lparr>MedianDeviations := x\<rparr>"
  by unfold_locales simp_all
interpretation f_HistoricPrices: store_field "\<lambda>s :: 'w ostate. (HistoricPrices s, LastHistoricPriceBlock s)"
  "\<lambda>x s. s\<lparr>HistoricPrices := fst x, LastHistoricPriceBlock := snd x\<rparr>"
  by unfold_locales simp_all

text \<open>What an exported document holds, as maps over the stores.\<close>

definition stamp_entry :: "(string \<times> uint64) \<times> dec \<Rightarrow> GenesisStamp" where
  "stamp_entry e = \<lparr>gp_ExchangeRate = Some \<lparr>dc_Denom = fst (fst e), dc_Amount = snd e\<rparr>, gp_BlockNum = snd (fst e)\<rparr>"

lemma ExportGenesis_maps:
  "ExportGenesis E s =
     \<lparr>gs_Params = params s,
      gs_FeederDelegations = map (\<lambda>e. \<lparr>fd_FeederAddress = AccString E (snd e), fd_ValidatorAddress = ValString E (fst e)\<rparr>)
        (FeederDelegations s),
      gs_ExchangeRates = map (\<lambda>e. \<lparr>dc_Denom = fst e, dc_Amount = snd e\<rparr>) (ExchangeRates s),
      gs_MissCounters = map (\<lambda>e. \<lparr>mi_ValidatorAddress = ValString E (fst e), mi_MissCounter = snd e\<rparr>) (MissCounters s),
      gs_AggregateExchangeRatePrevotes = map snd (Prevotes s), gs_AggregateExchangeRateVotes = map snd (Votes s),
      gs_Medians = map stamp_entry (MedianPrices s), gs_HistoricPrices = map stamp_entry (HistoricPrices s),
      gs_MedianDeviations = map stamp_entry (MedianDeviations s)\<rparr>"
  unfolding ExportGenesis_def Let_def IterateFeederDelegations_def IterateExchangeRates_def IterateMissCounters_def
    IterateAggregateExchangeRatePrevotes_def IterateAggregateExchangeRateVotes_def IterateAllHistoricPrices_def
    IterateAllMedianPrices_def IterateAllMedianDeviationPrices_def coll_walk_append GetParams_def NewGenesisState_def
  by (simp add: case_prod_unfold genesis_stamp_def NewPriceStamp_def stamp_entry_def [abs_def] comp_def)

text \<open>What a state must satisfy for its document to be read back: the entries of the stores are
  keyed as the keeper keys them, and the texts of the addresses can be read.\<close>

definition val_known :: "'w oracle_env \<Rightarrow> bytes \<Rightarrow> bool" where
  "val_known E a \<longleftrightarrow> ValAddressFromBech32 E (ValString E a) = Ok a"

definition acc_known :: "'w oracle_env \<Rightarrow> bytes \<Rightarrow> bool" where
  "acc_known E a \<longleftrightarrow> AccAddressFromBech32 E (AccString E a) = Ok a"

definition keeper_ok :: "'w oracle_env \<Rightarrow> 'w ostate \<Rightarrow> bool" where
  "keeper_ok E s \<longleftrightarrow>
     coll_wf (ExchangeRates s) \<and> (\<forall>(d, r) \<in> set (ExchangeRates s). ToUpper d = d) \<and>
     coll_wf (FeederDelegations s) \<and> (\<forall>(a, f) \<in> set (FeederDelegations s). val_known E a \<and> acc_known E f) \<and>
     coll_wf (Prevotes s) \<and> (\<forall>(a, p) \<in> set (Prevotes s). val_known E a \<and> pv_Voter p = ValString E a) \<and>
     coll_wf (Votes s) \<and> (\<forall>(a, v) \<in> set (Votes s). val_known E a \<and> av_Voter v = ValString E a \<and>
       distinct (map dc_Denom (av_ExchangeRates v))) \<and>
     coll_wf (MissCounters s) \<and> (\<forall>(a, m) \<in> set (MissCounters s). val_known E a) \<and>
     coll_wf (HistoricPrices s) \<and> coll_wf (MedianPrices s) \<and> coll_wf (MedianDeviations s)"

text \<open>A store that holds nothing, as at the start of a chain.\<close>

definition empty_stores :: "'w ostate \<Rightarrow> bool" where
  "empty_stores s \<longleftrightarrow> ExchangeRates s = [] \<and> FeederDelegations s = [] \<and> Prevotes s = [] \<and> Votes s = [] \<and>
     HistoricPrices s = [] \<and> MedianPrices s = [] \<and> MedianDeviations s = [] \<and> LastHistoricPriceBlock s = [] \<and>
     MissCounters s = []"

definition last_blocks :: "(string \<times> uint64, dec) coll \<Rightarrow> (string, uint64) coll" where
  "last_blocks st = fold (\<lambda>e. coll_set (fst (fst e)) (snd (fst e))) st []"

lemma fold_pair: "fold (\<lambda>e (x, y). (f e x, g e y)) es (a, b) = (fold f es a, fold g es b)"
  by (induction es arbitrary: a b) simp_all

lemma init_stores:
  assumes "keeper_ok E s"
  shows "each_st (init_feeder E) (gs_FeederDelegations (ExportGenesis E s)) t =
      (t\<lparr>FeederDelegations := fold (\<lambda>e. coll_set (fst e) (snd e)) (FeederDelegations s) (FeederDelegations t)\<rparr>, Ok ())"
    "each_st init_rate (gs_ExchangeRates (ExportGenesis E s)) t =
      (t\<lparr>ExchangeRates := fold (\<lambda>e. coll_set (fst e) (snd e)) (ExchangeRates s) (ExchangeRates t)\<rparr>, Ok ())"
    "each_st (init_miss_counter E) (gs_MissCounters (ExportGenesis E s)) t =
      (t\<lparr>MissCounters := fold (\<lambda>e. coll_set (fst e) (snd e)) (MissCounters s) (MissCounters t)\<rparr>, Ok ())"
    "each_st (init_prevote E) (gs_AggregateExchangeRatePrevotes (ExportGenesis E s)) t =
      (t\<lparr>Prevotes := fold (\<lambda>e. coll_set (fst e) (snd e)) (Prevotes s) (Prevotes t)\<rparr>, Ok ())"
    "each_st (init_vote E) (gs_AggregateExchangeRateVotes (ExportGenesis E s)) t =
      (t\<lparr>Votes := fold (\<lambda>e. coll_set (fst e) (snd e)) (Votes s) (Votes t)\<rparr>, Ok ())"
    "each_st init_median (gs_Medians (ExportGenesis E s)) t =
      (t\<lparr>MedianPrices := fold (\<lambda>e. coll_set (fst e) (snd e)) (MedianPrices s) (MedianPrices t)\<rparr>, Ok ())"
    "each_st init_median_deviation (gs_MedianDeviations (ExportGenesis E s)) t =
      (t\<lparr>MedianDeviations := fold (\<lambda>e. coll_set (fst e) (snd e)) (MedianDeviations s) (MedianDeviations t)\<rparr>, Ok ())"
  unfolding ExportGenesis_maps GenesisState.select_convs
proof -
  note ok = assms [unfolded keeper_ok_def val_known_def acc_known_def]
  show "each_st (init_feeder E) (map (\<lambda>e. \<lparr>fd_FeederAddress = AccString E (snd e), fd_ValidatorAddress = ValString E (fst e)\<rparr>)
      (FeederDelegations s)) t =
      (t\<lparr>FeederDelegations := fold (\<lambda>e. coll_set (fst e) (snd e)) (FeederDelegations s) (FeederDelegations t)\<rparr>, Ok ())"
    by (rule f_FeederDelegations.each_put) (use ok in \<open>auto simp: init_feeder_def SetFeederDelegation_def\<close>)
  show "each_st init_rate (map (\<lambda>e. \<lparr>dc_Denom = fst e, dc_Amount = snd e\<rparr>) (ExchangeRates s)) t =
      (t\<lparr>ExchangeRates := fold (\<lambda>e. coll_set (fst e) (snd e)) (ExchangeRates s) (ExchangeRates t)\<rparr>, Ok ())"
    by (rule f_ExchangeRates.each_put) (use ok in \<open>auto simp: init_rate_def SetExchangeRate_def\<close>)
  show "each_st (init_miss_counter E) (map (\<lambda>e. \<lparr>mi_ValidatorAddress = ValString E (fst e), mi_MissCounter = snd e\<rparr>)
      (MissCounters s)) t =
      (t\<lparr>MissCounters := fold (\<lambda>e. coll_set (fst e) (snd e)) (MissCounters s) (MissCounters t)\<rparr>, Ok ())"
    by (rule f_MissCounters.each_put) (use ok in \<open>auto simp: init_miss_counter_def SetMissCounter_def\<close>)
  show "each_st (init_prevote E) (map snd (Prevotes s)) t =
      (t\<lparr>Prevotes := fold (\<lambda>e. coll_set (fst e) (snd e)) (Prevotes s) (Prevotes t)\<rparr>, Ok ())"
    by (rule f_Prevotes.each_put) (use ok in \<open>auto simp: init_prevote_def SetAggregateExchangeRatePrevote_def\<close>)
  show "each_st (init_vote E) (map snd (Votes s)) t =
      (t\<lparr>Votes := fold (\<lambda>e. coll_set (fst e) (snd e)) (Votes s) (Votes t)\<rparr>, Ok ())"
    by (rule f_Votes.each_put) (use ok in \<open>auto simp: init_vote_def SetAggregateExchangeRateVote_def\<close>)
  show "each_st init_median (map stamp_entry (MedianPrices s)) t =
      (t\<lparr>MedianPrices := fold (\<lambda>e. coll_set (fst e) (snd e)) (MedianPrices s) (MedianPrices t)\<rparr>, Ok ())"
    by (rule f_MedianPrices.each_put) (simp add: init_median_def stamp_entry_def SetHistoricMedian_def)
  show "each_st init_median_deviation (map stamp_entry (MedianDeviations s)) t =
      (t\<lparr>MedianDeviations := fold (\<lambda>e. coll_set (fst e) (snd e)) (MedianDeviations s) (MedianDeviations t)\<rparr>, Ok ())"
    by (rule f_MedianDeviations.each_put) (simp add: init_median_deviation_def stamp_entry_def SetHistoricMedianDeviation_def)
qed

lemma init_prices:
  "each_st init_historic_price (gs_HistoricPrices (ExportGenesis E s)) t =
     (t\<lparr>HistoricPrices := fold (\<lambda>e. coll_set (fst e) (snd e)) (HistoricPrices s) (HistoricPrices t),
        LastHistoricPriceBlock := fold (\<lambda>e. coll_set (fst (fst e)) (snd (fst e))) (HistoricPrices s)
          (LastHistoricPriceBlock t)\<rparr>, Ok ())"
proof -
  have "each_st init_historic_price (map stamp_entry (HistoricPrices s)) t =
      (t\<lparr>HistoricPrices := fst (fold (\<lambda>e (x, y). (coll_set (fst e) (snd e) x, coll_set (fst (fst e)) (snd (fst e)) y))
          (HistoricPrices s) (HistoricPrices t, LastHistoricPriceBlock t)),
         LastHistoricPriceBlock := snd (fold (\<lambda>e (x, y). (coll_set (fst e) (snd e) x, coll_set (fst (fst e)) (snd (fst e)) y))
          (HistoricPrices s) (HistoricPrices t, LastHistoricPriceBlock t))\<rparr>, Ok ())"
    by (rule f_HistoricPrices.each_put) (simp add: init_historic_price_def stamp_entry_def SetHistoricPrice_def)
  then show ?thesis by (simp add: ExportGenesis_maps fold_pair)
qed

text \<open>The block a price was last stamped at, from the stamps: the newest one.\<close>

lemma last_blocks_newest:
  "coll_get (last_blocks st) d = (case prefix_descending d st of [] \<Rightarrow> None | e # _ \<Rightarrow> Some (snd (fst e)))"
proof -
  have "coll_get (fold (\<lambda>e. coll_set (fst (fst e)) (snd (fst e))) st l) d =
      (case prefix_descending d st of [] \<Rightarrow> coll_get l d | e # _ \<Rightarrow> Some (snd (fst e)))" for l
    by (induction st arbitrary: l) (auto simp: prefix_descending_def split: list.splits)
  from this [of "[]"] show ?thesis by (simp add: last_blocks_def split: list.splits)
qed

lemma import_export:
  assumes "keeper_ok E s" and "run_validators (ParamSetPairs (D E) (params s))"
    and "empty_stores t" and "ak_GetModuleAccount E (world t) ModuleName \<noteq> None"
  shows "InitGenesis E (ExportGenesis E s) t =
    (s\<lparr>LastHistoricPriceBlock := last_blocks (HistoricPrices s), Averages := Averages t,
       RewardSetItem := RewardSetItem t, ParamUpdatePlans := ParamUpdatePlans t, world := world t\<rparr>, Ok ())"
proof -
  have wf: "coll_wf (FeederDelegations s)" "coll_wf (ExchangeRates s)" "coll_wf (MissCounters s)" "coll_wf (Prevotes s)"
    "coll_wf (Votes s)" "coll_wf (HistoricPrices s)" "coll_wf (MedianPrices s)" "coll_wf (MedianDeviations s)"
    using assms(1) by (simp_all add: keeper_ok_def)
  have "gs_Params (ExportGenesis E s) = params s" by (simp add: ExportGenesis_maps)
  then show ?thesis
    using assms(2-4)
    by (simp add: InitGenesis_def init_stores [OF assms(1)] init_prices empty_stores_def wf [THEN coll_rebuild]
        SetParams_def GetOracleAccount_def last_blocks_def)
qed

end
