(* ===== verification/Oracle_Chain.thy ===== *)
theory Oracle_Chain
  imports Oracle_Genesis
begin

text \<open>
  The oracle as a chain runs it: it starts from a genesis document, delivers messages, ends
  blocks, and shares the store with modules that change what the keepers of staking,
  bank and distribution return. A transaction that fails is rolled back and a block whose
  end blocker panics is not committed, so the steps are the calls that succeed.

  The invariant of the reachable states is \<open>keeper_ok\<close>: every store is sorted by its key,
  and the entries are keyed the way the keeper looks them up. It is what the export of
  a genesis document rests on.
\<close>

section \<open>The step relation\<close>

text \<open>The texts of addresses are canonical: what has been read can be printed and read again.\<close>

definition addr_laws :: "'w oracle_env \<Rightarrow> bool" where
  "addr_laws E \<longleftrightarrow> (\<forall>str a. ValAddressFromBech32 E str = Ok a \<longrightarrow> val_known E a) \<and>
     (\<forall>str a. AccAddressFromBech32 E str = Ok a \<longrightarrow> acc_known E a)"

text \<open>A genesis document names each voter by its canonical text and each denom of a vote once;
  an exported document does.\<close>

definition canonical_genesis :: "'w oracle_env \<Rightarrow> GenesisState \<Rightarrow> bool" where
  "canonical_genesis E g \<longleftrightarrow>
     (\<forall>p \<in> set (gs_AggregateExchangeRatePrevotes g). \<forall>a. ValAddressFromBech32 E (pv_Voter p) = Ok a \<longrightarrow> pv_Voter p = ValString E a) \<and>
     (\<forall>v \<in> set (gs_AggregateExchangeRateVotes g). distinct (map dc_Denom (av_ExchangeRates v)) \<and>
       (\<forall>a. ValAddressFromBech32 E (av_Voter v) = Ok a \<longrightarrow> av_Voter v = ValString E a))"

inductive chain :: "'w oracle_env \<Rightarrow> 'f float_ops \<Rightarrow> int \<Rightarrow> 'w ostate \<Rightarrow> bool" for E F where
  genesis: "empty_stores t \<Longrightarrow> canonical_genesis E g \<Longrightarrow> InitGenesis E g t = (s, Ok ()) \<Longrightarrow> chain E F h s"
| deliver: "chain E F h s \<Longrightarrow> oracle_handle E h m s = (s', Ok ()) \<Longrightarrow> chain E F h s'"
| end_block: "chain E F h s \<Longrightarrow> EndBlock E F h s = (s', Ok ()) \<Longrightarrow> chain E F (h + 1) s'"
| others: "chain E F h s \<Longrightarrow> chain E F h (s\<lparr>world := w\<rparr>)"

section \<open>Every write keeps the invariant\<close>

named_theorems keeper_intros \<open>what keeps keeper_ok\<close>

lemma in_coll_set: "e \<in> set (coll_set k v s) \<Longrightarrow> e = (k, v) \<or> e \<in> set s"
  using set_coll_set [of k v s] by blast

lemma in_coll_remove: "e \<in> set (coll_remove k s) \<Longrightarrow> e \<in> set s"
  by (simp add: coll_remove_def)

lemma ok_SetExchangeRate [keeper_intros]: "keeper_ok E s \<Longrightarrow> keeper_ok E (SetExchangeRate d r s)"
  by (auto simp: keeper_ok_def SetExchangeRate_def dest!: in_coll_set)

lemma ok_ClearExchangeRates [keeper_intros]: "keeper_ok E s \<Longrightarrow> keeper_ok E (ClearExchangeRates s)"
  by (simp add: keeper_ok_def ClearExchangeRates_def)

lemma ok_SetFeederDelegation [keeper_intros]:
  "keeper_ok E s \<Longrightarrow> val_known E a \<Longrightarrow> acc_known E f \<Longrightarrow> keeper_ok E (SetFeederDelegation a f s)"
  by (auto simp: keeper_ok_def SetFeederDelegation_def dest!: in_coll_set)

lemma ok_SetPrevote [keeper_intros]:
  "keeper_ok E s \<Longrightarrow> val_known E a \<Longrightarrow> pv_Voter p = ValString E a \<Longrightarrow>
   keeper_ok E (SetAggregateExchangeRatePrevote a p s)"
  by (auto simp: keeper_ok_def SetAggregateExchangeRatePrevote_def dest!: in_coll_set)

lemma ok_DeletePrevote [keeper_intros]: "keeper_ok E s \<Longrightarrow> keeper_ok E (DeleteAggregateExchangeRatePrevote a s)"
  by (auto simp: keeper_ok_def DeleteAggregateExchangeRatePrevote_def dest!: in_coll_remove)

lemma ok_SetVote [keeper_intros]:
  "keeper_ok E s \<Longrightarrow> val_known E a \<Longrightarrow> av_Voter v = ValString E a \<Longrightarrow> distinct (map dc_Denom (av_ExchangeRates v)) \<Longrightarrow>
   keeper_ok E (SetAggregateExchangeRateVote a v s)"
  by (auto simp: keeper_ok_def SetAggregateExchangeRateVote_def dest!: in_coll_set)

lemma ok_DeleteVote [keeper_intros]: "keeper_ok E s \<Longrightarrow> keeper_ok E (DeleteAggregateExchangeRateVote a s)"
  by (auto simp: keeper_ok_def DeleteAggregateExchangeRateVote_def dest!: in_coll_remove)

lemma ok_SetMissCounter [keeper_intros]:
  "keeper_ok E s \<Longrightarrow> val_known E a \<Longrightarrow> keeper_ok E (SetMissCounter a m s)"
  by (auto simp: keeper_ok_def SetMissCounter_def dest!: in_coll_set)

lemma ok_DeleteMissCounter [keeper_intros]: "keeper_ok E s \<Longrightarrow> keeper_ok E (DeleteMissCounter a s)"
  by (auto simp: keeper_ok_def DeleteMissCounter_def dest!: in_coll_remove)

lemma ok_stamps [keeper_intros]:
  "keeper_ok E s \<Longrightarrow> keeper_ok E (SetHistoricPrice d b r s)"
  "keeper_ok E s \<Longrightarrow> keeper_ok E (SetHistoricMedian d b r s)"
  "keeper_ok E s \<Longrightarrow> keeper_ok E (SetHistoricMedianDeviation d b r s)"
  "keeper_ok E s \<Longrightarrow> keeper_ok E (DeleteHistoricPrice d b s)"
  "keeper_ok E s \<Longrightarrow> keeper_ok E (DeleteHistoricMedian d b s)"
  "keeper_ok E s \<Longrightarrow> keeper_ok E (DeleteHistoricMedianDeviation d b s)"
  by (simp_all add: keeper_ok_def SetHistoricPrice_def SetHistoricMedian_def SetHistoricMedianDeviation_def
      DeleteHistoricPrice_def DeleteHistoricMedian_def DeleteHistoricMedianDeviation_def)

text \<open>What the invariant does not speak of can change freely.\<close>

lemma ok_frames [simp]:
  "keeper_ok E (s\<lparr>params := p\<rparr>) = keeper_ok E s" "keeper_ok E (s\<lparr>RewardSetItem := i\<rparr>) = keeper_ok E s"
  "keeper_ok E (s\<lparr>ParamUpdatePlans := q\<rparr>) = keeper_ok E s" "keeper_ok E (s\<lparr>world := w\<rparr>) = keeper_ok E s"
  by (simp_all add: keeper_ok_def)

lemma each_st_keeps:
  "P s \<Longrightarrow> (\<And>x s. x \<in> set xs \<Longrightarrow> P s \<Longrightarrow> P (fst (f x s))) \<Longrightarrow> P (fst (each_st f xs s))"
proof (induction xs arbitrary: s)
  case (Cons x xs)
  show ?case
    unfolding each_st.simps by (rule then_st_keeps [where P = P]) (use Cons in auto)
qed simp

lemma empty_ok: "empty_stores s \<Longrightarrow> keeper_ok E s"
  by (simp add: empty_stores_def keeper_ok_def)

lemma or_panic_Ok [res_simps]: "or_panic r = Ok x \<longleftrightarrow> r = Ok x"
  by (cases r) auto

lemma ok_init [keeper_intros]:
  assumes "addr_laws E" and "keeper_ok E s"
  shows "keeper_ok E (fst (init_feeder E d s))" "keeper_ok E (fst (init_rate c s))"
    "keeper_ok E (fst (init_miss_counter E m s))" "keeper_ok E (fst (init_historic_price g s))"
    "keeper_ok E (fst (init_median g s))" "keeper_ok E (fst (init_median_deviation g s))"
  unfolding init_feeder_def init_rate_def init_miss_counter_def init_historic_price_def init_median_def
    init_median_deviation_def
  using assms
  by (auto simp: addr_laws_def res_simps intro!: read_st_keeps [where P = "keeper_ok E"] keeper_intros)

lemma InitGenesis_ok:
  assumes laws: "addr_laws E" and "empty_stores t" and can: "canonical_genesis E g"
  shows "keeper_ok E (fst (InitGenesis E g t))"
proof -
  have prevote: "keeper_ok E (fst (init_prevote E p s))"
    if "keeper_ok E s" "p \<in> set (gs_AggregateExchangeRatePrevotes g)" for p s
    unfolding init_prevote_def using that laws can
    by (auto simp: addr_laws_def canonical_genesis_def res_simps intro!: read_st_keeps [where P = "keeper_ok E"] keeper_intros)
  have vote: "keeper_ok E (fst (init_vote E v s))"
    if "keeper_ok E s" "v \<in> set (gs_AggregateExchangeRateVotes g)" for v s
    unfolding init_vote_def using that laws can
    by (auto simp: addr_laws_def canonical_genesis_def res_simps intro!: read_st_keeps [where P = "keeper_ok E"] keeper_intros)
  have params: "keeper_ok E s \<Longrightarrow> keeper_ok E (fst (SetParams E p s))" for s p
    by (simp add: SetParams_def)
  show ?thesis
    unfolding InitGenesis_def
    by (intro then_st_keeps [where P = "keeper_ok E"] each_st_keeps [where P = "keeper_ok E"])
      (use laws prevote vote params empty_ok [OF assms(2)] in \<open>auto intro: keeper_intros\<close>)
qed

section \<open>Messages\<close>

lemma only_plans_ok: "only_plans s s' \<Longrightarrow> keeper_ok E s \<Longrightarrow> keeper_ok E s'"
  unfolding only_plans_def using ok_frames(3) by metis

lemma handle_ok:
  assumes laws: "addr_laws E" and ok: "keeper_ok E s" and run: "oracle_handle E h m s = (s', Ok ())"
  shows "keeper_ok E s'"
proof (cases m)
  case (PrevoteMsg msg)
  then show ?thesis
    using run laws ok unfolding addr_laws_def
    by (auto simp: AggregateExchangeRatePrevote_def res_simps NewAggregateExchangeRatePrevote_def
        intro!: keeper_intros split: if_splits)
next
  case (VoteMsg msg)
  then obtain a f prevote coins where v: "reveal_ok E h msg s a f prevote coins"
    "s' = s\<lparr>Votes := coll_set a \<lparr>av_ExchangeRates = filter (\<lambda>c. DenomList_Contains (AcceptList (params s)) (dc_Denom c)) coins,
       av_Voter = ValString E a\<rparr> (Votes s), Prevotes := coll_remove a (Prevotes s)\<rparr>"
    using run by (auto simp: Vote_Ok)
  have "distinct (map dc_Denom coins)"
    using v(1) parse_loop_Ok [of "LegacyNewDecFromStr E" "ValidateDenom E" "[]" "[]"]
    by (fastforce simp: reveal_ok_def ParseExchangeRateDecCoins_def split: if_splits)
  moreover have "s' = DeleteAggregateExchangeRatePrevote a (SetAggregateExchangeRateVote a
      \<lparr>av_ExchangeRates = filter (\<lambda>c. DenomList_Contains (AcceptList (params s)) (dc_Denom c)) coins, av_Voter = ValString E a\<rparr> s)"
    by (simp add: v(2) DeleteAggregateExchangeRatePrevote_def SetAggregateExchangeRateVote_def)
  ultimately show ?thesis
    using v(1) laws ok by (auto simp: reveal_ok_def addr_laws_def distinct_map_filter intro!: keeper_intros)
next
  case (DelegateMsg msg)
  then show ?thesis
    using run laws ok unfolding addr_laws_def
    by (auto simp: DelegateFeedConsent_def res_simps intro!: keeper_intros split: option.splits)
next
  case (LegacyUpdateMsg msg)
  then have "legacy_loop E (ml_Changes msg) (ml_Keys msg) s = (s', Ok ())"
    using run by (simp add: LegacyGovUpdateParams_def split: if_splits)
  from legacy_loop_only_params [OF this, of "params s"] have "keeper_ok E (s'\<lparr>params := params s\<rparr>)" using ok by simp
  then show ?thesis by simp
qed (use run ok in \<open>auto dest!: gov_only_plans intro: only_plans_ok\<close>)

section \<open>The end of a block\<close>

lemma coll_walk_keeps:
  "P a \<Longrightarrow> (\<And>k v a. P a \<Longrightarrow> P (fst (f k v a))) \<Longrightarrow> P (coll_walk f s a)"
proof (induction s arbitrary: a)
  case (Cons e s)
  obtain k v where e: "e = (k, v)" by force
  obtain a' stop where f: "f k v a = (a', stop)" by force
  then have "P a'" using Cons.prems(1) Cons.prems(2) [of a k v] by simp
  then show ?case using Cons.IH [of a'] Cons.prems(2) by (simp add: e f)
qed simp

lemma ok_ClearBallots [keeper_intros]: "keeper_ok E s \<Longrightarrow> keeper_ok E (ClearBallots h p s)"
  unfolding ClearBallots_def IterateAggregateExchangeRateVotes_def IterateAggregateExchangeRatePrevotes_def Let_def
  by (intro coll_walk_keeps [where P = "keeper_ok E"]) (simp_all add: keeper_intros)

lemma ok_Prunes [keeper_intros]:
  assumes "keeper_ok E s"
  shows "keeper_ok E (PruneHistoricPricesBeforeBlock b s)" "keeper_ok E (PruneMediansBeforeBlock b s)"
    "keeper_ok E (PruneMedianDeviationsBeforeBlock b s)"
  unfolding PruneHistoricPricesBeforeBlock_def PruneMediansBeforeBlock_def PruneMedianDeviationsBeforeBlock_def
    IterateAllHistoricPrices_def IterateAllMedianPrices_def IterateAllMedianDeviationPrices_def
  by (intro coll_walk_keeps [where P = "keeper_ok E"] assms; simp add: keeper_intros)+

lemma ok_PruneAllPrices: "keeper_ok E s \<Longrightarrow> keeper_ok E (fst (PruneAllPrices h s))"
  unfolding PruneAllPrices_def Let_def
  by (intro read_st_keeps [where P = "keeper_ok E"]; simp add: keeper_intros)
    (auto intro!: read_st_keeps [where P = "keeper_ok E"] keeper_intros)

lemma ok_execute_plans: "keeper_ok E s \<Longrightarrow> keeper_ok E (fst (execute_plans h plans s))"
proof (induction plans arbitrary: s)
  case (Cons plan plans)
  have "keeper_ok E (fst (ExecuteParamUpdatePlan plan s))"
    using Cons.prems by (simp add: ExecuteParamUpdatePlan_def ClearParamUpdatePlan_def fold_execute_key)
  then show ?case
    using Cons by (auto intro!: then_st_keeps [where P = "keeper_ok E"])
qed simp

lemma ok_evaluate: "keeper_ok E' s \<Longrightarrow> keeper_ok E' (fst (evaluateAndSlashIfNeeded E a m w r d f p s))"
  unfolding evaluateAndSlashIfNeeded_def Let_def
  by (rule read_st_keeps [where P = "keeper_ok E'"]) (auto split: res.splits option.splits prod.splits)

lemma ok_Slash: "keeper_ok E' s \<Longrightarrow> keeper_ok E' (fst (SlashAndResetMissCounters E h s))"
proof -
  assume ok: "keeper_ok E' s"
  have step: "keeper_ok E' (fst (fst (case a of (s, r) \<Rightarrow>
      (case evaluateAndSlashIfNeeded E k v w m d f p s of
         (s, Ok _) \<Rightarrow> ((DeleteMissCounter k s, Ok ()), False) | (s, _) \<Rightarrow> ((s, Panic), True)))))"
    if "keeper_ok E' (fst a)" for a k v w m d f p
  proof -
    obtain s1 r1 where a: "a = (s1, r1)" by force
    obtain s2 r2 where e: "evaluateAndSlashIfNeeded E k v w m d f p s1 = (s2, r2)" by force
    then have "keeper_ok E' s2" using ok_evaluate [of E' s1 E k v w m d f p] that a by simp
    then show ?thesis by (simp add: a e keeper_intros split: res.splits)
  qed
  show ?thesis
    unfolding SlashAndResetMissCounters_def IterateMissCounters_def Let_def
    by (rule read_st_keeps [where P = "keeper_ok E'", OF ok], rule coll_walk_keeps [where P = "\<lambda>x. keeper_ok E' (fst x)"])
      (use ok step in auto)
qed

lemma ok_CalcMedian: "keeper_ok E' s \<Longrightarrow> keeper_ok E' (fst (CalcAndSetHistoricMedian E h d s))"
  unfolding CalcAndSetHistoricMedian_newest calcAndSetHistoricMedianDeviation_def
  by (intro read_st_keeps [where P = "keeper_ok E'"]) (simp_all add: keeper_intros)

lemma ok_record_price: "keeper_ok E' s \<Longrightarrow> keeper_ok E' (fst (record_price E h p d r s))"
  unfolding record_price_def SetExchangeRateWithEvent_def AddHistoricPrice_def Let_def
  by (auto intro!: read_st_keeps [where P = "keeper_ok E'"] keeper_intros ok_CalcMedian)

lemma ok_price_ballot: "keeper_ok E' s \<Longrightarrow> keeper_ok E' (snd (fst (price_ballot E h p t thr bd (claims, s))))"
proof -
  assume ok: "keeper_ok E' s"
  have tally: "keeper_ok E' (snd (fst (case Tally E b band inc claims of
      (claims, Panic) \<Rightarrow> ((claims, s), Panic) | (claims, Err e) \<Rightarrow> ((claims, s), Err e)
    | (claims, Ok r) \<Rightarrow> (case record_price E h p d r s of (s, r) \<Rightarrow> ((claims, s), r)))))" for b band inc d
    using ok ok_record_price [OF ok, of E h p d] by (auto split: prod.splits res.splits) (metis fst_conv)
  show ?thesis
    unfolding price_ballot_def Let_def case_prod_conv
    using ok tally by (auto intro!: read_st_keeps [where P = "\<lambda>st. keeper_ok E' (snd st)"])
qed

lemma ok_price_loop: "keeper_ok E' s \<Longrightarrow> keeper_ok E' (snd (fst (price_loop E h p t thr bds (claims, s))))"
proof (induction bds arbitrary: claims s)
  case (Cons bd bds)
  show ?case
    unfolding price_loop.simps
    by (rule then_st_keeps [where P = "\<lambda>st. keeper_ok E' (snd st)"])
      (use Cons.IH ok_price_ballot [OF Cons.prems] in auto)
qed simp

subsection \<open>Claims are for known validators\<close>

definition known_claims :: "'w oracle_env \<Rightarrow> (string, Claim) coll \<Rightarrow> bool" where
  "known_claims E claims \<longleftrightarrow> (\<forall>(k, c) \<in> set claims. val_known E (cl_Recipient c))"

lemma known_claim_map:
  assumes "addr_laws E"
  shows "claim_map E pr t c vals = Ok (tbp, claims) \<Longrightarrow> known_claims E c \<Longrightarrow> known_claims E claims"
proof (induction vals arbitrary: t c)
  case (Cons v vals)
  then obtain a t' where "ValAddressFromBech32 E (vi_GetOperator v) = Ok a"
    and rest: "claim_map E pr t' (coll_set (vi_GetOperator v) (NewClaim (vi_GetConsensusPower v pr) 0 0 a) c) vals = Ok (tbp, claims)"
    by (auto simp: res_simps Let_def)
  then have "val_known E a" using assms by (auto simp: addr_laws_def)
  then have "known_claims E (coll_set (vi_GetOperator v) (NewClaim (vi_GetConsensusPower v pr) 0 0 a) c)"
    using Cons.prems(2) by (auto simp: known_claims_def NewClaim_def dest!: in_coll_set)
  then show ?case using Cons.IH [OF rest] by blast
qed simp

lemma known_count_wins:
  assumes "known_claims E claims" and "\<forall>v \<in> set vs. ValString E (Voter v) \<in> fst ` set claims"
  shows "known_claims E (fold (count_win E inc) vs claims)"
  using assms
proof (induction vs arbitrary: claims)
  case (Cons v vs)
  let ?k = "ValString E (Voter v)"
  obtain c where c: "coll_get claims ?k = Some c" using Cons.prems(2) coll_get_None [of claims ?k] by fastforce
  then have "val_known E (cl_Recipient c)"
    using Cons.prems(1) by (force simp: known_claims_def coll_get_def dest: map_of_SomeD)
  then have "known_claims E (count_win E inc v claims)"
    using Cons.prems(1) c
    by (auto simp: known_claims_def count_win_def claim_of_def win_claim_def Let_def dest!: in_coll_set split: if_splits)
  moreover have "\<forall>u \<in> set vs. ValString E (Voter u) \<in> fst ` set (count_win E inc v claims)"
    using Cons.prems(2) by (simp add: count_win_def fst_coll_set)
  ultimately show ?case using Cons.IH by simp
qed simp

lemma known_tally_claims:
  assumes "known_claims E claims" and "\<forall>bd \<in> set bds. \<forall>v \<in> set (bd_Ballot bd). ValString E (Voter v) \<in> fst ` set claims"
  shows "known_claims E (fold (tally_claims E p) bds claims)"
  using assms
proof (induction bds arbitrary: claims)
  case (Cons bd bds)
  have "known_claims E (tally_claims E p bd claims)"
    unfolding tally_claims_def
    by (rule known_count_wins [OF Cons.prems(1)]) (use Cons.prems(2) in \<open>auto simp: winning_votes_def\<close>)
  moreover have "fst ` set (tally_claims E p bd claims) = fst ` set claims"
    by (rule keys_tally_claims) (use Cons.prems(2) in simp)
  ultimately show ?case using Cons by simp
qed simp

subsection \<open>Prices, and the whole end blocker\<close>

lemma keeper_votes_ok: "keeper_ok E s \<Longrightarrow> votes_ok E (Votes s)"
proof -
  assume ok: "keeper_ok E s"
  have "inj_on (ValString E) (fst ` set (Votes s))"
  proof (rule inj_onI)
    fix a b
    assume "a \<in> fst ` set (Votes s)" "b \<in> fst ` set (Votes s)" and eq: "ValString E a = ValString E b"
    then have "val_known E a" "val_known E b" using ok by (auto simp: keeper_ok_def)
    then show "a = b" using eq by (simp add: val_known_def)
  qed
  then show ?thesis using ok by (auto simp: keeper_ok_def votes_ok_def)
qed

lemma ok_count_misses:
  "keeper_ok E s \<Longrightarrow> \<forall>c \<in> set cs. val_known E (cl_Recipient c) \<Longrightarrow> keeper_ok E (fold (count_miss n) cs s)"
  by (induction cs arbitrary: s) (simp_all add: count_miss_def Let_def keeper_intros)

lemma ok_CalcPrices:
  assumes laws: "addr_laws E" "dec_laws (D E)" and ok: "keeper_ok E s" and run: "CalcPrices E F h p s = (s', Ok ())"
  shows "keeper_ok E s'"
  using run
proof (rule CalcPrices_phases)
  fix vals tbp claims thr claims1 s1 cs rs s2
  assume claims: "claim_map E (sk_PowerReduction E (world s)) 0 [] vals = Ok (tbp, claims)"
    and loop: "price_loop E h p tbp thr (OrganizeBallotByDenom (ClearExchangeRates s) claims) (claims, ClearExchangeRates s) =
       ((claims1, s1), Ok ())"
    and slices: "ClaimMapToSlices (ValString E) claims1 (ValidatorSet (GetValidatorRewardSet s1)) = Ok (cs, rs)"
    and reward: "RewardBallotWinners E F (SafeUint64ToInt64 (VotePeriod p)) (SafeUint64ToInt64 (RewardDistributionWindow p))
       (map BaseDenom (AcceptList p)) rs (fold (count_miss (length (MandatoryList p))) cs s1) = (s2, Ok ())"
    and s': "s' = ClearBallots h (VotePeriod p) s2"
  have "known_claims E claims" by (rule known_claim_map [OF laws(1) claims]) (simp add: known_claims_def)
  then have "known_claims E claims1"
    unfolding price_loop_claims [OF laws(2) loop]
    by (rule known_tally_claims) (use Organize_ballot_ok [OF keeper_votes_ok [OF ok]] in \<open>auto simp: ballot_ok_def\<close>)
  then have "\<forall>c \<in> set cs. val_known E (cl_Recipient c)"
    using slices by (force simp: ClaimMapToSlices_def Let_def known_claims_def split: if_splits)
  moreover have "keeper_ok E s1"
    using ok_price_loop [OF ok_ClearExchangeRates [OF ok], of E h p tbp thr _ claims] loop by (metis fst_conv snd_conv)
  ultimately have "keeper_ok E (fold (count_miss (length (MandatoryList p))) cs s1)" by (rule ok_count_misses [rotated])
  then have "keeper_ok E s2"
    using RewardBallotWinners_world reward ok_frames(4) by (metis fst_conv)
  then show ?thesis by (simp add: s' keeper_intros)
qed

lemma ok_EndBlock:
  assumes laws: "addr_laws E" "dec_laws (D E)" and ok: "keeper_ok E s" and run: "EndBlock E F h s = (s', Ok ())"
  shows "keeper_ok E s'"
proof -
  have "EndBlocker E F h s = (s', Ok ())"
    using run by (auto simp: EndBlock_def split: prod.splits res.splits)
  then obtain s1 s2 s3 s4 where run:
    "execute_plans h (GetParamUpdatePlans s) s = (s1, Ok ())"
    "at_period_end h (SlashWindow (params s1) + 1) (SetValidatorRewardSet E) s1 = (s2, Ok ())"
    "at_period_end h (VotePeriod (params s1)) (CalcPrices E F h (params s1)) s2 = (s3, Ok ())"
    "at_period_end h (SlashWindow (params s1)) (SlashAndResetMissCounters E h) s3 = (s4, Ok ())"
    "PruneAllPrices h s4 = (s', Ok ())"
    by (auto simp: EndBlocker_def res_simps Let_def GetParams_def dest!: at_period_end_guarded)
  have "keeper_ok E s1" using ok_execute_plans [OF ok] run(1) by (metis fst_conv)
  then have "keeper_ok E s2"
    using run(2) by (auto simp: at_period_end_def SetValidatorRewardSet_def res_simps split: if_splits)
  then have "keeper_ok E s3"
    using run(3) by (auto simp: at_period_end_def res_simps dest: ok_CalcPrices [OF laws] split: if_splits)
  then have "keeper_ok E s4"
    using run(4) ok_Slash [of E s3 E h] by (auto simp: at_period_end_def res_simps split: if_splits)
  then show ?thesis using ok_PruneAllPrices [of E s4 h] run(5) by simp
qed

section \<open>The invariant\<close>

lemma chain_keeper_ok:
  assumes "addr_laws E" and "dec_laws (D E)" and "chain E F h s"
  shows "keeper_ok E s"
  using assms(3)
proof induction
  case (genesis t g s h)
  then show ?case using InitGenesis_ok [OF assms(1)] by (metis fst_conv)
next
  case (deliver h s m s')
  then show ?case using handle_ok [OF assms(1)] by blast
next
  case (end_block h s s')
  then show ?case using ok_EndBlock [OF assms(1,2)] by blast
qed simp

section \<open>Properties\<close>

text \<open>
  C7. On every state a chain reaches, from any genesis document and by any sequence of accepted
  messages, ended blocks and changes of the other modules, the stores are sorted by
  key without duplicates, exchange rates are filed under upper-case denoms, prevotes and
  votes under the address of the voter they name, no vote names a denom twice, and every
  key is the address of a validator that can be printed and read back.
\<close>

theorem reachable_keeper_ok:
  assumes "addr_laws E" and "dec_laws (D E)" and "chain E F h s"
  shows "keeper_ok E s"
  using assms by (rule chain_keeper_ok)

text \<open>
  C8. A chain can be exported and started again: whatever state it has reached, the document
  \<open>ExportGenesis\<close> writes is accepted by \<open>InitGenesis\<close> on an empty store (if the parameters
  pass their own checks), and every store the document covers is restored exactly, with the
  last stamped block of a denom recomputed from its newest price. The averages, the reward
  set and the scheduled parameter plans are not part of the document: they are what the
  new store holds.
\<close>

theorem reachable_genesis_round_trip:
  assumes "addr_laws E" and "dec_laws (D E)" and "chain E F h s"
    and "run_validators (ParamSetPairs (D E) (params s))"
    and "empty_stores t" and "ak_GetModuleAccount E (world t) ModuleName \<noteq> None"
  shows "\<exists>lb. InitGenesis E (ExportGenesis E s) t =
      (s\<lparr>LastHistoricPriceBlock := lb, Averages := Averages t, RewardSetItem := RewardSetItem t,
         ParamUpdatePlans := ParamUpdatePlans t, world := world t\<rparr>, Ok ()) \<and>
    (\<forall>d. coll_get lb d = (case prefix_descending d (HistoricPrices s) of [] \<Rightarrow> None | e # _ \<Rightarrow> Some (snd (fst e))))"
proof -
  have "keeper_ok E s" using assms(1-3) by (rule chain_keeper_ok)
  from import_export [OF this assms(4-6)] show ?thesis
    using last_blocks_newest [of "HistoricPrices s"] by blast
qed

section \<open>A short run\<close>

definition fresh_state :: "ref_world ostate" where
  "fresh_state = \<lparr>params = undefined, ExchangeRates = [], FeederDelegations = [], Prevotes = [], Votes = [],
     HistoricPrices = [], MedianPrices = [], MedianDeviations = [], LastHistoricPriceBlock = [], Averages = [],
     MissCounters = [], RewardSetItem = None, ParamUpdatePlans = [], world = world ref_state\<rparr>"

definition run_document :: GenesisState where
  "run_document = DefaultGenesisState\<lparr>gs_MissCounters := [\<lparr>mi_ValidatorAddress = ''val1'', mi_MissCounter = 3\<rparr>],
     gs_HistoricPrices := [\<lparr>gp_ExchangeRate = Some \<lparr>dc_Denom = ''DM'', dc_Amount = 7\<rparr>, gp_BlockNum = 35\<rparr>]\<rparr>"

definition run_state :: "ref_world ostate" where
  "run_state = fresh_state\<lparr>params := DefaultParams, MissCounters := [(''val1'', 3)], HistoricPrices := [((''DM'', 35), 7)],
     LastHistoricPriceBlock := [(''DM'', 35)], FeederDelegations := [(''val2'', ''feeder2'')]\<rparr>"

lemma ref_addr_laws: "addr_laws ref_env"
  by (auto simp: addr_laws_def val_known_def acc_known_def ref_env_def split: if_splits)

lemma default_params_checked: "run_validators (ParamSetPairs (D ref_env) DefaultParams)"
proof -
  have "run_validators (ParamSetPairs ref_dec DefaultParams)" by code_simp
  then show ?thesis by (simp add: ref_env_def)
qed

lemma run_started:
  "InitGenesis ref_env run_document fresh_state = (run_state\<lparr>FeederDelegations := []\<rparr>, Ok ())"
  using default_params_checked
  by (simp add: InitGenesis_def run_document_def DefaultGenesisState_def fresh_state_def run_state_def init_miss_counter_def
      init_historic_price_def SetMissCounter_def SetHistoricPrice_def SetParams_def GetOracleAccount_def)
    (simp add: ref_env_def)

lemma run_reached: "chain ref_env ref_float 36 run_state"
proof -
  have "canonical_genesis ref_env run_document"
    by (simp add: canonical_genesis_def run_document_def DefaultGenesisState_def)
  moreover have "empty_stores fresh_state" by (simp add: empty_stores_def fresh_state_def)
  ultimately have "chain ref_env ref_float 36 (run_state\<lparr>FeederDelegations := []\<rparr>)"
    using run_started by (intro chain.genesis)
  moreover have "oracle_handle ref_env 36 (DelegateMsg \<lparr>md_Operator = ''val2'', md_Delegate = ''feeder2''\<rparr>)
      (run_state\<lparr>FeederDelegations := []\<rparr>) = (run_state, Ok ())"
    by (simp add: DelegateFeedConsent_def SetFeederDelegation_def run_state_def fresh_state_def ref_env_def ref_state_def)
  ultimately show ?thesis by (rule chain.deliver)
qed

theorem reachable_keeper_ok_witness: "chain ref_env ref_float 36 run_state \<and> keeper_ok ref_env run_state"
proof -
  have "dec_laws (D ref_env)" by (simp add: ref_env_def ref_dec_laws)
  from reachable_keeper_ok [OF ref_addr_laws this run_reached] run_reached show ?thesis by simp
qed

theorem reachable_genesis_round_trip_witness:
  "\<exists>s'. InitGenesis ref_env (ExportGenesis ref_env run_state) fresh_state = (s', Ok ()) \<and>
     FeederDelegations s' = [(''val2'', ''feeder2'')] \<and> MissCounters s' = [(''val1'', 3)] \<and>
     coll_get (LastHistoricPriceBlock s') ''DM'' = Some 35"
proof -
  have "dec_laws (D ref_env)" by (simp add: ref_env_def ref_dec_laws)
  moreover have "empty_stores fresh_state" by (simp add: empty_stores_def fresh_state_def)
  moreover have "run_validators (ParamSetPairs (D ref_env) (params run_state))"
    using default_params_checked by (simp add: run_state_def)
  moreover have "ak_GetModuleAccount ref_env (world fresh_state) ModuleName \<noteq> None" by (simp add: ref_env_def)
  ultimately obtain lb where
    "InitGenesis ref_env (ExportGenesis ref_env run_state) fresh_state =
      (run_state\<lparr>LastHistoricPriceBlock := lb, Averages := Averages fresh_state, RewardSetItem := RewardSetItem fresh_state,
         ParamUpdatePlans := ParamUpdatePlans fresh_state, world := world fresh_state\<rparr>, Ok ())"
    "\<forall>d. coll_get lb d = (case prefix_descending d (HistoricPrices run_state) of [] \<Rightarrow> None | e # _ \<Rightarrow> Some (snd (fst e)))"
    using reachable_genesis_round_trip [OF ref_addr_laws _ run_reached] by blast
  then show ?thesis by (simp add: run_state_def prefix_descending_def)
qed

end
