(* ===== verification/Oracle_Keys.thy ===== *)
theory Oracle_Keys
  imports Util
begin

text \<open>
  The store keys of the oracle module (\<open>src/x/oracle/types/keys.go\<close>). The keys of medians,
  deviations and historic prices share one layout, a prefix, the denom, and the block
  number behind a null byte; the locale \<open>denom_block_key\<close> states it once, proves that
  \<open>ParseDenomAndBlockFromKey\<close> inverts it, and is interpreted on the three key functions.
\<close>

definition KeyPrefixExchangeRate :: bytes where "KeyPrefixExchangeRate = [CHR 0x01]"
definition KeyPrefixFeederDelegation :: bytes where "KeyPrefixFeederDelegation = [CHR 0x02]"
definition KeyPrefixMissCounter :: bytes where "KeyPrefixMissCounter = [CHR 0x03]"
definition KeyPrefixAggregateExchangeRatePrevote :: bytes where
  "KeyPrefixAggregateExchangeRatePrevote = [CHR 0x04]"
definition KeyPrefixAggregateExchangeRateVote :: bytes where
  "KeyPrefixAggregateExchangeRateVote = [CHR 0x05]"
definition KeyPrefixMedian :: bytes where "KeyPrefixMedian = [CHR 0x06]"
definition KeyPrefixMedianDeviation :: bytes where "KeyPrefixMedianDeviation = [CHR 0x07]"
definition KeyPrefixHistoricPrice :: bytes where "KeyPrefixHistoricPrice = [CHR 0x08]"
definition KeyPrefixValidatorRewardSet :: bytes where "KeyPrefixValidatorRewardSet = [CHR 0x09]"
definition KeyPrefixParamUpdatePlan :: bytes where "KeyPrefixParamUpdatePlan = [CHR 0x10]"
definition KeyPrefixLastHistoricPriceBlock :: bytes where
  "KeyPrefixLastHistoricPriceBlock = [CHR 0x11]"
definition KeyPrefixAverages :: bytes where "KeyPrefixAverages = [CHR 0x12]"

text \<open>\<open>lp\<close> is \<open>address.MustLengthPrefix\<close> of the SDK; \<open>None\<close> is its panic.\<close>

definition GetExchangeRateKey :: "string \<Rightarrow> bytes" where
  "GetExchangeRateKey denom = KeyPrefixExchangeRate @ denom @ [CHR 0x00]"

definition GetFeederDelegationKey :: "(bytes \<Rightarrow> bytes option) \<Rightarrow> bytes \<Rightarrow> bytes res" where
  "GetFeederDelegationKey lp v = bind_res (must (lp v)) (\<lambda>b. Ok (KeyPrefixFeederDelegation @ b))"

definition GetMissCounterKey :: "(bytes \<Rightarrow> bytes option) \<Rightarrow> bytes \<Rightarrow> bytes res" where
  "GetMissCounterKey lp v = bind_res (must (lp v)) (\<lambda>b. Ok (KeyPrefixMissCounter @ b))"

definition GetAggregateExchangeRatePrevoteKey :: "(bytes \<Rightarrow> bytes option) \<Rightarrow> bytes \<Rightarrow> bytes res" where
  "GetAggregateExchangeRatePrevoteKey lp v =
     bind_res (must (lp v)) (\<lambda>b. Ok (KeyPrefixAggregateExchangeRatePrevote @ b))"

definition GetAggregateExchangeRateVoteKey :: "(bytes \<Rightarrow> bytes option) \<Rightarrow> bytes \<Rightarrow> bytes res" where
  "GetAggregateExchangeRateVoteKey lp v =
     bind_res (must (lp v)) (\<lambda>b. Ok (KeyPrefixAggregateExchangeRateVote @ b))"

definition KeyMedian :: "string \<Rightarrow> uint64 \<Rightarrow> bytes res" where
  "KeyMedian denom blockNum = ConcatBytes 0 [KeyPrefixMedian, denom, UintWithNullPrefix blockNum]"

definition KeyMedianDeviation :: "string \<Rightarrow> uint64 \<Rightarrow> bytes res" where
  "KeyMedianDeviation denom blockNum =
     ConcatBytes 0 [KeyPrefixMedianDeviation, denom, UintWithNullPrefix blockNum]"

definition KeyHistoricPrice :: "string \<Rightarrow> uint64 \<Rightarrow> bytes res" where
  "KeyHistoricPrice denom blockNum =
     ConcatBytes 0 [KeyPrefixHistoricPrice, denom, UintWithNullPrefix blockNum]"

definition KeyValidatorRewardSet :: "bytes res" where
  "KeyValidatorRewardSet = ConcatBytes 0 [KeyPrefixValidatorRewardSet]"

definition KeyParamUpdatePlan :: "uint64 \<Rightarrow> bytes res" where
  "KeyParamUpdatePlan planHeight = ConcatBytes 0 [KeyPrefixParamUpdatePlan, UintWithNullPrefix planHeight]"

definition ParseDenomAndBlockFromKey :: "bytes \<Rightarrow> bytes \<Rightarrow> (string \<times> uint64) res" where
  "ParseDenomAndBlockFromKey key prefix =
     (if int (length prefix) > int (length key) - 9 then Panic
      else bind_res (Uint64 (drop (length key - 8) key)) (\<lambda>block.
        Ok (take (length key - 9 - length prefix) (drop (length prefix) key), block)))"

definition KeyLastHistoricPriceBlock :: "string \<Rightarrow> bytes res" where
  "KeyLastHistoricPriceBlock denom = ConcatBytes 0 [KeyPrefixLastHistoricPriceBlock, denom]"

section \<open>The layout of the denom and block keys\<close>

lemma ParseDenomAndBlock_layout:
  "ParseDenomAndBlockFromKey (prefix @ denom @ UintWithNullPrefix n) prefix = Ok (denom, n)"
  by (simp add: ParseDenomAndBlockFromKey_def UintWithNullPrefix_def)

locale denom_block_key =
  fixes key :: "string \<Rightarrow> uint64 \<Rightarrow> bytes res" and prefix :: bytes
  assumes layout: "key denom n = Ok (prefix @ denom @ UintWithNullPrefix n)"
begin

lemma parse: "bind_res (key denom n) (\<lambda>k. ParseDenomAndBlockFromKey k prefix) = Ok (denom, n)"
  by (simp add: layout ParseDenomAndBlock_layout)

lemma inj: "key d m = key d' n \<longleftrightarrow> d = d' \<and> m = n"
  using parse by (metis prod.inject res.inject(1))

end

interpretation median_key: denom_block_key KeyMedian KeyPrefixMedian
  by unfold_locales (simp add: KeyMedian_def ConcatBytes_Ok)

interpretation deviation_key: denom_block_key KeyMedianDeviation KeyPrefixMedianDeviation
  by unfold_locales (simp add: KeyMedianDeviation_def ConcatBytes_Ok)

interpretation price_key: denom_block_key KeyHistoricPrice KeyPrefixHistoricPrice
  by unfold_locales (simp add: KeyHistoricPrice_def ConcatBytes_Ok)

lemmas key_prefixes = KeyPrefixExchangeRate_def KeyPrefixFeederDelegation_def
  KeyPrefixMissCounter_def KeyPrefixAggregateExchangeRatePrevote_def
  KeyPrefixAggregateExchangeRateVote_def KeyPrefixMedian_def KeyPrefixMedianDeviation_def
  KeyPrefixHistoricPrice_def KeyPrefixValidatorRewardSet_def KeyPrefixParamUpdatePlan_def
  KeyPrefixLastHistoricPriceBlock_def KeyPrefixAverages_def

section \<open>Properties\<close>

text \<open>
  The keys of medians, deviations and historic prices are decoded by
  \<open>ParseDenomAndBlockFromKey\<close> to the denom and block they were made from, for every denom
  (null bytes included) and every block number.
\<close>

theorem price_key_round_trip:
  "bind_res (KeyMedian d n) (\<lambda>k. ParseDenomAndBlockFromKey k KeyPrefixMedian) = Ok (d, n) \<and>
   bind_res (KeyMedianDeviation d n) (\<lambda>k. ParseDenomAndBlockFromKey k KeyPrefixMedianDeviation)
     = Ok (d, n) \<and>
   bind_res (KeyHistoricPrice d n) (\<lambda>k. ParseDenomAndBlockFromKey k KeyPrefixHistoricPrice)
     = Ok (d, n)"
  by (simp add: median_key.parse deviation_key.parse price_key.parse)

text \<open>
  No two different entries share a store key: the three families are disjoint and each
  is injective in the denom and the block; plan keys are injective in the height.
\<close>

theorem store_keys_injective:
  "KeyMedian d m \<noteq> KeyMedianDeviation d' n \<and> KeyMedian d m \<noteq> KeyHistoricPrice d' n \<and>
   KeyMedianDeviation d m \<noteq> KeyHistoricPrice d' n \<and>
   (KeyMedian d m = KeyMedian d' n \<longleftrightarrow> d = d' \<and> m = n) \<and>
   (KeyMedianDeviation d m = KeyMedianDeviation d' n \<longleftrightarrow> d = d' \<and> m = n) \<and>
   (KeyHistoricPrice d m = KeyHistoricPrice d' n \<longleftrightarrow> d = d' \<and> m = n) \<and>
   (KeyParamUpdatePlan m = KeyParamUpdatePlan n \<longleftrightarrow> m = n)"
  by (simp only: median_key.inj deviation_key.inj price_key.inj)
    (simp add: median_key.layout deviation_key.layout price_key.layout key_prefixes
      KeyParamUpdatePlan_def ConcatBytes_Ok)

end
