(* ===== verification/Oracle_Codec.thy ===== *)
theory Oracle_Codec
  imports Wire Oracle_Keeper
begin

text \<open>
  The encodings of the types the oracle stores and sends (\<open>src/x/oracle/types/oracle.pb.go\<close>)
  and of the vote extensions (\<open>abci.pb.go\<close>). For a message \<open>X\<close>, \<open>write_X\<close> is the body of
  \<open>MarshalToSizedBuffer\<close>, \<open>size_X\<close> is \<open>Size\<close>, \<open>field_X\<close> is the \<open>switch\<close> of \<open>Unmarshal\<close> and
  \<open>zero_X\<close> the fresh struct it fills; \<open>fields_X\<close> is the encoding they are compared with, and
  \<open>ok_X\<close> says that the numbers are in the range of their types.

  The decimals and coins of the SDK have code of their own for this: it is the parameter
  \<open>sdk_codec\<close>, with the laws of the locale \<open>sdk_encoding\<close>.
\<close>

section \<open>Decimals and coins\<close>

text \<open>
  \<open>nil_dec\<close> is the decimal of a fresh struct. \<open>dec_MarshalTo x d\<close> is the slice \<open>d\<close> after
  \<open>x.MarshalTo(d)\<close>; \<open>dec_Unmarshal\<close> and \<open>coin_Unmarshal\<close> are
  given the value the receiver had; \<open>fresh_coin\<close> is that of a fresh coin.
\<close>

record sdk_codec =
  nil_dec :: dec
  dec_Size :: "dec \<Rightarrow> nat"
  dec_MarshalTo :: "dec \<Rightarrow> bytes \<Rightarrow> bytes res"
  dec_Unmarshal :: "bytes \<Rightarrow> dec \<Rightarrow> dec res"
  coin_Size :: "DecCoin \<Rightarrow> nat"
  coin_MarshalToSizedBuffer :: "DecCoin \<Rightarrow> marshaller"
  coin_Unmarshal :: "bytes \<Rightarrow> DecCoin \<Rightarrow> DecCoin res"

definition fresh_coin :: "sdk_codec \<Rightarrow> DecCoin" where
  "fresh_coin K = \<lparr>dc_Denom = [], dc_Amount = nil_dec K\<rparr>"

text \<open>\<open>size := x.Size(); i -= size; x.MarshalTo(dAtA[i:])\<close>, then the length and the tag.\<close>

definition w_dec :: "sdk_codec \<Rightarrow> nat list \<Rightarrow> dec \<Rightarrow> writer" where
  "w_dec K tag x = (\<lambda>(dAtA, i). let n = dec_Size K x; i = i - int n in
     if i < 0 \<or> int (length dAtA) < i then Panic
     else bind_res (dec_MarshalTo K x (drop (nat i) dAtA)) (\<lambda>d.
       then_w (encodeVarint (of_nat n)) (w_tag tag) (take (nat i) dAtA @ d, i)))"

text \<open>A pointer to a decimal is written unless it is nil.\<close>

definition w_opt_dec :: "sdk_codec \<Rightarrow> nat list \<Rightarrow> dec option \<Rightarrow> writer" where
  "w_opt_dec K tag x = (case x of None \<Rightarrow> skip_w | Some x \<Rightarrow> w_dec K tag x)"

definition opt_dec_size :: "sdk_codec \<Rightarrow> nat \<Rightarrow> dec option \<Rightarrow> nat" where
  "opt_dec_size K t x = (case x of None \<Rightarrow> 0 | Some x \<Rightarrow> len_size t (dec_Size K x))"

text \<open>The decimals that \<open>LegacyDec.Unmarshal\<close> accepts have at most 315 bits.\<close>

definition dec_in_range :: "dec \<Rightarrow> bool" where
  "dec_in_range x \<longleftrightarrow> \<bar>x\<bar> < 2 ^ 315"

definition dec_bytes :: "sdk_codec \<Rightarrow> dec \<Rightarrow> bytes" where
  "dec_bytes K x = (case dec_MarshalTo K x (replicate (dec_Size K x) (char_of (0 :: nat))) of Ok d \<Rightarrow> d | _ \<Rightarrow> [])"

definition f_opt_dec :: "sdk_codec \<Rightarrow> nat \<Rightarrow> dec option \<Rightarrow> fval list" where
  "f_opt_dec K n x = (case x of None \<Rightarrow> [] | Some x \<Rightarrow> [FBytes n (dec_bytes K x)])"

definition coin_bytes :: "sdk_codec \<Rightarrow> DecCoin \<Rightarrow> bytes" where
  "coin_bytes K c = (case coin_MarshalToSizedBuffer K c (replicate (coin_Size K c) (char_of (0 :: nat))) of Ok (d, _) \<Rightarrow> d | _ \<Rightarrow> [])"

text \<open>What is written is read back, for decimals in range and the coins made of them.\<close>

definition codec_laws :: "sdk_codec \<Rightarrow> bool" where
  "codec_laws K \<longleftrightarrow>
     (\<forall>x. dec_in_range x \<longrightarrow> (\<exists>bs. length bs = dec_Size K x \<and> (\<forall>old. dec_Unmarshal K bs old = Ok x) \<and>
        (\<forall>d. length bs \<le> length d \<longrightarrow> dec_MarshalTo K x d = Ok (bs @ drop (length bs) d)))) \<and>
     (\<forall>c. dec_in_range (dc_Amount c) \<longrightarrow> (\<exists>bs. length bs = coin_Size K c \<and> coin_Unmarshal K bs (fresh_coin K) = Ok c \<and>
        marshals (coin_MarshalToSizedBuffer K c) bs))"

locale sdk_encoding =
  fixes K :: sdk_codec
  assumes laws: "codec_laws K"
begin

lemma dec_codec [codec]:
  assumes "dec_in_range x"
  shows "length (dec_bytes K x) = dec_Size K x" "dec_Unmarshal K (dec_bytes K x) old = Ok x"
    "length (dec_bytes K x) \<le> length d \<Longrightarrow> dec_MarshalTo K x d = Ok (dec_bytes K x @ drop (length (dec_bytes K x)) d)"
proof -
  obtain bs where bs: "length bs = dec_Size K x" "\<forall>old. dec_Unmarshal K bs old = Ok x"
    "\<forall>d. length bs \<le> length d \<longrightarrow> dec_MarshalTo K x d = Ok (bs @ drop (length bs) d)"
    using laws assms by (auto simp: codec_laws_def)
  then have "dec_bytes K x = bs" by (simp add: dec_bytes_def)
  with bs show "length (dec_bytes K x) = dec_Size K x" "dec_Unmarshal K (dec_bytes K x) old = Ok x"
    "length (dec_bytes K x) \<le> length d \<Longrightarrow> dec_MarshalTo K x d = Ok (dec_bytes K x @ drop (length (dec_bytes K x)) d)"
    by simp_all
qed

lemma coin_codec [codec]:
  assumes "dec_in_range (dc_Amount c)"
  shows "length (coin_bytes K c) = coin_Size K c" "coin_Unmarshal K (coin_bytes K c) (fresh_coin K) = Ok c"
    "marshals (coin_MarshalToSizedBuffer K c) (coin_bytes K c)"
proof -
  obtain bs where bs: "length bs = coin_Size K c" "coin_Unmarshal K bs (fresh_coin K) = Ok c" "marshals (coin_MarshalToSizedBuffer K c) bs"
    using laws assms by (auto simp: codec_laws_def)
  then have "coin_bytes K c = bs" by (simp add: coin_bytes_def marshals_def)
  with bs show "length (coin_bytes K c) = coin_Size K c" "coin_Unmarshal K (coin_bytes K c) (fresh_coin K) = Ok c"
    "marshals (coin_MarshalToSizedBuffer K c) (coin_bytes K c)" by simp_all
qed

lemma writes_dec [codec]:
  assumes "tag_of tag n 2" and "dec_in_range x"
  shows "writes (w_dec K tag x) (enc_field (FBytes n (dec_bytes K x)))"
proof -
  let ?bs = "dec_bytes K x"
  define copy where "copy = (\<lambda>(dAtA, i). let n = dec_Size K x; i = i - int n in
     if i < 0 \<or> int (length dAtA) < i then Panic
     else bind_res (dec_MarshalTo K x (drop (nat i) dAtA)) (\<lambda>d. Ok (take (nat i) dAtA @ d, i)))"
  have "writes copy ?bs"
    unfolding writes_def
  proof (intro allI impI)
    fix d :: bytes and i assume i: "int (length ?bs) \<le> i" "i \<le> int (length d)"
    then have "nat (i - int (length ?bs)) = nat i - length ?bs" "length ?bs \<le> length d - (nat i - length ?bs)"
      "nat i - length ?bs + length ?bs = nat i" by auto
    then show "copy (d, i) = Ok (take (nat i - length ?bs) d @ ?bs @ drop (nat i) d, i - int (length ?bs))"
      using i dec_codec(1) [OF assms(2)] dec_codec(3) [OF assms(2), of "drop (nat i - length ?bs) d"]
      by (simp add: copy_def Let_def add.commute)
  qed
  from writes_then [OF this writes_then [OF writes_varint writes_tag], of "of_nat (length ?bs)" tag]
  have "writes (then_w copy (then_w (encodeVarint (of_nat (length ?bs))) (w_tag tag))) (enc_field (FBytes n ?bs))"
    using assms(1) by (simp add: tag_of_def len_prefixed_def enc_field.simps)
  moreover have "then_w copy (then_w (encodeVarint (of_nat (length ?bs))) (w_tag tag)) = w_dec K tag x"
  proof
    fix b show "then_w copy (then_w (encodeVarint (of_nat (length ?bs))) (w_tag tag)) b = w_dec K tag x b"
      using dec_codec(1) [OF assms(2)]
      by (cases b, cases "dec_MarshalTo K x (drop (nat (snd b - int (dec_Size K x))) (fst b))")
        (simp_all add: copy_def w_dec_def then_w_def Let_def)
  qed
  ultimately show ?thesis by simp
qed

lemma opt_dec_codec [codec]:
  assumes "\<forall>x. y = Some x \<longrightarrow> dec_in_range x"
  shows "tag_of tag n 2 \<Longrightarrow> writes (w_opt_dec K tag y) (enc_fields (f_opt_dec K n y))"
    "length (enc_fields (f_opt_dec K n y)) = opt_dec_size K (sov (of_nat (8 * n + 2))) y"
  using assms writes_dec [of tag n] writes_skip
  by (auto simp: w_opt_dec_def f_opt_dec_def opt_dec_size_def length_field_bytes dec_codec(1) split: option.splits)

lemma field_num_opt_dec [codec]: "f \<in> set (f_opt_dec K n y) \<Longrightarrow> field_num f = n"
  by (auto simp: f_opt_dec_def split: option.splits)

lemma apply_opt_dec:
  assumes "T (int n) = Some (PBytes g)" and "\<forall>x. y = Some x \<longrightarrow> g (dec_bytes K x) m = Ok (U (\<lambda>_. y) m)"
    and "y = None \<Longrightarrow> U (\<lambda>_. y) m = m"
  shows "apply_fields T (f_opt_dec K n y) m = Ok (U (\<lambda>_. y) m)"
  using assms by (cases y) (simp_all add: f_opt_dec_def)

end

section \<open>Denom\<close>

definition write_Denom :: "Denom \<Rightarrow> writer" where
  "write_Denom m = seq_w
    [w_opt_varint [0x18] (ucast (Exponent m)),
     w_opt_string [0x12] (SymbolDenom m),
     w_opt_string [0xa] (BaseDenom m)]"

definition size_Denom :: "Denom \<Rightarrow> nat" where
  "size_Denom m =
     opt_len_size 1 (length (BaseDenom m)) +
     opt_len_size 1 (length (SymbolDenom m)) +
     varint_size 1 (ucast (Exponent m))"

definition field_Denom :: "Denom ptable" where
  "field_Denom fieldNum =
     (if fieldNum = 1 then Some (PBytes (\<lambda>bs m. Ok (m\<lparr>BaseDenom := bs\<rparr>)))
      else if fieldNum = 2 then Some (PBytes (\<lambda>bs m. Ok (m\<lparr>SymbolDenom := bs\<rparr>)))
      else if fieldNum = 3 then Some (PVarint (\<lambda>v m. m\<lparr>Exponent := ucast v\<rparr>))
      else None)"

definition zero_Denom :: "Denom" where
  "zero_Denom = \<lparr>BaseDenom = [], SymbolDenom = [], Exponent = 0\<rparr>"

definition fields_Denom :: "Denom \<Rightarrow> fval list" where
  "fields_Denom m = concat
    [f_bytes 1 (BaseDenom m),
     f_bytes 2 (SymbolDenom m),
     f_varint 3 (ucast (Exponent m))]"

interpretation denom: message write_Denom size_Denom field_Denom zero_Denom
  fields_Denom "\<lambda>m. True"
proof unfold_locales
  fix m :: "Denom"
  show "writes (write_Denom m) (enc_fields (fields_Denom m))"
    unfolding write_Denom_def fields_Denom_def
    by (rule writes_seq) (simp add: codec)
  show "size_Denom m = length (enc_fields (fields_Denom m))"
    by (simp add: size_Denom_def fields_Denom_def codec)
  show "apply_fields field_Denom (fields_Denom m) zero_Denom = Ok m"
    by (cases m) (simp add: fields_Denom_def field_Denom_def zero_Denom_def codec)
  fix f
  assume "f \<in> set (fields_Denom m)"
  then show "0 < field_num f \<and> field_num f < 2 ^ 28"
    by (auto simp: fields_Denom_def codec)
qed

section \<open>RewardBand\<close>

definition write_RewardBand :: "sdk_codec \<Rightarrow> RewardBand \<Rightarrow> writer" where
  "write_RewardBand K m = seq_w
    [w_dec K [0x12] (rb_RewardBand m),
     w_opt_string [0xa] (rb_SymbolDenom m)]"

definition size_RewardBand :: "sdk_codec \<Rightarrow> RewardBand \<Rightarrow> nat" where
  "size_RewardBand K m =
     opt_len_size 1 (length (rb_SymbolDenom m)) +
     len_size 1 (dec_Size K (rb_RewardBand m))"

definition field_RewardBand :: "sdk_codec \<Rightarrow> RewardBand ptable" where
  "field_RewardBand K fieldNum =
     (if fieldNum = 1 then Some (PBytes (\<lambda>bs m. Ok (m\<lparr>rb_SymbolDenom := bs\<rparr>)))
      else if fieldNum = 2 then Some (PBytes (\<lambda>bs m. bind_res (dec_Unmarshal K bs (rb_RewardBand m)) (\<lambda>x. Ok (m\<lparr>rb_RewardBand := x\<rparr>))))
      else None)"

definition zero_RewardBand :: "sdk_codec \<Rightarrow> RewardBand" where
  "zero_RewardBand K = \<lparr>rb_SymbolDenom = [], rb_RewardBand = nil_dec K\<rparr>"

definition fields_RewardBand :: "sdk_codec \<Rightarrow> RewardBand \<Rightarrow> fval list" where
  "fields_RewardBand K m = concat
    [f_bytes 1 (rb_SymbolDenom m),
     [FBytes 2 (dec_bytes K (rb_RewardBand m))]]"

definition ok_RewardBand :: "RewardBand \<Rightarrow> bool" where
  "ok_RewardBand m \<longleftrightarrow> dec_in_range (rb_RewardBand m)"

sublocale sdk_encoding \<subseteq> band: message "write_RewardBand K" "size_RewardBand K" "field_RewardBand K" "zero_RewardBand K"
  "fields_RewardBand K" ok_RewardBand
proof unfold_locales
  fix m :: "RewardBand"
  assume ok: "ok_RewardBand m"
  show "writes (write_RewardBand K m) (enc_fields (fields_RewardBand K m))"
    unfolding write_RewardBand_def fields_RewardBand_def
    by (rule writes_seq) (use ok in \<open>simp add: codec ok_RewardBand_def\<close>)
  show "size_RewardBand K m = length (enc_fields (fields_RewardBand K m))"
    using ok by (simp add: size_RewardBand_def fields_RewardBand_def codec ok_RewardBand_def)
  show "apply_fields (field_RewardBand K) (fields_RewardBand K m) (zero_RewardBand K) = Ok m"
    using ok by (cases m) (simp add: fields_RewardBand_def field_RewardBand_def zero_RewardBand_def codec ok_RewardBand_def)
next
  fix m :: "RewardBand" and f
  assume "f \<in> set (fields_RewardBand K m)"
  then show "0 < field_num f \<and> field_num f < 2 ^ 28"
    by (auto simp: fields_RewardBand_def codec)
qed

section \<open>Prevote\<close>

definition write_Prevote :: "AggregateExchangeRatePrevote \<Rightarrow> writer" where
  "write_Prevote m = seq_w
    [w_opt_varint [0x18] (pv_SubmitBlock m),
     w_opt_string [0x12] (pv_Voter m),
     w_opt_string [0xa] (pv_Hash m)]"

definition size_Prevote :: "AggregateExchangeRatePrevote \<Rightarrow> nat" where
  "size_Prevote m =
     opt_len_size 1 (length (pv_Hash m)) +
     opt_len_size 1 (length (pv_Voter m)) +
     varint_size 1 (pv_SubmitBlock m)"

definition field_Prevote :: "AggregateExchangeRatePrevote ptable" where
  "field_Prevote fieldNum =
     (if fieldNum = 1 then Some (PBytes (\<lambda>bs m. Ok (m\<lparr>pv_Hash := bs\<rparr>)))
      else if fieldNum = 2 then Some (PBytes (\<lambda>bs m. Ok (m\<lparr>pv_Voter := bs\<rparr>)))
      else if fieldNum = 3 then Some (PVarint (\<lambda>v m. m\<lparr>pv_SubmitBlock := v\<rparr>))
      else None)"

definition zero_Prevote :: "AggregateExchangeRatePrevote" where
  "zero_Prevote = \<lparr>pv_Hash = [], pv_Voter = [], pv_SubmitBlock = 0\<rparr>"

definition fields_Prevote :: "AggregateExchangeRatePrevote \<Rightarrow> fval list" where
  "fields_Prevote m = concat
    [f_bytes 1 (pv_Hash m),
     f_bytes 2 (pv_Voter m),
     f_varint 3 (pv_SubmitBlock m)]"

interpretation prevote: message write_Prevote size_Prevote field_Prevote zero_Prevote
  fields_Prevote "\<lambda>m. True"
proof unfold_locales
  fix m :: "AggregateExchangeRatePrevote"
  show "writes (write_Prevote m) (enc_fields (fields_Prevote m))"
    unfolding write_Prevote_def fields_Prevote_def
    by (rule writes_seq) (simp add: codec)
  show "size_Prevote m = length (enc_fields (fields_Prevote m))"
    by (simp add: size_Prevote_def fields_Prevote_def codec)
  show "apply_fields field_Prevote (fields_Prevote m) zero_Prevote = Ok m"
    by (cases m) (simp add: fields_Prevote_def field_Prevote_def zero_Prevote_def codec)
  fix f
  assume "f \<in> set (fields_Prevote m)"
  then show "0 < field_num f \<and> field_num f < 2 ^ 28"
    by (auto simp: fields_Prevote_def codec)
qed

section \<open>Vote\<close>

definition write_Vote :: "sdk_codec \<Rightarrow> AggregateExchangeRateVote \<Rightarrow> writer" where
  "write_Vote K m = seq_w
    [w_opt_string [0x12] (av_Voter m),
     w_each (\<lambda>c. w_nested [0xa] (coin_MarshalToSizedBuffer K c)) (av_ExchangeRates m)]"

definition size_Vote :: "sdk_codec \<Rightarrow> AggregateExchangeRateVote \<Rightarrow> nat" where
  "size_Vote K m =
     (\<Sum>e \<leftarrow> av_ExchangeRates m. len_size 1 (coin_Size K e)) +
     opt_len_size 1 (length (av_Voter m))"

definition field_Vote :: "sdk_codec \<Rightarrow> AggregateExchangeRateVote ptable" where
  "field_Vote K fieldNum =
     (if fieldNum = 1 then Some (PBytes (\<lambda>bs m. bind_res (coin_Unmarshal K bs (fresh_coin K)) (\<lambda>c. Ok (m\<lparr>av_ExchangeRates := av_ExchangeRates m @ [c]\<rparr>))))
      else if fieldNum = 2 then Some (PBytes (\<lambda>bs m. Ok (m\<lparr>av_Voter := bs\<rparr>)))
      else None)"

definition zero_Vote :: "AggregateExchangeRateVote" where
  "zero_Vote = \<lparr>av_ExchangeRates = [], av_Voter = []\<rparr>"

definition fields_Vote :: "sdk_codec \<Rightarrow> AggregateExchangeRateVote \<Rightarrow> fval list" where
  "fields_Vote K m = concat
    [map (\<lambda>c. FBytes 1 (coin_bytes K c)) (av_ExchangeRates m),
     f_bytes 2 (av_Voter m)]"

definition ok_Vote :: "AggregateExchangeRateVote \<Rightarrow> bool" where
  "ok_Vote m \<longleftrightarrow> (\<forall>c \<in> set (av_ExchangeRates m). dec_in_range (dc_Amount c))"

sublocale sdk_encoding \<subseteq> vote: message "write_Vote K" "size_Vote K" "field_Vote K" zero_Vote
  "fields_Vote K" ok_Vote
proof unfold_locales
  fix m :: "AggregateExchangeRateVote"
  assume ok: "ok_Vote m"
  show "writes (write_Vote K m) (enc_fields (fields_Vote K m))"
    unfolding write_Vote_def fields_Vote_def
    by (rule writes_seq) (use ok in \<open>simp add: codec ok_Vote_def\<close>)
  show "size_Vote K m = length (enc_fields (fields_Vote K m))"
    using ok by (simp add: size_Vote_def fields_Vote_def codec ok_Vote_def cong: map_cong)
  show "apply_fields (field_Vote K) (fields_Vote K m) zero_Vote = Ok m"
    using ok by (cases m) (simp add: fields_Vote_def field_Vote_def zero_Vote_def codec ok_Vote_def
        apply_each [where U = av_ExchangeRates_update])
next
  fix m :: "AggregateExchangeRateVote" and f
  assume "f \<in> set (fields_Vote K m)"
  then show "0 < field_num f \<and> field_num f < 2 ^ 28"
    by (auto simp: fields_Vote_def codec)
qed

section \<open>ValidatorRewardSet\<close>

definition write_ValidatorRewardSet :: "ValidatorRewardSet \<Rightarrow> writer" where
  "write_ValidatorRewardSet m = seq_w
    [w_each (w_string [0xa]) (ValidatorSet m)]"

definition size_ValidatorRewardSet :: "ValidatorRewardSet \<Rightarrow> nat" where
  "size_ValidatorRewardSet m =
     (\<Sum>s \<leftarrow> ValidatorSet m. len_size 1 (length s))"

definition field_ValidatorRewardSet :: "ValidatorRewardSet ptable" where
  "field_ValidatorRewardSet fieldNum =
     (if fieldNum = 1 then Some (PBytes (\<lambda>bs m. Ok (m\<lparr>ValidatorSet := ValidatorSet m @ [bs]\<rparr>)))
      else None)"

definition zero_ValidatorRewardSet :: "ValidatorRewardSet" where
  "zero_ValidatorRewardSet = \<lparr>ValidatorSet = []\<rparr>"

definition fields_ValidatorRewardSet :: "ValidatorRewardSet \<Rightarrow> fval list" where
  "fields_ValidatorRewardSet m = concat
    [map (\<lambda>s. FBytes 1 s) (ValidatorSet m)]"

interpretation rewardset: message write_ValidatorRewardSet size_ValidatorRewardSet field_ValidatorRewardSet zero_ValidatorRewardSet
  fields_ValidatorRewardSet "\<lambda>m. True"
proof unfold_locales
  fix m :: "ValidatorRewardSet"
  show "writes (write_ValidatorRewardSet m) (enc_fields (fields_ValidatorRewardSet m))"
    unfolding write_ValidatorRewardSet_def fields_ValidatorRewardSet_def
    by (rule writes_seq) (simp add: codec)
  show "size_ValidatorRewardSet m = length (enc_fields (fields_ValidatorRewardSet m))"
    by (simp add: size_ValidatorRewardSet_def fields_ValidatorRewardSet_def codec cong: map_cong)
  show "apply_fields field_ValidatorRewardSet (fields_ValidatorRewardSet m) zero_ValidatorRewardSet = Ok m"
    by (cases m) (simp add: fields_ValidatorRewardSet_def field_ValidatorRewardSet_def zero_ValidatorRewardSet_def codec
        apply_each [where U = ValidatorSet_update])
  fix f
  assume "f \<in> set (fields_ValidatorRewardSet m)"
  then show "0 < field_num f \<and> field_num f < 2 ^ 28"
    by (auto simp: fields_ValidatorRewardSet_def codec)
qed

section \<open>PairAddressProvider\<close>

definition write_PairAddressProvider :: "PairAddressProvider \<Rightarrow> writer" where
  "write_PairAddressProvider m = seq_w
    [w_opt_string [0x12] (pap_AddressProvider m),
     w_opt_string [0xa] (pap_Address m)]"

definition size_PairAddressProvider :: "PairAddressProvider \<Rightarrow> nat" where
  "size_PairAddressProvider m =
     opt_len_size 1 (length (pap_Address m)) +
     opt_len_size 1 (length (pap_AddressProvider m))"

definition field_PairAddressProvider :: "PairAddressProvider ptable" where
  "field_PairAddressProvider fieldNum =
     (if fieldNum = 1 then Some (PBytes (\<lambda>bs m. Ok (m\<lparr>pap_Address := bs\<rparr>)))
      else if fieldNum = 2 then Some (PBytes (\<lambda>bs m. Ok (m\<lparr>pap_AddressProvider := bs\<rparr>)))
      else None)"

definition zero_PairAddressProvider :: "PairAddressProvider" where
  "zero_PairAddressProvider = \<lparr>pap_Address = [], pap_AddressProvider = []\<rparr>"

definition fields_PairAddressProvider :: "PairAddressProvider \<Rightarrow> fval list" where
  "fields_PairAddressProvider m = concat
    [f_bytes 1 (pap_Address m),
     f_bytes 2 (pap_AddressProvider m)]"

interpretation pairaddress: message write_PairAddressProvider size_PairAddressProvider field_PairAddressProvider zero_PairAddressProvider
  fields_PairAddressProvider "\<lambda>m. True"
proof unfold_locales
  fix m :: "PairAddressProvider"
  show "writes (write_PairAddressProvider m) (enc_fields (fields_PairAddressProvider m))"
    unfolding write_PairAddressProvider_def fields_PairAddressProvider_def
    by (rule writes_seq) (simp add: codec)
  show "size_PairAddressProvider m = length (enc_fields (fields_PairAddressProvider m))"
    by (simp add: size_PairAddressProvider_def fields_PairAddressProvider_def codec)
  show "apply_fields field_PairAddressProvider (fields_PairAddressProvider m) zero_PairAddressProvider = Ok m"
    by (cases m) (simp add: fields_PairAddressProvider_def field_PairAddressProvider_def zero_PairAddressProvider_def codec)
  fix f
  assume "f \<in> set (fields_PairAddressProvider m)"
  then show "0 < field_num f \<and> field_num f < 2 ^ 28"
    by (auto simp: fields_PairAddressProvider_def codec)
qed

section \<open>CurrencyPairProviders\<close>

definition write_CurrencyPairProviders :: "CurrencyPairProviders \<Rightarrow> writer" where
  "write_CurrencyPairProviders m = seq_w
    [w_each (w_string [0x22]) (cpp_Providers m),
     w_each (\<lambda>e. w_nested [0x1a] (to_sized (write_PairAddressProvider e))) (cpp_PairAddress m),
     w_opt_string [0x12] (cpp_QuoteDenom m),
     w_opt_string [0xa] (cpp_BaseDenom m)]"

definition size_CurrencyPairProviders :: "CurrencyPairProviders \<Rightarrow> nat" where
  "size_CurrencyPairProviders m =
     opt_len_size 1 (length (cpp_BaseDenom m)) +
     opt_len_size 1 (length (cpp_QuoteDenom m)) +
     (\<Sum>e \<leftarrow> cpp_PairAddress m. len_size 1 (size_PairAddressProvider e)) +
     (\<Sum>s \<leftarrow> cpp_Providers m. len_size 1 (length s))"

definition field_CurrencyPairProviders :: "CurrencyPairProviders ptable" where
  "field_CurrencyPairProviders fieldNum =
     (if fieldNum = 1 then Some (PBytes (\<lambda>bs m. Ok (m\<lparr>cpp_BaseDenom := bs\<rparr>)))
      else if fieldNum = 2 then Some (PBytes (\<lambda>bs m. Ok (m\<lparr>cpp_QuoteDenom := bs\<rparr>)))
      else if fieldNum = 3 then Some (PBytes (\<lambda>bs m. bind_res (unmarshal field_PairAddressProvider bs zero_PairAddressProvider)
        (\<lambda>x. Ok (m\<lparr>cpp_PairAddress := cpp_PairAddress m @ [x]\<rparr>))))
      else if fieldNum = 4 then Some (PBytes (\<lambda>bs m. Ok (m\<lparr>cpp_Providers := cpp_Providers m @ [bs]\<rparr>)))
      else None)"

definition zero_CurrencyPairProviders :: "CurrencyPairProviders" where
  "zero_CurrencyPairProviders = \<lparr>cpp_BaseDenom = [], cpp_QuoteDenom = [], cpp_PairAddress = [], cpp_Providers = []\<rparr>"

definition fields_CurrencyPairProviders :: "CurrencyPairProviders \<Rightarrow> fval list" where
  "fields_CurrencyPairProviders m = concat
    [f_bytes 1 (cpp_BaseDenom m),
     f_bytes 2 (cpp_QuoteDenom m),
     map (\<lambda>e. FBytes 3 (enc_fields (fields_PairAddressProvider e))) (cpp_PairAddress m),
     map (\<lambda>s. FBytes 4 s) (cpp_Providers m)]"

definition ok_CurrencyPairProviders :: "CurrencyPairProviders \<Rightarrow> bool" where
  "ok_CurrencyPairProviders m \<longleftrightarrow> (\<forall>e \<in> set (cpp_PairAddress m). int (size_PairAddressProvider e) \<le> max_int64)"

interpretation pairproviders: message write_CurrencyPairProviders size_CurrencyPairProviders field_CurrencyPairProviders zero_CurrencyPairProviders
  fields_CurrencyPairProviders ok_CurrencyPairProviders
proof unfold_locales
  fix m :: "CurrencyPairProviders"
  assume ok: "ok_CurrencyPairProviders m"
  show "writes (write_CurrencyPairProviders m) (enc_fields (fields_CurrencyPairProviders m))"
    unfolding write_CurrencyPairProviders_def fields_CurrencyPairProviders_def
    by (rule writes_seq) (use ok in \<open>simp add: codec ok_CurrencyPairProviders_def pairaddress.marshals_fields pairaddress.size_fields [symmetric] pairaddress.unmarshal_enc\<close>)
  show "size_CurrencyPairProviders m = length (enc_fields (fields_CurrencyPairProviders m))"
    using ok by (simp add: size_CurrencyPairProviders_def fields_CurrencyPairProviders_def codec ok_CurrencyPairProviders_def pairaddress.marshals_fields pairaddress.size_fields [symmetric] pairaddress.unmarshal_enc cong: map_cong)
  show "apply_fields field_CurrencyPairProviders (fields_CurrencyPairProviders m) zero_CurrencyPairProviders = Ok m"
    using ok by (cases m) (simp add: fields_CurrencyPairProviders_def field_CurrencyPairProviders_def zero_CurrencyPairProviders_def codec ok_CurrencyPairProviders_def pairaddress.marshals_fields pairaddress.size_fields [symmetric] pairaddress.unmarshal_enc
        apply_each [where U = cpp_PairAddress_update] apply_each [where U = cpp_Providers_update])
next
  fix m :: "CurrencyPairProviders" and f
  assume "f \<in> set (fields_CurrencyPairProviders m)"
  then show "0 < field_num f \<and> field_num f < 2 ^ 28"
    by (auto simp: fields_CurrencyPairProviders_def codec)
qed

section \<open>CurrencyDeviationThreshold\<close>

definition write_CurrencyDeviationThreshold :: "CurrencyDeviationThreshold \<Rightarrow> writer" where
  "write_CurrencyDeviationThreshold m = seq_w
    [w_opt_string [0x12] (cdt_Threshold m),
     w_opt_string [0xa] (cdt_BaseDenom m)]"

definition size_CurrencyDeviationThreshold :: "CurrencyDeviationThreshold \<Rightarrow> nat" where
  "size_CurrencyDeviationThreshold m =
     opt_len_size 1 (length (cdt_BaseDenom m)) +
     opt_len_size 1 (length (cdt_Threshold m))"

definition field_CurrencyDeviationThreshold :: "CurrencyDeviationThreshold ptable" where
  "field_CurrencyDeviationThreshold fieldNum =
     (if fieldNum = 1 then Some (PBytes (\<lambda>bs m. Ok (m\<lparr>cdt_BaseDenom := bs\<rparr>)))
      else if fieldNum = 2 then Some (PBytes (\<lambda>bs m. Ok (m\<lparr>cdt_Threshold := bs\<rparr>)))
      else None)"

definition zero_CurrencyDeviationThreshold :: "CurrencyDeviationThreshold" where
  "zero_CurrencyDeviationThreshold = \<lparr>cdt_BaseDenom = [], cdt_Threshold = []\<rparr>"

definition fields_CurrencyDeviationThreshold :: "CurrencyDeviationThreshold \<Rightarrow> fval list" where
  "fields_CurrencyDeviationThreshold m = concat
    [f_bytes 1 (cdt_BaseDenom m),
     f_bytes 2 (cdt_Threshold m)]"

interpretation deviation: message write_CurrencyDeviationThreshold size_CurrencyDeviationThreshold field_CurrencyDeviationThreshold zero_CurrencyDeviationThreshold
  fields_CurrencyDeviationThreshold "\<lambda>m. True"
proof unfold_locales
  fix m :: "CurrencyDeviationThreshold"
  show "writes (write_CurrencyDeviationThreshold m) (enc_fields (fields_CurrencyDeviationThreshold m))"
    unfolding write_CurrencyDeviationThreshold_def fields_CurrencyDeviationThreshold_def
    by (rule writes_seq) (simp add: codec)
  show "size_CurrencyDeviationThreshold m = length (enc_fields (fields_CurrencyDeviationThreshold m))"
    by (simp add: size_CurrencyDeviationThreshold_def fields_CurrencyDeviationThreshold_def codec)
  show "apply_fields field_CurrencyDeviationThreshold (fields_CurrencyDeviationThreshold m) zero_CurrencyDeviationThreshold = Ok m"
    by (cases m) (simp add: fields_CurrencyDeviationThreshold_def field_CurrencyDeviationThreshold_def zero_CurrencyDeviationThreshold_def codec)
  fix f
  assume "f \<in> set (fields_CurrencyDeviationThreshold m)"
  then show "0 < field_num f \<and> field_num f < 2 ^ 28"
    by (auto simp: fields_CurrencyDeviationThreshold_def codec)
qed

section \<open>Params\<close>

definition write_Params :: "sdk_codec \<Rightarrow> Params \<Rightarrow> writer" where
  "write_Params K m = seq_w
    [w_opt_varint [0x1, 0x90] (AveragingWindow m),
     w_bool [0x1, 0x88] (SlashingEnabled m),
     w_opt_string [0x1, 0x82] (UsdcIbcDenom m),
     w_each (\<lambda>e. w_nested [0x7a] (to_sized (write_CurrencyDeviationThreshold e))) (CurrencyDeviationThresholds m),
     w_each (\<lambda>e. w_nested [0x72] (to_sized (write_CurrencyPairProviders e))) (CurrencyPairProviders m),
     w_opt_varint [0x68] (MaximumMedianStamps m),
     w_opt_varint [0x60] (MaximumPriceStamps m),
     w_opt_varint [0x58] (MedianStampPeriod m),
     w_opt_varint [0x50] (HistoricStampPeriod m),
     w_each (\<lambda>e. w_nested [0x4a] (to_sized (write_Denom e))) (MandatoryList m),
     w_dec K [0x42] (MinValidPerWindow m),
     w_opt_varint [0x38] (SlashWindow m),
     w_dec K [0x32] (SlashFraction m),
     w_each (\<lambda>e. w_nested [0x2a] (to_sized (write_Denom e))) (AcceptList m),
     w_opt_varint [0x20] (RewardDistributionWindow m),
     w_each (\<lambda>e. w_nested [0x1a] (to_sized (write_RewardBand K e))) (RewardBands m),
     w_dec K [0x12] (VoteThreshold m),
     w_opt_varint [0x8] (VotePeriod m)]"

definition size_Params :: "sdk_codec \<Rightarrow> Params \<Rightarrow> nat" where
  "size_Params K m =
     varint_size 1 (VotePeriod m) +
     len_size 1 (dec_Size K (VoteThreshold m)) +
     (\<Sum>e \<leftarrow> RewardBands m. len_size 1 (size_RewardBand K e)) +
     varint_size 1 (RewardDistributionWindow m) +
     (\<Sum>e \<leftarrow> AcceptList m. len_size 1 (size_Denom e)) +
     len_size 1 (dec_Size K (SlashFraction m)) +
     varint_size 1 (SlashWindow m) +
     len_size 1 (dec_Size K (MinValidPerWindow m)) +
     (\<Sum>e \<leftarrow> MandatoryList m. len_size 1 (size_Denom e)) +
     varint_size 1 (HistoricStampPeriod m) +
     varint_size 1 (MedianStampPeriod m) +
     varint_size 1 (MaximumPriceStamps m) +
     varint_size 1 (MaximumMedianStamps m) +
     (\<Sum>e \<leftarrow> CurrencyPairProviders m. len_size 1 (size_CurrencyPairProviders e)) +
     (\<Sum>e \<leftarrow> CurrencyDeviationThresholds m. len_size 1 (size_CurrencyDeviationThreshold e)) +
     opt_len_size 2 (length (UsdcIbcDenom m)) +
     (if SlashingEnabled m then 3 else 0) +
     varint_size 2 (AveragingWindow m)"

definition field_Params :: "sdk_codec \<Rightarrow> Params ptable" where
  "field_Params K fieldNum =
     (if fieldNum = 1 then Some (PVarint (\<lambda>v m. m\<lparr>VotePeriod := v\<rparr>))
      else if fieldNum = 2 then Some (PBytes (\<lambda>bs m. bind_res (dec_Unmarshal K bs (VoteThreshold m)) (\<lambda>x. Ok (m\<lparr>VoteThreshold := x\<rparr>))))
      else if fieldNum = 3 then Some (PBytes (\<lambda>bs m. bind_res (unmarshal (field_RewardBand K) bs (zero_RewardBand K))
        (\<lambda>x. Ok (m\<lparr>RewardBands := RewardBands m @ [x]\<rparr>))))
      else if fieldNum = 4 then Some (PVarint (\<lambda>v m. m\<lparr>RewardDistributionWindow := v\<rparr>))
      else if fieldNum = 5 then Some (PBytes (\<lambda>bs m. bind_res (unmarshal field_Denom bs zero_Denom)
        (\<lambda>x. Ok (m\<lparr>AcceptList := AcceptList m @ [x]\<rparr>))))
      else if fieldNum = 6 then Some (PBytes (\<lambda>bs m. bind_res (dec_Unmarshal K bs (SlashFraction m)) (\<lambda>x. Ok (m\<lparr>SlashFraction := x\<rparr>))))
      else if fieldNum = 7 then Some (PVarint (\<lambda>v m. m\<lparr>SlashWindow := v\<rparr>))
      else if fieldNum = 8 then Some (PBytes (\<lambda>bs m. bind_res (dec_Unmarshal K bs (MinValidPerWindow m)) (\<lambda>x. Ok (m\<lparr>MinValidPerWindow := x\<rparr>))))
      else if fieldNum = 9 then Some (PBytes (\<lambda>bs m. bind_res (unmarshal field_Denom bs zero_Denom)
        (\<lambda>x. Ok (m\<lparr>MandatoryList := MandatoryList m @ [x]\<rparr>))))
      else if fieldNum = 10 then Some (PVarint (\<lambda>v m. m\<lparr>HistoricStampPeriod := v\<rparr>))
      else if fieldNum = 11 then Some (PVarint (\<lambda>v m. m\<lparr>MedianStampPeriod := v\<rparr>))
      else if fieldNum = 12 then Some (PVarint (\<lambda>v m. m\<lparr>MaximumPriceStamps := v\<rparr>))
      else if fieldNum = 13 then Some (PVarint (\<lambda>v m. m\<lparr>MaximumMedianStamps := v\<rparr>))
      else if fieldNum = 14 then Some (PBytes (\<lambda>bs m. bind_res (unmarshal field_CurrencyPairProviders bs zero_CurrencyPairProviders)
        (\<lambda>x. Ok (m\<lparr>CurrencyPairProviders := CurrencyPairProviders m @ [x]\<rparr>))))
      else if fieldNum = 15 then Some (PBytes (\<lambda>bs m. bind_res (unmarshal field_CurrencyDeviationThreshold bs zero_CurrencyDeviationThreshold)
        (\<lambda>x. Ok (m\<lparr>CurrencyDeviationThresholds := CurrencyDeviationThresholds m @ [x]\<rparr>))))
      else if fieldNum = 16 then Some (PBytes (\<lambda>bs m. Ok (m\<lparr>UsdcIbcDenom := bs\<rparr>)))
      else if fieldNum = 17 then Some (PVarint (\<lambda>v m. m\<lparr>SlashingEnabled := (v \<noteq> 0)\<rparr>))
      else if fieldNum = 18 then Some (PVarint (\<lambda>v m. m\<lparr>AveragingWindow := v\<rparr>))
      else None)"

definition zero_Params :: "sdk_codec \<Rightarrow> Params" where
  "zero_Params K = \<lparr>VotePeriod = 0, VoteThreshold = nil_dec K, RewardBands = [], RewardDistributionWindow = 0, AcceptList = [], MandatoryList = [], SlashFraction = nil_dec K, SlashWindow = 0, MinValidPerWindow = nil_dec K, HistoricStampPeriod = 0, MedianStampPeriod = 0, MaximumPriceStamps = 0, MaximumMedianStamps = 0, CurrencyPairProviders = [], CurrencyDeviationThresholds = [], UsdcIbcDenom = [], SlashingEnabled = False, AveragingWindow = 0\<rparr>"

definition fields_Params :: "sdk_codec \<Rightarrow> Params \<Rightarrow> fval list" where
  "fields_Params K m = concat
    [f_varint 1 (VotePeriod m),
     [FBytes 2 (dec_bytes K (VoteThreshold m))],
     map (\<lambda>e. FBytes 3 (enc_fields (fields_RewardBand K e))) (RewardBands m),
     f_varint 4 (RewardDistributionWindow m),
     map (\<lambda>e. FBytes 5 (enc_fields (fields_Denom e))) (AcceptList m),
     [FBytes 6 (dec_bytes K (SlashFraction m))],
     f_varint 7 (SlashWindow m),
     [FBytes 8 (dec_bytes K (MinValidPerWindow m))],
     map (\<lambda>e. FBytes 9 (enc_fields (fields_Denom e))) (MandatoryList m),
     f_varint 10 (HistoricStampPeriod m),
     f_varint 11 (MedianStampPeriod m),
     f_varint 12 (MaximumPriceStamps m),
     f_varint 13 (MaximumMedianStamps m),
     map (\<lambda>e. FBytes 14 (enc_fields (fields_CurrencyPairProviders e))) (CurrencyPairProviders m),
     map (\<lambda>e. FBytes 15 (enc_fields (fields_CurrencyDeviationThreshold e))) (CurrencyDeviationThresholds m),
     f_bytes 16 (UsdcIbcDenom m),
     f_varint 17 (of_bool (SlashingEnabled m)),
     f_varint 18 (AveragingWindow m)]"

definition ok_Params :: "sdk_codec \<Rightarrow> Params \<Rightarrow> bool" where
  "ok_Params K m \<longleftrightarrow> dec_in_range (VoteThreshold m) \<and>
     (\<forall>e \<in> set (RewardBands m). ok_RewardBand e \<and> int (size_RewardBand K e) \<le> max_int64) \<and>
     (\<forall>e \<in> set (AcceptList m). int (size_Denom e) \<le> max_int64) \<and>
     dec_in_range (SlashFraction m) \<and>
     dec_in_range (MinValidPerWindow m) \<and>
     (\<forall>e \<in> set (MandatoryList m). int (size_Denom e) \<le> max_int64) \<and>
     (\<forall>e \<in> set (CurrencyPairProviders m). ok_CurrencyPairProviders e \<and> int (size_CurrencyPairProviders e) \<le> max_int64) \<and>
     (\<forall>e \<in> set (CurrencyDeviationThresholds m). int (size_CurrencyDeviationThreshold e) \<le> max_int64)"

sublocale sdk_encoding \<subseteq> params: message "write_Params K" "size_Params K" "field_Params K" "zero_Params K"
  "fields_Params K" "ok_Params K"
proof unfold_locales
  fix m :: "Params"
  assume ok: "ok_Params K m"
  show "writes (write_Params K m) (enc_fields (fields_Params K m))"
    unfolding write_Params_def fields_Params_def
    by (rule writes_seq) (use ok in \<open>simp add: codec ok_Params_def band.marshals_fields band.size_fields [symmetric] band.unmarshal_enc denom.marshals_fields denom.size_fields [symmetric] denom.unmarshal_enc pairproviders.marshals_fields pairproviders.size_fields [symmetric] pairproviders.unmarshal_enc deviation.marshals_fields deviation.size_fields [symmetric] deviation.unmarshal_enc\<close>)
  show "size_Params K m = length (enc_fields (fields_Params K m))"
    using ok by (simp add: size_Params_def fields_Params_def codec ok_Params_def band.marshals_fields band.size_fields [symmetric] band.unmarshal_enc denom.marshals_fields denom.size_fields [symmetric] denom.unmarshal_enc pairproviders.marshals_fields pairproviders.size_fields [symmetric] pairproviders.unmarshal_enc deviation.marshals_fields deviation.size_fields [symmetric] deviation.unmarshal_enc cong: map_cong)
  show "apply_fields (field_Params K) (fields_Params K m) (zero_Params K) = Ok m"
    using ok by (cases m) (simp add: fields_Params_def field_Params_def zero_Params_def codec ok_Params_def band.marshals_fields band.size_fields [symmetric] band.unmarshal_enc denom.marshals_fields denom.size_fields [symmetric] denom.unmarshal_enc pairproviders.marshals_fields pairproviders.size_fields [symmetric] pairproviders.unmarshal_enc deviation.marshals_fields deviation.size_fields [symmetric] deviation.unmarshal_enc
        apply_each [where U = RewardBands_update] apply_each [where U = AcceptList_update] apply_each [where U = MandatoryList_update] apply_each [where U = CurrencyPairProviders_update] apply_each [where U = CurrencyDeviationThresholds_update])
next
  fix m :: "Params" and f
  assume "f \<in> set (fields_Params K m)"
  then show "0 < field_num f \<and> field_num f < 2 ^ 28"
    by (auto simp: fields_Params_def codec)
qed

section \<open>ParamUpdatePlan\<close>

definition write_ParamUpdatePlan :: "sdk_codec \<Rightarrow> ParamUpdatePlan \<Rightarrow> writer" where
  "write_ParamUpdatePlan K m = seq_w
    [w_nested [0x1a] (to_sized (write_Params K (Changes m))),
     w_opt_varint [0x10] (word_of_int (Height m)),
     w_each (w_string [0xa]) (Keys m)]"

definition size_ParamUpdatePlan :: "sdk_codec \<Rightarrow> ParamUpdatePlan \<Rightarrow> nat" where
  "size_ParamUpdatePlan K m =
     (\<Sum>s \<leftarrow> Keys m. len_size 1 (length s)) +
     varint_size 1 (word_of_int (Height m)) +
     len_size 1 (size_Params K (Changes m))"

definition field_ParamUpdatePlan :: "sdk_codec \<Rightarrow> ParamUpdatePlan ptable" where
  "field_ParamUpdatePlan K fieldNum =
     (if fieldNum = 1 then Some (PBytes (\<lambda>bs m. Ok (m\<lparr>Keys := Keys m @ [bs]\<rparr>)))
      else if fieldNum = 2 then Some (PVarint (\<lambda>v m. m\<lparr>Height := sint v\<rparr>))
      else if fieldNum = 3 then Some (PBytes (\<lambda>bs m. bind_res (unmarshal (field_Params K) bs (Changes m)) (\<lambda>x. Ok (m\<lparr>Changes := x\<rparr>))))
      else None)"

definition zero_ParamUpdatePlan :: "sdk_codec \<Rightarrow> ParamUpdatePlan" where
  "zero_ParamUpdatePlan K = \<lparr>Keys = [], Height = 0, Changes = (zero_Params K)\<rparr>"

definition fields_ParamUpdatePlan :: "sdk_codec \<Rightarrow> ParamUpdatePlan \<Rightarrow> fval list" where
  "fields_ParamUpdatePlan K m = concat
    [map (\<lambda>s. FBytes 1 s) (Keys m),
     f_varint 2 (word_of_int (Height m)),
     [FBytes 3 (enc_fields (fields_Params K (Changes m)))]]"

definition ok_ParamUpdatePlan :: "sdk_codec \<Rightarrow> ParamUpdatePlan \<Rightarrow> bool" where
  "ok_ParamUpdatePlan K m \<longleftrightarrow> in_i64 (Height m) \<and>
     ok_Params K (Changes m) \<and> int (size_Params K (Changes m)) \<le> max_int64"

sublocale sdk_encoding \<subseteq> plan: message "write_ParamUpdatePlan K" "size_ParamUpdatePlan K" "field_ParamUpdatePlan K" "zero_ParamUpdatePlan K"
  "fields_ParamUpdatePlan K" "ok_ParamUpdatePlan K"
proof unfold_locales
  fix m :: "ParamUpdatePlan"
  assume ok: "ok_ParamUpdatePlan K m"
  show "writes (write_ParamUpdatePlan K m) (enc_fields (fields_ParamUpdatePlan K m))"
    unfolding write_ParamUpdatePlan_def fields_ParamUpdatePlan_def
    by (rule writes_seq) (use ok in \<open>simp add: codec ok_ParamUpdatePlan_def params.marshals_fields params.size_fields [symmetric] params.unmarshal_enc\<close>)
  show "size_ParamUpdatePlan K m = length (enc_fields (fields_ParamUpdatePlan K m))"
    using ok by (simp add: size_ParamUpdatePlan_def fields_ParamUpdatePlan_def codec ok_ParamUpdatePlan_def params.marshals_fields params.size_fields [symmetric] params.unmarshal_enc cong: map_cong)
  show "apply_fields (field_ParamUpdatePlan K) (fields_ParamUpdatePlan K m) (zero_ParamUpdatePlan K) = Ok m"
    using ok by (cases m) (simp add: fields_ParamUpdatePlan_def field_ParamUpdatePlan_def zero_ParamUpdatePlan_def codec ok_ParamUpdatePlan_def params.marshals_fields params.size_fields [symmetric] params.unmarshal_enc
        apply_each [where U = Keys_update])
next
  fix m :: "ParamUpdatePlan" and f
  assume "f \<in> set (fields_ParamUpdatePlan K m)"
  then show "0 < field_num f \<and> field_num f < 2 ^ 28"
    by (auto simp: fields_ParamUpdatePlan_def codec)
qed

section \<open>Vote extensions\<close>

record OracleVoteExtension =
  ve_Height :: int
  ve_ExchangeRates :: DecCoins

record InjectedVoteExtensionTx =
  inj_ExchangeRateVotes :: "AggregateExchangeRateVote list"
  inj_ExtendedCommitInfo :: bytes

section \<open>OracleVoteExtension\<close>

definition write_OracleVoteExtension :: "sdk_codec \<Rightarrow> OracleVoteExtension \<Rightarrow> writer" where
  "write_OracleVoteExtension K m = seq_w
    [w_each (\<lambda>c. w_nested [0x12] (coin_MarshalToSizedBuffer K c)) (ve_ExchangeRates m),
     w_opt_varint [0x8] (word_of_int (ve_Height m))]"

definition size_OracleVoteExtension :: "sdk_codec \<Rightarrow> OracleVoteExtension \<Rightarrow> nat" where
  "size_OracleVoteExtension K m =
     varint_size 1 (word_of_int (ve_Height m)) +
     (\<Sum>e \<leftarrow> ve_ExchangeRates m. len_size 1 (coin_Size K e))"

definition field_OracleVoteExtension :: "sdk_codec \<Rightarrow> OracleVoteExtension ptable" where
  "field_OracleVoteExtension K fieldNum =
     (if fieldNum = 1 then Some (PVarint (\<lambda>v m. m\<lparr>ve_Height := sint v\<rparr>))
      else if fieldNum = 2 then Some (PBytes (\<lambda>bs m. bind_res (coin_Unmarshal K bs (fresh_coin K)) (\<lambda>c. Ok (m\<lparr>ve_ExchangeRates := ve_ExchangeRates m @ [c]\<rparr>))))
      else None)"

definition zero_OracleVoteExtension :: "OracleVoteExtension" where
  "zero_OracleVoteExtension = \<lparr>ve_Height = 0, ve_ExchangeRates = []\<rparr>"

definition fields_OracleVoteExtension :: "sdk_codec \<Rightarrow> OracleVoteExtension \<Rightarrow> fval list" where
  "fields_OracleVoteExtension K m = concat
    [f_varint 1 (word_of_int (ve_Height m)),
     map (\<lambda>c. FBytes 2 (coin_bytes K c)) (ve_ExchangeRates m)]"

definition ok_OracleVoteExtension :: "OracleVoteExtension \<Rightarrow> bool" where
  "ok_OracleVoteExtension m \<longleftrightarrow> in_i64 (ve_Height m) \<and>
     (\<forall>c \<in> set (ve_ExchangeRates m). dec_in_range (dc_Amount c))"

sublocale sdk_encoding \<subseteq> extension: message "write_OracleVoteExtension K" "size_OracleVoteExtension K" "field_OracleVoteExtension K" zero_OracleVoteExtension
  "fields_OracleVoteExtension K" ok_OracleVoteExtension
proof unfold_locales
  fix m :: "OracleVoteExtension"
  assume ok: "ok_OracleVoteExtension m"
  show "writes (write_OracleVoteExtension K m) (enc_fields (fields_OracleVoteExtension K m))"
    unfolding write_OracleVoteExtension_def fields_OracleVoteExtension_def
    by (rule writes_seq) (use ok in \<open>simp add: codec ok_OracleVoteExtension_def\<close>)
  show "size_OracleVoteExtension K m = length (enc_fields (fields_OracleVoteExtension K m))"
    using ok by (simp add: size_OracleVoteExtension_def fields_OracleVoteExtension_def codec ok_OracleVoteExtension_def cong: map_cong)
  show "apply_fields (field_OracleVoteExtension K) (fields_OracleVoteExtension K m) zero_OracleVoteExtension = Ok m"
    using ok by (cases m) (simp add: fields_OracleVoteExtension_def field_OracleVoteExtension_def zero_OracleVoteExtension_def codec ok_OracleVoteExtension_def
        apply_each [where U = ve_ExchangeRates_update])
next
  fix m :: "OracleVoteExtension" and f
  assume "f \<in> set (fields_OracleVoteExtension K m)"
  then show "0 < field_num f \<and> field_num f < 2 ^ 28"
    by (auto simp: fields_OracleVoteExtension_def codec)
qed

section \<open>InjectedVoteExtensionTx\<close>

definition write_InjectedVoteExtensionTx :: "sdk_codec \<Rightarrow> InjectedVoteExtensionTx \<Rightarrow> writer" where
  "write_InjectedVoteExtensionTx K m = seq_w
    [w_opt_string [0x12] (inj_ExtendedCommitInfo m),
     w_each (\<lambda>e. w_nested [0xa] (to_sized (write_Vote K e))) (inj_ExchangeRateVotes m)]"

definition size_InjectedVoteExtensionTx :: "sdk_codec \<Rightarrow> InjectedVoteExtensionTx \<Rightarrow> nat" where
  "size_InjectedVoteExtensionTx K m =
     (\<Sum>e \<leftarrow> inj_ExchangeRateVotes m. len_size 1 (size_Vote K e)) +
     opt_len_size 1 (length (inj_ExtendedCommitInfo m))"

definition field_InjectedVoteExtensionTx :: "sdk_codec \<Rightarrow> InjectedVoteExtensionTx ptable" where
  "field_InjectedVoteExtensionTx K fieldNum =
     (if fieldNum = 1 then Some (PBytes (\<lambda>bs m. bind_res (unmarshal (field_Vote K) bs zero_Vote)
        (\<lambda>x. Ok (m\<lparr>inj_ExchangeRateVotes := inj_ExchangeRateVotes m @ [x]\<rparr>))))
      else if fieldNum = 2 then Some (PBytes (\<lambda>bs m. Ok (m\<lparr>inj_ExtendedCommitInfo := bs\<rparr>)))
      else None)"

definition zero_InjectedVoteExtensionTx :: "InjectedVoteExtensionTx" where
  "zero_InjectedVoteExtensionTx = \<lparr>inj_ExchangeRateVotes = [], inj_ExtendedCommitInfo = []\<rparr>"

definition fields_InjectedVoteExtensionTx :: "sdk_codec \<Rightarrow> InjectedVoteExtensionTx \<Rightarrow> fval list" where
  "fields_InjectedVoteExtensionTx K m = concat
    [map (\<lambda>e. FBytes 1 (enc_fields (fields_Vote K e))) (inj_ExchangeRateVotes m),
     f_bytes 2 (inj_ExtendedCommitInfo m)]"

definition ok_InjectedVoteExtensionTx :: "sdk_codec \<Rightarrow> InjectedVoteExtensionTx \<Rightarrow> bool" where
  "ok_InjectedVoteExtensionTx K m \<longleftrightarrow> (\<forall>e \<in> set (inj_ExchangeRateVotes m). ok_Vote e \<and> int (size_Vote K e) \<le> max_int64)"

sublocale sdk_encoding \<subseteq> injected: message "write_InjectedVoteExtensionTx K" "size_InjectedVoteExtensionTx K" "field_InjectedVoteExtensionTx K" zero_InjectedVoteExtensionTx
  "fields_InjectedVoteExtensionTx K" "ok_InjectedVoteExtensionTx K"
proof unfold_locales
  fix m :: "InjectedVoteExtensionTx"
  assume ok: "ok_InjectedVoteExtensionTx K m"
  show "writes (write_InjectedVoteExtensionTx K m) (enc_fields (fields_InjectedVoteExtensionTx K m))"
    unfolding write_InjectedVoteExtensionTx_def fields_InjectedVoteExtensionTx_def
    by (rule writes_seq) (use ok in \<open>simp add: codec ok_InjectedVoteExtensionTx_def vote.marshals_fields vote.size_fields [symmetric] vote.unmarshal_enc\<close>)
  show "size_InjectedVoteExtensionTx K m = length (enc_fields (fields_InjectedVoteExtensionTx K m))"
    using ok by (simp add: size_InjectedVoteExtensionTx_def fields_InjectedVoteExtensionTx_def codec ok_InjectedVoteExtensionTx_def vote.marshals_fields vote.size_fields [symmetric] vote.unmarshal_enc cong: map_cong)
  show "apply_fields (field_InjectedVoteExtensionTx K) (fields_InjectedVoteExtensionTx K m) zero_InjectedVoteExtensionTx = Ok m"
    using ok by (cases m) (simp add: fields_InjectedVoteExtensionTx_def field_InjectedVoteExtensionTx_def zero_InjectedVoteExtensionTx_def codec ok_InjectedVoteExtensionTx_def vote.marshals_fields vote.size_fields [symmetric] vote.unmarshal_enc
        apply_each [where U = inj_ExchangeRateVotes_update])
next
  fix m :: "InjectedVoteExtensionTx" and f
  assume "f \<in> set (fields_InjectedVoteExtensionTx K m)"
  then show "0 < field_num f \<and> field_num f < 2 ^ 28"
    by (auto simp: fields_InjectedVoteExtensionTx_def codec)
qed
section \<open>Round trips under the laws\<close>

context sdk_encoding
begin

lemmas plan_round_trip = plan.round_trip
lemmas injected_round_trip = injected.round_trip
lemmas extension_round_trip = extension.round_trip

end

section \<open>Decoding does not panic\<close>

definition sdk_calm :: "sdk_codec \<Rightarrow> bool" where
  "sdk_calm K \<longleftrightarrow> (\<forall>bs old. dec_Unmarshal K bs old \<noteq> Panic) \<and> (\<forall>bs old. coin_Unmarshal K bs old \<noteq> Panic)"

lemma calmI: "(\<And>n f bs m. T n = Some (PBytes f) \<Longrightarrow> f bs m \<noteq> Panic) \<Longrightarrow> calm T"
  by (auto simp: calm_def)

lemma calm_leaves:
  "calm field_Denom" "calm field_Prevote" "calm field_PairAddressProvider"
  "calm field_CurrencyDeviationThreshold" "calm field_ValidatorRewardSet"
  by (auto simp: field_Denom_def field_Prevote_def field_PairAddressProvider_def field_ValidatorRewardSet_def
      field_CurrencyDeviationThreshold_def intro!: calmI split: if_splits)

lemma calm_pairs: "calm field_CurrencyPairProviders"
  by (rule calmI) (auto simp: field_CurrencyPairProviders_def bind_res_eq_Panic unmarshal_not_Panic calm_leaves split: if_splits)

lemma calm_band: "sdk_calm K \<Longrightarrow> calm (field_RewardBand K)"
  by (rule calmI) (auto simp: sdk_calm_def field_RewardBand_def bind_res_eq_Panic split: if_splits)

lemma calm_params: "sdk_calm K \<Longrightarrow> calm (field_Params K)"
  using calm_band [of K]
  by (intro calmI) (auto simp: sdk_calm_def field_Params_def bind_res_eq_Panic unmarshal_not_Panic calm_leaves calm_pairs
      split: if_splits)

lemma calm_plan: "sdk_calm K \<Longrightarrow> calm (field_ParamUpdatePlan K)"
  by (rule calmI) (auto simp: field_ParamUpdatePlan_def bind_res_eq_Panic unmarshal_not_Panic calm_params split: if_splits)

lemma calm_vote: "sdk_calm K \<Longrightarrow> calm (field_Vote K)"
  by (rule calmI) (auto simp: sdk_calm_def field_Vote_def bind_res_eq_Panic split: if_splits)

lemma calm_extension: "sdk_calm K \<Longrightarrow> calm (field_OracleVoteExtension K)"
  by (rule calmI) (auto simp: sdk_calm_def field_OracleVoteExtension_def bind_res_eq_Panic split: if_splits)

lemma calm_injected: "sdk_calm K \<Longrightarrow> calm (field_InjectedVoteExtensionTx K)"
  by (rule calmI) (auto simp: field_InjectedVoteExtensionTx_def bind_res_eq_Panic unmarshal_not_Panic calm_vote split: if_splits)

section \<open>An instance of the parameters\<close>

text \<open>Forty bytes for a decimal; a coin is its amount and then its denom.\<close>

definition ref_dec_bytes :: "dec \<Rightarrow> bytes" where
  "ref_dec_bytes x = le_bytes 40 (nat (x + 2 ^ 315))"

definition ref_codec :: sdk_codec where
  "ref_codec = \<lparr>nil_dec = 0, dec_Size = (\<lambda>x. 40),
     dec_MarshalTo = (\<lambda>x d. if length d < 40 then Panic else Ok (ref_dec_bytes x @ drop 40 d)),
     dec_Unmarshal = (\<lambda>bs old. if length bs \<noteq> 40 then Err (Errorf ''decimal'') else Ok (int (le_nat bs) - 2 ^ 315)),
     coin_Size = (\<lambda>c. 40 + length (dc_Denom c)),
     coin_MarshalToSizedBuffer = (\<lambda>c. to_sized (w_copy (ref_dec_bytes (dc_Amount c) @ dc_Denom c))),
     coin_Unmarshal = (\<lambda>bs old. if length bs < 40 then Err (Errorf ''coin'')
        else Ok \<lparr>dc_Denom = drop 40 bs, dc_Amount = int (le_nat (take 40 bs)) - 2 ^ 315\<rparr>)\<rparr>"

lemma ref_dec_bytes_read: "dec_in_range x \<Longrightarrow> int (le_nat (ref_dec_bytes x)) - 2 ^ 315 = x"
proof -
  assume "dec_in_range x"
  then have "0 \<le> x + 2 ^ 315" "x + 2 ^ 315 < 2 ^ 316" by (simp_all add: dec_in_range_def abs_less_iff)
  then have "nat (x + 2 ^ 315) < 256 ^ 40" by (simp add: nat_less_iff)
  then show ?thesis
    using \<open>0 \<le> x + 2 ^ 315\<close> by (simp add: ref_dec_bytes_def le_nat_le_bytes)
qed

interpretation ref: sdk_encoding ref_codec
proof
  have "\<exists>bs. length bs = 40 \<and> (\<forall>old. dec_Unmarshal ref_codec bs old = Ok x) \<and>
      (\<forall>d. length bs \<le> length d \<longrightarrow> dec_MarshalTo ref_codec x d = Ok (bs @ drop (length bs) d))"
    if "dec_in_range x" for x
    by (rule exI [of _ "ref_dec_bytes x"])
      (use ref_dec_bytes_read [OF that] in \<open>simp add: ref_codec_def ref_dec_bytes_def\<close>)
  moreover have "\<exists>bs. length bs = 40 + length (dc_Denom c) \<and> coin_Unmarshal ref_codec bs (fresh_coin ref_codec) = Ok c \<and>
      marshals (coin_MarshalToSizedBuffer ref_codec c) bs"
    if "dec_in_range (dc_Amount c)" for c :: DecCoin
    using ref_dec_bytes_read [OF that] marshals_to_sized [OF writes_copy]
    by (intro exI [of _ "ref_dec_bytes (dc_Amount c) @ dc_Denom c"]) (simp add: ref_codec_def ref_dec_bytes_def)
  ultimately show "codec_laws ref_codec"
    unfolding codec_laws_def by (simp add: ref_codec_def)
qed

lemma ref_codec_calm: "sdk_calm ref_codec"
  by (simp add: sdk_calm_def ref_codec_def)

definition small_plan :: ParamUpdatePlan where
  "small_plan = \<lparr>Keys = [''VotePeriod'', ''AcceptList''], Height = 7, Changes = (zero_Params ref_codec)\<lparr>VotePeriod := 300,
     AcceptList := [\<lparr>BaseDenom = ''udm'', SymbolDenom = ''DM'', Exponent = 6\<rparr>], SlashingEnabled := True\<rparr>\<rparr>"

lemma small_changes: "size_Params ref_codec (Changes small_plan) = 145" "ok_Params ref_codec (Changes small_plan)"
proof -
  have denom: "size_Denom \<lparr>BaseDenom = ''udm'', SymbolDenom = ''DM'', Exponent = 6\<rparr> = 11"
    by (simp add: size_Denom_def varint_size_def opt_len_size_def len_size_def codec)
  show "size_Params ref_codec (Changes small_plan) = 145"
    by (simp add: small_plan_def zero_Params_def size_Params_def ref_codec_def denom varint_size_def opt_len_size_def len_size_def codec)
  show "ok_Params ref_codec (Changes small_plan)"
    by (simp add: ok_Params_def small_plan_def zero_Params_def denom ref_codec_def max_int64_def dec_in_range_def)
qed

section \<open>Properties\<close>

text \<open>
  C29. A parameter update plan survives storage: \<open>Marshal\<close> succeeds, it fills exactly the
  \<open>Size()\<close> bytes it has allocated, and \<open>Unmarshal\<close> gives back the same plan, with the
  parameters nested in it.
\<close>

theorem plan_encoding_round_trip:
  assumes "codec_laws K" and "ok_ParamUpdatePlan K p" and "int (size_ParamUpdatePlan K p) \<le> max_int64"
  shows "\<exists>bs. Marshal_with (write_ParamUpdatePlan K p) (size_ParamUpdatePlan K p) = Ok bs \<and>
     length bs = size_ParamUpdatePlan K p \<and>
     unmarshal (field_ParamUpdatePlan K) bs (zero_ParamUpdatePlan K) = Ok p"
  using sdk_encoding.intro [OF assms(1)] assms(2,3) by (rule sdk_encoding.plan_round_trip)

theorem plan_encoding_round_trip_witness:
  "\<exists>bs. Marshal_with (write_ParamUpdatePlan ref_codec small_plan) (size_ParamUpdatePlan ref_codec small_plan) = Ok bs \<and>
     length bs = size_ParamUpdatePlan ref_codec small_plan \<and>
     unmarshal (field_ParamUpdatePlan ref_codec) bs (zero_ParamUpdatePlan ref_codec) = Ok small_plan"
proof -
  have "ok_ParamUpdatePlan ref_codec small_plan"
    using small_changes by (simp add: ok_ParamUpdatePlan_def) (simp add: small_plan_def in_i64_def max_int64_def)
  moreover have "int (size_ParamUpdatePlan ref_codec small_plan) \<le> max_int64"
    unfolding size_ParamUpdatePlan_def small_changes(1)
    by (simp add: small_plan_def len_size_def varint_size_def max_int64_def codec)
  ultimately show ?thesis
    by (rule plan_encoding_round_trip [OF ref.laws])
qed



end
