(* ===== verification/Oracle_Proposal.thy ===== *)
theory Oracle_Proposal
  imports Oracle_Codec
begin

text \<open>
  Vote extensions (\<open>src/x/oracle/abci/proposal.go\<close>, \<open>voteextension.go\<close>, \<open>util.go\<close>): what a
  validator attaches to its vote, how the proposer of the next block injects the votes into
  it, and how the other validators check that.

  A handler returns a response and an error; \<open>'a reply\<close> is that pair, and a panic is the
  \<open>Panic\<close> around it. The context of a call is the height, the height at which vote extensions
  are enabled (\<open>None\<close> without consensus parameters) and the state of the keeper. The extended
  commit of CometBFT is an abstract type \<open>'c\<close> of which the code reads the votes; its encoding
  and validation and the staking keeper are parameters.
\<close>

section \<open>Parameters and data\<close>

record ExtendedVoteInfo =
  BlockIdFlag :: int
  VoteExtension :: bytes
  ValidatorAddress :: bytes

definition BlockIDFlagCommit :: int where "BlockIDFlagCommit = 2"

record ('w, 'c) abci_env =
  oe :: "'w oracle_env"
  codec_of :: sdk_codec
  ci_Votes :: "'c \<Rightarrow> ExtendedVoteInfo list"
  ci_Marshal :: "'c \<Rightarrow> bytes res"
  ci_Unmarshal :: "bytes \<Rightarrow> 'c res"
  ValidateVoteExtensions :: "'w \<Rightarrow> int \<Rightarrow> 'c \<Rightarrow> unit res"
  ConsAddress_Unmarshal :: "bytes \<Rightarrow> bytes res"
  sk_GetValidatorByConsAddr :: "'w \<Rightarrow> bytes \<Rightarrow> string res"
  DecCoins_Equal :: "DecCoins \<Rightarrow> DecCoins \<Rightarrow> bool res"

record abci_ctx =
  cx_BlockHeight :: int
  cx_EnableHeight :: "int option"

record 'c RequestPrepareProposal =
  pp_Height :: int
  pp_Txs :: "bytes list option"
  pp_LocalLastCommit :: 'c

record RequestProcessProposal =
  rp_Height :: int
  rp_Txs :: "bytes list option"

record RequestVerifyVoteExtension =
  rv_Height :: int
  rv_VoteExtension :: bytes

datatype status = ACCEPT | REJECT

type_synonym 'a reply = "('a option \<times> error option) res"

text \<open>\<open>if err != nil\<close>.\<close>

fun on_error :: "'a res \<Rightarrow> (error \<Rightarrow> 'b res) \<Rightarrow> ('a \<Rightarrow> 'b res) \<Rightarrow> 'b res" where
  "on_error (Ok x) h f = f x"
| "on_error (Err e) h f = h e"
| "on_error Panic h f = Panic"

section \<open>util.go\<close>

definition VoteExtensionsEnabled :: "abci_ctx \<Rightarrow> bool" where
  "VoteExtensionsEnabled ctx =
     (case cx_EnableHeight ctx of
        None \<Rightarrow> False
      | Some enable \<Rightarrow>
          if enable = 0 then False
          else if cx_BlockHeight ctx \<le> 1 then False
          else enable < cx_BlockHeight ctx)"

section \<open>proposal.go\<close>

fun votes_loop :: "('w, 'c) abci_env \<Rightarrow> 'w \<Rightarrow> ExtendedVoteInfo list \<Rightarrow> AggregateExchangeRateVote list res" where
  "votes_loop X w [] = Ok []"
| "votes_loop X w (vote # infos) =
     (if BlockIdFlag vote \<noteq> BlockIDFlagCommit then votes_loop X w infos
      else
        bind_res (unmarshal (field_OracleVoteExtension (codec_of X)) (VoteExtension vote) zero_OracleVoteExtension) (\<lambda>voteExt.
        bind_res (ConsAddress_Unmarshal X (ValidatorAddress vote)) (\<lambda>valConsAddr.
        bind_res (sk_GetValidatorByConsAddr X w valConsAddr) (\<lambda>operator.
        bind_res (ValAddressFromBech32 (oe X) operator) (\<lambda>valAddr.
        bind_res (votes_loop X w infos) (\<lambda>votes.
          Ok (NewAggregateExchangeRateVote (ValString (oe X)) (ve_ExchangeRates voteExt) valAddr # votes)))))))"

definition voter_less :: "AggregateExchangeRateVote \<Rightarrow> AggregateExchangeRateVote \<Rightarrow> bool" where
  "voter_less a b \<longleftrightarrow> av_Voter a < av_Voter b"

definition generateExchangeRateVotes :: "('w, 'c) abci_env \<Rightarrow> 'w \<Rightarrow> 'c \<Rightarrow> AggregateExchangeRateVote list res" where
  "generateExchangeRateVotes X w ci = bind_res (votes_loop X w (ci_Votes X ci)) (\<lambda>votes. Ok (go_sort voter_less votes))"

definition Marshal_injected :: "sdk_codec \<Rightarrow> InjectedVoteExtensionTx \<Rightarrow> bytes res" where
  "Marshal_injected K tx = Marshal_with (write_InjectedVoteExtensionTx K tx) (size_InjectedVoteExtensionTx K tx)"

text \<open>Every error comes with a response without transactions.\<close>

definition PrepareProposalHandler ::
  "('w, 'c) abci_env \<Rightarrow> 'w \<Rightarrow> abci_ctx \<Rightarrow> 'c RequestPrepareProposal option \<Rightarrow> bytes list reply" where
  "PrepareProposalHandler X w ctx req =
     (case req of
        None \<Rightarrow> Ok (None, Some (Errorf ''prepare proposal received a nil request''))
      | Some req \<Rightarrow>
          let fail = (\<lambda>e. Ok (Some [], Some e)) in
          on_error (ValidateVoteExtensions X w (pp_Height req) (pp_LocalLastCommit req)) fail (\<lambda>_.
          case pp_Txs req of
            None \<Rightarrow> fail (Errorf ''prepare proposal received a request with nil Txs'')
          | Some proposalTxs \<Rightarrow>
              if \<not> VoteExtensionsEnabled ctx then Ok (Some proposalTxs, None)
              else
                on_error (generateExchangeRateVotes X w (pp_LocalLastCommit req)) fail (\<lambda>exchangeRateVotes.
                on_error (ci_Marshal X (pp_LocalLastCommit req)) fail (\<lambda>extendedCommitInfoBz.
                on_error (Marshal_injected (codec_of X)
                    \<lparr>inj_ExchangeRateVotes = exchangeRateVotes, inj_ExtendedCommitInfo = extendedCommitInfoBz\<rparr>)
                  (\<lambda>_. fail ErrEncodeInjVoteExt) (\<lambda>bz.
                  Ok (Some (bz # proposalTxs), None))))))"

fun extractInjectedVoteExtensionTx :: "sdk_codec \<Rightarrow> bytes list \<Rightarrow> InjectedVoteExtensionTx res" where
  "extractInjectedVoteExtensionTx K [] = Err (Errorf ''failed to decode injected vote extension tx'')"
| "extractInjectedVoteExtensionTx K (tx # txs) =
     on_error (unmarshal (field_InjectedVoteExtensionTx K) tx zero_InjectedVoteExtensionTx)
       (\<lambda>_. extractInjectedVoteExtensionTx K txs) Ok"

fun verify_loop :: "('w, 'c) abci_env \<Rightarrow> AggregateExchangeRateVote list \<Rightarrow> AggregateExchangeRateVote list \<Rightarrow> unit res" where
  "verify_loop X (injectedVote # injectedVotes) (generatedVote # generatedVotes) =
     (if av_Voter injectedVote \<noteq> av_Voter generatedVote then Err ErrNonEqualInjVotesRates
      else
        bind_res (DecCoins_Equal X (av_ExchangeRates injectedVote) (av_ExchangeRates generatedVote)) (\<lambda>equal.
        if \<not> equal then Err ErrNonEqualInjVotesRates
        else verify_loop X injectedVotes generatedVotes))"
| "verify_loop X _ _ = Ok ()"

definition verifyExchangeRateVotes ::
  "('w, 'c) abci_env \<Rightarrow> AggregateExchangeRateVote list \<Rightarrow> AggregateExchangeRateVote list \<Rightarrow> unit res" where
  "verifyExchangeRateVotes X injectedVotes generatedVotes =
     (if length injectedVotes \<noteq> length generatedVotes then Err ErrNonEqualInjVotesLen
      else verify_loop X injectedVotes generatedVotes)"

definition handleVoteExtensions :: "('w, 'c) abci_env \<Rightarrow> 'w \<Rightarrow> int \<Rightarrow> bytes list \<Rightarrow> status reply" where
  "handleVoteExtensions X w height txs =
     (let reject = (\<lambda>e. Ok (Some REJECT, Some e)) in
      if length txs < 1 then reject ErrNoCommitInfo
      else
        on_error (extractInjectedVoteExtensionTx (codec_of X) txs) reject (\<lambda>injectedTx.
        on_error (ci_Unmarshal X (inj_ExtendedCommitInfo injectedTx)) reject (\<lambda>extendedCommitInfo.
        on_error (ValidateVoteExtensions X w height extendedCommitInfo) reject (\<lambda>_.
        on_error (generateExchangeRateVotes X w extendedCommitInfo) reject (\<lambda>expectedVotes.
        on_error (verifyExchangeRateVotes X (inj_ExchangeRateVotes injectedTx) expectedVotes) reject (\<lambda>_.
          Ok (Some ACCEPT, None)))))))"

definition ProcessProposalHandler ::
  "('w, 'c) abci_env \<Rightarrow> 'w \<Rightarrow> abci_ctx \<Rightarrow> RequestProcessProposal option \<Rightarrow> status reply" where
  "ProcessProposalHandler X w ctx req =
     (case req of
        None \<Rightarrow> Ok (None, Some (Errorf ''process proposal received a nil request''))
      | Some req \<Rightarrow>
          (case rp_Txs req of
             None \<Rightarrow> Ok (Some REJECT, Some (Errorf ''process proposal received a request with nil Txs''))
           | Some txs \<Rightarrow>
               if VoteExtensionsEnabled ctx then
                 bind_res (handleVoteExtensions X w (rp_Height req) txs) (\<lambda>(result, err).
                   if result \<noteq> Some ACCEPT then Ok (result, err) else Ok (Some ACCEPT, None))
               else Ok (Some ACCEPT, None)))"

section \<open>voteextension.go\<close>

definition Marshal_extension :: "sdk_codec \<Rightarrow> OracleVoteExtension \<Rightarrow> bytes res" where
  "Marshal_extension K ext = Marshal_with (write_OracleVoteExtension K ext) (size_OracleVoteExtension K ext)"

text \<open>The deferred function turns a panic into an error.\<close>

fun recovered :: "bytes reply \<Rightarrow> bytes reply" where
  "recovered Panic = Ok (Some [], Some (Errorf ''recovered application panic in ExtendVote''))"
| "recovered r = r"

definition ExtendVoteHandler :: "('w, 'c) abci_env \<Rightarrow> 'w ostate \<Rightarrow> int option \<Rightarrow> bytes reply" where
  "ExtendVoteHandler X s req = recovered
     (case req of
        None \<Rightarrow> Ok (None, Some (Errorf ''extend vote handler received a nil request''))
      | Some height \<Rightarrow>
          let fail = (\<lambda>e. Ok (Some [], Some e)) in
          bind_res (must (keeper_PriceFeeder (oe X))) (\<lambda>pf. case pf_Oracle pf of
             None \<Rightarrow> fail (Errorf ''price feeder oracle not set'')
           | Some exchangeRatesStr \<Rightarrow>
               on_error (ParseExchangeRateDecCoins (LegacyNewDecFromStr (oe X)) (ValidateDenom (oe X)) exchangeRatesStr)
                 (\<lambda>_. fail ErrInvalidExchangeRate) (\<lambda>exchangeRates.
               let acceptList = Keeper_AcceptList s;
                   filteredDecCoins = filter (\<lambda>decCoin. DenomList_Contains acceptList (dc_Denom decCoin)) exchangeRates in
               on_error (Marshal_extension (codec_of X) \<lparr>ve_Height = height, ve_ExchangeRates = filteredDecCoins\<rparr>)
                 (\<lambda>_. fail (Errorf ''failed to marshal vote extension'')) (\<lambda>bz. Ok (Some bz, None)))))"

definition VerifyVoteExtensionHandler :: "('w, 'c) abci_env \<Rightarrow> RequestVerifyVoteExtension option \<Rightarrow> status reply" where
  "VerifyVoteExtensionHandler X req =
     (case req of
        None \<Rightarrow> Ok (None, Some (Errorf ''verify vote extension handler received a nil request''))
      | Some req \<Rightarrow>
          if length (rv_VoteExtension req) = 0 then Ok (Some ACCEPT, None)
          else
            on_error (unmarshal (field_OracleVoteExtension (codec_of X)) (rv_VoteExtension req) zero_OracleVoteExtension)
              (\<lambda>_. Ok (Some REJECT, Some (Errorf ''verify vote extension handler failed to unmarshal vote extension''))) (\<lambda>voteExt.
            if ve_Height voteExt \<noteq> rv_Height req
            then Ok (Some REJECT, Some (Errorf ''vote extension height does not match request height''))
            else Ok (Some ACCEPT, None)))"

section \<open>Lemmas\<close>

lemma on_error_reply_eq_Ok:
  "on_error r (\<lambda>e. Ok (Some a, Some (h e))) f = Ok (y, None) \<longleftrightarrow> (\<exists>x. r = Ok x \<and> f x = Ok (y, None))"
  by (cases r) auto

interpretation voter: go_less voter_less
  unfolding voter_less_def by (rule go_less_key)

text \<open>The checks of \<open>verifyExchangeRateVotes\<close> are pointwise agreement.\<close>

definition agree :: "('w, 'c) abci_env \<Rightarrow> AggregateExchangeRateVote \<Rightarrow> AggregateExchangeRateVote \<Rightarrow> bool" where
  "agree X a b \<longleftrightarrow> av_Voter a = av_Voter b \<and> DecCoins_Equal X (av_ExchangeRates a) (av_ExchangeRates b) = Ok True"

lemma verify_loop_Ok:
  "length xs = length ys \<Longrightarrow> verify_loop X xs ys = Ok () \<longleftrightarrow> list_all2 (agree X) xs ys"
  by (induction xs ys rule: list_induct2) (auto simp: agree_def bind_res_eq_Ok)

lemma verifyExchangeRateVotes_Ok:
  "verifyExchangeRateVotes X xs ys = Ok u \<longleftrightarrow> list_all2 (agree X) xs ys"
  using verify_loop_Ok [of xs ys X] by (auto simp: verifyExchangeRateVotes_def dest: list_all2_lengthD)

lemma extract_Ok:
  "extractInjectedVoteExtensionTx K txs = Ok injected \<longleftrightarrow>
     (\<exists>before tx after. txs = before @ tx # after \<and>
        unmarshal (field_InjectedVoteExtensionTx K) tx zero_InjectedVoteExtensionTx = Ok injected \<and>
        (\<forall>b \<in> set before. \<exists>e. unmarshal (field_InjectedVoteExtensionTx K) b zero_InjectedVoteExtensionTx = Err e))"
  (is "?L txs \<longleftrightarrow> ?R txs")
proof (induction txs)
  case (Cons tx txs)
  show ?case
  proof (cases "unmarshal (field_InjectedVoteExtensionTx K) tx zero_InjectedVoteExtensionTx")
    case (Ok x)
    show ?thesis
    proof
      assume "?L (tx # txs)"
      then show "?R (tx # txs)" using Ok by (intro exI [of _ "[]"] exI [of _ tx] exI [of _ txs]) simp
    next
      assume "?R (tx # txs)"
      then show "?L (tx # txs)" using Ok by (auto simp: Cons_eq_append_conv)
    qed
  next
    case (Err e)
    have "?R (tx # txs) \<longleftrightarrow> ?R txs"
    proof
      assume "?R (tx # txs)"
      then show "?R txs" using Err by (fastforce simp: Cons_eq_append_conv)
    next
      assume "?R txs"
      then obtain before t after where "txs = before @ t # after"
        "unmarshal (field_InjectedVoteExtensionTx K) t zero_InjectedVoteExtensionTx = Ok injected"
        "\<forall>b \<in> set before. \<exists>e. unmarshal (field_InjectedVoteExtensionTx K) b zero_InjectedVoteExtensionTx = Err e" by blast
      then show "?R (tx # txs)" using Err by (intro exI [of _ "tx # before"]) auto
    qed
    then show ?thesis using Err Cons.IH by simp
  next
    case Panic
    then show ?thesis by (auto simp: Cons_eq_append_conv)
  qed
qed simp

text \<open>What a vote of the commit becomes.\<close>

definition vote_of :: "('w, 'c) abci_env \<Rightarrow> 'w \<Rightarrow> ExtendedVoteInfo \<Rightarrow> AggregateExchangeRateVote \<Rightarrow> bool" where
  "vote_of X w info vote \<longleftrightarrow> (\<exists>ext addr operator val.
     unmarshal (field_OracleVoteExtension (codec_of X)) (VoteExtension info) zero_OracleVoteExtension = Ok ext \<and>
     ConsAddress_Unmarshal X (ValidatorAddress info) = Ok addr \<and>
     sk_GetValidatorByConsAddr X w addr = Ok operator \<and>
     ValAddressFromBech32 (oe X) operator = Ok val \<and>
     vote = \<lparr>av_ExchangeRates = ve_ExchangeRates ext, av_Voter = ValString (oe X) val\<rparr>)"

lemma votes_loop_Ok:
  "votes_loop X w infos = Ok votes \<longleftrightarrow>
     list_all2 (vote_of X w) (filter (\<lambda>i. BlockIdFlag i = BlockIDFlagCommit) infos) votes"
proof (induction infos arbitrary: votes)
  case (Cons info infos)
  show ?case
  proof (cases "BlockIdFlag info = BlockIDFlagCommit")
    case True
    have "votes_loop X w (info # infos) = Ok votes \<longleftrightarrow>
        (\<exists>v vs. votes = v # vs \<and> vote_of X w info v \<and> votes_loop X w infos = Ok vs)"
      using True by (auto simp: bind_res_eq_Ok vote_of_def NewAggregateExchangeRateVote_def)
    then show ?thesis using True Cons.IH by (simp add: list_all2_Cons1)
  qed (use Cons.IH in simp)
qed auto

lemma generateExchangeRateVotes_spec:
  assumes "generateExchangeRateVotes X w ci = Ok votes"
  shows "\<exists>vs. list_all2 (vote_of X w) (filter (\<lambda>i. BlockIdFlag i = BlockIDFlagCommit) (ci_Votes X ci)) vs \<and>
    mset votes = mset vs \<and> sorted (map av_Voter votes)"
proof -
  obtain vs where vs: "votes_loop X w (ci_Votes X ci) = Ok vs" "votes = go_sort voter_less vs"
    using assms by (auto simp: generateExchangeRateVotes_def bind_res_eq_Ok)
  have "sorted (map av_Voter votes)"
    using voter.IsSorted_go_sort [of vs] vs(2)
    by (simp add: voter.IsSorted_iff voter_less_def linorder_not_less sorted_map)
  then show ?thesis using vs votes_loop_Ok [of X w "ci_Votes X ci" vs] by (intro exI [of _ vs]) simp
qed

lemma size_Vote_le:
  assumes "v \<in> set (inj_ExchangeRateVotes tx)"
  shows "size_Vote K v \<le> size_InjectedVoteExtensionTx K tx"
proof -
  have "len_size 1 (size_Vote K v) \<le> (\<Sum>e \<leftarrow> inj_ExchangeRateVotes tx. len_size 1 (size_Vote K e))"
    by (rule member_le_sum_list) (use assms in auto)
  then show ?thesis by (simp add: size_InjectedVoteExtensionTx_def len_size_def)
qed

lemma vote_of_ok:
  assumes "vote_of X w info v"
    and "\<forall>ext. unmarshal (field_OracleVoteExtension (codec_of X)) (VoteExtension info) zero_OracleVoteExtension = Ok ext \<longrightarrow>
      ok_OracleVoteExtension ext"
  shows "ok_Vote v"
  using assms by (auto simp: vote_of_def ok_OracleVoteExtension_def ok_Vote_def)

text \<open>The rates of every vote extension the commit counts are decimals the SDK can encode.\<close>

definition rates_in_range :: "('w, 'c) abci_env \<Rightarrow> 'c \<Rightarrow> bool" where
  "rates_in_range X ci \<longleftrightarrow> (\<forall>info \<in> set (ci_Votes X ci). \<forall>ext.
     BlockIdFlag info = BlockIDFlagCommit \<longrightarrow>
     unmarshal (field_OracleVoteExtension (codec_of X)) (VoteExtension info) zero_OracleVoteExtension = Ok ext \<longrightarrow>
     ok_OracleVoteExtension ext)"

lemma list_all2_member: "list_all2 P xs ys \<Longrightarrow> y \<in> set ys \<Longrightarrow> \<exists>x \<in> set xs. P x y"
  by (induction rule: list_all2_induct) auto

lemma generated_votes_ok:
  assumes "generateExchangeRateVotes X w ci = Ok votes" and "rates_in_range X ci" and "v \<in> set votes"
  shows "ok_Vote v"
proof -
  obtain vs where vs: "list_all2 (vote_of X w) (filter (\<lambda>i. BlockIdFlag i = BlockIDFlagCommit) (ci_Votes X ci)) vs"
    "mset votes = mset vs" using generateExchangeRateVotes_spec [OF assms(1)] by blast
  then have "v \<in> set vs" using assms(3) by (metis set_mset_mset)
  then obtain info where "info \<in> set (ci_Votes X ci)" "BlockIdFlag info = BlockIDFlagCommit" and info: "vote_of X w info v"
    using list_all2_member [OF vs(1)] by auto
  then show ?thesis using assms(2) by (intro vote_of_ok [OF info]) (simp add: rates_in_range_def)
qed

lemma on_error_accept:
  "on_error r (\<lambda>e. Ok (Some REJECT, Some e)) f = Ok (Some ACCEPT, y) \<longleftrightarrow> (\<exists>x. r = Ok x \<and> f x = Ok (Some ACCEPT, y))"
  by (cases r) auto

lemma handleVoteExtensions_accept:
  "handleVoteExtensions X w height txs = Ok (Some ACCEPT, e) \<longleftrightarrow> e = None \<and>
    (\<exists>injected ci votes. extractInjectedVoteExtensionTx (codec_of X) txs = Ok injected \<and>
       ci_Unmarshal X (inj_ExtendedCommitInfo injected) = Ok ci \<and>
       ValidateVoteExtensions X w height ci = Ok () \<and>
       generateExchangeRateVotes X w ci = Ok votes \<and>
       list_all2 (agree X) (inj_ExchangeRateVotes injected) votes)"
  by (cases txs)
    (auto simp: handleVoteExtensions_def Let_def on_error_accept verifyExchangeRateVotes_Ok simp del: extractInjectedVoteExtensionTx.simps(2))

lemma ProcessProposalHandler_accept:
  assumes "VoteExtensionsEnabled ctx"
  shows "ProcessProposalHandler X w ctx (Some req) = Ok (Some ACCEPT, None) \<longleftrightarrow>
    (\<exists>txs. rp_Txs req = Some txs \<and> handleVoteExtensions X w (rp_Height req) txs = Ok (Some ACCEPT, None))"
  using assms handleVoteExtensions_accept [of X w "rp_Height req"]
  by (auto simp: ProcessProposalHandler_def bind_res_eq_Ok split: option.splits if_splits)

lemma PrepareProposalHandler_Ok:
  assumes "VoteExtensionsEnabled ctx"
  shows "PrepareProposalHandler X w ctx (Some req) = Ok (Some txs, None) \<longleftrightarrow>
    (\<exists>proposalTxs votes ci bz. pp_Txs req = Some proposalTxs \<and> txs = bz # proposalTxs \<and>
       ValidateVoteExtensions X w (pp_Height req) (pp_LocalLastCommit req) = Ok () \<and>
       generateExchangeRateVotes X w (pp_LocalLastCommit req) = Ok votes \<and>
       ci_Marshal X (pp_LocalLastCommit req) = Ok ci \<and>
       Marshal_injected (codec_of X) \<lparr>inj_ExchangeRateVotes = votes, inj_ExtendedCommitInfo = ci\<rparr> = Ok bz)"
  using assms
  by (auto simp: PrepareProposalHandler_def Let_def on_error_reply_eq_Ok split: option.splits)

lemma injected_decodes:
  assumes "codec_laws K" and "\<forall>v \<in> set (inj_ExchangeRateVotes tx). ok_Vote v"
    and "int (size_InjectedVoteExtensionTx K tx) \<le> max_int64" and "Marshal_injected K tx = Ok bz"
  shows "unmarshal (field_InjectedVoteExtensionTx K) bz zero_InjectedVoteExtensionTx = Ok tx"
proof -
  have "ok_InjectedVoteExtensionTx K tx"
    using assms(2,3) size_Vote_le [of _ tx K] by (fastforce simp: ok_InjectedVoteExtensionTx_def)
  then show ?thesis
    using sdk_encoding.injected_round_trip [OF sdk_encoding.intro [OF assms(1)], of tx] assms(3,4)
    by (auto simp: Marshal_injected_def)
qed

lemma parse_loop_amounts:
  "parse_loop fromStr okDenom seen coins strs = Ok r \<Longrightarrow> \<forall>c \<in> set coins. P (dc_Amount c) \<Longrightarrow>
   (\<And>str x. fromStr str = Ok x \<Longrightarrow> P x) \<Longrightarrow> \<forall>c \<in> set r. P (dc_Amount c)"
  by (induction strs arbitrary: seen coins)
    (auto simp: bind_res_eq_Ok Let_def split: list.splits if_splits)

lemma ParseExchangeRateDecCoins_amounts:
  assumes "ParseExchangeRateDecCoins fromStr okDenom str = Ok r" and "\<And>str x. fromStr str = Ok x \<Longrightarrow> P x"
  shows "\<forall>c \<in> set r. P (dc_Amount c)"
  using assms parse_loop_amounts [of fromStr okDenom "[]" "[]" _ r P]
  by (auto simp: ParseExchangeRateDecCoins_def split: if_splits)

section \<open>Properties\<close>


text \<open>
  C1. And nothing else is accepted. With vote extensions enabled a proposal is accepted
  if and only if its first transaction that decodes as an injected one carries a
  commit that CometBFT's rules validate, and its votes are, one for one and in the order of the
  voters, the votes that the extensions of that commit determine: a proposer can neither
  add, drop, change nor reorder an exchange-rate vote.
\<close>

theorem accepted_proposal_votes:
  assumes "VoteExtensionsEnabled ctx"
  shows "ProcessProposalHandler X w ctx (Some req) = Ok (Some ACCEPT, None) \<longleftrightarrow>
    (\<exists>before tx after injected ci votes.
       rp_Txs req = Some (before @ tx # after) \<and>
       (\<forall>b \<in> set before. \<exists>e. unmarshal (field_InjectedVoteExtensionTx (codec_of X)) b zero_InjectedVoteExtensionTx = Err e) \<and>
       unmarshal (field_InjectedVoteExtensionTx (codec_of X)) tx zero_InjectedVoteExtensionTx = Ok injected \<and>
       ci_Unmarshal X (inj_ExtendedCommitInfo injected) = Ok ci \<and>
       ValidateVoteExtensions X w (rp_Height req) ci = Ok () \<and>
       generateExchangeRateVotes X w ci = Ok votes \<and>
       list_all2 (\<lambda>v v'. av_Voter v = av_Voter v' \<and>
         DecCoins_Equal X (av_ExchangeRates v) (av_ExchangeRates v') = Ok True) (inj_ExchangeRateVotes injected) votes)"
  unfolding ProcessProposalHandler_accept [OF assms] handleVoteExtensions_accept extract_Ok agree_def [abs_def]
  by blast

text \<open>
  C14. The extension a validator attaches to its vote carries the height it was asked for and
  exactly the parsed rates of the price feeder whose denom is on the accept list, and the
  other validators' \<open>VerifyVoteExtension\<close> accepts it at that height.
\<close>

theorem extended_vote_verified:
  assumes "codec_laws (codec_of X)" and "\<forall>str x. LegacyNewDecFromStr (oe X) str = Ok x \<longrightarrow> dec_in_range x"
    and "in_i64 h" and "keeper_PriceFeeder (oe X) = Some pf" and "pf_Oracle pf = Some str"
    and "ParseExchangeRateDecCoins (LegacyNewDecFromStr (oe X)) (ValidateDenom (oe X)) str = Ok rates"
    and "ext = \<lparr>ve_Height = h, ve_ExchangeRates = filter (\<lambda>c. DenomList_Contains (Keeper_AcceptList s) (dc_Denom c)) rates\<rparr>"
    and "int (size_OracleVoteExtension (codec_of X) ext) \<le> max_int64"
  shows "\<exists>bz. ExtendVoteHandler X s (Some h) = Ok (Some bz, None) \<and>
     unmarshal (field_OracleVoteExtension (codec_of X)) bz zero_OracleVoteExtension = Ok ext \<and>
     VerifyVoteExtensionHandler X (Some \<lparr>rv_Height = h, rv_VoteExtension = bz\<rparr>) = Ok (Some ACCEPT, None)"
proof -
  have "ok_OracleVoteExtension ext"
    using assms(3,7) ParseExchangeRateDecCoins_amounts [OF assms(6), of dec_in_range] assms(2)
    by (simp add: ok_OracleVoteExtension_def)
  then obtain bz where bz: "Marshal_extension (codec_of X) ext = Ok bz"
    "unmarshal (field_OracleVoteExtension (codec_of X)) bz zero_OracleVoteExtension = Ok ext"
    using sdk_encoding.extension_round_trip [OF sdk_encoding.intro [OF assms(1)], of ext] assms(8)
    by (auto simp: Marshal_extension_def)
  then show ?thesis
    using assms(4-7) by (intro exI [of _ bz]) (simp add: ExtendVoteHandler_def VerifyVoteExtensionHandler_def)
qed

section \<open>A commit with two votes\<close>

definition sample_extension :: OracleVoteExtension where
  "sample_extension = \<lparr>ve_Height = 9, ve_ExchangeRates = [\<lparr>dc_Denom = ''DM'', dc_Amount = 5\<rparr>]\<rparr>"

definition sample_votes :: "ExtendedVoteInfo list" where
  "sample_votes =
     [\<lparr>BlockIdFlag = 2, VoteExtension = (case Marshal_extension ref_codec sample_extension of Ok bz \<Rightarrow> bz | _ \<Rightarrow> []),
       ValidatorAddress = ''val2''\<rparr>,
      \<lparr>BlockIdFlag = 1, VoteExtension = ''absent'', ValidatorAddress = ''val3''\<rparr>,
      \<lparr>BlockIdFlag = 2, VoteExtension = [], ValidatorAddress = ''val1''\<rparr>]"

definition sample_dec :: "string \<Rightarrow> dec res" where
  "sample_dec t = (if t = ''5'' then Ok 5 else Err (Errorf ''decimal''))"

definition sample_env :: "(ref_world, ExtendedVoteInfo list) abci_env" where
  "sample_env = \<lparr>oe = ref_env\<lparr>LegacyNewDecFromStr := sample_dec\<rparr>, codec_of = ref_codec, ci_Votes = (\<lambda>ci. ci),
     ci_Marshal = (\<lambda>ci. if ci = sample_votes then Ok ''two votes'' else Err (Errorf ''unknown'')),
     ci_Unmarshal = (\<lambda>bz. if bz = ''two votes'' then Ok sample_votes else Err (Errorf ''unknown'')),
     ValidateVoteExtensions = (\<lambda>w height ci. Ok ()), ConsAddress_Unmarshal = Ok,
     sk_GetValidatorByConsAddr = (\<lambda>w addr. Ok addr), DecCoins_Equal = (\<lambda>a b. Ok (a = b))\<rparr>"

lemma sample_extension_decodes:
  "unmarshal (field_OracleVoteExtension ref_codec) (VoteExtension (sample_votes ! 0)) zero_OracleVoteExtension = Ok sample_extension"
proof -
  have "ok_OracleVoteExtension sample_extension"
    by (simp add: ok_OracleVoteExtension_def sample_extension_def in_i64_def dec_in_range_def)
  moreover have "int (size_OracleVoteExtension ref_codec sample_extension) \<le> max_int64"
    by (simp add: size_OracleVoteExtension_def sample_extension_def ref_codec_def varint_size_def len_size_def max_int64_def codec)
  ultimately show ?thesis
    using ref.extension_round_trip [of sample_extension] by (auto simp: sample_votes_def Marshal_extension_def)
qed

lemma empty_extension_decodes:
  "unmarshal (field_OracleVoteExtension K) [] zero_OracleVoteExtension = Ok zero_OracleVoteExtension"
  by (simp add: unmarshal_def unmarshal_loop.simps)

lemma sample_generated:
  "generateExchangeRateVotes sample_env w sample_votes =
     Ok [\<lparr>av_ExchangeRates = [], av_Voter = ''val1''\<rparr>,
         \<lparr>av_ExchangeRates = [\<lparr>dc_Denom = ''DM'', dc_Amount = 5\<rparr>], av_Voter = ''val2''\<rparr>]"
proof -
  have "votes_loop sample_env w sample_votes =
      Ok [\<lparr>av_ExchangeRates = ve_ExchangeRates sample_extension, av_Voter = ''val2''\<rparr>,
          \<lparr>av_ExchangeRates = ve_ExchangeRates zero_OracleVoteExtension, av_Voter = ''val1''\<rparr>]"
    using sample_extension_decodes empty_extension_decodes [of ref_codec]
    by (simp add: sample_env_def sample_votes_def BlockIDFlagCommit_def NewAggregateExchangeRateVote_def ref_env_def)
  then show ?thesis
    by (simp add: generateExchangeRateVotes_def sample_env_def voter_less_def sample_extension_def zero_OracleVoteExtension_def)
qed

definition sample_request :: "ExtendedVoteInfo list RequestPrepareProposal" where
  "sample_request = \<lparr>pp_Height = 10, pp_Txs = Some [''tx''], pp_LocalLastCommit = sample_votes\<rparr>"

definition sample_ctx :: abci_ctx where
  "sample_ctx = \<lparr>cx_BlockHeight = 10, cx_EnableHeight = Some 3\<rparr>"

definition sample_injected :: InjectedVoteExtensionTx where
  "sample_injected = \<lparr>inj_ExchangeRateVotes = [\<lparr>av_ExchangeRates = [], av_Voter = ''val1''\<rparr>,
         \<lparr>av_ExchangeRates = [\<lparr>dc_Denom = ''DM'', dc_Amount = 5\<rparr>], av_Voter = ''val2''\<rparr>],
     inj_ExtendedCommitInfo = ''two votes''\<rparr>"

lemma sample_size: "size_InjectedVoteExtensionTx ref_codec sample_injected = 71"
  by (simp add: sample_injected_def size_InjectedVoteExtensionTx_def size_Vote_def ref_codec_def len_size_def opt_len_size_def codec)

lemma sample_prepared:
  "\<exists>bz. PrepareProposalHandler sample_env w sample_ctx (Some sample_request) = Ok (Some [bz, ''tx''], None) \<and>
     unmarshal (field_InjectedVoteExtensionTx ref_codec) bz zero_InjectedVoteExtensionTx = Ok sample_injected"
proof -
  have "ok_InjectedVoteExtensionTx ref_codec sample_injected"
    using size_Vote_le [of _ sample_injected ref_codec] sample_size
    by (fastforce simp: ok_InjectedVoteExtensionTx_def sample_injected_def ok_Vote_def dec_in_range_def max_int64_def)
  then obtain bz where "Marshal_injected ref_codec sample_injected = Ok bz"
    "unmarshal (field_InjectedVoteExtensionTx ref_codec) bz zero_InjectedVoteExtensionTx = Ok sample_injected"
    using ref.injected_round_trip [of sample_injected] sample_size by (auto simp: Marshal_injected_def max_int64_def)
  moreover have "VoteExtensionsEnabled sample_ctx" by (simp add: VoteExtensionsEnabled_def sample_ctx_def)
  ultimately show ?thesis
    using sample_generated [of w]
    by (simp add: PrepareProposalHandler_Ok sample_request_def sample_injected_def)
      (simp add: sample_env_def)
qed

lemma sample_rates_in_range: "rates_in_range sample_env sample_votes"
proof -
  have "ok_OracleVoteExtension sample_extension" "ok_OracleVoteExtension zero_OracleVoteExtension"
    by (simp_all add: ok_OracleVoteExtension_def sample_extension_def zero_OracleVoteExtension_def in_i64_def dec_in_range_def)
  then show ?thesis
    using sample_extension_decodes empty_extension_decodes [of ref_codec]
    by (auto simp: rates_in_range_def sample_env_def sample_votes_def BlockIDFlagCommit_def)
qed

section \<open>Witnesses\<close>


theorem accepted_proposal_votes_witness:
  "ProcessProposalHandler sample_env ([], [], []) sample_ctx (Some \<lparr>rp_Height = 10, rp_Txs = Some []\<rparr>) \<noteq>
     Ok (Some ACCEPT, None)"
proof -
  have "VoteExtensionsEnabled sample_ctx" by (simp add: VoteExtensionsEnabled_def sample_ctx_def)
  from accepted_proposal_votes [OF this, of sample_env "([], [], [])" "\<lparr>rp_Height = 10, rp_Txs = Some []\<rparr>"]
  show ?thesis by simp
qed

theorem extended_vote_verified_witness:
  "\<exists>bz. ExtendVoteHandler sample_env ref_state (Some 9) = Ok (Some bz, None) \<and>
     unmarshal (field_OracleVoteExtension (codec_of sample_env)) bz zero_OracleVoteExtension = Ok sample_extension \<and>
     VerifyVoteExtensionHandler sample_env (Some \<lparr>rv_Height = 9, rv_VoteExtension = bz\<rparr>) = Ok (Some ACCEPT, None)"
proof (rule extended_vote_verified [where pf = "the (keeper_PriceFeeder ref_env)"])
  have "ParseExchangeRateDecCoins sample_dec (\<lambda>d. d \<noteq> []) ''dm:5,xyz:5'' =
      Ok [\<lparr>dc_Denom = ''DM'', dc_Amount = 5\<rparr>, \<lparr>dc_Denom = ''XYZ'', dc_Amount = 5\<rparr>]" by code_simp
  then show "ParseExchangeRateDecCoins (LegacyNewDecFromStr (oe sample_env)) (ValidateDenom (oe sample_env)) ''dm:5,xyz:5'' =
      Ok [\<lparr>dc_Denom = ''DM'', dc_Amount = 5\<rparr>, \<lparr>dc_Denom = ''XYZ'', dc_Amount = 5\<rparr>]"
    by (simp add: sample_env_def ref_env_def)
  have "DenomList_Contains DefaultAcceptList ''DM''" "\<not> DenomList_Contains DefaultAcceptList ''XYZ''" by code_simp+
  then show "sample_extension = \<lparr>ve_Height = 9, ve_ExchangeRates =
      filter (\<lambda>c. DenomList_Contains (Keeper_AcceptList ref_state) (dc_Denom c))
        [\<lparr>dc_Denom = ''DM'', dc_Amount = 5\<rparr>, \<lparr>dc_Denom = ''XYZ'', dc_Amount = 5\<rparr>]\<rparr>"
    by (simp add: sample_extension_def Keeper_AcceptList_def ref_state_def DefaultParams_def)
  show "int (size_OracleVoteExtension (codec_of sample_env) sample_extension) \<le> max_int64"
    by (simp add: size_OracleVoteExtension_def sample_env_def sample_extension_def ref_codec_def varint_size_def len_size_def max_int64_def codec)
qed (simp_all add: sample_env_def ref_env_def ref.laws in_i64_def sample_dec_def dec_in_range_def)

end
