(* ===== verification/Oracle_Wiring.thy ===== *)
theory Oracle_Wiring
  imports Oracle_Chain Oracle_Keys Oracle_Proposal
begin

text \<open>
  How the oracle is put together: the constructor of its keeper
  (\<open>src/x/oracle/keeper/keeper.go\<close>) and the genesis methods of its module
  (\<open>src/x/oracle/module.go\<close>), which read and write the document as JSON.

  \<^item> A \<open>Keeper\<close> has the codec, the subspace and the other keepers as fields of any type; one
    that the constructor does not set is nil, here \<open>None\<close>. A collection is the prefix and
    the name it is registered under.
  \<^item> \<open>keeper_libs\<close> holds what the constructor calls: the address of a module account, the key
    table of a subspace, and \<open>SchemaBuilder.Build\<close>, which \<open>schema_laws\<close> describes: it accepts
    collections with well-formed, different names and prefixes of which none begins another.
  \<^item> \<open>json_codec\<close> is the JSON codec of the SDK on the document, over any type \<open>'j\<close> of raw messages.
\<close>

section \<open>NewKeeper\<close>

record ('c, 'p, 'a, 'b, 'd, 's) Keeper =
  kp_cdc :: "'c option"
  kp_paramSpace :: "'p option"
  kp_Schema :: "(bytes \<times> string) list"
  kp_accountKeeper :: "'a option"
  kp_bankKeeper :: "'b option"
  kp_distrKeeper :: "'d option"
  kp_StakingKeeper :: "'s option"
  kp_PriceFeeder :: "PriceFeeder option"
  kp_distrName :: string
  kp_telemetryEnabled :: bool
  kp_authority :: string

record ('p, 'a) keeper_libs =
  GetModuleAddress :: "'a \<Rightarrow> string \<Rightarrow> bytes option"
  HasKeyTable :: "'p \<Rightarrow> bool"
  WithKeyTable :: "'p \<Rightarrow> 'p res"
  NewModuleAddress :: "string \<Rightarrow> string"
  SchemaBuilder_Build :: "(bytes \<times> string) list \<Rightarrow> unit res"

definition keeper_collections :: "(bytes \<times> string) list" where
  "keeper_collections =
     [(KeyPrefixExchangeRate, ''exchange_rates''), (KeyPrefixFeederDelegation, ''feeder_delegations''),
      (KeyPrefixAggregateExchangeRatePrevote, ''prevotes''), (KeyPrefixAggregateExchangeRateVote, ''votes''),
      (KeyPrefixHistoricPrice, ''historic_prices''), (KeyPrefixMedian, ''median_prices''),
      (KeyPrefixMedianDeviation, ''median_deviation_prices''),
      (KeyPrefixLastHistoricPriceBlock, ''last_historic_block''), (KeyPrefixAverages, ''averages''),
      (KeyPrefixMissCounter, ''miss_counters''), (KeyPrefixValidatorRewardSet, ''validator_reward_set''),
      (KeyPrefixParamUpdatePlan, ''param_update_plans'')]"

definition NewKeeper ::
  "('p, 'a) keeper_libs \<Rightarrow> 'c \<Rightarrow> 'p \<Rightarrow> 'a \<Rightarrow> 'b \<Rightarrow> 'd \<Rightarrow> 's \<Rightarrow> string \<Rightarrow> bool \<Rightarrow> string
    \<Rightarrow> ('c, 'p, 'a, 'b, 'd, 's) Keeper res" where
  "NewKeeper L cdc paramspace accountKeeper bankKeeper distrKeeper stakingKeeper distrName' telemetryEnabled authority' =
     (if GetModuleAddress L accountKeeper ModuleName = None then Panic
      else bind_res (if \<not> HasKeyTable L paramspace then WithKeyTable L paramspace else Ok paramspace) (\<lambda>paramspace.
        let auth = (if authority' = [] then NewModuleAddress L ''gov'' else authority') in
        bind_res (or_panic (SchemaBuilder_Build L keeper_collections)) (\<lambda>_.
          Ok \<lparr>kp_cdc = Some cdc, kp_paramSpace = None, kp_Schema = keeper_collections, kp_accountKeeper = None,
              kp_bankKeeper = None, kp_distrKeeper = None, kp_StakingKeeper = None, kp_PriceFeeder = None,
              kp_distrName = [], kp_telemetryEnabled = False, kp_authority = auth\<rparr>)))"

text \<open>The syntax of names and the overlap of prefixes that \<open>Build\<close> looks at.\<close>

definition name_char :: "char \<Rightarrow> bool" where
  "name_char c \<longleftrightarrow> c = CHR ''_'' \<or> CHR ''A'' \<le> c \<and> c \<le> CHR ''Z'' \<or> CHR ''a'' \<le> c \<and> c \<le> CHR ''z'' \<or>
     CHR ''0'' \<le> c \<and> c \<le> CHR ''9''"

definition name_ok :: "string \<Rightarrow> bool" where
  "name_ok n \<longleftrightarrow> n \<noteq> [] \<and> list_all name_char n \<and> hd n \<noteq> CHR ''_'' \<and> \<not> (CHR ''0'' \<le> hd n \<and> hd n \<le> CHR ''9'')"

definition overlap :: "bytes \<Rightarrow> bytes \<Rightarrow> bool" where
  "overlap p q \<longleftrightarrow> take (length p) q = p \<or> take (length q) p = q"

definition schema_ok :: "(bytes \<times> string) list \<Rightarrow> bool" where
  "schema_ok cs \<longleftrightarrow> list_all (\<lambda>c. name_ok (snd c)) cs \<and> distinct (map snd cs) \<and>
     sorted_wrt (\<lambda>c c'. \<not> overlap (fst c) (fst c')) cs"

definition schema_laws :: "('p, 'a) keeper_libs \<Rightarrow> bool" where
  "schema_laws L \<longleftrightarrow> (\<forall>cs. schema_ok cs \<longrightarrow> SchemaBuilder_Build L cs = Ok ())"

text \<open>A method that is called through a nil interface or pointer panics. The environment of
  the handlers has the feeder that the keeper points to.\<close>

definition keeper_env :: "('c, 'p, 'a, 'b, 'd, 's) Keeper \<Rightarrow> 'w oracle_env \<Rightarrow> 'w oracle_env" where
  "keeper_env k E = E\<lparr>authority := kp_authority k, distrName := kp_distrName k, keeper_PriceFeeder := kp_PriceFeeder k\<rparr>"

section \<open>module.go\<close>

record 'j json_codec =
  json_Marshal :: "GenesisState \<Rightarrow> 'j res"
  json_Unmarshal :: "'j \<Rightarrow> GenesisState res"

definition module_DefaultGenesis :: "'j json_codec \<Rightarrow> 'j res" where
  "module_DefaultGenesis J = or_panic (json_Marshal J
     \<lparr>gs_Params = DefaultParams, gs_FeederDelegations = [], gs_ExchangeRates = [], gs_MissCounters = [],
      gs_AggregateExchangeRatePrevotes = [], gs_AggregateExchangeRateVotes = [], gs_Medians = [],
      gs_HistoricPrices = [], gs_MedianDeviations = []\<rparr>)"

definition module_ValidateGenesis :: "'w oracle_env \<Rightarrow> 'j json_codec \<Rightarrow> 'j \<Rightarrow> unit res" where
  "module_ValidateGenesis E J raw = bind_res (json_Unmarshal J raw) (\<lambda>data. Params_Validate (Y E) (gs_Params data))"

definition module_InitGenesis :: "'w oracle_env \<Rightarrow> 'j json_codec \<Rightarrow> 'j \<Rightarrow> 'w ostate \<Rightarrow> 'w ostate \<times> unit res" where
  "module_InitGenesis E J raw s =
     read_st s (or_panic (json_Unmarshal J raw)) (\<lambda>genesisState. InitGenesis E genesisState s)"

definition module_ExportGenesis :: "'w oracle_env \<Rightarrow> 'j json_codec \<Rightarrow> 'w ostate \<Rightarrow> 'j res" where
  "module_ExportGenesis E J s = or_panic (json_Marshal J (ExportGenesis E s))"

text \<open>Reading a document that was written gives it back.\<close>

definition json_laws :: "'j json_codec \<Rightarrow> bool" where
  "json_laws J \<longleftrightarrow> (\<forall>g m. json_Marshal J g = Ok m \<longrightarrow> json_Unmarshal J m = Ok g)"

section \<open>Lemmas\<close>

lemma or_panic_eq_Ok [res_simps]: "or_panic r = Ok x \<longleftrightarrow> r = Ok x"
  by (cases r) auto

lemma keeper_collections_ok: "schema_ok keeper_collections"
  by code_simp

lemma json_laws_read: "json_laws J \<Longrightarrow> or_panic (json_Marshal J g) = Ok m \<Longrightarrow> json_Unmarshal J m = Ok g"
  by (auto simp: json_laws_def res_simps)

section \<open>Properties\<close>

text \<open>
  The collections of the keeper have different, well-formed names and prefixes that do not
  overlap, so the constructor returns a keeper whenever the module account exists and the
  subspace takes the key table. Its authority is the given one, or the governance module.
\<close>

theorem NewKeeper_builds:
  assumes "schema_laws L" and "GetModuleAddress L ak ModuleName \<noteq> None"
    and "HasKeyTable L ps \<or> is_ok (WithKeyTable L ps)"
  shows "\<exists>k. NewKeeper L cdc ps ak bk dk sk dn te au = Ok k \<and> kp_Schema k = keeper_collections \<and>
     kp_authority k = (if au = [] then NewModuleAddress L ''gov'' else au)"
proof -
  have "SchemaBuilder_Build L keeper_collections = Ok ()"
    using assms(1) keeper_collections_ok by (simp add: schema_laws_def)
  moreover obtain ps' where "(if \<not> HasKeyTable L ps then WithKeyTable L ps else Ok ps) = Ok ps'"
    using assms(3) by (cases "HasKeyTable L ps") (auto simp: is_ok_iff)
  ultimately show ?thesis
    using assms(2) by (simp add: NewKeeper_def Let_def)
qed

text \<open>
  C9. The keeper that \<open>NewKeeper\<close> returns cannot end a block and cannot extend a vote: none of
  the subspace, the four other keepers and the price feeder is stored in it, so \<open>EndBlock\<close>
  panics at every height and on every state when it reads through the nil feeder (if the zero
  subspace or a due plan has not stopped it before), and \<open>ExtendVote\<close> recovers from the same panic and answers
  with an empty extension and an error. With a feeder, \<open>EndBlocker\<close> does the work that the
  other properties describe.
\<close>

theorem keeper_as_constructed_halts:
  assumes "NewKeeper L cdc ps ak bk dk sk dn te au = Ok k"
  shows "kp_paramSpace k = None \<and> kp_accountKeeper k = None \<and> kp_bankKeeper k = None \<and> kp_distrKeeper k = None \<and>
     kp_StakingKeeper k = None \<and> kp_PriceFeeder k = None \<and>
     snd (EndBlock (keeper_env k E) F h s) = Panic \<and>
     ExtendVoteHandler (X\<lparr>oe := keeper_env k (oe X)\<rparr>) s (Some height) =
       Ok (Some [], Some (Errorf ''recovered application panic in ExtendVote''))"
proof -
  have k: "kp_paramSpace k = None" "kp_accountKeeper k = None" "kp_bankKeeper k = None" "kp_distrKeeper k = None"
    "kp_StakingKeeper k = None" "kp_PriceFeeder k = None"
    using assms by (auto simp: NewKeeper_def res_simps Let_def split: if_splits)
  have "snd (EndBlock (keeper_env k E) F h s) = Panic"
    by (rule EndBlock_not_Ok, rule EndBlocker_without_feeder) (simp add: keeper_env_def k)
  then show ?thesis
    by (simp add: k ExtendVoteHandler_def keeper_env_def)
qed

text \<open>The document a new chain starts from passes the validation of the module.\<close>

theorem default_genesis_validates:
  assumes "json_laws J" and "module_DefaultGenesis J = Ok m"
  shows "module_ValidateGenesis E J m = Ok ()"
  using json_laws_read [OF assms(1)] assms(2) DefaultParams_ok [of "Y E"]
  by (simp add: module_DefaultGenesis_def module_ValidateGenesis_def Params_Validate_Ok)

text \<open>
  The raw document that the module exports from a reachable state is read back by
  \<open>AppModule.InitGenesis\<close> of an empty store without a panic, and the import restores the
  parameters, the exchange rates, the votes, the prevotes, the feeders, the miss counters
  and every stamped price.
\<close>

theorem module_genesis_round_trip:
  assumes "json_laws J" and "addr_laws E" and "dec_laws (D E)" and "chain E F h s"
    and "run_validators (ParamSetPairs (D E) (params s))"
    and "empty_stores t" and "ak_GetModuleAccount E (world t) ModuleName \<noteq> None"
    and "module_ExportGenesis E J s = Ok m"
  shows "module_InitGenesis E J m t =
      (s\<lparr>LastHistoricPriceBlock := last_blocks (HistoricPrices s), Averages := Averages t,
         RewardSetItem := RewardSetItem t, ParamUpdatePlans := ParamUpdatePlans t, world := world t\<rparr>, Ok ())"
  using import_export [OF chain_keeper_ok [OF assms(2-4)] assms(5-7)] json_laws_read [OF assms(1)] assms(8)
  by (simp add: module_InitGenesis_def module_ExportGenesis_def)

section \<open>Witness\<close>

definition wired_libs :: "(unit, unit) keeper_libs" where
  "wired_libs = \<lparr>GetModuleAddress = (\<lambda>_ n. Some n), HasKeyTable = (\<lambda>_. False), WithKeyTable = Ok,
     NewModuleAddress = (\<lambda>n. n), SchemaBuilder_Build = (\<lambda>cs. if schema_ok cs then Ok () else Err (Errorf ''schema''))\<rparr>"

definition wired_keeper :: "(unit, unit, unit, unit, unit, unit) Keeper" where
  "wired_keeper = \<lparr>kp_cdc = Some (), kp_paramSpace = None, kp_Schema = keeper_collections, kp_accountKeeper = None,
     kp_bankKeeper = None, kp_distrKeeper = None, kp_StakingKeeper = None, kp_PriceFeeder = None,
     kp_distrName = [], kp_telemetryEnabled = False, kp_authority = ''gov''\<rparr>"

lemma wired_keeper_built: "NewKeeper wired_libs () () () () () () ''distribution'' True [] = Ok wired_keeper"
  by (simp add: NewKeeper_def wired_libs_def wired_keeper_def keeper_collections_ok)

theorem keeper_as_constructed_halts_witness:
  "snd (EndBlock (keeper_env wired_keeper reward_env) ref_float 9 ref_state) = Panic \<and>
   ExtendVoteHandler (sample_env\<lparr>oe := keeper_env wired_keeper (oe sample_env)\<rparr>) ref_state (Some 9) =
     Ok (Some [], Some (Errorf ''recovered application panic in ExtendVote''))"
  using keeper_as_constructed_halts [OF wired_keeper_built, of reward_env ref_float 9 ref_state sample_env 9] by blast

end
