(* ===== verification/Oracle_Genesis_Codec.thy ===== *)
theory Oracle_Genesis_Codec
  imports Oracle_Codec Oracle_Genesis
begin

text \<open>
  The encodings of the genesis document (\<open>src/x/oracle/types/genesis.pb.go\<close>) and of a price
  stamp (\<open>PriceStamp\<close> of \<open>oracle.pb.go\<close>), in the way of \<open>Oracle_Codec\<close>. The stamp points to
  its coin: a nil pointer is left out, and a coin that is met twice is read into the same
  struct.
\<close>

section \<open>PriceStamp\<close>

definition write_PriceStamp :: "sdk_codec \<Rightarrow> GenesisStamp \<Rightarrow> writer" where
  "write_PriceStamp K m = seq_w
    [w_opt_varint [0x10] (gp_BlockNum m),
     w_opt_nested [0xa] (map_option (coin_MarshalToSizedBuffer K) (gp_ExchangeRate m))]"

definition size_PriceStamp :: "sdk_codec \<Rightarrow> GenesisStamp \<Rightarrow> nat" where
  "size_PriceStamp K m =
     opt_nested_size 1 (map_option (coin_Size K) (gp_ExchangeRate m)) +
     varint_size 1 (gp_BlockNum m)"

definition field_PriceStamp :: "sdk_codec \<Rightarrow> GenesisStamp ptable" where
  "field_PriceStamp K fieldNum =
     (if fieldNum = 1 then Some (PBytes (\<lambda>bs m. bind_res (coin_Unmarshal K bs (case gp_ExchangeRate m of None \<Rightarrow> fresh_coin K | Some x \<Rightarrow> x))
        (\<lambda>x. Ok (m\<lparr>gp_ExchangeRate := Some x\<rparr>))))
      else if fieldNum = 2 then Some (PVarint (\<lambda>v m. m\<lparr>gp_BlockNum := v\<rparr>))
      else None)"

definition zero_PriceStamp :: "GenesisStamp" where
  "zero_PriceStamp = \<lparr>gp_ExchangeRate = None, gp_BlockNum = 0\<rparr>"

definition fields_PriceStamp :: "sdk_codec \<Rightarrow> GenesisStamp \<Rightarrow> fval list" where
  "fields_PriceStamp K m = concat
    [f_opt_nested 1 (map_option (coin_bytes K) (gp_ExchangeRate m)),
     f_varint 2 (gp_BlockNum m)]"

definition ok_PriceStamp :: "GenesisStamp \<Rightarrow> bool" where
  "ok_PriceStamp m \<longleftrightarrow> (\<forall>c. gp_ExchangeRate m = Some c \<longrightarrow> dec_in_range (dc_Amount c))"

sublocale sdk_encoding \<subseteq> price_stamp: message "write_PriceStamp K" "size_PriceStamp K" "field_PriceStamp K" zero_PriceStamp
  "fields_PriceStamp K" ok_PriceStamp
proof unfold_locales
  fix m :: "GenesisStamp"
  assume ok: "ok_PriceStamp m"
  show "writes (write_PriceStamp K m) (enc_fields (fields_PriceStamp K m))"
    unfolding write_PriceStamp_def fields_PriceStamp_def
    by (rule writes_seq) (use ok in \<open>simp add: codec ok_PriceStamp_def\<close>)
  show "size_PriceStamp K m = length (enc_fields (fields_PriceStamp K m))"
    using ok by (simp add: size_PriceStamp_def fields_PriceStamp_def codec ok_PriceStamp_def cong: map_option_cong)
  show "apply_fields (field_PriceStamp K) (fields_PriceStamp K m) zero_PriceStamp = Ok m"
    using ok by (cases m) (simp add: fields_PriceStamp_def field_PriceStamp_def zero_PriceStamp_def codec ok_PriceStamp_def
         apply_opt_nested [where U = gp_ExchangeRate_update])
next
  fix m :: "GenesisStamp" and f
  assume "f \<in> set (fields_PriceStamp K m)"
  then show "0 < field_num f \<and> field_num f < 2 ^ 28"
    by (auto simp: fields_PriceStamp_def codec)
qed

section \<open>FeederDelegation\<close>

definition write_FeederDelegation :: "FeederDelegation \<Rightarrow> writer" where
  "write_FeederDelegation m = seq_w
    [w_opt_string [0x12] (fd_ValidatorAddress m),
     w_opt_string [0xa] (fd_FeederAddress m)]"

definition size_FeederDelegation :: "FeederDelegation \<Rightarrow> nat" where
  "size_FeederDelegation m =
     opt_len_size 1 (length (fd_FeederAddress m)) +
     opt_len_size 1 (length (fd_ValidatorAddress m))"

definition field_FeederDelegation :: "FeederDelegation ptable" where
  "field_FeederDelegation fieldNum =
     (if fieldNum = 1 then Some (PBytes (\<lambda>bs m. Ok (m\<lparr>fd_FeederAddress := bs\<rparr>)))
      else if fieldNum = 2 then Some (PBytes (\<lambda>bs m. Ok (m\<lparr>fd_ValidatorAddress := bs\<rparr>)))
      else None)"

definition zero_FeederDelegation :: "FeederDelegation" where
  "zero_FeederDelegation = \<lparr>fd_FeederAddress = [], fd_ValidatorAddress = []\<rparr>"

definition fields_FeederDelegation :: "FeederDelegation \<Rightarrow> fval list" where
  "fields_FeederDelegation m = concat
    [f_bytes 1 (fd_FeederAddress m),
     f_bytes 2 (fd_ValidatorAddress m)]"

interpretation feeder_delegation: message write_FeederDelegation size_FeederDelegation field_FeederDelegation zero_FeederDelegation
  fields_FeederDelegation "\<lambda>m. True"
proof unfold_locales
  fix m :: "FeederDelegation"
  show "writes (write_FeederDelegation m) (enc_fields (fields_FeederDelegation m))"
    unfolding write_FeederDelegation_def fields_FeederDelegation_def
    by (rule writes_seq) (simp add: codec)
  show "size_FeederDelegation m = length (enc_fields (fields_FeederDelegation m))"
    by (simp add: size_FeederDelegation_def fields_FeederDelegation_def codec)
  show "apply_fields field_FeederDelegation (fields_FeederDelegation m) zero_FeederDelegation = Ok m"
    by (cases m) (simp add: fields_FeederDelegation_def field_FeederDelegation_def zero_FeederDelegation_def codec)
  fix f
  assume "f \<in> set (fields_FeederDelegation m)"
  then show "0 < field_num f \<and> field_num f < 2 ^ 28"
    by (auto simp: fields_FeederDelegation_def codec)
qed

section \<open>MissCounter\<close>

definition write_MissCounter :: "MissCounter \<Rightarrow> writer" where
  "write_MissCounter m = seq_w
    [w_opt_varint [0x10] (mi_MissCounter m),
     w_opt_string [0xa] (mi_ValidatorAddress m)]"

definition size_MissCounter :: "MissCounter \<Rightarrow> nat" where
  "size_MissCounter m =
     opt_len_size 1 (length (mi_ValidatorAddress m)) +
     varint_size 1 (mi_MissCounter m)"

definition field_MissCounter :: "MissCounter ptable" where
  "field_MissCounter fieldNum =
     (if fieldNum = 1 then Some (PBytes (\<lambda>bs m. Ok (m\<lparr>mi_ValidatorAddress := bs\<rparr>)))
      else if fieldNum = 2 then Some (PVarint (\<lambda>v m. m\<lparr>mi_MissCounter := v\<rparr>))
      else None)"

definition zero_MissCounter :: "MissCounter" where
  "zero_MissCounter = \<lparr>mi_ValidatorAddress = [], mi_MissCounter = 0\<rparr>"

definition fields_MissCounter :: "MissCounter \<Rightarrow> fval list" where
  "fields_MissCounter m = concat
    [f_bytes 1 (mi_ValidatorAddress m),
     f_varint 2 (mi_MissCounter m)]"

interpretation miss_counter: message write_MissCounter size_MissCounter field_MissCounter zero_MissCounter
  fields_MissCounter "\<lambda>m. True"
proof unfold_locales
  fix m :: "MissCounter"
  show "writes (write_MissCounter m) (enc_fields (fields_MissCounter m))"
    unfolding write_MissCounter_def fields_MissCounter_def
    by (rule writes_seq) (simp add: codec)
  show "size_MissCounter m = length (enc_fields (fields_MissCounter m))"
    by (simp add: size_MissCounter_def fields_MissCounter_def codec)
  show "apply_fields field_MissCounter (fields_MissCounter m) zero_MissCounter = Ok m"
    by (cases m) (simp add: fields_MissCounter_def field_MissCounter_def zero_MissCounter_def codec)
  fix f
  assume "f \<in> set (fields_MissCounter m)"
  then show "0 < field_num f \<and> field_num f < 2 ^ 28"
    by (auto simp: fields_MissCounter_def codec)
qed

section \<open>GenesisState\<close>

definition write_GenesisState :: "sdk_codec \<Rightarrow> GenesisState \<Rightarrow> writer" where
  "write_GenesisState K m = seq_w
    [w_each (\<lambda>e. w_nested [0x4a] (to_sized (write_PriceStamp K e))) (gs_MedianDeviations m),
     w_each (\<lambda>e. w_nested [0x42] (to_sized (write_PriceStamp K e))) (gs_HistoricPrices m),
     w_each (\<lambda>e. w_nested [0x3a] (to_sized (write_PriceStamp K e))) (gs_Medians m),
     w_each (\<lambda>e. w_nested [0x32] (to_sized (write_Vote K e))) (gs_AggregateExchangeRateVotes m),
     w_each (\<lambda>e. w_nested [0x2a] (to_sized (write_Prevote e))) (gs_AggregateExchangeRatePrevotes m),
     w_each (\<lambda>e. w_nested [0x22] (to_sized (write_MissCounter e))) (gs_MissCounters m),
     w_each (\<lambda>c. w_nested [0x1a] (coin_MarshalToSizedBuffer K c)) (gs_ExchangeRates m),
     w_each (\<lambda>e. w_nested [0x12] (to_sized (write_FeederDelegation e))) (gs_FeederDelegations m),
     w_nested [0xa] (to_sized (write_Params K (gs_Params m)))]"

definition size_GenesisState :: "sdk_codec \<Rightarrow> GenesisState \<Rightarrow> nat" where
  "size_GenesisState K m =
     len_size 1 (size_Params K (gs_Params m)) +
     (\<Sum>e \<leftarrow> gs_FeederDelegations m. len_size 1 (size_FeederDelegation e)) +
     (\<Sum>e \<leftarrow> gs_ExchangeRates m. len_size 1 (coin_Size K e)) +
     (\<Sum>e \<leftarrow> gs_MissCounters m. len_size 1 (size_MissCounter e)) +
     (\<Sum>e \<leftarrow> gs_AggregateExchangeRatePrevotes m. len_size 1 (size_Prevote e)) +
     (\<Sum>e \<leftarrow> gs_AggregateExchangeRateVotes m. len_size 1 (size_Vote K e)) +
     (\<Sum>e \<leftarrow> gs_Medians m. len_size 1 (size_PriceStamp K e)) +
     (\<Sum>e \<leftarrow> gs_HistoricPrices m. len_size 1 (size_PriceStamp K e)) +
     (\<Sum>e \<leftarrow> gs_MedianDeviations m. len_size 1 (size_PriceStamp K e))"

definition field_GenesisState :: "sdk_codec \<Rightarrow> GenesisState ptable" where
  "field_GenesisState K fieldNum =
     (if fieldNum = 1 then Some (PBytes (\<lambda>bs m. bind_res (unmarshal (field_Params K) bs (gs_Params m)) (\<lambda>x. Ok (m\<lparr>gs_Params := x\<rparr>))))
      else if fieldNum = 2 then Some (PBytes (\<lambda>bs m. bind_res (unmarshal field_FeederDelegation bs zero_FeederDelegation)
        (\<lambda>x. Ok (m\<lparr>gs_FeederDelegations := gs_FeederDelegations m @ [x]\<rparr>))))
      else if fieldNum = 3 then Some (PBytes (\<lambda>bs m. bind_res (coin_Unmarshal K bs (fresh_coin K)) (\<lambda>c. Ok (m\<lparr>gs_ExchangeRates := gs_ExchangeRates m @ [c]\<rparr>))))
      else if fieldNum = 4 then Some (PBytes (\<lambda>bs m. bind_res (unmarshal field_MissCounter bs zero_MissCounter)
        (\<lambda>x. Ok (m\<lparr>gs_MissCounters := gs_MissCounters m @ [x]\<rparr>))))
      else if fieldNum = 5 then Some (PBytes (\<lambda>bs m. bind_res (unmarshal field_Prevote bs zero_Prevote)
        (\<lambda>x. Ok (m\<lparr>gs_AggregateExchangeRatePrevotes := gs_AggregateExchangeRatePrevotes m @ [x]\<rparr>))))
      else if fieldNum = 6 then Some (PBytes (\<lambda>bs m. bind_res (unmarshal (field_Vote K) bs zero_Vote)
        (\<lambda>x. Ok (m\<lparr>gs_AggregateExchangeRateVotes := gs_AggregateExchangeRateVotes m @ [x]\<rparr>))))
      else if fieldNum = 7 then Some (PBytes (\<lambda>bs m. bind_res (unmarshal (field_PriceStamp K) bs zero_PriceStamp)
        (\<lambda>x. Ok (m\<lparr>gs_Medians := gs_Medians m @ [x]\<rparr>))))
      else if fieldNum = 8 then Some (PBytes (\<lambda>bs m. bind_res (unmarshal (field_PriceStamp K) bs zero_PriceStamp)
        (\<lambda>x. Ok (m\<lparr>gs_HistoricPrices := gs_HistoricPrices m @ [x]\<rparr>))))
      else if fieldNum = 9 then Some (PBytes (\<lambda>bs m. bind_res (unmarshal (field_PriceStamp K) bs zero_PriceStamp)
        (\<lambda>x. Ok (m\<lparr>gs_MedianDeviations := gs_MedianDeviations m @ [x]\<rparr>))))
      else None)"

definition zero_GenesisState :: "sdk_codec \<Rightarrow> GenesisState" where
  "zero_GenesisState K = \<lparr>gs_Params = (zero_Params K), gs_FeederDelegations = [], gs_ExchangeRates = [], gs_MissCounters = [], gs_AggregateExchangeRatePrevotes = [], gs_AggregateExchangeRateVotes = [], gs_Medians = [], gs_HistoricPrices = [], gs_MedianDeviations = []\<rparr>"

definition fields_GenesisState :: "sdk_codec \<Rightarrow> GenesisState \<Rightarrow> fval list" where
  "fields_GenesisState K m = concat
    [[FBytes 1 (enc_fields (fields_Params K (gs_Params m)))],
     map (\<lambda>e. FBytes 2 (enc_fields (fields_FeederDelegation e))) (gs_FeederDelegations m),
     map (\<lambda>c. FBytes 3 (coin_bytes K c)) (gs_ExchangeRates m),
     map (\<lambda>e. FBytes 4 (enc_fields (fields_MissCounter e))) (gs_MissCounters m),
     map (\<lambda>e. FBytes 5 (enc_fields (fields_Prevote e))) (gs_AggregateExchangeRatePrevotes m),
     map (\<lambda>e. FBytes 6 (enc_fields (fields_Vote K e))) (gs_AggregateExchangeRateVotes m),
     map (\<lambda>e. FBytes 7 (enc_fields (fields_PriceStamp K e))) (gs_Medians m),
     map (\<lambda>e. FBytes 8 (enc_fields (fields_PriceStamp K e))) (gs_HistoricPrices m),
     map (\<lambda>e. FBytes 9 (enc_fields (fields_PriceStamp K e))) (gs_MedianDeviations m)]"

definition ok_GenesisState :: "sdk_codec \<Rightarrow> GenesisState \<Rightarrow> bool" where
  "ok_GenesisState K m \<longleftrightarrow> ok_Params K (gs_Params m) \<and> int (size_Params K (gs_Params m)) \<le> max_int64 \<and>
     (\<forall>e \<in> set (gs_FeederDelegations m). int (size_FeederDelegation e) \<le> max_int64) \<and>
     (\<forall>c \<in> set (gs_ExchangeRates m). dec_in_range (dc_Amount c)) \<and>
     (\<forall>e \<in> set (gs_MissCounters m). int (size_MissCounter e) \<le> max_int64) \<and>
     (\<forall>e \<in> set (gs_AggregateExchangeRatePrevotes m). int (size_Prevote e) \<le> max_int64) \<and>
     (\<forall>e \<in> set (gs_AggregateExchangeRateVotes m). ok_Vote e \<and> int (size_Vote K e) \<le> max_int64) \<and>
     (\<forall>e \<in> set (gs_Medians m). ok_PriceStamp e \<and> int (size_PriceStamp K e) \<le> max_int64) \<and>
     (\<forall>e \<in> set (gs_HistoricPrices m). ok_PriceStamp e \<and> int (size_PriceStamp K e) \<le> max_int64) \<and>
     (\<forall>e \<in> set (gs_MedianDeviations m). ok_PriceStamp e \<and> int (size_PriceStamp K e) \<le> max_int64)"

sublocale sdk_encoding \<subseteq> genesis_state: message "write_GenesisState K" "size_GenesisState K" "field_GenesisState K" "zero_GenesisState K"
  "fields_GenesisState K" "ok_GenesisState K"
proof unfold_locales
  fix m :: "GenesisState"
  assume ok: "ok_GenesisState K m"
  show "writes (write_GenesisState K m) (enc_fields (fields_GenesisState K m))"
    unfolding write_GenesisState_def fields_GenesisState_def
    by (rule writes_seq) (use ok in \<open>simp add: codec ok_GenesisState_def params.marshals_fields params.size_fields [symmetric] params.unmarshal_enc feeder_delegation.marshals_fields feeder_delegation.size_fields [symmetric] feeder_delegation.unmarshal_enc miss_counter.marshals_fields miss_counter.size_fields [symmetric] miss_counter.unmarshal_enc prevote.marshals_fields prevote.size_fields [symmetric] prevote.unmarshal_enc vote.marshals_fields vote.size_fields [symmetric] vote.unmarshal_enc price_stamp.marshals_fields price_stamp.size_fields [symmetric] price_stamp.unmarshal_enc\<close>)
  show "size_GenesisState K m = length (enc_fields (fields_GenesisState K m))"
    using ok by (simp add: size_GenesisState_def fields_GenesisState_def codec ok_GenesisState_def params.marshals_fields params.size_fields [symmetric] params.unmarshal_enc feeder_delegation.marshals_fields feeder_delegation.size_fields [symmetric] feeder_delegation.unmarshal_enc miss_counter.marshals_fields miss_counter.size_fields [symmetric] miss_counter.unmarshal_enc prevote.marshals_fields prevote.size_fields [symmetric] prevote.unmarshal_enc vote.marshals_fields vote.size_fields [symmetric] vote.unmarshal_enc price_stamp.marshals_fields price_stamp.size_fields [symmetric] price_stamp.unmarshal_enc cong: map_cong)
  show "apply_fields (field_GenesisState K) (fields_GenesisState K m) (zero_GenesisState K) = Ok m"
    using ok by (cases m) (simp add: fields_GenesisState_def field_GenesisState_def zero_GenesisState_def codec ok_GenesisState_def params.marshals_fields params.size_fields [symmetric] params.unmarshal_enc feeder_delegation.marshals_fields feeder_delegation.size_fields [symmetric] feeder_delegation.unmarshal_enc miss_counter.marshals_fields miss_counter.size_fields [symmetric] miss_counter.unmarshal_enc prevote.marshals_fields prevote.size_fields [symmetric] prevote.unmarshal_enc vote.marshals_fields vote.size_fields [symmetric] vote.unmarshal_enc price_stamp.marshals_fields price_stamp.size_fields [symmetric] price_stamp.unmarshal_enc
        apply_each [where U = gs_FeederDelegations_update] apply_each [where U = gs_ExchangeRates_update] apply_each [where U = gs_MissCounters_update] apply_each [where U = gs_AggregateExchangeRatePrevotes_update] apply_each [where U = gs_AggregateExchangeRateVotes_update] apply_each [where U = gs_Medians_update] apply_each [where U = gs_HistoricPrices_update] apply_each [where U = gs_MedianDeviations_update])
next
  fix m :: "GenesisState" and f
  assume "f \<in> set (fields_GenesisState K m)"
  then show "0 < field_num f \<and> field_num f < 2 ^ 28"
    by (auto simp: fields_GenesisState_def codec)
qed

section \<open>Round trips under the laws\<close>

context sdk_encoding
begin

lemmas stamp_round_trip = price_stamp.round_trip
lemmas genesis_document_round_trip = genesis_state.round_trip

end

section \<open>Properties\<close>

text \<open>
  The protobuf form of a genesis document keeps the document: every field, every list in
  its order, and whether a price stamp has a coin at all.
\<close>

theorem genesis_encoding_round_trip:
  assumes "codec_laws K" and "ok_GenesisState K g" and "int (size_GenesisState K g) \<le> max_int64"
  shows "\<exists>bs. Marshal_with (write_GenesisState K g) (size_GenesisState K g) = Ok bs \<and>
     length bs = size_GenesisState K g \<and> unmarshal (field_GenesisState K) bs (zero_GenesisState K) = Ok g"
  using sdk_encoding.intro [OF assms(1)] assms(2,3) by (rule sdk_encoding.genesis_document_round_trip)

end
