(* ===== verification/Oracle_Averages.thy ===== *)
theory Oracle_Averages
  imports Oracle_Prices
begin

text \<open>
  The averages over historic prices (\<open>src/x/oracle/keeper/averages.go\<close>). A decimal
  operation out of range, a quotient by zero and an explicit \<open>panic\<close> are \<open>Panic\<close>. The block
  arithmetic is on \<open>uint64\<close> and the sum of weights on \<open>int64\<close>, both with wrap-around.
\<close>

definition WmaStrategyOldest :: string where "WmaStrategyOldest = ''OLDEST''"
definition WmaStrategyRecent :: string where "WmaStrategyRecent = ''RECENT''"
definition WmaStrategyBalanced :: string where "WmaStrategyBalanced = ''BALANCED''"
definition WmaStrategyCustom :: string where "WmaStrategyCustom = ''CUSTOM''"

definition AvgTypeSMA :: string where "AvgTypeSMA = ''sma''"
definition AvgTypeEMA :: string where "AvgTypeEMA = ''ema''"
definition AvgTypeWMA :: string where "AvgTypeWMA = ''wma''"

lemmas avg_consts = WmaStrategyOldest_def WmaStrategyRecent_def WmaStrategyBalanced_def
  WmaStrategyCustom_def AvgTypeSMA_def AvgTypeEMA_def AvgTypeWMA_def

definition IsValidWmaStrategy :: "string \<Rightarrow> bool" where
  "IsValidWmaStrategy s \<longleftrightarrow>
     s \<in> {WmaStrategyOldest, WmaStrategyRecent, WmaStrategyBalanced, WmaStrategyCustom}"

text \<open>The loop looks back from the last stamped block; missing stamps are skipped. \<open>n\<close> is the
  number of iterations left and \<open>i\<close> the loop variable.\<close>

fun window_loop :: "'w ostate \<Rightarrow> string \<Rightarrow> uint64 \<Rightarrow> uint64 \<Rightarrow> uint64 \<Rightarrow> nat \<Rightarrow> dec list" where
  "window_loop s denom lastBlock stampPeriod i 0 = []"
| "window_loop s denom lastBlock stampPeriod i (Suc n) =
     (case coll_get (HistoricPrices s) (denom, lastBlock - i * stampPeriod) of
        None \<Rightarrow> window_loop s denom lastBlock stampPeriod (i + 1) n
      | Some price \<Rightarrow> price # window_loop s denom lastBlock stampPeriod (i + 1) n)"

definition CalculateHistoricPrices :: "'w ostate \<Rightarrow> string \<Rightarrow> dec list res" where
  "CalculateHistoricPrices s denom =
     (case coll_get (LastHistoricPriceBlock s) denom of
        None \<Rightarrow> Ok []
      | Some lastBlock \<Rightarrow>
          Ok (window_loop s denom lastBlock (HistoricStampPeriod DefaultParams) 0
            (unat (AveragingWindow (GetParams s)))))"

fun ema_loop :: "dec_ops \<Rightarrow> dec \<Rightarrow> dec \<Rightarrow> dec list \<Rightarrow> dec res" where
  "ema_loop M alpha ema [] = Ok ema"
| "ema_loop M alpha ema (p # prices) =
     bind_res (must (dMul M p alpha)) (\<lambda>x.
     bind_res (must (dSub M LegacyOneDec alpha)) (\<lambda>beta.
     bind_res (must (dMul M ema beta)) (\<lambda>y.
     bind_res (must (dAdd M x y)) (\<lambda>ema. ema_loop M alpha ema prices))))"

definition CalculateEMA :: "dec_ops \<Rightarrow> dec \<Rightarrow> bool \<Rightarrow> dec list \<Rightarrow> dec res" where
  "CalculateEMA M previousEMA present prices =
     (case prices of
        [] \<Rightarrow> Ok LegacyZeroDec
      | p # rest \<Rightarrow>
          let ema = (if \<not> present then p else previousEMA) in
          bind_res (must (dQuoInt64 M (LegacyNewDecWithPrec 2 0) (int (length prices) + 1))) (\<lambda>alpha.
            ema_loop M alpha ema rest))"

definition SetSMA :: "string \<Rightarrow> dec \<Rightarrow> 'w ostate \<Rightarrow> 'w ostate" where
  "SetSMA denom v s = s\<lparr>Averages := coll_set (denom, AvgTypeSMA) v (Averages s)\<rparr>"

definition SetEMA :: "string \<Rightarrow> dec \<Rightarrow> 'w ostate \<Rightarrow> 'w ostate" where
  "SetEMA denom v s = s\<lparr>Averages := coll_set (denom, AvgTypeEMA) v (Averages s)\<rparr>"

definition SetWMA :: "string \<Rightarrow> string \<Rightarrow> dec \<Rightarrow> 'w ostate \<Rightarrow> 'w ostate" where
  "SetWMA denom strategy v s =
     s\<lparr>Averages := coll_set (denom, ''wma:'' @ AvgTypeWMA @ '':'' @ strategy) v (Averages s)\<rparr>"

text \<open>A value that is not present is Go's zero value, here an empty result beside \<open>false\<close>.\<close>

definition GetSMA :: "'w ostate \<Rightarrow> string \<Rightarrow> dec option" where
  "GetSMA s denom = coll_get (Averages s) (denom, AvgTypeSMA)"

definition GetEMA :: "'w ostate \<Rightarrow> string \<Rightarrow> dec option" where
  "GetEMA s denom = coll_get (Averages s) (denom, AvgTypeEMA)"

definition GetWMA :: "'w ostate \<Rightarrow> string \<Rightarrow> string \<Rightarrow> dec option" where
  "GetWMA s denom strategy = coll_get (Averages s) (denom, AvgTypeWMA)"

definition CalculateSMA :: "dec_ops \<Rightarrow> dec list \<Rightarrow> dec res" where
  "CalculateSMA M prices =
     bind_res (sum_loop M LegacyZeroDec prices) (\<lambda>s. must (dQuoInt64 M s (int (length prices))))"

fun weighted_loop :: "dec_ops \<Rightarrow> dec \<Rightarrow> int \<Rightarrow> (dec \<times> int) list \<Rightarrow> (dec \<times> int) res" where
  "weighted_loop M weightedSum weightTotal [] = Ok (weightedSum, weightTotal)"
| "weighted_loop M weightedSum weightTotal ((price, weight) # xs) =
     bind_res (must (dMulInt64 M price weight)) (\<lambda>x.
     bind_res (must (dAdd M weightedSum x)) (\<lambda>weightedSum.
       weighted_loop M weightedSum (i64 (weightTotal + weight)) xs))"

definition balanced_weight :: "nat \<Rightarrow> int" where
  "balanced_weight i = (if i < 10 then int i + 1 else if i < 20 then 10 else 30 - int i)"

text \<open>The weights each case of the switch gives to the prices.\<close>

definition wma_weights :: "nat \<Rightarrow> string \<Rightarrow> int list \<Rightarrow> int list res" where
  "wma_weights n strategy customWeights =
     (if strategy = ''OLDEST'' then Ok (map (\<lambda>i. int (n - i)) [0..<n])
      else if strategy = ''RECENT'' then Ok (map (\<lambda>i. int (i + 1)) [0..<n])
      else if strategy = ''BALANCED'' then Ok (map balanced_weight [0..<n])
      else if strategy = ''CUSTOM'' then if length customWeights \<noteq> n then Panic else Ok customWeights
      else Panic)"

definition CalculateWMA :: "dec_ops \<Rightarrow> dec list \<Rightarrow> string \<Rightarrow> int list \<Rightarrow> dec res" where
  "CalculateWMA M prices strategy customWeights =
     (let n = length prices in
      if n = 0 then Ok LegacyZeroDec
      else bind_res (wma_weights n strategy customWeights) (\<lambda>weights.
        bind_res (weighted_loop M LegacyZeroDec 0 (zip prices weights)) (\<lambda>(weightedSum, weightTotal).
          must (dQuoInt64 M weightedSum weightTotal))))"

fun wma_strategies :: "'w oracle_env \<Rightarrow> string \<Rightarrow> dec list \<Rightarrow> string list \<Rightarrow> 'w ostate \<Rightarrow> 'w ostate \<times> unit res" where
  "wma_strategies E denom prices [] s = (s, Ok ())"
| "wma_strategies E denom prices (strategy # strategies) s =
     (if \<not> IsValidWmaStrategy strategy then (s, Err ErrInvalidWmaStrategy)
      else read_st s (CalculateWMA (D E) prices strategy []) (\<lambda>wma.
        wma_strategies E denom prices strategies
          (s\<lparr>Averages := coll_set (denom, AvgTypeWMA @ '':'' @ strategy) wma (Averages s)\<rparr>)))"

definition ComputeAverages :: "'w oracle_env \<Rightarrow> string \<Rightarrow> 'w ostate \<Rightarrow> 'w ostate \<times> unit res" where
  "ComputeAverages E denom s =
     read_st s (CalculateHistoricPrices s denom) (\<lambda>prices.
       if length prices = 0 then (s, Ok ())
       else read_st s (CalculateSMA (D E) prices) (\<lambda>sma.
         then_st (wma_strategies E denom prices [WmaStrategyBalanced, WmaStrategyOldest, WmaStrategyRecent]
             (SetSMA denom sma s)) (\<lambda>s _.
           let prevEMA = GetEMA s denom in
           read_st s (CalculateEMA (D E) (case prevEMA of None \<Rightarrow> 0 | Some v \<Rightarrow> v) (prevEMA \<noteq> None) prices)
             (\<lambda>ema. (SetEMA denom ema s, Ok ())))))"

definition GetPriceHistory :: "'w ostate \<Rightarrow> string \<Rightarrow> dec list" where
  "GetPriceHistory s denom = (case CalculateHistoricPrices s denom of Ok prices \<Rightarrow> prices | _ \<Rightarrow> [])"

definition GetCustomWMA :: "'w oracle_env \<Rightarrow> 'w ostate \<Rightarrow> string \<Rightarrow> int list \<Rightarrow> dec res" where
  "GetCustomWMA E s denom weights =
     (let prices = GetPriceHistory s denom in
      if length prices = 0 then Err (Errorf ''no price history'')
      else if length prices \<noteq> length weights then Err (Errorf ''weights length'')
      else CalculateWMA (D E) prices ''CUSTOM'' weights)"

section \<open>Lemmas\<close>

text \<open>Without overflow the loop computes the exact weighted sum.\<close>

lemma weighted_loop_Ok:
  assumes laws: "dec_laws M" and b: "\<forall>(p, w) \<in> set xs. \<bar>p\<bar> \<le> b \<and> \<bar>w\<bar> \<le> c"
    and "0 \<le> b" and "0 \<le> c"
    and "\<bar>a\<bar> + b * c * int (length xs) < dLimit M" and "\<bar>t\<bar> + c * int (length xs) < 2 ^ 63"
  shows "weighted_loop M a t xs = Ok (a + (\<Sum>(p, w) \<leftarrow> xs. p * w), t + sum_list (map snd xs))"
  using b assms(5,6)
proof (induction xs arbitrary: a t)
  case (Cons x xs)
  obtain p w where x: "x = (p, w)" by force
  have pw: "\<bar>p\<bar> \<le> b" "\<bar>w\<bar> \<le> c" using Cons.prems(1) by (auto simp: x)
  have m: "\<bar>p * w\<bar> \<le> b * c" using pw assms(3) by (simp add: abs_mult mult_mono)
  have bc: "0 \<le> b * c * int (length xs)" "0 \<le> c * int (length xs)" using assms(3,4) by simp_all
  have prem: "\<bar>a\<bar> + (b * c + b * c * int (length xs)) < dLimit M" "\<bar>t\<bar> + (c + c * int (length xs)) < 2 ^ 63"
    using Cons.prems(2,3) by (simp_all add: algebra_simps)
  have "\<bar>p * w\<bar> < dLimit M" "\<bar>a + p * w\<bar> < dLimit M"
    using m bc(1) prem(1) by linarith+
  moreover have "i64 (t + w) = t + w"
    using pw(2) bc(2) prem(2) by (intro i64_id) (unfold in_i64_def, linarith)
  moreover have "weighted_loop M (a + p * w) (t + w) xs =
      Ok (a + p * w + (\<Sum>(p, w) \<leftarrow> xs. p * w), t + w + sum_list (map snd xs))"
    using m pw prem Cons.prems(1) by (intro Cons.IH) (auto simp: x)
  ultimately show ?case
    by (simp add: x dec_laws_MulInt64 [OF laws] dec_laws_Add [OF laws] add.assoc)
qed simp

lemma weighted_sum_bounds:
  fixes lo hi :: int
  assumes "\<forall>(p, w) \<in> set xs. lo \<le> p \<and> p \<le> hi \<and> 0 < w"
  shows "lo * sum_list (map snd xs) \<le> (\<Sum>(p, w) \<leftarrow> xs. p * w) \<and>
    (\<Sum>(p, w) \<leftarrow> xs. p * w) \<le> hi * sum_list (map snd xs)"
  using assms
proof (induction xs)
  case (Cons x xs)
  obtain p w where x: "x = (p, w)" by force
  have "lo * w \<le> p * w" "p * w \<le> hi * w"
    using Cons.prems by (auto simp: x intro: mult_right_mono)
  moreover have "lo * sum_list (map snd xs) \<le> (\<Sum>(p, w) \<leftarrow> xs. p * w) \<and>
      (\<Sum>(p, w) \<leftarrow> xs. p * w) \<le> hi * sum_list (map snd xs)"
    using Cons by simp
  ultimately show ?case
    unfolding x list.map sum_list.Cons snd_conv prod.case distrib_left by linarith
qed simp

lemma wma_weights_positive:
  assumes "strategy = ''OLDEST'' \<or> strategy = ''RECENT'' \<or> strategy = ''BALANCED'' \<and> n \<le> 30"
  shows "\<exists>ws. wma_weights n strategy cw = Ok ws \<and> length ws = n \<and> (\<forall>w \<in> set ws. 0 < w \<and> w \<le> int n + 10)"
  using assms by (auto simp: wma_weights_def balanced_weight_def)

lemma sum_list_pos: "xs \<noteq> [] \<Longrightarrow> \<forall>x \<in> set xs. 0 < (x :: int) \<Longrightarrow> 0 < sum_list xs"
  by (induction xs) (auto simp: sum_list_nonneg less_imp_le add_pos_nonneg)

lemma CalculateWMA_Ok:
  assumes laws: "dec_laws M" and ne: "prices \<noteq> []"
    and w: "wma_weights (length prices) strategy cw = Ok ws" "length ws = length prices" "\<forall>w \<in> set ws. \<bar>w\<bar> \<le> c"
    and b: "\<forall>p \<in> set prices. \<bar>p\<bar> \<le> b" "b * c * int (length prices) < dLimit M"
    and c: "0 \<le> c" "c * int (length prices) < 2 ^ 63"
  shows "CalculateWMA M prices strategy cw =
     must (dQuoInt64 M (\<Sum>(p, w) \<leftarrow> zip prices ws. p * w) (sum_list ws))"
proof -
  have "0 \<le> b" using ne b(1) by (cases prices) auto
  moreover have "\<forall>(p, v) \<in> set (zip prices ws). \<bar>p\<bar> \<le> b \<and> \<bar>v\<bar> \<le> c"
    using b(1) w(3) by (auto dest: set_zip_leftD set_zip_rightD)
  ultimately have "weighted_loop M 0 0 (zip prices ws) =
      Ok (0 + (\<Sum>(p, w) \<leftarrow> zip prices ws. p * w), 0 + sum_list (map snd (zip prices ws)))"
    using b(2) c w(2) by (intro weighted_loop_Ok [OF laws]) simp_all
  then show ?thesis
    using ne w(1,2) by (simp add: CalculateWMA_def LegacyZeroDec_def)
qed

lemma coll_get_wma_strategies:
  "coll_get (Averages (fst (wma_strategies E denom prices strategies s))) (d, AvgTypeWMA) =
     coll_get (Averages s) (d, AvgTypeWMA)"
proof (induction strategies arbitrary: s)
  case (Cons strategy strategies)
  then show ?case
    by (cases "CalculateWMA (D E) prices strategy []") (auto simp: AvgTypeWMA_def)
qed simp

section \<open>Properties\<close>



text \<open>
  With fifty-one prices the weights of \<open>BALANCED\<close> add up to zero, and the average panics on
  the division.
\<close>

theorem WMA_balanced_panics:
  assumes "dec_laws M" and "length prices = 51" and "\<forall>p \<in> set prices. \<bar>p\<bar> \<le> 10 ^ 40"
  shows "CalculateWMA M prices ''BALANCED'' cw = Panic"
proof -
  let ?ws = "map balanced_weight [0..<51]"
  have "sum_list ?ws = 0" "\<forall>w \<in> set ?ws. \<bar>w\<bar> \<le> 21"
    by (simp_all add: balanced_weight_def upt_rec)
  moreover have "wma_weights (length prices) ''BALANCED'' cw = Ok ?ws"
    using assms(2) by (simp add: wma_weights_def)
  ultimately have "CalculateWMA M prices ''BALANCED'' cw =
      must (dQuoInt64 M (\<Sum>(p, w) \<leftarrow> zip prices ?ws. p * w) (sum_list ?ws))"
    using assms(2,3) dec_laws_limit [OF assms(1)]
    by (intro CalculateWMA_Ok [where c = 21 and b = "10 ^ 40", OF assms(1)]) auto
  then show ?thesis
    unfolding \<open>sum_list ?ws = 0\<close> by (simp add: dec_laws_QuoInt64 [OF assms(1)])
qed

theorem WMA_balanced_panics_witness:
  "CalculateWMA ref_dec (replicate 51 (10 ^ 18)) ''BALANCED'' [] = Panic"
  by (rule WMA_balanced_panics [OF ref_dec_laws]) simp_all

text \<open>
  The weighted averages that \<open>ComputeAverages\<close> stores are not the entry that \<open>GetWMA\<close> looks
  up: what \<open>GetWMA\<close> returns for any denom and strategy is the same before and after.
\<close>

theorem ComputeAverages_not_seen_by_GetWMA:
  "GetWMA (fst (ComputeAverages E denom s)) d strategy = GetWMA s d strategy"
proof -
  let ?keeps = "\<lambda>s'. coll_get (Averages s') (d, AvgTypeWMA) = coll_get (Averages s) (d, AvgTypeWMA)"
  have sma: "?keeps (SetSMA denom v s)" for v
    by (simp add: SetSMA_def avg_consts)
  have ema: "?keeps s' \<Longrightarrow> ?keeps (SetEMA denom v s')" for s' v
    by (simp add: SetEMA_def avg_consts)
  have "?keeps (fst (ComputeAverages E denom s))"
    unfolding ComputeAverages_def
    by (auto intro!: read_st_keeps [where P = ?keeps] then_st_keeps [where P = ?keeps]
        simp: coll_get_wma_strategies sma ema Let_def simp del: wma_strategies.simps)
  then show ?thesis by (simp add: GetWMA_def)
qed

end
