(* ===== verification/Oracle_Queries.thy ===== *)
theory Oracle_Queries
  imports Oracle_Chain Oracle_Averages
begin

text \<open>
  The query server of the oracle (\<open>src/x/oracle/keeper/grpc_query.go\<close>), method by method. A
  method gets a request or \<open>nil\<close>, reads the state at the height \<open>h\<close>, and answers or fails;
  the errors of gRPC's \<open>status\<close> package are told apart by their code. A query writes
  nothing, so the state is not returned.
\<close>

definition InvalidArgument :: "string \<Rightarrow> error" where "InvalidArgument msg = SdkErr (''InvalidArgument: '' @ msg)"
definition NotFound :: "string \<Rightarrow> error" where "NotFound msg = SdkErr (''NotFound: '' @ msg)"
definition Internal :: "string \<Rightarrow> error" where "Internal msg = SdkErr (''Internal: '' @ msg)"

text \<open>\<open>if req == nil\<close>, the guard of every method.\<close>

fun with_request :: "'r option \<Rightarrow> ('r \<Rightarrow> 'a res) \<Rightarrow> 'a res" where
  "with_request None f = Err (InvalidArgument ''empty request'')"
| "with_request (Some req) f = f req"

text \<open>\<open>status.Error(codes.InvalidArgument, err.Error())\<close>.\<close>

fun invalid :: "'a res \<Rightarrow> 'a res" where
  "invalid (Ok x) = Ok x"
| "invalid (Err e) = Err (InvalidArgument ''address'')"
| "invalid Panic = Panic"

section \<open>The methods\<close>

definition Query_Params :: "'w ostate \<Rightarrow> unit option \<Rightarrow> Params res" where
  "Query_Params s req = with_request req (\<lambda>_. Ok (GetParams s))"

definition Query_ExchangeRates :: "'w oracle_env \<Rightarrow> 'w ostate \<Rightarrow> string option \<Rightarrow> DecCoins res" where
  "Query_ExchangeRates E s req = with_request req (\<lambda>denom.
     let add = (\<lambda>denom rate coins.
           bind_res (must (NewDecCoinFromDec (coinOps E) denom rate)) (\<lambda>c.
             must (DecCoins_Add (coinOps E) coins [c]))) in
     if length denom > 0
     then bind_res (GetExchangeRate s denom) (\<lambda>exchangeRate. add denom exchangeRate [])
     else IterateExchangeRates s (\<lambda>denom rate exchangeRates.
       (bind_res exchangeRates (add denom rate), False)) (Ok []))"

definition Query_ActiveExchangeRates :: "'w ostate \<Rightarrow> unit option \<Rightarrow> string list res" where
  "Query_ActiveExchangeRates s req = with_request req (\<lambda>_.
     Ok (IterateExchangeRates s (\<lambda>denom _ denoms. (denoms @ [denom], False)) []))"

definition Query_FeederDelegation :: "'w oracle_env \<Rightarrow> 'w ostate \<Rightarrow> string option \<Rightarrow> string res" where
  "Query_FeederDelegation E s req = with_request req (\<lambda>validatorAddr.
     bind_res (invalid (ValAddressFromBech32 E validatorAddr)) (\<lambda>valAddr.
     bind_res (GetFeederDelegation E s valAddr) (\<lambda>feederAddr. Ok (AccString E feederAddr))))"

definition Query_MissCounter :: "'w oracle_env \<Rightarrow> 'w ostate \<Rightarrow> string option \<Rightarrow> uint64 res" where
  "Query_MissCounter E s req = with_request req (\<lambda>validatorAddr.
     bind_res (invalid (ValAddressFromBech32 E validatorAddr)) (\<lambda>valAddr. Ok (GetMissCounter s valAddr)))"

definition Query_SlashWindow :: "int \<Rightarrow> 'w ostate \<Rightarrow> unit option \<Rightarrow> uint64 res" where
  "Query_SlashWindow h s req = with_request req (\<lambda>_.
     let p = GetParams s in
     if SlashWindow p = 0 \<or> VotePeriod p = 0 then Panic
     else Ok (SafeInt64ToUint64 h mod SlashWindow p div VotePeriod p))"

definition Query_AggregatePrevote :: "'w oracle_env \<Rightarrow> 'w ostate \<Rightarrow> string option \<Rightarrow> AggregateExchangeRatePrevote res" where
  "Query_AggregatePrevote E s req = with_request req (\<lambda>validatorAddr.
     bind_res (invalid (ValAddressFromBech32 E validatorAddr)) (GetAggregateExchangeRatePrevote s))"

definition Query_AggregatePrevotes :: "'w ostate \<Rightarrow> unit option \<Rightarrow> AggregateExchangeRatePrevote list res" where
  "Query_AggregatePrevotes s req = with_request req (\<lambda>_.
     Ok (IterateAggregateExchangeRatePrevotes s (\<lambda>_ prevote prevotes. (prevotes @ [prevote], False)) []))"

definition Query_AggregateVote :: "'w oracle_env \<Rightarrow> 'w ostate \<Rightarrow> string option \<Rightarrow> AggregateExchangeRateVote res" where
  "Query_AggregateVote E s req = with_request req (\<lambda>validatorAddr.
     bind_res (invalid (ValAddressFromBech32 E validatorAddr)) (GetAggregateExchangeRateVote s))"

definition Query_AggregateVotes :: "'w ostate \<Rightarrow> unit option \<Rightarrow> AggregateExchangeRateVote list res" where
  "Query_AggregateVotes s req = with_request req (\<lambda>_.
     Ok (IterateAggregateExchangeRateVotes s (\<lambda>_ vote votes. (votes @ [vote], False)) []))"

record QueryMedians =
  qm_Denom :: string
  qm_NumStamps :: uint32

definition Query_Medians :: "'w ostate \<Rightarrow> QueryMedians option \<Rightarrow> PriceStamps res" where
  "Query_Medians s req = with_request req (\<lambda>req.
     if length (qm_Denom req) > 0 then
       if qm_NumStamps req = 0 then Err (InvalidArgument ''parameter NumStamps must be greater than 0'')
       else
         let most = SafeUint64ToUint32 (Keeper_MaximumMedianStamps s);
             numStamps = (if qm_NumStamps req > most then most else qm_NumStamps req) in
         Ok (PriceStamps_Sort (HistoricMedians s (qm_Denom req) (ucast numStamps)))
     else Ok (PriceStamps_Sort (AllMedianPrices s)))"

definition Query_MedianDeviations :: "int \<Rightarrow> 'w ostate \<Rightarrow> string option \<Rightarrow> PriceStamps res" where
  "Query_MedianDeviations h s req = with_request req (\<lambda>denom.
     if length denom > 0
     then bind_res (HistoricMedianDeviation s h denom) (\<lambda>price. Ok (PriceStamps_Sort [price]))
     else Ok (PriceStamps_Sort (AllMedianDeviationPrices s)))"

definition Query_ValidatorRewardSet :: "'w ostate \<Rightarrow> unit option \<Rightarrow> ValidatorRewardSet res" where
  "Query_ValidatorRewardSet s req = with_request req (\<lambda>_. Ok (GetValidatorRewardSet s))"

definition Query_EMA :: "'w ostate \<Rightarrow> string option \<Rightarrow> dec res" where
  "Query_EMA s req = with_request req (\<lambda>denom.
     case GetEMA s denom of None \<Rightarrow> Err (Errorf ''ema not present'') | Some price \<Rightarrow> Ok price)"

record QueryWMARequest =
  qw_Denom :: string
  qw_Strategy :: string
  qw_CustomWeights :: "int list"

definition Query_WMA :: "'w oracle_env \<Rightarrow> 'w ostate \<Rightarrow> QueryWMARequest option \<Rightarrow> dec res" where
  "Query_WMA E s req =
     (let averagingWindow = AveragingWindow (GetParams s) in
      case req of
        None \<Rightarrow> Err (InvalidArgument ''request cannot be nil'')
      | Some req \<Rightarrow>
          if \<not> IsValidWmaStrategy (qw_Strategy req) then Err ErrInvalidWmaStrategy
          else if qw_Strategy req = WmaStrategyCustom then
            (case CalculateHistoricPrices s (qw_Denom req) of
               Panic \<Rightarrow> Panic
             | Err e \<Rightarrow> Err (Internal ''failed to get historic prices'')
             | Ok prices \<Rightarrow>
                 if length prices = 0 then Err (NotFound ''no historic prices found for denom'')
                 else if of_nat (length (qw_CustomWeights req)) \<noteq> averagingWindow
                 then Err (InvalidArgument ''custom_weights must have exactly one element per period'')
                 else CalculateWMA (D E) prices (qw_Strategy req) (qw_CustomWeights req))
          else
            (case GetWMA s (qw_Denom req) (qw_Strategy req) of
               None \<Rightarrow> Err (NotFound ''no WMA found for denom'')
             | Some result \<Rightarrow> Ok result))"

definition Query_SMA :: "'w ostate \<Rightarrow> string option \<Rightarrow> dec res" where
  "Query_SMA s req = with_request req (\<lambda>denom.
     case GetSMA s denom of None \<Rightarrow> Err (Errorf ''sma not present'') | Some price \<Rightarrow> Ok price)"

section \<open>Lemmas\<close>

lemma coins_one [simp]: "coins_ok [c]" "coins_ok []"
  by (simp_all add: coins_ok_def)

lemma add_rates:
  assumes laws: "coin_laws K"
  shows "fold (\<lambda>(d, r) acc. bind_res acc (\<lambda>coins. bind_res (must (NewDecCoinFromDec K d r)) (\<lambda>c. must (DecCoins_Add K coins [c]))))
      rates (Ok coins) = Ok out \<Longrightarrow> coins_ok coins \<Longrightarrow>
    coins_ok out \<and> (\<forall>d. amt out d = amt coins d + sum_list (map snd (filter (\<lambda>e. fst e = d) rates))) \<and>
    (\<forall>e \<in> set rates. 0 \<le> snd e)"
proof (induction rates arbitrary: coins)
  case (Cons e rates)
  obtain d r where e: "e = (d, r)" by force
  let ?f = "\<lambda>(d, r) acc. bind_res acc (\<lambda>coins. bind_res (must (NewDecCoinFromDec K d r)) (\<lambda>c. must (DecCoins_Add K coins [c])))"
  have "fold ?f rates (Err x) = Err x" "fold ?f rates Panic = Panic" for x
    by (induction rates) auto
  then have stuck: "fold ?f rates x = Ok out \<Longrightarrow> \<exists>y. x = Ok y" for x
    by (cases x) auto
  obtain c coins1 where c: "NewDecCoinFromDec K d r = Some c" "DecCoins_Add K coins [c] = Some coins1"
    and rest: "fold ?f rates (Ok coins1) = Ok out"
    using Cons.prems(1) stuck [of "?f e (Ok coins)"] by (auto simp: e res_simps)
  have new: "0 \<le> r" "c = \<lparr>dc_Denom = d, dc_Amount = r\<rparr>" using coin_laws_New [OF laws c(1)] by auto
  have one: "coins_ok coins1" "\<And>k. amt coins1 k = amt coins k + (if d = k then r else 0)"
    using coin_laws_Add [OF laws Cons.prems(2) coins_one(1) c(2)] new(2) by auto
  from Cons.IH [OF rest one(1)] show ?case using one(2) new(1) by (auto simp: e)
qed simp

lemma sum_wf: "coll_wf s \<Longrightarrow> sum_list (map snd (filter (\<lambda>e. fst e = d) s)) = (case coll_get s d of None \<Rightarrow> 0 | Some r \<Rightarrow> r)"
  for s :: "(string, dec) coll"
proof (induction s)
  case (Cons e s)
  have wf: "coll_wf s" and fresh: "fst e \<notin> fst ` set s"
    using Cons.prems by (auto simp: coll_wf_def)
  show ?case
  proof (cases "fst e = d")
    case True
    then have "coll_get s d = None" using fresh by (simp add: coll_get_None)
    then show ?thesis using Cons.IH [OF wf] True by (cases e) (simp add: coll_get_def)
  next
    case False
    then show ?thesis using Cons.IH [OF wf] by (cases e) (simp add: coll_get_def)
  qed
qed simp

lemma query_all_rates:
  assumes "coin_laws (coinOps E)" and "coll_wf (ExchangeRates s)" and "Query_ExchangeRates E s (Some []) = Ok coins"
  shows "distinct (map dc_Denom coins) \<and>
     (\<forall>d. amt coins d = (case coll_get (ExchangeRates s) d of None \<Rightarrow> 0 | Some r \<Rightarrow> r))"
proof -
  have "fold (\<lambda>(d, r) acc. bind_res acc (\<lambda>coins. bind_res (must (NewDecCoinFromDec (coinOps E) d r))
      (\<lambda>c. must (DecCoins_Add (coinOps E) coins [c])))) (ExchangeRates s) (Ok []) = Ok coins"
    using assms(3) by (simp add: Query_ExchangeRates_def IterateExchangeRates_def coll_walk_fold)
  from add_rates [OF assms(1) this] show ?thesis
    using sum_wf [OF assms(2)] by (simp add: coins_ok_def)
qed

section \<open>Properties\<close>

text \<open>
  C26. On every reachable state, a successful query for all exchange rates reports for every
  denom exactly the rate the oracle has stored, nothing for a denom without one, and no
  denom twice; a query for one denom reports the rate stored under its upper-case symbol.
\<close>

theorem exchange_rates_query:
  assumes "addr_laws E" and "dec_laws (D E)" and "coin_laws (coinOps E)" and "chain E F h s"
    and "Query_ExchangeRates E s (Some denom) = Ok coins"
  shows "distinct (map dc_Denom coins) \<and>
    (if denom = [] then \<forall>d. amt coins d = (case coll_get (ExchangeRates s) d of None \<Rightarrow> 0 | Some r \<Rightarrow> r)
     else coll_get (ExchangeRates s) (ToUpper denom) = Some (amt coins denom))"
proof (cases "denom = []")
  case True
  then show ?thesis
    using query_all_rates [OF assms(3) _ assms(5) [unfolded True]] chain_keeper_ok [OF assms(1,2,4)]
    by (simp add: keeper_ok_def)
next
  case False
  then obtain r c where r: "GetExchangeRate s denom = Ok r" "NewDecCoinFromDec (coinOps E) denom r = Some c"
    "DecCoins_Add (coinOps E) [] [c] = Some coins"
    using assms(5) by (auto simp: Query_ExchangeRates_def res_simps)
  have "c = \<lparr>dc_Denom = denom, dc_Amount = r\<rparr>" using coin_laws_New [OF assms(3) r(2)] by simp
  then show ?thesis
    using False r(1) coin_laws_Add [OF assms(3) coins_one(2) coins_one(1) r(3)]
    by (auto simp: GetExchangeRate_def coins_ok_def split: option.splits)
qed

text \<open>
  A weighted average with custom weights is answered only for a full price history: the
  query accepts exactly as many weights as the averaging window has periods, and when fewer
  prices than that are stored (but some are) the calculation panics.
\<close>

theorem custom_average_needs_full_history:
  assumes "CalculateHistoricPrices s denom = Ok prices" and "prices \<noteq> []"
    and "of_nat (length weights) = AveragingWindow (params s)" and "length prices \<noteq> length weights"
  shows "Query_WMA E s (Some \<lparr>qw_Denom = denom, qw_Strategy = ''CUSTOM'', qw_CustomWeights = weights\<rparr>) = Panic"
  using assms
  by (auto simp: Query_WMA_def GetParams_def IsValidWmaStrategy_def WmaStrategyCustom_def CalculateWMA_def wma_weights_def Let_def)

section \<open>Witnesses\<close>

definition rated_document :: GenesisState where
  "rated_document = run_document\<lparr>gs_ExchangeRates := [\<lparr>dc_Denom = ''dm'', dc_Amount = 7\<rparr>]\<rparr>"

definition rated_state :: "ref_world ostate" where
  "rated_state = run_state\<lparr>FeederDelegations := [], ExchangeRates := [(''DM'', 7)]\<rparr>"

lemma rated_reached: "chain ref_env ref_float 36 rated_state"
proof -
  have "ToUpper ''dm'' = ''DM''" by code_simp
  then have "InitGenesis ref_env rated_document fresh_state = (rated_state, Ok ())"
    using default_params_checked
    by (simp add: InitGenesis_def rated_document_def run_document_def DefaultGenesisState_def fresh_state_def rated_state_def
        run_state_def init_miss_counter_def init_historic_price_def init_rate_def SetExchangeRate_def SetMissCounter_def
        SetHistoricPrice_def SetParams_def GetOracleAccount_def)
      (simp add: ref_env_def)
  moreover have "canonical_genesis ref_env rated_document"
    by (simp add: canonical_genesis_def rated_document_def run_document_def DefaultGenesisState_def)
  moreover have "empty_stores fresh_state" by (simp add: empty_stores_def fresh_state_def)
  ultimately show ?thesis by (intro chain.genesis)
qed

theorem exchange_rates_query_witness:
  "\<exists>coins. Query_ExchangeRates ref_env rated_state (Some []) = Ok coins \<and> amt coins ''DM'' = 7 \<and> amt coins ''ATOM'' = 0"
proof -
  have "\<exists>coins. Query_ExchangeRates ref_env rated_state (Some []) = Ok coins"
    by (simp add: Query_ExchangeRates_def IterateExchangeRates_def rated_state_def ref_env_def ref_coins_def)
  then obtain coins where coins: "Query_ExchangeRates ref_env rated_state (Some []) = Ok coins" by blast
  have "dec_laws (D ref_env)" "coin_laws (coinOps ref_env)" by (simp_all add: ref_env_def ref_dec_laws ref_coins_laws)
  from exchange_rates_query [OF ref_addr_laws this rated_reached coins]
  have "\<forall>d. amt coins d = (case coll_get [(''DM'', 7)] d of None \<Rightarrow> 0 | Some r \<Rightarrow> r)" by (simp add: rated_state_def)
  then show ?thesis using coins by (simp add: coll_get_def)
qed

lemmas window_loop_two = window_loop.simps(2) [of _ _ _ _ _ "Suc 0", folded numeral_2_eq_2]

theorem custom_average_needs_full_history_witness:
  "Query_WMA ref_env (rated_state\<lparr>params := DefaultParams\<lparr>AveragingWindow := 2\<rparr>\<rparr>)
     (Some \<lparr>qw_Denom = ''DM'', qw_Strategy = ''CUSTOM'', qw_CustomWeights = [1, 2]\<rparr>) = Panic"
proof (rule custom_average_needs_full_history [where prices = "[7]"])
  show "CalculateHistoricPrices (rated_state\<lparr>params := DefaultParams\<lparr>AveragingWindow := 2\<rparr>\<rparr>) ''DM'' = Ok [7]"
    by (simp add: CalculateHistoricPrices_def rated_state_def run_state_def coll_get_def GetParams_def DefaultParams_def
        BlocksPerMinute_def)
      (simp add: window_loop_two coll_get_def)
qed simp_all

end
