(* ===== verification/Oracle_Query_Codec.thy ===== *)
theory Oracle_Query_Codec
  imports Oracle_Genesis_Codec Oracle_Queries
begin

text \<open>
  The requests and responses of the query service (\<open>src/x/oracle/types/query.pb.go\<close>) and
  their encodings, in the way of \<open>Oracle_Codec\<close>. The requests without a field are empty on
  the wire; \<open>QueryWMARequest\<close>, with a packed list of weights, is not here.
\<close>

section \<open>Requests and responses\<close>

record QueryExchangeRates =
  qer_Denom :: string

record QueryExchangeRatesResponse =
  qer_ExchangeRates :: DecCoins

record QueryActiveExchangeRatesResponse =
  qar_ActiveRates :: "string list"

record QueryFeederDelegation =
  qfd_ValidatorAddr :: string

record QueryFeederDelegationResponse =
  qfd_FeederAddr :: string

record QueryMissCounter =
  qmc_ValidatorAddr :: string

record QueryMissCounterResponse =
  qmc_MissCounter :: uint64

record QuerySlashWindowResponse =
  qsw_WindowProgress :: uint64

record QueryAggregatePrevote =
  qap_ValidatorAddr :: string

record QueryAggregatePrevoteResponse =
  qap_AggregatePrevote :: AggregateExchangeRatePrevote

record QueryAggregatePrevotesResponse =
  qap_AggregatePrevotes :: "AggregateExchangeRatePrevote list"

record QueryAggregateVote =
  qav_ValidatorAddr :: string

record QueryAggregateVoteResponse =
  qav_AggregateVote :: AggregateExchangeRateVote

record QueryAggregateVotesResponse =
  qav_AggregateVotes :: "AggregateExchangeRateVote list"

record QueryParamsResponse =
  qpr_Params :: Params

record QueryMediansResponse =
  qmr_Medians :: "GenesisStamp list"

record QueryMedianDeviations =
  qmd_Denom :: string

record QueryMedianDeviationsResponse =
  qmd_MedianDeviations :: "GenesisStamp list"

record QueryValidatorRewardSetResponse =
  qvr_Validators :: ValidatorRewardSet

record QueryEMARequest =
  qem_Denom :: string

record QueryEMAResponse =
  qem_Price :: dec

record QueryWMAResponse =
  qwr_Price :: dec

record QuerySMARequest =
  qsm_Denom :: string

record QuerySMAResponse =
  qsm_Price :: dec

section \<open>QueryExchangeRates\<close>

definition write_QueryExchangeRates :: "QueryExchangeRates \<Rightarrow> writer" where
  "write_QueryExchangeRates m = seq_w
    [w_opt_string [0xa] (qer_Denom m)]"

definition size_QueryExchangeRates :: "QueryExchangeRates \<Rightarrow> nat" where
  "size_QueryExchangeRates m =
     opt_len_size 1 (length (qer_Denom m))"

definition field_QueryExchangeRates :: "QueryExchangeRates ptable" where
  "field_QueryExchangeRates fieldNum =
     (if fieldNum = 1 then Some (PBytes (\<lambda>bs m. Ok (m\<lparr>qer_Denom := bs\<rparr>)))
      else None)"

definition zero_QueryExchangeRates :: "QueryExchangeRates" where
  "zero_QueryExchangeRates = \<lparr>qer_Denom = []\<rparr>"

definition fields_QueryExchangeRates :: "QueryExchangeRates \<Rightarrow> fval list" where
  "fields_QueryExchangeRates m = concat
    [f_bytes 1 (qer_Denom m)]"

interpretation q_QueryExchangeRates: message write_QueryExchangeRates size_QueryExchangeRates field_QueryExchangeRates zero_QueryExchangeRates
  fields_QueryExchangeRates "\<lambda>m. True"
proof unfold_locales
  fix m :: "QueryExchangeRates"
  show "writes (write_QueryExchangeRates m) (enc_fields (fields_QueryExchangeRates m))"
    unfolding write_QueryExchangeRates_def fields_QueryExchangeRates_def
    by (rule writes_seq) (simp add: codec)
  show "size_QueryExchangeRates m = length (enc_fields (fields_QueryExchangeRates m))"
    by (simp add: size_QueryExchangeRates_def fields_QueryExchangeRates_def codec)
  show "apply_fields field_QueryExchangeRates (fields_QueryExchangeRates m) zero_QueryExchangeRates = Ok m"
    by (cases m) (simp add: fields_QueryExchangeRates_def field_QueryExchangeRates_def zero_QueryExchangeRates_def codec)
  fix f
  assume "f \<in> set (fields_QueryExchangeRates m)"
  then show "0 < field_num f \<and> field_num f < 2 ^ 28"
    by (auto simp: fields_QueryExchangeRates_def codec)
qed

section \<open>QueryExchangeRatesResponse\<close>

definition write_QueryExchangeRatesResponse :: "sdk_codec \<Rightarrow> QueryExchangeRatesResponse \<Rightarrow> writer" where
  "write_QueryExchangeRatesResponse K m = seq_w
    [w_each (\<lambda>c. w_nested [0xa] (coin_MarshalToSizedBuffer K c)) (qer_ExchangeRates m)]"

definition size_QueryExchangeRatesResponse :: "sdk_codec \<Rightarrow> QueryExchangeRatesResponse \<Rightarrow> nat" where
  "size_QueryExchangeRatesResponse K m =
     (\<Sum>e \<leftarrow> qer_ExchangeRates m. len_size 1 (coin_Size K e))"

definition field_QueryExchangeRatesResponse :: "sdk_codec \<Rightarrow> QueryExchangeRatesResponse ptable" where
  "field_QueryExchangeRatesResponse K fieldNum =
     (if fieldNum = 1 then Some (PBytes (\<lambda>bs m. bind_res (coin_Unmarshal K bs (fresh_coin K)) (\<lambda>c. Ok (m\<lparr>qer_ExchangeRates := qer_ExchangeRates m @ [c]\<rparr>))))
      else None)"

definition zero_QueryExchangeRatesResponse :: "QueryExchangeRatesResponse" where
  "zero_QueryExchangeRatesResponse = \<lparr>qer_ExchangeRates = []\<rparr>"

definition fields_QueryExchangeRatesResponse :: "sdk_codec \<Rightarrow> QueryExchangeRatesResponse \<Rightarrow> fval list" where
  "fields_QueryExchangeRatesResponse K m = concat
    [map (\<lambda>c. FBytes 1 (coin_bytes K c)) (qer_ExchangeRates m)]"

definition ok_QueryExchangeRatesResponse :: "QueryExchangeRatesResponse \<Rightarrow> bool" where
  "ok_QueryExchangeRatesResponse m \<longleftrightarrow> (\<forall>c \<in> set (qer_ExchangeRates m). dec_in_range (dc_Amount c))"

sublocale sdk_encoding \<subseteq> q_QueryExchangeRatesResponse: message "write_QueryExchangeRatesResponse K" "size_QueryExchangeRatesResponse K" "field_QueryExchangeRatesResponse K" zero_QueryExchangeRatesResponse
  "fields_QueryExchangeRatesResponse K" ok_QueryExchangeRatesResponse
proof unfold_locales
  fix m :: "QueryExchangeRatesResponse"
  assume ok: "ok_QueryExchangeRatesResponse m"
  show "writes (write_QueryExchangeRatesResponse K m) (enc_fields (fields_QueryExchangeRatesResponse K m))"
    unfolding write_QueryExchangeRatesResponse_def fields_QueryExchangeRatesResponse_def
    by (rule writes_seq) (use ok in \<open>simp add: codec ok_QueryExchangeRatesResponse_def\<close>)
  show "size_QueryExchangeRatesResponse K m = length (enc_fields (fields_QueryExchangeRatesResponse K m))"
    using ok by (simp add: size_QueryExchangeRatesResponse_def fields_QueryExchangeRatesResponse_def codec ok_QueryExchangeRatesResponse_def cong: map_cong)
  show "apply_fields (field_QueryExchangeRatesResponse K) (fields_QueryExchangeRatesResponse K m) zero_QueryExchangeRatesResponse = Ok m"
    using ok by (cases m) (simp add: fields_QueryExchangeRatesResponse_def field_QueryExchangeRatesResponse_def zero_QueryExchangeRatesResponse_def codec ok_QueryExchangeRatesResponse_def
        apply_each [where U = qer_ExchangeRates_update])
next
  fix m :: "QueryExchangeRatesResponse" and f
  assume "f \<in> set (fields_QueryExchangeRatesResponse K m)"
  then show "0 < field_num f \<and> field_num f < 2 ^ 28"
    by (auto simp: fields_QueryExchangeRatesResponse_def codec)
qed

section \<open>QueryActiveExchangeRatesResponse\<close>

definition write_QueryActiveExchangeRatesResponse :: "QueryActiveExchangeRatesResponse \<Rightarrow> writer" where
  "write_QueryActiveExchangeRatesResponse m = seq_w
    [w_each (w_string [0xa]) (qar_ActiveRates m)]"

definition size_QueryActiveExchangeRatesResponse :: "QueryActiveExchangeRatesResponse \<Rightarrow> nat" where
  "size_QueryActiveExchangeRatesResponse m =
     (\<Sum>s \<leftarrow> qar_ActiveRates m. len_size 1 (length s))"

definition field_QueryActiveExchangeRatesResponse :: "QueryActiveExchangeRatesResponse ptable" where
  "field_QueryActiveExchangeRatesResponse fieldNum =
     (if fieldNum = 1 then Some (PBytes (\<lambda>bs m. Ok (m\<lparr>qar_ActiveRates := qar_ActiveRates m @ [bs]\<rparr>)))
      else None)"

definition zero_QueryActiveExchangeRatesResponse :: "QueryActiveExchangeRatesResponse" where
  "zero_QueryActiveExchangeRatesResponse = \<lparr>qar_ActiveRates = []\<rparr>"

definition fields_QueryActiveExchangeRatesResponse :: "QueryActiveExchangeRatesResponse \<Rightarrow> fval list" where
  "fields_QueryActiveExchangeRatesResponse m = concat
    [map (\<lambda>s. FBytes 1 s) (qar_ActiveRates m)]"

interpretation q_QueryActiveExchangeRatesResponse: message write_QueryActiveExchangeRatesResponse size_QueryActiveExchangeRatesResponse field_QueryActiveExchangeRatesResponse zero_QueryActiveExchangeRatesResponse
  fields_QueryActiveExchangeRatesResponse "\<lambda>m. True"
proof unfold_locales
  fix m :: "QueryActiveExchangeRatesResponse"
  show "writes (write_QueryActiveExchangeRatesResponse m) (enc_fields (fields_QueryActiveExchangeRatesResponse m))"
    unfolding write_QueryActiveExchangeRatesResponse_def fields_QueryActiveExchangeRatesResponse_def
    by (rule writes_seq) (simp add: codec)
  show "size_QueryActiveExchangeRatesResponse m = length (enc_fields (fields_QueryActiveExchangeRatesResponse m))"
    by (simp add: size_QueryActiveExchangeRatesResponse_def fields_QueryActiveExchangeRatesResponse_def codec cong: map_cong)
  show "apply_fields field_QueryActiveExchangeRatesResponse (fields_QueryActiveExchangeRatesResponse m) zero_QueryActiveExchangeRatesResponse = Ok m"
    by (cases m) (simp add: fields_QueryActiveExchangeRatesResponse_def field_QueryActiveExchangeRatesResponse_def zero_QueryActiveExchangeRatesResponse_def codec
        apply_each [where U = qar_ActiveRates_update])
  fix f
  assume "f \<in> set (fields_QueryActiveExchangeRatesResponse m)"
  then show "0 < field_num f \<and> field_num f < 2 ^ 28"
    by (auto simp: fields_QueryActiveExchangeRatesResponse_def codec)
qed

section \<open>QueryFeederDelegation\<close>

definition write_QueryFeederDelegation :: "QueryFeederDelegation \<Rightarrow> writer" where
  "write_QueryFeederDelegation m = seq_w
    [w_opt_string [0xa] (qfd_ValidatorAddr m)]"

definition size_QueryFeederDelegation :: "QueryFeederDelegation \<Rightarrow> nat" where
  "size_QueryFeederDelegation m =
     opt_len_size 1 (length (qfd_ValidatorAddr m))"

definition field_QueryFeederDelegation :: "QueryFeederDelegation ptable" where
  "field_QueryFeederDelegation fieldNum =
     (if fieldNum = 1 then Some (PBytes (\<lambda>bs m. Ok (m\<lparr>qfd_ValidatorAddr := bs\<rparr>)))
      else None)"

definition zero_QueryFeederDelegation :: "QueryFeederDelegation" where
  "zero_QueryFeederDelegation = \<lparr>qfd_ValidatorAddr = []\<rparr>"

definition fields_QueryFeederDelegation :: "QueryFeederDelegation \<Rightarrow> fval list" where
  "fields_QueryFeederDelegation m = concat
    [f_bytes 1 (qfd_ValidatorAddr m)]"

interpretation q_QueryFeederDelegation: message write_QueryFeederDelegation size_QueryFeederDelegation field_QueryFeederDelegation zero_QueryFeederDelegation
  fields_QueryFeederDelegation "\<lambda>m. True"
proof unfold_locales
  fix m :: "QueryFeederDelegation"
  show "writes (write_QueryFeederDelegation m) (enc_fields (fields_QueryFeederDelegation m))"
    unfolding write_QueryFeederDelegation_def fields_QueryFeederDelegation_def
    by (rule writes_seq) (simp add: codec)
  show "size_QueryFeederDelegation m = length (enc_fields (fields_QueryFeederDelegation m))"
    by (simp add: size_QueryFeederDelegation_def fields_QueryFeederDelegation_def codec)
  show "apply_fields field_QueryFeederDelegation (fields_QueryFeederDelegation m) zero_QueryFeederDelegation = Ok m"
    by (cases m) (simp add: fields_QueryFeederDelegation_def field_QueryFeederDelegation_def zero_QueryFeederDelegation_def codec)
  fix f
  assume "f \<in> set (fields_QueryFeederDelegation m)"
  then show "0 < field_num f \<and> field_num f < 2 ^ 28"
    by (auto simp: fields_QueryFeederDelegation_def codec)
qed

section \<open>QueryFeederDelegationResponse\<close>

definition write_QueryFeederDelegationResponse :: "QueryFeederDelegationResponse \<Rightarrow> writer" where
  "write_QueryFeederDelegationResponse m = seq_w
    [w_opt_string [0xa] (qfd_FeederAddr m)]"

definition size_QueryFeederDelegationResponse :: "QueryFeederDelegationResponse \<Rightarrow> nat" where
  "size_QueryFeederDelegationResponse m =
     opt_len_size 1 (length (qfd_FeederAddr m))"

definition field_QueryFeederDelegationResponse :: "QueryFeederDelegationResponse ptable" where
  "field_QueryFeederDelegationResponse fieldNum =
     (if fieldNum = 1 then Some (PBytes (\<lambda>bs m. Ok (m\<lparr>qfd_FeederAddr := bs\<rparr>)))
      else None)"

definition zero_QueryFeederDelegationResponse :: "QueryFeederDelegationResponse" where
  "zero_QueryFeederDelegationResponse = \<lparr>qfd_FeederAddr = []\<rparr>"

definition fields_QueryFeederDelegationResponse :: "QueryFeederDelegationResponse \<Rightarrow> fval list" where
  "fields_QueryFeederDelegationResponse m = concat
    [f_bytes 1 (qfd_FeederAddr m)]"

interpretation q_QueryFeederDelegationResponse: message write_QueryFeederDelegationResponse size_QueryFeederDelegationResponse field_QueryFeederDelegationResponse zero_QueryFeederDelegationResponse
  fields_QueryFeederDelegationResponse "\<lambda>m. True"
proof unfold_locales
  fix m :: "QueryFeederDelegationResponse"
  show "writes (write_QueryFeederDelegationResponse m) (enc_fields (fields_QueryFeederDelegationResponse m))"
    unfolding write_QueryFeederDelegationResponse_def fields_QueryFeederDelegationResponse_def
    by (rule writes_seq) (simp add: codec)
  show "size_QueryFeederDelegationResponse m = length (enc_fields (fields_QueryFeederDelegationResponse m))"
    by (simp add: size_QueryFeederDelegationResponse_def fields_QueryFeederDelegationResponse_def codec)
  show "apply_fields field_QueryFeederDelegationResponse (fields_QueryFeederDelegationResponse m) zero_QueryFeederDelegationResponse = Ok m"
    by (cases m) (simp add: fields_QueryFeederDelegationResponse_def field_QueryFeederDelegationResponse_def zero_QueryFeederDelegationResponse_def codec)
  fix f
  assume "f \<in> set (fields_QueryFeederDelegationResponse m)"
  then show "0 < field_num f \<and> field_num f < 2 ^ 28"
    by (auto simp: fields_QueryFeederDelegationResponse_def codec)
qed

section \<open>QueryMissCounter\<close>

definition write_QueryMissCounter :: "QueryMissCounter \<Rightarrow> writer" where
  "write_QueryMissCounter m = seq_w
    [w_opt_string [0xa] (qmc_ValidatorAddr m)]"

definition size_QueryMissCounter :: "QueryMissCounter \<Rightarrow> nat" where
  "size_QueryMissCounter m =
     opt_len_size 1 (length (qmc_ValidatorAddr m))"

definition field_QueryMissCounter :: "QueryMissCounter ptable" where
  "field_QueryMissCounter fieldNum =
     (if fieldNum = 1 then Some (PBytes (\<lambda>bs m. Ok (m\<lparr>qmc_ValidatorAddr := bs\<rparr>)))
      else None)"

definition zero_QueryMissCounter :: "QueryMissCounter" where
  "zero_QueryMissCounter = \<lparr>qmc_ValidatorAddr = []\<rparr>"

definition fields_QueryMissCounter :: "QueryMissCounter \<Rightarrow> fval list" where
  "fields_QueryMissCounter m = concat
    [f_bytes 1 (qmc_ValidatorAddr m)]"

interpretation q_QueryMissCounter: message write_QueryMissCounter size_QueryMissCounter field_QueryMissCounter zero_QueryMissCounter
  fields_QueryMissCounter "\<lambda>m. True"
proof unfold_locales
  fix m :: "QueryMissCounter"
  show "writes (write_QueryMissCounter m) (enc_fields (fields_QueryMissCounter m))"
    unfolding write_QueryMissCounter_def fields_QueryMissCounter_def
    by (rule writes_seq) (simp add: codec)
  show "size_QueryMissCounter m = length (enc_fields (fields_QueryMissCounter m))"
    by (simp add: size_QueryMissCounter_def fields_QueryMissCounter_def codec)
  show "apply_fields field_QueryMissCounter (fields_QueryMissCounter m) zero_QueryMissCounter = Ok m"
    by (cases m) (simp add: fields_QueryMissCounter_def field_QueryMissCounter_def zero_QueryMissCounter_def codec)
  fix f
  assume "f \<in> set (fields_QueryMissCounter m)"
  then show "0 < field_num f \<and> field_num f < 2 ^ 28"
    by (auto simp: fields_QueryMissCounter_def codec)
qed

section \<open>QueryMissCounterResponse\<close>

definition write_QueryMissCounterResponse :: "QueryMissCounterResponse \<Rightarrow> writer" where
  "write_QueryMissCounterResponse m = seq_w
    [w_opt_varint [0x8] (qmc_MissCounter m)]"

definition size_QueryMissCounterResponse :: "QueryMissCounterResponse \<Rightarrow> nat" where
  "size_QueryMissCounterResponse m =
     varint_size 1 (qmc_MissCounter m)"

definition field_QueryMissCounterResponse :: "QueryMissCounterResponse ptable" where
  "field_QueryMissCounterResponse fieldNum =
     (if fieldNum = 1 then Some (PVarint (\<lambda>v m. m\<lparr>qmc_MissCounter := v\<rparr>))
      else None)"

definition zero_QueryMissCounterResponse :: "QueryMissCounterResponse" where
  "zero_QueryMissCounterResponse = \<lparr>qmc_MissCounter = 0\<rparr>"

definition fields_QueryMissCounterResponse :: "QueryMissCounterResponse \<Rightarrow> fval list" where
  "fields_QueryMissCounterResponse m = concat
    [f_varint 1 (qmc_MissCounter m)]"

interpretation q_QueryMissCounterResponse: message write_QueryMissCounterResponse size_QueryMissCounterResponse field_QueryMissCounterResponse zero_QueryMissCounterResponse
  fields_QueryMissCounterResponse "\<lambda>m. True"
proof unfold_locales
  fix m :: "QueryMissCounterResponse"
  show "writes (write_QueryMissCounterResponse m) (enc_fields (fields_QueryMissCounterResponse m))"
    unfolding write_QueryMissCounterResponse_def fields_QueryMissCounterResponse_def
    by (rule writes_seq) (simp add: codec)
  show "size_QueryMissCounterResponse m = length (enc_fields (fields_QueryMissCounterResponse m))"
    by (simp add: size_QueryMissCounterResponse_def fields_QueryMissCounterResponse_def codec)
  show "apply_fields field_QueryMissCounterResponse (fields_QueryMissCounterResponse m) zero_QueryMissCounterResponse = Ok m"
    by (cases m) (simp add: fields_QueryMissCounterResponse_def field_QueryMissCounterResponse_def zero_QueryMissCounterResponse_def codec)
  fix f
  assume "f \<in> set (fields_QueryMissCounterResponse m)"
  then show "0 < field_num f \<and> field_num f < 2 ^ 28"
    by (auto simp: fields_QueryMissCounterResponse_def codec)
qed

section \<open>QuerySlashWindowResponse\<close>

definition write_QuerySlashWindowResponse :: "QuerySlashWindowResponse \<Rightarrow> writer" where
  "write_QuerySlashWindowResponse m = seq_w
    [w_opt_varint [0x8] (qsw_WindowProgress m)]"

definition size_QuerySlashWindowResponse :: "QuerySlashWindowResponse \<Rightarrow> nat" where
  "size_QuerySlashWindowResponse m =
     varint_size 1 (qsw_WindowProgress m)"

definition field_QuerySlashWindowResponse :: "QuerySlashWindowResponse ptable" where
  "field_QuerySlashWindowResponse fieldNum =
     (if fieldNum = 1 then Some (PVarint (\<lambda>v m. m\<lparr>qsw_WindowProgress := v\<rparr>))
      else None)"

definition zero_QuerySlashWindowResponse :: "QuerySlashWindowResponse" where
  "zero_QuerySlashWindowResponse = \<lparr>qsw_WindowProgress = 0\<rparr>"

definition fields_QuerySlashWindowResponse :: "QuerySlashWindowResponse \<Rightarrow> fval list" where
  "fields_QuerySlashWindowResponse m = concat
    [f_varint 1 (qsw_WindowProgress m)]"

interpretation q_QuerySlashWindowResponse: message write_QuerySlashWindowResponse size_QuerySlashWindowResponse field_QuerySlashWindowResponse zero_QuerySlashWindowResponse
  fields_QuerySlashWindowResponse "\<lambda>m. True"
proof unfold_locales
  fix m :: "QuerySlashWindowResponse"
  show "writes (write_QuerySlashWindowResponse m) (enc_fields (fields_QuerySlashWindowResponse m))"
    unfolding write_QuerySlashWindowResponse_def fields_QuerySlashWindowResponse_def
    by (rule writes_seq) (simp add: codec)
  show "size_QuerySlashWindowResponse m = length (enc_fields (fields_QuerySlashWindowResponse m))"
    by (simp add: size_QuerySlashWindowResponse_def fields_QuerySlashWindowResponse_def codec)
  show "apply_fields field_QuerySlashWindowResponse (fields_QuerySlashWindowResponse m) zero_QuerySlashWindowResponse = Ok m"
    by (cases m) (simp add: fields_QuerySlashWindowResponse_def field_QuerySlashWindowResponse_def zero_QuerySlashWindowResponse_def codec)
  fix f
  assume "f \<in> set (fields_QuerySlashWindowResponse m)"
  then show "0 < field_num f \<and> field_num f < 2 ^ 28"
    by (auto simp: fields_QuerySlashWindowResponse_def codec)
qed

section \<open>QueryAggregatePrevote\<close>

definition write_QueryAggregatePrevote :: "QueryAggregatePrevote \<Rightarrow> writer" where
  "write_QueryAggregatePrevote m = seq_w
    [w_opt_string [0xa] (qap_ValidatorAddr m)]"

definition size_QueryAggregatePrevote :: "QueryAggregatePrevote \<Rightarrow> nat" where
  "size_QueryAggregatePrevote m =
     opt_len_size 1 (length (qap_ValidatorAddr m))"

definition field_QueryAggregatePrevote :: "QueryAggregatePrevote ptable" where
  "field_QueryAggregatePrevote fieldNum =
     (if fieldNum = 1 then Some (PBytes (\<lambda>bs m. Ok (m\<lparr>qap_ValidatorAddr := bs\<rparr>)))
      else None)"

definition zero_QueryAggregatePrevote :: "QueryAggregatePrevote" where
  "zero_QueryAggregatePrevote = \<lparr>qap_ValidatorAddr = []\<rparr>"

definition fields_QueryAggregatePrevote :: "QueryAggregatePrevote \<Rightarrow> fval list" where
  "fields_QueryAggregatePrevote m = concat
    [f_bytes 1 (qap_ValidatorAddr m)]"

interpretation q_QueryAggregatePrevote: message write_QueryAggregatePrevote size_QueryAggregatePrevote field_QueryAggregatePrevote zero_QueryAggregatePrevote
  fields_QueryAggregatePrevote "\<lambda>m. True"
proof unfold_locales
  fix m :: "QueryAggregatePrevote"
  show "writes (write_QueryAggregatePrevote m) (enc_fields (fields_QueryAggregatePrevote m))"
    unfolding write_QueryAggregatePrevote_def fields_QueryAggregatePrevote_def
    by (rule writes_seq) (simp add: codec)
  show "size_QueryAggregatePrevote m = length (enc_fields (fields_QueryAggregatePrevote m))"
    by (simp add: size_QueryAggregatePrevote_def fields_QueryAggregatePrevote_def codec)
  show "apply_fields field_QueryAggregatePrevote (fields_QueryAggregatePrevote m) zero_QueryAggregatePrevote = Ok m"
    by (cases m) (simp add: fields_QueryAggregatePrevote_def field_QueryAggregatePrevote_def zero_QueryAggregatePrevote_def codec)
  fix f
  assume "f \<in> set (fields_QueryAggregatePrevote m)"
  then show "0 < field_num f \<and> field_num f < 2 ^ 28"
    by (auto simp: fields_QueryAggregatePrevote_def codec)
qed

section \<open>QueryAggregatePrevoteResponse\<close>

definition write_QueryAggregatePrevoteResponse :: "QueryAggregatePrevoteResponse \<Rightarrow> writer" where
  "write_QueryAggregatePrevoteResponse m = seq_w
    [w_nested [0xa] (to_sized (write_Prevote (qap_AggregatePrevote m)))]"

definition size_QueryAggregatePrevoteResponse :: "QueryAggregatePrevoteResponse \<Rightarrow> nat" where
  "size_QueryAggregatePrevoteResponse m =
     len_size 1 (size_Prevote (qap_AggregatePrevote m))"

definition field_QueryAggregatePrevoteResponse :: "QueryAggregatePrevoteResponse ptable" where
  "field_QueryAggregatePrevoteResponse fieldNum =
     (if fieldNum = 1 then Some (PBytes (\<lambda>bs m. bind_res (unmarshal field_Prevote bs (qap_AggregatePrevote m)) (\<lambda>x. Ok (m\<lparr>qap_AggregatePrevote := x\<rparr>))))
      else None)"

definition zero_QueryAggregatePrevoteResponse :: "QueryAggregatePrevoteResponse" where
  "zero_QueryAggregatePrevoteResponse = \<lparr>qap_AggregatePrevote = zero_Prevote\<rparr>"

definition fields_QueryAggregatePrevoteResponse :: "QueryAggregatePrevoteResponse \<Rightarrow> fval list" where
  "fields_QueryAggregatePrevoteResponse m = concat
    [[FBytes 1 (enc_fields (fields_Prevote (qap_AggregatePrevote m)))]]"

definition ok_QueryAggregatePrevoteResponse :: "QueryAggregatePrevoteResponse \<Rightarrow> bool" where
  "ok_QueryAggregatePrevoteResponse m \<longleftrightarrow> int (size_Prevote (qap_AggregatePrevote m)) \<le> max_int64"

interpretation q_QueryAggregatePrevoteResponse: message write_QueryAggregatePrevoteResponse size_QueryAggregatePrevoteResponse field_QueryAggregatePrevoteResponse zero_QueryAggregatePrevoteResponse
  fields_QueryAggregatePrevoteResponse ok_QueryAggregatePrevoteResponse
proof unfold_locales
  fix m :: "QueryAggregatePrevoteResponse"
  assume ok: "ok_QueryAggregatePrevoteResponse m"
  show "writes (write_QueryAggregatePrevoteResponse m) (enc_fields (fields_QueryAggregatePrevoteResponse m))"
    unfolding write_QueryAggregatePrevoteResponse_def fields_QueryAggregatePrevoteResponse_def
    by (rule writes_seq) (use ok in \<open>simp add: codec ok_QueryAggregatePrevoteResponse_def prevote.marshals_fields prevote.size_fields [symmetric] prevote.unmarshal_enc\<close>)
  show "size_QueryAggregatePrevoteResponse m = length (enc_fields (fields_QueryAggregatePrevoteResponse m))"
    using ok by (simp add: size_QueryAggregatePrevoteResponse_def fields_QueryAggregatePrevoteResponse_def codec ok_QueryAggregatePrevoteResponse_def prevote.marshals_fields prevote.size_fields [symmetric] prevote.unmarshal_enc)
  show "apply_fields field_QueryAggregatePrevoteResponse (fields_QueryAggregatePrevoteResponse m) zero_QueryAggregatePrevoteResponse = Ok m"
    using ok by (cases m) (simp add: fields_QueryAggregatePrevoteResponse_def field_QueryAggregatePrevoteResponse_def zero_QueryAggregatePrevoteResponse_def codec ok_QueryAggregatePrevoteResponse_def prevote.marshals_fields prevote.size_fields [symmetric] prevote.unmarshal_enc)
next
  fix m :: "QueryAggregatePrevoteResponse" and f
  assume "f \<in> set (fields_QueryAggregatePrevoteResponse m)"
  then show "0 < field_num f \<and> field_num f < 2 ^ 28"
    by (auto simp: fields_QueryAggregatePrevoteResponse_def codec)
qed

section \<open>QueryAggregatePrevotesResponse\<close>

definition write_QueryAggregatePrevotesResponse :: "QueryAggregatePrevotesResponse \<Rightarrow> writer" where
  "write_QueryAggregatePrevotesResponse m = seq_w
    [w_each (\<lambda>e. w_nested [0xa] (to_sized (write_Prevote e))) (qap_AggregatePrevotes m)]"

definition size_QueryAggregatePrevotesResponse :: "QueryAggregatePrevotesResponse \<Rightarrow> nat" where
  "size_QueryAggregatePrevotesResponse m =
     (\<Sum>e \<leftarrow> qap_AggregatePrevotes m. len_size 1 (size_Prevote e))"

definition field_QueryAggregatePrevotesResponse :: "QueryAggregatePrevotesResponse ptable" where
  "field_QueryAggregatePrevotesResponse fieldNum =
     (if fieldNum = 1 then Some (PBytes (\<lambda>bs m. bind_res (unmarshal field_Prevote bs zero_Prevote)
        (\<lambda>x. Ok (m\<lparr>qap_AggregatePrevotes := qap_AggregatePrevotes m @ [x]\<rparr>))))
      else None)"

definition zero_QueryAggregatePrevotesResponse :: "QueryAggregatePrevotesResponse" where
  "zero_QueryAggregatePrevotesResponse = \<lparr>qap_AggregatePrevotes = []\<rparr>"

definition fields_QueryAggregatePrevotesResponse :: "QueryAggregatePrevotesResponse \<Rightarrow> fval list" where
  "fields_QueryAggregatePrevotesResponse m = concat
    [map (\<lambda>e. FBytes 1 (enc_fields (fields_Prevote e))) (qap_AggregatePrevotes m)]"

definition ok_QueryAggregatePrevotesResponse :: "QueryAggregatePrevotesResponse \<Rightarrow> bool" where
  "ok_QueryAggregatePrevotesResponse m \<longleftrightarrow> (\<forall>e \<in> set (qap_AggregatePrevotes m). int (size_Prevote e) \<le> max_int64)"

interpretation q_QueryAggregatePrevotesResponse: message write_QueryAggregatePrevotesResponse size_QueryAggregatePrevotesResponse field_QueryAggregatePrevotesResponse zero_QueryAggregatePrevotesResponse
  fields_QueryAggregatePrevotesResponse ok_QueryAggregatePrevotesResponse
proof unfold_locales
  fix m :: "QueryAggregatePrevotesResponse"
  assume ok: "ok_QueryAggregatePrevotesResponse m"
  show "writes (write_QueryAggregatePrevotesResponse m) (enc_fields (fields_QueryAggregatePrevotesResponse m))"
    unfolding write_QueryAggregatePrevotesResponse_def fields_QueryAggregatePrevotesResponse_def
    by (rule writes_seq) (use ok in \<open>simp add: codec ok_QueryAggregatePrevotesResponse_def prevote.marshals_fields prevote.size_fields [symmetric] prevote.unmarshal_enc\<close>)
  show "size_QueryAggregatePrevotesResponse m = length (enc_fields (fields_QueryAggregatePrevotesResponse m))"
    using ok by (simp add: size_QueryAggregatePrevotesResponse_def fields_QueryAggregatePrevotesResponse_def codec ok_QueryAggregatePrevotesResponse_def prevote.marshals_fields prevote.size_fields [symmetric] prevote.unmarshal_enc cong: map_cong)
  show "apply_fields field_QueryAggregatePrevotesResponse (fields_QueryAggregatePrevotesResponse m) zero_QueryAggregatePrevotesResponse = Ok m"
    using ok by (cases m) (simp add: fields_QueryAggregatePrevotesResponse_def field_QueryAggregatePrevotesResponse_def zero_QueryAggregatePrevotesResponse_def codec ok_QueryAggregatePrevotesResponse_def prevote.marshals_fields prevote.size_fields [symmetric] prevote.unmarshal_enc
        apply_each [where U = qap_AggregatePrevotes_update])
next
  fix m :: "QueryAggregatePrevotesResponse" and f
  assume "f \<in> set (fields_QueryAggregatePrevotesResponse m)"
  then show "0 < field_num f \<and> field_num f < 2 ^ 28"
    by (auto simp: fields_QueryAggregatePrevotesResponse_def codec)
qed

section \<open>QueryAggregateVote\<close>

definition write_QueryAggregateVote :: "QueryAggregateVote \<Rightarrow> writer" where
  "write_QueryAggregateVote m = seq_w
    [w_opt_string [0xa] (qav_ValidatorAddr m)]"

definition size_QueryAggregateVote :: "QueryAggregateVote \<Rightarrow> nat" where
  "size_QueryAggregateVote m =
     opt_len_size 1 (length (qav_ValidatorAddr m))"

definition field_QueryAggregateVote :: "QueryAggregateVote ptable" where
  "field_QueryAggregateVote fieldNum =
     (if fieldNum = 1 then Some (PBytes (\<lambda>bs m. Ok (m\<lparr>qav_ValidatorAddr := bs\<rparr>)))
      else None)"

definition zero_QueryAggregateVote :: "QueryAggregateVote" where
  "zero_QueryAggregateVote = \<lparr>qav_ValidatorAddr = []\<rparr>"

definition fields_QueryAggregateVote :: "QueryAggregateVote \<Rightarrow> fval list" where
  "fields_QueryAggregateVote m = concat
    [f_bytes 1 (qav_ValidatorAddr m)]"

interpretation q_QueryAggregateVote: message write_QueryAggregateVote size_QueryAggregateVote field_QueryAggregateVote zero_QueryAggregateVote
  fields_QueryAggregateVote "\<lambda>m. True"
proof unfold_locales
  fix m :: "QueryAggregateVote"
  show "writes (write_QueryAggregateVote m) (enc_fields (fields_QueryAggregateVote m))"
    unfolding write_QueryAggregateVote_def fields_QueryAggregateVote_def
    by (rule writes_seq) (simp add: codec)
  show "size_QueryAggregateVote m = length (enc_fields (fields_QueryAggregateVote m))"
    by (simp add: size_QueryAggregateVote_def fields_QueryAggregateVote_def codec)
  show "apply_fields field_QueryAggregateVote (fields_QueryAggregateVote m) zero_QueryAggregateVote = Ok m"
    by (cases m) (simp add: fields_QueryAggregateVote_def field_QueryAggregateVote_def zero_QueryAggregateVote_def codec)
  fix f
  assume "f \<in> set (fields_QueryAggregateVote m)"
  then show "0 < field_num f \<and> field_num f < 2 ^ 28"
    by (auto simp: fields_QueryAggregateVote_def codec)
qed

section \<open>QueryAggregateVoteResponse\<close>

definition write_QueryAggregateVoteResponse :: "sdk_codec \<Rightarrow> QueryAggregateVoteResponse \<Rightarrow> writer" where
  "write_QueryAggregateVoteResponse K m = seq_w
    [w_nested [0xa] (to_sized (write_Vote K (qav_AggregateVote m)))]"

definition size_QueryAggregateVoteResponse :: "sdk_codec \<Rightarrow> QueryAggregateVoteResponse \<Rightarrow> nat" where
  "size_QueryAggregateVoteResponse K m =
     len_size 1 (size_Vote K (qav_AggregateVote m))"

definition field_QueryAggregateVoteResponse :: "sdk_codec \<Rightarrow> QueryAggregateVoteResponse ptable" where
  "field_QueryAggregateVoteResponse K fieldNum =
     (if fieldNum = 1 then Some (PBytes (\<lambda>bs m. bind_res (unmarshal (field_Vote K) bs (qav_AggregateVote m)) (\<lambda>x. Ok (m\<lparr>qav_AggregateVote := x\<rparr>))))
      else None)"

definition zero_QueryAggregateVoteResponse :: "QueryAggregateVoteResponse" where
  "zero_QueryAggregateVoteResponse = \<lparr>qav_AggregateVote = zero_Vote\<rparr>"

definition fields_QueryAggregateVoteResponse :: "sdk_codec \<Rightarrow> QueryAggregateVoteResponse \<Rightarrow> fval list" where
  "fields_QueryAggregateVoteResponse K m = concat
    [[FBytes 1 (enc_fields (fields_Vote K (qav_AggregateVote m)))]]"

definition ok_QueryAggregateVoteResponse :: "sdk_codec \<Rightarrow> QueryAggregateVoteResponse \<Rightarrow> bool" where
  "ok_QueryAggregateVoteResponse K m \<longleftrightarrow> ok_Vote (qav_AggregateVote m) \<and> int (size_Vote K (qav_AggregateVote m)) \<le> max_int64"

sublocale sdk_encoding \<subseteq> q_QueryAggregateVoteResponse: message "write_QueryAggregateVoteResponse K" "size_QueryAggregateVoteResponse K" "field_QueryAggregateVoteResponse K" zero_QueryAggregateVoteResponse
  "fields_QueryAggregateVoteResponse K" "ok_QueryAggregateVoteResponse K"
proof unfold_locales
  fix m :: "QueryAggregateVoteResponse"
  assume ok: "ok_QueryAggregateVoteResponse K m"
  show "writes (write_QueryAggregateVoteResponse K m) (enc_fields (fields_QueryAggregateVoteResponse K m))"
    unfolding write_QueryAggregateVoteResponse_def fields_QueryAggregateVoteResponse_def
    by (rule writes_seq) (use ok in \<open>simp add: codec ok_QueryAggregateVoteResponse_def vote.marshals_fields vote.size_fields [symmetric] vote.unmarshal_enc\<close>)
  show "size_QueryAggregateVoteResponse K m = length (enc_fields (fields_QueryAggregateVoteResponse K m))"
    using ok by (simp add: size_QueryAggregateVoteResponse_def fields_QueryAggregateVoteResponse_def codec ok_QueryAggregateVoteResponse_def vote.marshals_fields vote.size_fields [symmetric] vote.unmarshal_enc)
  show "apply_fields (field_QueryAggregateVoteResponse K) (fields_QueryAggregateVoteResponse K m) zero_QueryAggregateVoteResponse = Ok m"
    using ok by (cases m) (simp add: fields_QueryAggregateVoteResponse_def field_QueryAggregateVoteResponse_def zero_QueryAggregateVoteResponse_def codec ok_QueryAggregateVoteResponse_def vote.marshals_fields vote.size_fields [symmetric] vote.unmarshal_enc)
next
  fix m :: "QueryAggregateVoteResponse" and f
  assume "f \<in> set (fields_QueryAggregateVoteResponse K m)"
  then show "0 < field_num f \<and> field_num f < 2 ^ 28"
    by (auto simp: fields_QueryAggregateVoteResponse_def codec)
qed

section \<open>QueryAggregateVotesResponse\<close>

definition write_QueryAggregateVotesResponse :: "sdk_codec \<Rightarrow> QueryAggregateVotesResponse \<Rightarrow> writer" where
  "write_QueryAggregateVotesResponse K m = seq_w
    [w_each (\<lambda>e. w_nested [0xa] (to_sized (write_Vote K e))) (qav_AggregateVotes m)]"

definition size_QueryAggregateVotesResponse :: "sdk_codec \<Rightarrow> QueryAggregateVotesResponse \<Rightarrow> nat" where
  "size_QueryAggregateVotesResponse K m =
     (\<Sum>e \<leftarrow> qav_AggregateVotes m. len_size 1 (size_Vote K e))"

definition field_QueryAggregateVotesResponse :: "sdk_codec \<Rightarrow> QueryAggregateVotesResponse ptable" where
  "field_QueryAggregateVotesResponse K fieldNum =
     (if fieldNum = 1 then Some (PBytes (\<lambda>bs m. bind_res (unmarshal (field_Vote K) bs zero_Vote)
        (\<lambda>x. Ok (m\<lparr>qav_AggregateVotes := qav_AggregateVotes m @ [x]\<rparr>))))
      else None)"

definition zero_QueryAggregateVotesResponse :: "QueryAggregateVotesResponse" where
  "zero_QueryAggregateVotesResponse = \<lparr>qav_AggregateVotes = []\<rparr>"

definition fields_QueryAggregateVotesResponse :: "sdk_codec \<Rightarrow> QueryAggregateVotesResponse \<Rightarrow> fval list" where
  "fields_QueryAggregateVotesResponse K m = concat
    [map (\<lambda>e. FBytes 1 (enc_fields (fields_Vote K e))) (qav_AggregateVotes m)]"

definition ok_QueryAggregateVotesResponse :: "sdk_codec \<Rightarrow> QueryAggregateVotesResponse \<Rightarrow> bool" where
  "ok_QueryAggregateVotesResponse K m \<longleftrightarrow> (\<forall>e \<in> set (qav_AggregateVotes m). ok_Vote e \<and> int (size_Vote K e) \<le> max_int64)"

sublocale sdk_encoding \<subseteq> q_QueryAggregateVotesResponse: message "write_QueryAggregateVotesResponse K" "size_QueryAggregateVotesResponse K" "field_QueryAggregateVotesResponse K" zero_QueryAggregateVotesResponse
  "fields_QueryAggregateVotesResponse K" "ok_QueryAggregateVotesResponse K"
proof unfold_locales
  fix m :: "QueryAggregateVotesResponse"
  assume ok: "ok_QueryAggregateVotesResponse K m"
  show "writes (write_QueryAggregateVotesResponse K m) (enc_fields (fields_QueryAggregateVotesResponse K m))"
    unfolding write_QueryAggregateVotesResponse_def fields_QueryAggregateVotesResponse_def
    by (rule writes_seq) (use ok in \<open>simp add: codec ok_QueryAggregateVotesResponse_def vote.marshals_fields vote.size_fields [symmetric] vote.unmarshal_enc\<close>)
  show "size_QueryAggregateVotesResponse K m = length (enc_fields (fields_QueryAggregateVotesResponse K m))"
    using ok by (simp add: size_QueryAggregateVotesResponse_def fields_QueryAggregateVotesResponse_def codec ok_QueryAggregateVotesResponse_def vote.marshals_fields vote.size_fields [symmetric] vote.unmarshal_enc cong: map_cong)
  show "apply_fields (field_QueryAggregateVotesResponse K) (fields_QueryAggregateVotesResponse K m) zero_QueryAggregateVotesResponse = Ok m"
    using ok by (cases m) (simp add: fields_QueryAggregateVotesResponse_def field_QueryAggregateVotesResponse_def zero_QueryAggregateVotesResponse_def codec ok_QueryAggregateVotesResponse_def vote.marshals_fields vote.size_fields [symmetric] vote.unmarshal_enc
        apply_each [where U = qav_AggregateVotes_update])
next
  fix m :: "QueryAggregateVotesResponse" and f
  assume "f \<in> set (fields_QueryAggregateVotesResponse K m)"
  then show "0 < field_num f \<and> field_num f < 2 ^ 28"
    by (auto simp: fields_QueryAggregateVotesResponse_def codec)
qed

section \<open>QueryParamsResponse\<close>

definition write_QueryParamsResponse :: "sdk_codec \<Rightarrow> QueryParamsResponse \<Rightarrow> writer" where
  "write_QueryParamsResponse K m = seq_w
    [w_nested [0xa] (to_sized (write_Params K (qpr_Params m)))]"

definition size_QueryParamsResponse :: "sdk_codec \<Rightarrow> QueryParamsResponse \<Rightarrow> nat" where
  "size_QueryParamsResponse K m =
     len_size 1 (size_Params K (qpr_Params m))"

definition field_QueryParamsResponse :: "sdk_codec \<Rightarrow> QueryParamsResponse ptable" where
  "field_QueryParamsResponse K fieldNum =
     (if fieldNum = 1 then Some (PBytes (\<lambda>bs m. bind_res (unmarshal (field_Params K) bs (qpr_Params m)) (\<lambda>x. Ok (m\<lparr>qpr_Params := x\<rparr>))))
      else None)"

definition zero_QueryParamsResponse :: "sdk_codec \<Rightarrow> QueryParamsResponse" where
  "zero_QueryParamsResponse K = \<lparr>qpr_Params = (zero_Params K)\<rparr>"

definition fields_QueryParamsResponse :: "sdk_codec \<Rightarrow> QueryParamsResponse \<Rightarrow> fval list" where
  "fields_QueryParamsResponse K m = concat
    [[FBytes 1 (enc_fields (fields_Params K (qpr_Params m)))]]"

definition ok_QueryParamsResponse :: "sdk_codec \<Rightarrow> QueryParamsResponse \<Rightarrow> bool" where
  "ok_QueryParamsResponse K m \<longleftrightarrow> ok_Params K (qpr_Params m) \<and> int (size_Params K (qpr_Params m)) \<le> max_int64"

sublocale sdk_encoding \<subseteq> q_QueryParamsResponse: message "write_QueryParamsResponse K" "size_QueryParamsResponse K" "field_QueryParamsResponse K" "zero_QueryParamsResponse K"
  "fields_QueryParamsResponse K" "ok_QueryParamsResponse K"
proof unfold_locales
  fix m :: "QueryParamsResponse"
  assume ok: "ok_QueryParamsResponse K m"
  show "writes (write_QueryParamsResponse K m) (enc_fields (fields_QueryParamsResponse K m))"
    unfolding write_QueryParamsResponse_def fields_QueryParamsResponse_def
    by (rule writes_seq) (use ok in \<open>simp add: codec ok_QueryParamsResponse_def params.marshals_fields params.size_fields [symmetric] params.unmarshal_enc\<close>)
  show "size_QueryParamsResponse K m = length (enc_fields (fields_QueryParamsResponse K m))"
    using ok by (simp add: size_QueryParamsResponse_def fields_QueryParamsResponse_def codec ok_QueryParamsResponse_def params.marshals_fields params.size_fields [symmetric] params.unmarshal_enc)
  show "apply_fields (field_QueryParamsResponse K) (fields_QueryParamsResponse K m) (zero_QueryParamsResponse K) = Ok m"
    using ok by (cases m) (simp add: fields_QueryParamsResponse_def field_QueryParamsResponse_def zero_QueryParamsResponse_def codec ok_QueryParamsResponse_def params.marshals_fields params.size_fields [symmetric] params.unmarshal_enc)
next
  fix m :: "QueryParamsResponse" and f
  assume "f \<in> set (fields_QueryParamsResponse K m)"
  then show "0 < field_num f \<and> field_num f < 2 ^ 28"
    by (auto simp: fields_QueryParamsResponse_def codec)
qed

section \<open>QueryMedians\<close>

definition write_QueryMedians :: "QueryMedians \<Rightarrow> writer" where
  "write_QueryMedians m = seq_w
    [w_opt_varint [0x10] (ucast (qm_NumStamps m)),
     w_opt_string [0xa] (qm_Denom m)]"

definition size_QueryMedians :: "QueryMedians \<Rightarrow> nat" where
  "size_QueryMedians m =
     opt_len_size 1 (length (qm_Denom m)) +
     varint_size 1 (ucast (qm_NumStamps m))"

definition field_QueryMedians :: "QueryMedians ptable" where
  "field_QueryMedians fieldNum =
     (if fieldNum = 1 then Some (PBytes (\<lambda>bs m. Ok (m\<lparr>qm_Denom := bs\<rparr>)))
      else if fieldNum = 2 then Some (PVarint (\<lambda>v m. m\<lparr>qm_NumStamps := ucast v\<rparr>))
      else None)"

definition zero_QueryMedians :: "QueryMedians" where
  "zero_QueryMedians = \<lparr>qm_Denom = [], qm_NumStamps = 0\<rparr>"

definition fields_QueryMedians :: "QueryMedians \<Rightarrow> fval list" where
  "fields_QueryMedians m = concat
    [f_bytes 1 (qm_Denom m),
     f_varint 2 (ucast (qm_NumStamps m))]"

interpretation q_QueryMedians: message write_QueryMedians size_QueryMedians field_QueryMedians zero_QueryMedians
  fields_QueryMedians "\<lambda>m. True"
proof unfold_locales
  fix m :: "QueryMedians"
  show "writes (write_QueryMedians m) (enc_fields (fields_QueryMedians m))"
    unfolding write_QueryMedians_def fields_QueryMedians_def
    by (rule writes_seq) (simp add: codec)
  show "size_QueryMedians m = length (enc_fields (fields_QueryMedians m))"
    by (simp add: size_QueryMedians_def fields_QueryMedians_def codec)
  show "apply_fields field_QueryMedians (fields_QueryMedians m) zero_QueryMedians = Ok m"
    by (cases m) (simp add: fields_QueryMedians_def field_QueryMedians_def zero_QueryMedians_def codec)
  fix f
  assume "f \<in> set (fields_QueryMedians m)"
  then show "0 < field_num f \<and> field_num f < 2 ^ 28"
    by (auto simp: fields_QueryMedians_def codec)
qed

section \<open>QueryMediansResponse\<close>

definition write_QueryMediansResponse :: "sdk_codec \<Rightarrow> QueryMediansResponse \<Rightarrow> writer" where
  "write_QueryMediansResponse K m = seq_w
    [w_each (\<lambda>e. w_nested [0xa] (to_sized (write_PriceStamp K e))) (qmr_Medians m)]"

definition size_QueryMediansResponse :: "sdk_codec \<Rightarrow> QueryMediansResponse \<Rightarrow> nat" where
  "size_QueryMediansResponse K m =
     (\<Sum>e \<leftarrow> qmr_Medians m. len_size 1 (size_PriceStamp K e))"

definition field_QueryMediansResponse :: "sdk_codec \<Rightarrow> QueryMediansResponse ptable" where
  "field_QueryMediansResponse K fieldNum =
     (if fieldNum = 1 then Some (PBytes (\<lambda>bs m. bind_res (unmarshal (field_PriceStamp K) bs zero_PriceStamp)
        (\<lambda>x. Ok (m\<lparr>qmr_Medians := qmr_Medians m @ [x]\<rparr>))))
      else None)"

definition zero_QueryMediansResponse :: "QueryMediansResponse" where
  "zero_QueryMediansResponse = \<lparr>qmr_Medians = []\<rparr>"

definition fields_QueryMediansResponse :: "sdk_codec \<Rightarrow> QueryMediansResponse \<Rightarrow> fval list" where
  "fields_QueryMediansResponse K m = concat
    [map (\<lambda>e. FBytes 1 (enc_fields (fields_PriceStamp K e))) (qmr_Medians m)]"

definition ok_QueryMediansResponse :: "sdk_codec \<Rightarrow> QueryMediansResponse \<Rightarrow> bool" where
  "ok_QueryMediansResponse K m \<longleftrightarrow> (\<forall>e \<in> set (qmr_Medians m). ok_PriceStamp e \<and> int (size_PriceStamp K e) \<le> max_int64)"

sublocale sdk_encoding \<subseteq> q_QueryMediansResponse: message "write_QueryMediansResponse K" "size_QueryMediansResponse K" "field_QueryMediansResponse K" zero_QueryMediansResponse
  "fields_QueryMediansResponse K" "ok_QueryMediansResponse K"
proof unfold_locales
  fix m :: "QueryMediansResponse"
  assume ok: "ok_QueryMediansResponse K m"
  show "writes (write_QueryMediansResponse K m) (enc_fields (fields_QueryMediansResponse K m))"
    unfolding write_QueryMediansResponse_def fields_QueryMediansResponse_def
    by (rule writes_seq) (use ok in \<open>simp add: codec ok_QueryMediansResponse_def price_stamp.marshals_fields price_stamp.size_fields [symmetric] price_stamp.unmarshal_enc\<close>)
  show "size_QueryMediansResponse K m = length (enc_fields (fields_QueryMediansResponse K m))"
    using ok by (simp add: size_QueryMediansResponse_def fields_QueryMediansResponse_def codec ok_QueryMediansResponse_def price_stamp.marshals_fields price_stamp.size_fields [symmetric] price_stamp.unmarshal_enc cong: map_cong)
  show "apply_fields (field_QueryMediansResponse K) (fields_QueryMediansResponse K m) zero_QueryMediansResponse = Ok m"
    using ok by (cases m) (simp add: fields_QueryMediansResponse_def field_QueryMediansResponse_def zero_QueryMediansResponse_def codec ok_QueryMediansResponse_def price_stamp.marshals_fields price_stamp.size_fields [symmetric] price_stamp.unmarshal_enc
        apply_each [where U = qmr_Medians_update])
next
  fix m :: "QueryMediansResponse" and f
  assume "f \<in> set (fields_QueryMediansResponse K m)"
  then show "0 < field_num f \<and> field_num f < 2 ^ 28"
    by (auto simp: fields_QueryMediansResponse_def codec)
qed

section \<open>QueryMedianDeviations\<close>

definition write_QueryMedianDeviations :: "QueryMedianDeviations \<Rightarrow> writer" where
  "write_QueryMedianDeviations m = seq_w
    [w_opt_string [0xa] (qmd_Denom m)]"

definition size_QueryMedianDeviations :: "QueryMedianDeviations \<Rightarrow> nat" where
  "size_QueryMedianDeviations m =
     opt_len_size 1 (length (qmd_Denom m))"

definition field_QueryMedianDeviations :: "QueryMedianDeviations ptable" where
  "field_QueryMedianDeviations fieldNum =
     (if fieldNum = 1 then Some (PBytes (\<lambda>bs m. Ok (m\<lparr>qmd_Denom := bs\<rparr>)))
      else None)"

definition zero_QueryMedianDeviations :: "QueryMedianDeviations" where
  "zero_QueryMedianDeviations = \<lparr>qmd_Denom = []\<rparr>"

definition fields_QueryMedianDeviations :: "QueryMedianDeviations \<Rightarrow> fval list" where
  "fields_QueryMedianDeviations m = concat
    [f_bytes 1 (qmd_Denom m)]"

interpretation q_QueryMedianDeviations: message write_QueryMedianDeviations size_QueryMedianDeviations field_QueryMedianDeviations zero_QueryMedianDeviations
  fields_QueryMedianDeviations "\<lambda>m. True"
proof unfold_locales
  fix m :: "QueryMedianDeviations"
  show "writes (write_QueryMedianDeviations m) (enc_fields (fields_QueryMedianDeviations m))"
    unfolding write_QueryMedianDeviations_def fields_QueryMedianDeviations_def
    by (rule writes_seq) (simp add: codec)
  show "size_QueryMedianDeviations m = length (enc_fields (fields_QueryMedianDeviations m))"
    by (simp add: size_QueryMedianDeviations_def fields_QueryMedianDeviations_def codec)
  show "apply_fields field_QueryMedianDeviations (fields_QueryMedianDeviations m) zero_QueryMedianDeviations = Ok m"
    by (cases m) (simp add: fields_QueryMedianDeviations_def field_QueryMedianDeviations_def zero_QueryMedianDeviations_def codec)
  fix f
  assume "f \<in> set (fields_QueryMedianDeviations m)"
  then show "0 < field_num f \<and> field_num f < 2 ^ 28"
    by (auto simp: fields_QueryMedianDeviations_def codec)
qed

section \<open>QueryMedianDeviationsResponse\<close>

definition write_QueryMedianDeviationsResponse :: "sdk_codec \<Rightarrow> QueryMedianDeviationsResponse \<Rightarrow> writer" where
  "write_QueryMedianDeviationsResponse K m = seq_w
    [w_each (\<lambda>e. w_nested [0xa] (to_sized (write_PriceStamp K e))) (qmd_MedianDeviations m)]"

definition size_QueryMedianDeviationsResponse :: "sdk_codec \<Rightarrow> QueryMedianDeviationsResponse \<Rightarrow> nat" where
  "size_QueryMedianDeviationsResponse K m =
     (\<Sum>e \<leftarrow> qmd_MedianDeviations m. len_size 1 (size_PriceStamp K e))"

definition field_QueryMedianDeviationsResponse :: "sdk_codec \<Rightarrow> QueryMedianDeviationsResponse ptable" where
  "field_QueryMedianDeviationsResponse K fieldNum =
     (if fieldNum = 1 then Some (PBytes (\<lambda>bs m. bind_res (unmarshal (field_PriceStamp K) bs zero_PriceStamp)
        (\<lambda>x. Ok (m\<lparr>qmd_MedianDeviations := qmd_MedianDeviations m @ [x]\<rparr>))))
      else None)"

definition zero_QueryMedianDeviationsResponse :: "QueryMedianDeviationsResponse" where
  "zero_QueryMedianDeviationsResponse = \<lparr>qmd_MedianDeviations = []\<rparr>"

definition fields_QueryMedianDeviationsResponse :: "sdk_codec \<Rightarrow> QueryMedianDeviationsResponse \<Rightarrow> fval list" where
  "fields_QueryMedianDeviationsResponse K m = concat
    [map (\<lambda>e. FBytes 1 (enc_fields (fields_PriceStamp K e))) (qmd_MedianDeviations m)]"

definition ok_QueryMedianDeviationsResponse :: "sdk_codec \<Rightarrow> QueryMedianDeviationsResponse \<Rightarrow> bool" where
  "ok_QueryMedianDeviationsResponse K m \<longleftrightarrow> (\<forall>e \<in> set (qmd_MedianDeviations m). ok_PriceStamp e \<and> int (size_PriceStamp K e) \<le> max_int64)"

sublocale sdk_encoding \<subseteq> q_QueryMedianDeviationsResponse: message "write_QueryMedianDeviationsResponse K" "size_QueryMedianDeviationsResponse K" "field_QueryMedianDeviationsResponse K" zero_QueryMedianDeviationsResponse
  "fields_QueryMedianDeviationsResponse K" "ok_QueryMedianDeviationsResponse K"
proof unfold_locales
  fix m :: "QueryMedianDeviationsResponse"
  assume ok: "ok_QueryMedianDeviationsResponse K m"
  show "writes (write_QueryMedianDeviationsResponse K m) (enc_fields (fields_QueryMedianDeviationsResponse K m))"
    unfolding write_QueryMedianDeviationsResponse_def fields_QueryMedianDeviationsResponse_def
    by (rule writes_seq) (use ok in \<open>simp add: codec ok_QueryMedianDeviationsResponse_def price_stamp.marshals_fields price_stamp.size_fields [symmetric] price_stamp.unmarshal_enc\<close>)
  show "size_QueryMedianDeviationsResponse K m = length (enc_fields (fields_QueryMedianDeviationsResponse K m))"
    using ok by (simp add: size_QueryMedianDeviationsResponse_def fields_QueryMedianDeviationsResponse_def codec ok_QueryMedianDeviationsResponse_def price_stamp.marshals_fields price_stamp.size_fields [symmetric] price_stamp.unmarshal_enc cong: map_cong)
  show "apply_fields (field_QueryMedianDeviationsResponse K) (fields_QueryMedianDeviationsResponse K m) zero_QueryMedianDeviationsResponse = Ok m"
    using ok by (cases m) (simp add: fields_QueryMedianDeviationsResponse_def field_QueryMedianDeviationsResponse_def zero_QueryMedianDeviationsResponse_def codec ok_QueryMedianDeviationsResponse_def price_stamp.marshals_fields price_stamp.size_fields [symmetric] price_stamp.unmarshal_enc
        apply_each [where U = qmd_MedianDeviations_update])
next
  fix m :: "QueryMedianDeviationsResponse" and f
  assume "f \<in> set (fields_QueryMedianDeviationsResponse K m)"
  then show "0 < field_num f \<and> field_num f < 2 ^ 28"
    by (auto simp: fields_QueryMedianDeviationsResponse_def codec)
qed

section \<open>QueryValidatorRewardSetResponse\<close>

definition write_QueryValidatorRewardSetResponse :: "QueryValidatorRewardSetResponse \<Rightarrow> writer" where
  "write_QueryValidatorRewardSetResponse m = seq_w
    [w_nested [0xa] (to_sized (write_ValidatorRewardSet (qvr_Validators m)))]"

definition size_QueryValidatorRewardSetResponse :: "QueryValidatorRewardSetResponse \<Rightarrow> nat" where
  "size_QueryValidatorRewardSetResponse m =
     len_size 1 (size_ValidatorRewardSet (qvr_Validators m))"

definition field_QueryValidatorRewardSetResponse :: "QueryValidatorRewardSetResponse ptable" where
  "field_QueryValidatorRewardSetResponse fieldNum =
     (if fieldNum = 1 then Some (PBytes (\<lambda>bs m. bind_res (unmarshal field_ValidatorRewardSet bs (qvr_Validators m)) (\<lambda>x. Ok (m\<lparr>qvr_Validators := x\<rparr>))))
      else None)"

definition zero_QueryValidatorRewardSetResponse :: "QueryValidatorRewardSetResponse" where
  "zero_QueryValidatorRewardSetResponse = \<lparr>qvr_Validators = zero_ValidatorRewardSet\<rparr>"

definition fields_QueryValidatorRewardSetResponse :: "QueryValidatorRewardSetResponse \<Rightarrow> fval list" where
  "fields_QueryValidatorRewardSetResponse m = concat
    [[FBytes 1 (enc_fields (fields_ValidatorRewardSet (qvr_Validators m)))]]"

definition ok_QueryValidatorRewardSetResponse :: "QueryValidatorRewardSetResponse \<Rightarrow> bool" where
  "ok_QueryValidatorRewardSetResponse m \<longleftrightarrow> int (size_ValidatorRewardSet (qvr_Validators m)) \<le> max_int64"

interpretation q_QueryValidatorRewardSetResponse: message write_QueryValidatorRewardSetResponse size_QueryValidatorRewardSetResponse field_QueryValidatorRewardSetResponse zero_QueryValidatorRewardSetResponse
  fields_QueryValidatorRewardSetResponse ok_QueryValidatorRewardSetResponse
proof unfold_locales
  fix m :: "QueryValidatorRewardSetResponse"
  assume ok: "ok_QueryValidatorRewardSetResponse m"
  show "writes (write_QueryValidatorRewardSetResponse m) (enc_fields (fields_QueryValidatorRewardSetResponse m))"
    unfolding write_QueryValidatorRewardSetResponse_def fields_QueryValidatorRewardSetResponse_def
    by (rule writes_seq) (use ok in \<open>simp add: codec ok_QueryValidatorRewardSetResponse_def rewardset.marshals_fields rewardset.size_fields [symmetric] rewardset.unmarshal_enc\<close>)
  show "size_QueryValidatorRewardSetResponse m = length (enc_fields (fields_QueryValidatorRewardSetResponse m))"
    using ok by (simp add: size_QueryValidatorRewardSetResponse_def fields_QueryValidatorRewardSetResponse_def codec ok_QueryValidatorRewardSetResponse_def rewardset.marshals_fields rewardset.size_fields [symmetric] rewardset.unmarshal_enc)
  show "apply_fields field_QueryValidatorRewardSetResponse (fields_QueryValidatorRewardSetResponse m) zero_QueryValidatorRewardSetResponse = Ok m"
    using ok by (cases m) (simp add: fields_QueryValidatorRewardSetResponse_def field_QueryValidatorRewardSetResponse_def zero_QueryValidatorRewardSetResponse_def codec ok_QueryValidatorRewardSetResponse_def rewardset.marshals_fields rewardset.size_fields [symmetric] rewardset.unmarshal_enc)
next
  fix m :: "QueryValidatorRewardSetResponse" and f
  assume "f \<in> set (fields_QueryValidatorRewardSetResponse m)"
  then show "0 < field_num f \<and> field_num f < 2 ^ 28"
    by (auto simp: fields_QueryValidatorRewardSetResponse_def codec)
qed

section \<open>QueryEMARequest\<close>

definition write_QueryEMARequest :: "QueryEMARequest \<Rightarrow> writer" where
  "write_QueryEMARequest m = seq_w
    [w_opt_string [0xa] (qem_Denom m)]"

definition size_QueryEMARequest :: "QueryEMARequest \<Rightarrow> nat" where
  "size_QueryEMARequest m =
     opt_len_size 1 (length (qem_Denom m))"

definition field_QueryEMARequest :: "QueryEMARequest ptable" where
  "field_QueryEMARequest fieldNum =
     (if fieldNum = 1 then Some (PBytes (\<lambda>bs m. Ok (m\<lparr>qem_Denom := bs\<rparr>)))
      else None)"

definition zero_QueryEMARequest :: "QueryEMARequest" where
  "zero_QueryEMARequest = \<lparr>qem_Denom = []\<rparr>"

definition fields_QueryEMARequest :: "QueryEMARequest \<Rightarrow> fval list" where
  "fields_QueryEMARequest m = concat
    [f_bytes 1 (qem_Denom m)]"

interpretation q_QueryEMARequest: message write_QueryEMARequest size_QueryEMARequest field_QueryEMARequest zero_QueryEMARequest
  fields_QueryEMARequest "\<lambda>m. True"
proof unfold_locales
  fix m :: "QueryEMARequest"
  show "writes (write_QueryEMARequest m) (enc_fields (fields_QueryEMARequest m))"
    unfolding write_QueryEMARequest_def fields_QueryEMARequest_def
    by (rule writes_seq) (simp add: codec)
  show "size_QueryEMARequest m = length (enc_fields (fields_QueryEMARequest m))"
    by (simp add: size_QueryEMARequest_def fields_QueryEMARequest_def codec)
  show "apply_fields field_QueryEMARequest (fields_QueryEMARequest m) zero_QueryEMARequest = Ok m"
    by (cases m) (simp add: fields_QueryEMARequest_def field_QueryEMARequest_def zero_QueryEMARequest_def codec)
  fix f
  assume "f \<in> set (fields_QueryEMARequest m)"
  then show "0 < field_num f \<and> field_num f < 2 ^ 28"
    by (auto simp: fields_QueryEMARequest_def codec)
qed

section \<open>QueryEMAResponse\<close>

definition write_QueryEMAResponse :: "sdk_codec \<Rightarrow> QueryEMAResponse \<Rightarrow> writer" where
  "write_QueryEMAResponse K m = seq_w
    [w_dec K [0xa] (qem_Price m)]"

definition size_QueryEMAResponse :: "sdk_codec \<Rightarrow> QueryEMAResponse \<Rightarrow> nat" where
  "size_QueryEMAResponse K m =
     len_size 1 (dec_Size K (qem_Price m))"

definition field_QueryEMAResponse :: "sdk_codec \<Rightarrow> QueryEMAResponse ptable" where
  "field_QueryEMAResponse K fieldNum =
     (if fieldNum = 1 then Some (PBytes (\<lambda>bs m. bind_res (dec_Unmarshal K bs (qem_Price m)) (\<lambda>x. Ok (m\<lparr>qem_Price := x\<rparr>))))
      else None)"

definition zero_QueryEMAResponse :: "sdk_codec \<Rightarrow> QueryEMAResponse" where
  "zero_QueryEMAResponse K = \<lparr>qem_Price = nil_dec K\<rparr>"

definition fields_QueryEMAResponse :: "sdk_codec \<Rightarrow> QueryEMAResponse \<Rightarrow> fval list" where
  "fields_QueryEMAResponse K m = concat
    [[FBytes 1 (dec_bytes K (qem_Price m))]]"

definition ok_QueryEMAResponse :: "QueryEMAResponse \<Rightarrow> bool" where
  "ok_QueryEMAResponse m \<longleftrightarrow> dec_in_range (qem_Price m)"

sublocale sdk_encoding \<subseteq> q_QueryEMAResponse: message "write_QueryEMAResponse K" "size_QueryEMAResponse K" "field_QueryEMAResponse K" "zero_QueryEMAResponse K"
  "fields_QueryEMAResponse K" ok_QueryEMAResponse
proof unfold_locales
  fix m :: "QueryEMAResponse"
  assume ok: "ok_QueryEMAResponse m"
  show "writes (write_QueryEMAResponse K m) (enc_fields (fields_QueryEMAResponse K m))"
    unfolding write_QueryEMAResponse_def fields_QueryEMAResponse_def
    by (rule writes_seq) (use ok in \<open>simp add: codec ok_QueryEMAResponse_def\<close>)
  show "size_QueryEMAResponse K m = length (enc_fields (fields_QueryEMAResponse K m))"
    using ok by (simp add: size_QueryEMAResponse_def fields_QueryEMAResponse_def codec ok_QueryEMAResponse_def)
  show "apply_fields (field_QueryEMAResponse K) (fields_QueryEMAResponse K m) (zero_QueryEMAResponse K) = Ok m"
    using ok by (cases m) (simp add: fields_QueryEMAResponse_def field_QueryEMAResponse_def zero_QueryEMAResponse_def codec ok_QueryEMAResponse_def)
next
  fix m :: "QueryEMAResponse" and f
  assume "f \<in> set (fields_QueryEMAResponse K m)"
  then show "0 < field_num f \<and> field_num f < 2 ^ 28"
    by (auto simp: fields_QueryEMAResponse_def codec)
qed

section \<open>QueryWMAResponse\<close>

definition write_QueryWMAResponse :: "sdk_codec \<Rightarrow> QueryWMAResponse \<Rightarrow> writer" where
  "write_QueryWMAResponse K m = seq_w
    [w_dec K [0xa] (qwr_Price m)]"

definition size_QueryWMAResponse :: "sdk_codec \<Rightarrow> QueryWMAResponse \<Rightarrow> nat" where
  "size_QueryWMAResponse K m =
     len_size 1 (dec_Size K (qwr_Price m))"

definition field_QueryWMAResponse :: "sdk_codec \<Rightarrow> QueryWMAResponse ptable" where
  "field_QueryWMAResponse K fieldNum =
     (if fieldNum = 1 then Some (PBytes (\<lambda>bs m. bind_res (dec_Unmarshal K bs (qwr_Price m)) (\<lambda>x. Ok (m\<lparr>qwr_Price := x\<rparr>))))
      else None)"

definition zero_QueryWMAResponse :: "sdk_codec \<Rightarrow> QueryWMAResponse" where
  "zero_QueryWMAResponse K = \<lparr>qwr_Price = nil_dec K\<rparr>"

definition fields_QueryWMAResponse :: "sdk_codec \<Rightarrow> QueryWMAResponse \<Rightarrow> fval list" where
  "fields_QueryWMAResponse K m = concat
    [[FBytes 1 (dec_bytes K (qwr_Price m))]]"

definition ok_QueryWMAResponse :: "QueryWMAResponse \<Rightarrow> bool" where
  "ok_QueryWMAResponse m \<longleftrightarrow> dec_in_range (qwr_Price m)"

sublocale sdk_encoding \<subseteq> q_QueryWMAResponse: message "write_QueryWMAResponse K" "size_QueryWMAResponse K" "field_QueryWMAResponse K" "zero_QueryWMAResponse K"
  "fields_QueryWMAResponse K" ok_QueryWMAResponse
proof unfold_locales
  fix m :: "QueryWMAResponse"
  assume ok: "ok_QueryWMAResponse m"
  show "writes (write_QueryWMAResponse K m) (enc_fields (fields_QueryWMAResponse K m))"
    unfolding write_QueryWMAResponse_def fields_QueryWMAResponse_def
    by (rule writes_seq) (use ok in \<open>simp add: codec ok_QueryWMAResponse_def\<close>)
  show "size_QueryWMAResponse K m = length (enc_fields (fields_QueryWMAResponse K m))"
    using ok by (simp add: size_QueryWMAResponse_def fields_QueryWMAResponse_def codec ok_QueryWMAResponse_def)
  show "apply_fields (field_QueryWMAResponse K) (fields_QueryWMAResponse K m) (zero_QueryWMAResponse K) = Ok m"
    using ok by (cases m) (simp add: fields_QueryWMAResponse_def field_QueryWMAResponse_def zero_QueryWMAResponse_def codec ok_QueryWMAResponse_def)
next
  fix m :: "QueryWMAResponse" and f
  assume "f \<in> set (fields_QueryWMAResponse K m)"
  then show "0 < field_num f \<and> field_num f < 2 ^ 28"
    by (auto simp: fields_QueryWMAResponse_def codec)
qed

section \<open>QuerySMARequest\<close>

definition write_QuerySMARequest :: "QuerySMARequest \<Rightarrow> writer" where
  "write_QuerySMARequest m = seq_w
    [w_opt_string [0xa] (qsm_Denom m)]"

definition size_QuerySMARequest :: "QuerySMARequest \<Rightarrow> nat" where
  "size_QuerySMARequest m =
     opt_len_size 1 (length (qsm_Denom m))"

definition field_QuerySMARequest :: "QuerySMARequest ptable" where
  "field_QuerySMARequest fieldNum =
     (if fieldNum = 1 then Some (PBytes (\<lambda>bs m. Ok (m\<lparr>qsm_Denom := bs\<rparr>)))
      else None)"

definition zero_QuerySMARequest :: "QuerySMARequest" where
  "zero_QuerySMARequest = \<lparr>qsm_Denom = []\<rparr>"

definition fields_QuerySMARequest :: "QuerySMARequest \<Rightarrow> fval list" where
  "fields_QuerySMARequest m = concat
    [f_bytes 1 (qsm_Denom m)]"

interpretation q_QuerySMARequest: message write_QuerySMARequest size_QuerySMARequest field_QuerySMARequest zero_QuerySMARequest
  fields_QuerySMARequest "\<lambda>m. True"
proof unfold_locales
  fix m :: "QuerySMARequest"
  show "writes (write_QuerySMARequest m) (enc_fields (fields_QuerySMARequest m))"
    unfolding write_QuerySMARequest_def fields_QuerySMARequest_def
    by (rule writes_seq) (simp add: codec)
  show "size_QuerySMARequest m = length (enc_fields (fields_QuerySMARequest m))"
    by (simp add: size_QuerySMARequest_def fields_QuerySMARequest_def codec)
  show "apply_fields field_QuerySMARequest (fields_QuerySMARequest m) zero_QuerySMARequest = Ok m"
    by (cases m) (simp add: fields_QuerySMARequest_def field_QuerySMARequest_def zero_QuerySMARequest_def codec)
  fix f
  assume "f \<in> set (fields_QuerySMARequest m)"
  then show "0 < field_num f \<and> field_num f < 2 ^ 28"
    by (auto simp: fields_QuerySMARequest_def codec)
qed

section \<open>QuerySMAResponse\<close>

definition write_QuerySMAResponse :: "sdk_codec \<Rightarrow> QuerySMAResponse \<Rightarrow> writer" where
  "write_QuerySMAResponse K m = seq_w
    [w_dec K [0xa] (qsm_Price m)]"

definition size_QuerySMAResponse :: "sdk_codec \<Rightarrow> QuerySMAResponse \<Rightarrow> nat" where
  "size_QuerySMAResponse K m =
     len_size 1 (dec_Size K (qsm_Price m))"

definition field_QuerySMAResponse :: "sdk_codec \<Rightarrow> QuerySMAResponse ptable" where
  "field_QuerySMAResponse K fieldNum =
     (if fieldNum = 1 then Some (PBytes (\<lambda>bs m. bind_res (dec_Unmarshal K bs (qsm_Price m)) (\<lambda>x. Ok (m\<lparr>qsm_Price := x\<rparr>))))
      else None)"

definition zero_QuerySMAResponse :: "sdk_codec \<Rightarrow> QuerySMAResponse" where
  "zero_QuerySMAResponse K = \<lparr>qsm_Price = nil_dec K\<rparr>"

definition fields_QuerySMAResponse :: "sdk_codec \<Rightarrow> QuerySMAResponse \<Rightarrow> fval list" where
  "fields_QuerySMAResponse K m = concat
    [[FBytes 1 (dec_bytes K (qsm_Price m))]]"

definition ok_QuerySMAResponse :: "QuerySMAResponse \<Rightarrow> bool" where
  "ok_QuerySMAResponse m \<longleftrightarrow> dec_in_range (qsm_Price m)"

sublocale sdk_encoding \<subseteq> q_QuerySMAResponse: message "write_QuerySMAResponse K" "size_QuerySMAResponse K" "field_QuerySMAResponse K" "zero_QuerySMAResponse K"
  "fields_QuerySMAResponse K" ok_QuerySMAResponse
proof unfold_locales
  fix m :: "QuerySMAResponse"
  assume ok: "ok_QuerySMAResponse m"
  show "writes (write_QuerySMAResponse K m) (enc_fields (fields_QuerySMAResponse K m))"
    unfolding write_QuerySMAResponse_def fields_QuerySMAResponse_def
    by (rule writes_seq) (use ok in \<open>simp add: codec ok_QuerySMAResponse_def\<close>)
  show "size_QuerySMAResponse K m = length (enc_fields (fields_QuerySMAResponse K m))"
    using ok by (simp add: size_QuerySMAResponse_def fields_QuerySMAResponse_def codec ok_QuerySMAResponse_def)
  show "apply_fields (field_QuerySMAResponse K) (fields_QuerySMAResponse K m) (zero_QuerySMAResponse K) = Ok m"
    using ok by (cases m) (simp add: fields_QuerySMAResponse_def field_QuerySMAResponse_def zero_QuerySMAResponse_def codec ok_QuerySMAResponse_def)
next
  fix m :: "QuerySMAResponse" and f
  assume "f \<in> set (fields_QuerySMAResponse K m)"
  then show "0 < field_num f \<and> field_num f < 2 ^ 28"
    by (auto simp: fields_QuerySMAResponse_def codec)
qed

section \<open>Round trips under the laws\<close>

context sdk_encoding
begin

lemmas rates_response_round_trip = q_QueryExchangeRatesResponse.round_trip
lemmas medians_response_round_trip = q_QueryMediansResponse.round_trip

end

section \<open>Properties\<close>

text \<open>
  What a query reports reaches the client: on every reachable state, the answer of the
  query for all exchange rates is encoded without a panic, and what the client decodes has
  for every denom exactly the stored rate.
\<close>

theorem exchange_rates_reach_the_client:
  assumes "codec_laws K" and "addr_laws E" and "dec_laws (D E)" and "coin_laws (coinOps E)" and "chain E F h s"
    and "Query_ExchangeRates E s (Some []) = Ok rates" and "\<forall>c \<in> set rates. dec_in_range (dc_Amount c)"
    and "int (size_QueryExchangeRatesResponse K \<lparr>qer_ExchangeRates = rates\<rparr>) \<le> max_int64"
  shows "\<exists>bs r. Marshal_with (write_QueryExchangeRatesResponse K \<lparr>qer_ExchangeRates = rates\<rparr>)
        (size_QueryExchangeRatesResponse K \<lparr>qer_ExchangeRates = rates\<rparr>) = Ok bs \<and>
     unmarshal (field_QueryExchangeRatesResponse K) bs zero_QueryExchangeRatesResponse = Ok r \<and>
     (\<forall>d. amt (qer_ExchangeRates r) d = (case coll_get (ExchangeRates s) d of None \<Rightarrow> 0 | Some rate \<Rightarrow> rate))"
proof -
  have "ok_QueryExchangeRatesResponse \<lparr>qer_ExchangeRates = rates\<rparr>"
    using assms(7) by (simp add: ok_QueryExchangeRatesResponse_def)
  from sdk_encoding.rates_response_round_trip [OF sdk_encoding.intro [OF assms(1)] this assms(8)]
  show ?thesis
    using query_all_rates [OF assms(4) _ assms(6)] chain_keeper_ok [OF assms(2,3,5)] by (force simp: keeper_ok_def)
qed

end
