(* ===== verification/Oracle_Tx_Codec.thy ===== *)
theory Oracle_Tx_Codec
  imports Oracle_Codec Oracle_Msgs
begin

text \<open>
  The encodings of the nine messages of the oracle module (\<open>src/x/oracle/types/tx.pb.go\<close>),
  with the names of \<open>Oracle_Codec\<close>. The responses of the handlers have no fields.
\<close>

section \<open>MsgPrevote\<close>

definition write_MsgPrevote :: "MsgAggregateExchangeRatePrevote \<Rightarrow> writer" where
  "write_MsgPrevote m = seq_w
    [w_opt_string [0x1a] (mp_Validator m),
     w_opt_string [0x12] (mp_Feeder m),
     w_opt_string [0xa] (mp_Hash m)]"

definition size_MsgPrevote :: "MsgAggregateExchangeRatePrevote \<Rightarrow> nat" where
  "size_MsgPrevote m =
     opt_len_size 1 (length (mp_Hash m)) +
     opt_len_size 1 (length (mp_Feeder m)) +
     opt_len_size 1 (length (mp_Validator m))"

definition field_MsgPrevote :: "MsgAggregateExchangeRatePrevote ptable" where
  "field_MsgPrevote fieldNum =
     (if fieldNum = 1 then Some (PBytes (\<lambda>bs m. Ok (m\<lparr>mp_Hash := bs\<rparr>)))
      else if fieldNum = 2 then Some (PBytes (\<lambda>bs m. Ok (m\<lparr>mp_Feeder := bs\<rparr>)))
      else if fieldNum = 3 then Some (PBytes (\<lambda>bs m. Ok (m\<lparr>mp_Validator := bs\<rparr>)))
      else None)"

definition zero_MsgPrevote :: "MsgAggregateExchangeRatePrevote" where
  "zero_MsgPrevote = \<lparr>mp_Hash = [], mp_Feeder = [], mp_Validator = []\<rparr>"

definition fields_MsgPrevote :: "MsgAggregateExchangeRatePrevote \<Rightarrow> fval list" where
  "fields_MsgPrevote m = concat
    [f_bytes 1 (mp_Hash m),
     f_bytes 2 (mp_Feeder m),
     f_bytes 3 (mp_Validator m)]"

interpretation msgprevote: message write_MsgPrevote size_MsgPrevote field_MsgPrevote zero_MsgPrevote
  fields_MsgPrevote "\<lambda>m. True"
proof unfold_locales
  fix m :: "MsgAggregateExchangeRatePrevote"
  show "writes (write_MsgPrevote m) (enc_fields (fields_MsgPrevote m))"
    unfolding write_MsgPrevote_def fields_MsgPrevote_def
    by (rule writes_seq) (simp add: codec)
  show "size_MsgPrevote m = length (enc_fields (fields_MsgPrevote m))"
    by (simp add: size_MsgPrevote_def fields_MsgPrevote_def codec)
  show "apply_fields field_MsgPrevote (fields_MsgPrevote m) zero_MsgPrevote = Ok m"
    by (cases m) (simp add: fields_MsgPrevote_def field_MsgPrevote_def zero_MsgPrevote_def codec)
  fix f
  assume "f \<in> set (fields_MsgPrevote m)"
  then show "0 < field_num f \<and> field_num f < 2 ^ 28"
    by (auto simp: fields_MsgPrevote_def codec)
qed

section \<open>MsgVote\<close>

definition write_MsgVote :: "MsgAggregateExchangeRateVote \<Rightarrow> writer" where
  "write_MsgVote m = seq_w
    [w_opt_string [0x22] (mv_Validator m),
     w_opt_string [0x1a] (mv_Feeder m),
     w_opt_string [0x12] (mv_ExchangeRates m),
     w_opt_string [0xa] (mv_Salt m)]"

definition size_MsgVote :: "MsgAggregateExchangeRateVote \<Rightarrow> nat" where
  "size_MsgVote m =
     opt_len_size 1 (length (mv_Salt m)) +
     opt_len_size 1 (length (mv_ExchangeRates m)) +
     opt_len_size 1 (length (mv_Feeder m)) +
     opt_len_size 1 (length (mv_Validator m))"

definition field_MsgVote :: "MsgAggregateExchangeRateVote ptable" where
  "field_MsgVote fieldNum =
     (if fieldNum = 1 then Some (PBytes (\<lambda>bs m. Ok (m\<lparr>mv_Salt := bs\<rparr>)))
      else if fieldNum = 2 then Some (PBytes (\<lambda>bs m. Ok (m\<lparr>mv_ExchangeRates := bs\<rparr>)))
      else if fieldNum = 3 then Some (PBytes (\<lambda>bs m. Ok (m\<lparr>mv_Feeder := bs\<rparr>)))
      else if fieldNum = 4 then Some (PBytes (\<lambda>bs m. Ok (m\<lparr>mv_Validator := bs\<rparr>)))
      else None)"

definition zero_MsgVote :: "MsgAggregateExchangeRateVote" where
  "zero_MsgVote = \<lparr>mv_Salt = [], mv_ExchangeRates = [], mv_Feeder = [], mv_Validator = []\<rparr>"

definition fields_MsgVote :: "MsgAggregateExchangeRateVote \<Rightarrow> fval list" where
  "fields_MsgVote m = concat
    [f_bytes 1 (mv_Salt m),
     f_bytes 2 (mv_ExchangeRates m),
     f_bytes 3 (mv_Feeder m),
     f_bytes 4 (mv_Validator m)]"

interpretation msgvote: message write_MsgVote size_MsgVote field_MsgVote zero_MsgVote
  fields_MsgVote "\<lambda>m. True"
proof unfold_locales
  fix m :: "MsgAggregateExchangeRateVote"
  show "writes (write_MsgVote m) (enc_fields (fields_MsgVote m))"
    unfolding write_MsgVote_def fields_MsgVote_def
    by (rule writes_seq) (simp add: codec)
  show "size_MsgVote m = length (enc_fields (fields_MsgVote m))"
    by (simp add: size_MsgVote_def fields_MsgVote_def codec)
  show "apply_fields field_MsgVote (fields_MsgVote m) zero_MsgVote = Ok m"
    by (cases m) (simp add: fields_MsgVote_def field_MsgVote_def zero_MsgVote_def codec)
  fix f
  assume "f \<in> set (fields_MsgVote m)"
  then show "0 < field_num f \<and> field_num f < 2 ^ 28"
    by (auto simp: fields_MsgVote_def codec)
qed

section \<open>MsgDelegateFeedConsent\<close>

definition write_MsgDelegateFeedConsent :: "MsgDelegateFeedConsent \<Rightarrow> writer" where
  "write_MsgDelegateFeedConsent m = seq_w
    [w_opt_string [0x12] (md_Delegate m),
     w_opt_string [0xa] (md_Operator m)]"

definition size_MsgDelegateFeedConsent :: "MsgDelegateFeedConsent \<Rightarrow> nat" where
  "size_MsgDelegateFeedConsent m =
     opt_len_size 1 (length (md_Operator m)) +
     opt_len_size 1 (length (md_Delegate m))"

definition field_MsgDelegateFeedConsent :: "MsgDelegateFeedConsent ptable" where
  "field_MsgDelegateFeedConsent fieldNum =
     (if fieldNum = 1 then Some (PBytes (\<lambda>bs m. Ok (m\<lparr>md_Operator := bs\<rparr>)))
      else if fieldNum = 2 then Some (PBytes (\<lambda>bs m. Ok (m\<lparr>md_Delegate := bs\<rparr>)))
      else None)"

definition zero_MsgDelegateFeedConsent :: "MsgDelegateFeedConsent" where
  "zero_MsgDelegateFeedConsent = \<lparr>md_Operator = [], md_Delegate = []\<rparr>"

definition fields_MsgDelegateFeedConsent :: "MsgDelegateFeedConsent \<Rightarrow> fval list" where
  "fields_MsgDelegateFeedConsent m = concat
    [f_bytes 1 (md_Operator m),
     f_bytes 2 (md_Delegate m)]"

interpretation msgdelegate: message write_MsgDelegateFeedConsent size_MsgDelegateFeedConsent field_MsgDelegateFeedConsent zero_MsgDelegateFeedConsent
  fields_MsgDelegateFeedConsent "\<lambda>m. True"
proof unfold_locales
  fix m :: "MsgDelegateFeedConsent"
  show "writes (write_MsgDelegateFeedConsent m) (enc_fields (fields_MsgDelegateFeedConsent m))"
    unfolding write_MsgDelegateFeedConsent_def fields_MsgDelegateFeedConsent_def
    by (rule writes_seq) (simp add: codec)
  show "size_MsgDelegateFeedConsent m = length (enc_fields (fields_MsgDelegateFeedConsent m))"
    by (simp add: size_MsgDelegateFeedConsent_def fields_MsgDelegateFeedConsent_def codec)
  show "apply_fields field_MsgDelegateFeedConsent (fields_MsgDelegateFeedConsent m) zero_MsgDelegateFeedConsent = Ok m"
    by (cases m) (simp add: fields_MsgDelegateFeedConsent_def field_MsgDelegateFeedConsent_def zero_MsgDelegateFeedConsent_def codec)
  fix f
  assume "f \<in> set (fields_MsgDelegateFeedConsent m)"
  then show "0 < field_num f \<and> field_num f < 2 ^ 28"
    by (auto simp: fields_MsgDelegateFeedConsent_def codec)
qed

section \<open>MsgLegacyGovUpdateParams\<close>

definition write_MsgLegacyGovUpdateParams :: "sdk_codec \<Rightarrow> MsgLegacyGovUpdateParams \<Rightarrow> writer" where
  "write_MsgLegacyGovUpdateParams K m = seq_w
    [w_nested [0x2a] (to_sized (write_Params K (ml_Changes m))),
     w_each (w_string [0x22]) (ml_Keys m),
     w_opt_string [0x1a] (ml_Description m),
     w_opt_string [0x12] (ml_Title m),
     w_opt_string [0xa] (ml_Authority m)]"

definition size_MsgLegacyGovUpdateParams :: "sdk_codec \<Rightarrow> MsgLegacyGovUpdateParams \<Rightarrow> nat" where
  "size_MsgLegacyGovUpdateParams K m =
     opt_len_size 1 (length (ml_Authority m)) +
     opt_len_size 1 (length (ml_Title m)) +
     opt_len_size 1 (length (ml_Description m)) +
     (\<Sum>s \<leftarrow> ml_Keys m. len_size 1 (length s)) +
     len_size 1 (size_Params K (ml_Changes m))"

definition field_MsgLegacyGovUpdateParams :: "sdk_codec \<Rightarrow> MsgLegacyGovUpdateParams ptable" where
  "field_MsgLegacyGovUpdateParams K fieldNum =
     (if fieldNum = 1 then Some (PBytes (\<lambda>bs m. Ok (m\<lparr>ml_Authority := bs\<rparr>)))
      else if fieldNum = 2 then Some (PBytes (\<lambda>bs m. Ok (m\<lparr>ml_Title := bs\<rparr>)))
      else if fieldNum = 3 then Some (PBytes (\<lambda>bs m. Ok (m\<lparr>ml_Description := bs\<rparr>)))
      else if fieldNum = 4 then Some (PBytes (\<lambda>bs m. Ok (m\<lparr>ml_Keys := ml_Keys m @ [bs]\<rparr>)))
      else if fieldNum = 5 then Some (PBytes (\<lambda>bs m. bind_res (unmarshal (field_Params K) bs (ml_Changes m)) (\<lambda>x. Ok (m\<lparr>ml_Changes := x\<rparr>))))
      else None)"

definition zero_MsgLegacyGovUpdateParams :: "sdk_codec \<Rightarrow> MsgLegacyGovUpdateParams" where
  "zero_MsgLegacyGovUpdateParams K = \<lparr>ml_Authority = [], ml_Title = [], ml_Description = [], ml_Keys = [], ml_Changes = (zero_Params K)\<rparr>"

definition fields_MsgLegacyGovUpdateParams :: "sdk_codec \<Rightarrow> MsgLegacyGovUpdateParams \<Rightarrow> fval list" where
  "fields_MsgLegacyGovUpdateParams K m = concat
    [f_bytes 1 (ml_Authority m),
     f_bytes 2 (ml_Title m),
     f_bytes 3 (ml_Description m),
     map (\<lambda>s. FBytes 4 s) (ml_Keys m),
     [FBytes 5 (enc_fields (fields_Params K (ml_Changes m)))]]"

definition ok_MsgLegacyGovUpdateParams :: "sdk_codec \<Rightarrow> MsgLegacyGovUpdateParams \<Rightarrow> bool" where
  "ok_MsgLegacyGovUpdateParams K m \<longleftrightarrow> ok_Params K (ml_Changes m) \<and> int (size_Params K (ml_Changes m)) \<le> max_int64"

sublocale sdk_encoding \<subseteq> msglegacy: message "write_MsgLegacyGovUpdateParams K" "size_MsgLegacyGovUpdateParams K" "field_MsgLegacyGovUpdateParams K" "zero_MsgLegacyGovUpdateParams K"
  "fields_MsgLegacyGovUpdateParams K" "ok_MsgLegacyGovUpdateParams K"
proof unfold_locales
  fix m :: "MsgLegacyGovUpdateParams"
  assume ok: "ok_MsgLegacyGovUpdateParams K m"
  show "writes (write_MsgLegacyGovUpdateParams K m) (enc_fields (fields_MsgLegacyGovUpdateParams K m))"
    unfolding write_MsgLegacyGovUpdateParams_def fields_MsgLegacyGovUpdateParams_def
    by (rule writes_seq) (use ok in \<open>simp add: codec ok_MsgLegacyGovUpdateParams_def params.marshals_fields params.size_fields [symmetric] params.unmarshal_enc\<close>)
  show "size_MsgLegacyGovUpdateParams K m = length (enc_fields (fields_MsgLegacyGovUpdateParams K m))"
    using ok by (simp add: size_MsgLegacyGovUpdateParams_def fields_MsgLegacyGovUpdateParams_def codec ok_MsgLegacyGovUpdateParams_def params.marshals_fields params.size_fields [symmetric] params.unmarshal_enc cong: map_cong)
  show "apply_fields (field_MsgLegacyGovUpdateParams K) (fields_MsgLegacyGovUpdateParams K m) (zero_MsgLegacyGovUpdateParams K) = Ok m"
    using ok by (cases m) (simp add: fields_MsgLegacyGovUpdateParams_def field_MsgLegacyGovUpdateParams_def zero_MsgLegacyGovUpdateParams_def codec ok_MsgLegacyGovUpdateParams_def params.marshals_fields params.size_fields [symmetric] params.unmarshal_enc
        apply_each [where U = ml_Keys_update])
next
  fix m :: "MsgLegacyGovUpdateParams" and f
  assume "f \<in> set (fields_MsgLegacyGovUpdateParams K m)"
  then show "0 < field_num f \<and> field_num f < 2 ^ 28"
    by (auto simp: fields_MsgLegacyGovUpdateParams_def codec)
qed

section \<open>MsgGovUpdateParams\<close>

definition write_MsgGovUpdateParams :: "sdk_codec \<Rightarrow> MsgGovUpdateParams \<Rightarrow> writer" where
  "write_MsgGovUpdateParams K m = seq_w
    [w_nested [0x22] (to_sized (write_ParamUpdatePlan K (mu_Plan m))),
     w_opt_string [0x1a] (mu_Description m),
     w_opt_string [0x12] (mu_Title m),
     w_opt_string [0xa] (mu_Authority m)]"

definition size_MsgGovUpdateParams :: "sdk_codec \<Rightarrow> MsgGovUpdateParams \<Rightarrow> nat" where
  "size_MsgGovUpdateParams K m =
     opt_len_size 1 (length (mu_Authority m)) +
     opt_len_size 1 (length (mu_Title m)) +
     opt_len_size 1 (length (mu_Description m)) +
     len_size 1 (size_ParamUpdatePlan K (mu_Plan m))"

definition field_MsgGovUpdateParams :: "sdk_codec \<Rightarrow> MsgGovUpdateParams ptable" where
  "field_MsgGovUpdateParams K fieldNum =
     (if fieldNum = 1 then Some (PBytes (\<lambda>bs m. Ok (m\<lparr>mu_Authority := bs\<rparr>)))
      else if fieldNum = 2 then Some (PBytes (\<lambda>bs m. Ok (m\<lparr>mu_Title := bs\<rparr>)))
      else if fieldNum = 3 then Some (PBytes (\<lambda>bs m. Ok (m\<lparr>mu_Description := bs\<rparr>)))
      else if fieldNum = 4 then Some (PBytes (\<lambda>bs m. bind_res (unmarshal (field_ParamUpdatePlan K) bs (mu_Plan m)) (\<lambda>x. Ok (m\<lparr>mu_Plan := x\<rparr>))))
      else None)"

definition zero_MsgGovUpdateParams :: "sdk_codec \<Rightarrow> MsgGovUpdateParams" where
  "zero_MsgGovUpdateParams K = \<lparr>mu_Authority = [], mu_Title = [], mu_Description = [], mu_Plan = (zero_ParamUpdatePlan K)\<rparr>"

definition fields_MsgGovUpdateParams :: "sdk_codec \<Rightarrow> MsgGovUpdateParams \<Rightarrow> fval list" where
  "fields_MsgGovUpdateParams K m = concat
    [f_bytes 1 (mu_Authority m),
     f_bytes 2 (mu_Title m),
     f_bytes 3 (mu_Description m),
     [FBytes 4 (enc_fields (fields_ParamUpdatePlan K (mu_Plan m)))]]"

definition ok_MsgGovUpdateParams :: "sdk_codec \<Rightarrow> MsgGovUpdateParams \<Rightarrow> bool" where
  "ok_MsgGovUpdateParams K m \<longleftrightarrow> ok_ParamUpdatePlan K (mu_Plan m) \<and> int (size_ParamUpdatePlan K (mu_Plan m)) \<le> max_int64"

sublocale sdk_encoding \<subseteq> msgupdate: message "write_MsgGovUpdateParams K" "size_MsgGovUpdateParams K" "field_MsgGovUpdateParams K" "zero_MsgGovUpdateParams K"
  "fields_MsgGovUpdateParams K" "ok_MsgGovUpdateParams K"
proof unfold_locales
  fix m :: "MsgGovUpdateParams"
  assume ok: "ok_MsgGovUpdateParams K m"
  show "writes (write_MsgGovUpdateParams K m) (enc_fields (fields_MsgGovUpdateParams K m))"
    unfolding write_MsgGovUpdateParams_def fields_MsgGovUpdateParams_def
    by (rule writes_seq) (use ok in \<open>simp add: codec ok_MsgGovUpdateParams_def plan.marshals_fields plan.size_fields [symmetric] plan.unmarshal_enc\<close>)
  show "size_MsgGovUpdateParams K m = length (enc_fields (fields_MsgGovUpdateParams K m))"
    using ok by (simp add: size_MsgGovUpdateParams_def fields_MsgGovUpdateParams_def codec ok_MsgGovUpdateParams_def plan.marshals_fields plan.size_fields [symmetric] plan.unmarshal_enc)
  show "apply_fields (field_MsgGovUpdateParams K) (fields_MsgGovUpdateParams K m) (zero_MsgGovUpdateParams K) = Ok m"
    using ok by (cases m) (simp add: fields_MsgGovUpdateParams_def field_MsgGovUpdateParams_def zero_MsgGovUpdateParams_def codec ok_MsgGovUpdateParams_def plan.marshals_fields plan.size_fields [symmetric] plan.unmarshal_enc)
next
  fix m :: "MsgGovUpdateParams" and f
  assume "f \<in> set (fields_MsgGovUpdateParams K m)"
  then show "0 < field_num f \<and> field_num f < 2 ^ 28"
    by (auto simp: fields_MsgGovUpdateParams_def codec)
qed

section \<open>MsgGovAddDenoms\<close>

definition write_MsgGovAddDenoms :: "sdk_codec \<Rightarrow> MsgGovAddDenoms \<Rightarrow> writer" where
  "write_MsgGovAddDenoms K m = seq_w
    [w_each (\<lambda>e. w_nested [0x4a] (to_sized (write_CurrencyDeviationThreshold e))) (ma_CurrencyDeviationThresholds m),
     w_each (\<lambda>e. w_nested [0x42] (to_sized (write_CurrencyPairProviders e))) (ma_CurrencyPairProviders m),
     w_opt_dec K [0x3a] (ma_RewardBand m),
     w_bool [0x30] (ma_Mandatory m),
     w_each (\<lambda>e. w_nested [0x2a] (to_sized (write_Denom e))) (ma_DenomList m),
     w_opt_varint [0x20] (word_of_int (ma_Height m)),
     w_opt_string [0x1a] (ma_Description m),
     w_opt_string [0x12] (ma_Title m),
     w_opt_string [0xa] (ma_Authority m)]"

definition size_MsgGovAddDenoms :: "sdk_codec \<Rightarrow> MsgGovAddDenoms \<Rightarrow> nat" where
  "size_MsgGovAddDenoms K m =
     opt_len_size 1 (length (ma_Authority m)) +
     opt_len_size 1 (length (ma_Title m)) +
     opt_len_size 1 (length (ma_Description m)) +
     varint_size 1 (word_of_int (ma_Height m)) +
     (\<Sum>e \<leftarrow> ma_DenomList m. len_size 1 (size_Denom e)) +
     (if ma_Mandatory m then 2 else 0) +
     opt_dec_size K 1 (ma_RewardBand m) +
     (\<Sum>e \<leftarrow> ma_CurrencyPairProviders m. len_size 1 (size_CurrencyPairProviders e)) +
     (\<Sum>e \<leftarrow> ma_CurrencyDeviationThresholds m. len_size 1 (size_CurrencyDeviationThreshold e))"

definition field_MsgGovAddDenoms :: "sdk_codec \<Rightarrow> MsgGovAddDenoms ptable" where
  "field_MsgGovAddDenoms K fieldNum =
     (if fieldNum = 1 then Some (PBytes (\<lambda>bs m. Ok (m\<lparr>ma_Authority := bs\<rparr>)))
      else if fieldNum = 2 then Some (PBytes (\<lambda>bs m. Ok (m\<lparr>ma_Title := bs\<rparr>)))
      else if fieldNum = 3 then Some (PBytes (\<lambda>bs m. Ok (m\<lparr>ma_Description := bs\<rparr>)))
      else if fieldNum = 4 then Some (PVarint (\<lambda>v m. m\<lparr>ma_Height := sint v\<rparr>))
      else if fieldNum = 5 then Some (PBytes (\<lambda>bs m. bind_res (unmarshal field_Denom bs zero_Denom)
        (\<lambda>x. Ok (m\<lparr>ma_DenomList := ma_DenomList m @ [x]\<rparr>))))
      else if fieldNum = 6 then Some (PVarint (\<lambda>v m. m\<lparr>ma_Mandatory := (v \<noteq> 0)\<rparr>))
      else if fieldNum = 7 then Some (PBytes (\<lambda>bs m. bind_res (dec_Unmarshal K bs (nil_dec K)) (\<lambda>x. Ok (m\<lparr>ma_RewardBand := Some x\<rparr>))))
      else if fieldNum = 8 then Some (PBytes (\<lambda>bs m. bind_res (unmarshal field_CurrencyPairProviders bs zero_CurrencyPairProviders)
        (\<lambda>x. Ok (m\<lparr>ma_CurrencyPairProviders := ma_CurrencyPairProviders m @ [x]\<rparr>))))
      else if fieldNum = 9 then Some (PBytes (\<lambda>bs m. bind_res (unmarshal field_CurrencyDeviationThreshold bs zero_CurrencyDeviationThreshold)
        (\<lambda>x. Ok (m\<lparr>ma_CurrencyDeviationThresholds := ma_CurrencyDeviationThresholds m @ [x]\<rparr>))))
      else None)"

definition zero_MsgGovAddDenoms :: "MsgGovAddDenoms" where
  "zero_MsgGovAddDenoms = \<lparr>ma_Authority = [], ma_Title = [], ma_Description = [], ma_Height = 0, ma_DenomList = [], ma_Mandatory = False, ma_RewardBand = None, ma_CurrencyPairProviders = [], ma_CurrencyDeviationThresholds = []\<rparr>"

definition fields_MsgGovAddDenoms :: "sdk_codec \<Rightarrow> MsgGovAddDenoms \<Rightarrow> fval list" where
  "fields_MsgGovAddDenoms K m = concat
    [f_bytes 1 (ma_Authority m),
     f_bytes 2 (ma_Title m),
     f_bytes 3 (ma_Description m),
     f_varint 4 (word_of_int (ma_Height m)),
     map (\<lambda>e. FBytes 5 (enc_fields (fields_Denom e))) (ma_DenomList m),
     f_varint 6 (of_bool (ma_Mandatory m)),
     f_opt_dec K 7 (ma_RewardBand m),
     map (\<lambda>e. FBytes 8 (enc_fields (fields_CurrencyPairProviders e))) (ma_CurrencyPairProviders m),
     map (\<lambda>e. FBytes 9 (enc_fields (fields_CurrencyDeviationThreshold e))) (ma_CurrencyDeviationThresholds m)]"

definition ok_MsgGovAddDenoms :: "MsgGovAddDenoms \<Rightarrow> bool" where
  "ok_MsgGovAddDenoms m \<longleftrightarrow> in_i64 (ma_Height m) \<and>
     (\<forall>e \<in> set (ma_DenomList m). int (size_Denom e) \<le> max_int64) \<and>
     (\<forall>x. ma_RewardBand m = Some x \<longrightarrow> dec_in_range x) \<and>
     (\<forall>e \<in> set (ma_CurrencyPairProviders m). ok_CurrencyPairProviders e \<and> int (size_CurrencyPairProviders e) \<le> max_int64) \<and>
     (\<forall>e \<in> set (ma_CurrencyDeviationThresholds m). int (size_CurrencyDeviationThreshold e) \<le> max_int64)"

sublocale sdk_encoding \<subseteq> msgadd: message "write_MsgGovAddDenoms K" "size_MsgGovAddDenoms K" "field_MsgGovAddDenoms K" zero_MsgGovAddDenoms
  "fields_MsgGovAddDenoms K" ok_MsgGovAddDenoms
proof unfold_locales
  fix m :: "MsgGovAddDenoms"
  assume ok: "ok_MsgGovAddDenoms m"
  show "writes (write_MsgGovAddDenoms K m) (enc_fields (fields_MsgGovAddDenoms K m))"
    unfolding write_MsgGovAddDenoms_def fields_MsgGovAddDenoms_def
    by (rule writes_seq) (use ok in \<open>simp add: codec ok_MsgGovAddDenoms_def denom.marshals_fields denom.size_fields [symmetric] denom.unmarshal_enc pairproviders.marshals_fields pairproviders.size_fields [symmetric] pairproviders.unmarshal_enc deviation.marshals_fields deviation.size_fields [symmetric] deviation.unmarshal_enc\<close>)
  show "size_MsgGovAddDenoms K m = length (enc_fields (fields_MsgGovAddDenoms K m))"
    using ok by (simp add: size_MsgGovAddDenoms_def fields_MsgGovAddDenoms_def codec ok_MsgGovAddDenoms_def denom.marshals_fields denom.size_fields [symmetric] denom.unmarshal_enc pairproviders.marshals_fields pairproviders.size_fields [symmetric] pairproviders.unmarshal_enc deviation.marshals_fields deviation.size_fields [symmetric] deviation.unmarshal_enc cong: map_cong)
  show "apply_fields (field_MsgGovAddDenoms K) (fields_MsgGovAddDenoms K m) zero_MsgGovAddDenoms = Ok m"
    using ok by (cases m) (simp add: fields_MsgGovAddDenoms_def field_MsgGovAddDenoms_def zero_MsgGovAddDenoms_def codec ok_MsgGovAddDenoms_def denom.marshals_fields denom.size_fields [symmetric] denom.unmarshal_enc pairproviders.marshals_fields pairproviders.size_fields [symmetric] pairproviders.unmarshal_enc deviation.marshals_fields deviation.size_fields [symmetric] deviation.unmarshal_enc
        apply_each [where U = ma_DenomList_update] apply_each [where U = ma_CurrencyPairProviders_update] apply_each [where U = ma_CurrencyDeviationThresholds_update] apply_opt_dec [where U = ma_RewardBand_update])
next
  fix m :: "MsgGovAddDenoms" and f
  assume "f \<in> set (fields_MsgGovAddDenoms K m)"
  then show "0 < field_num f \<and> field_num f < 2 ^ 28"
    by (auto simp: fields_MsgGovAddDenoms_def codec)
qed

section \<open>MsgGovRemoveCurrencyPairProviders\<close>

definition write_MsgGovRemoveCurrencyPairProviders :: "MsgGovRemoveCurrencyPairProviders \<Rightarrow> writer" where
  "write_MsgGovRemoveCurrencyPairProviders m = seq_w
    [w_each (\<lambda>e. w_nested [0x2a] (to_sized (write_CurrencyPairProviders e))) (mrp_CurrencyPairProviders m),
     w_opt_varint [0x20] (word_of_int (mrp_Height m)),
     w_opt_string [0x1a] (mrp_Description m),
     w_opt_string [0x12] (mrp_Title m),
     w_opt_string [0xa] (mrp_Authority m)]"

definition size_MsgGovRemoveCurrencyPairProviders :: "MsgGovRemoveCurrencyPairProviders \<Rightarrow> nat" where
  "size_MsgGovRemoveCurrencyPairProviders m =
     opt_len_size 1 (length (mrp_Authority m)) +
     opt_len_size 1 (length (mrp_Title m)) +
     opt_len_size 1 (length (mrp_Description m)) +
     varint_size 1 (word_of_int (mrp_Height m)) +
     (\<Sum>e \<leftarrow> mrp_CurrencyPairProviders m. len_size 1 (size_CurrencyPairProviders e))"

definition field_MsgGovRemoveCurrencyPairProviders :: "MsgGovRemoveCurrencyPairProviders ptable" where
  "field_MsgGovRemoveCurrencyPairProviders fieldNum =
     (if fieldNum = 1 then Some (PBytes (\<lambda>bs m. Ok (m\<lparr>mrp_Authority := bs\<rparr>)))
      else if fieldNum = 2 then Some (PBytes (\<lambda>bs m. Ok (m\<lparr>mrp_Title := bs\<rparr>)))
      else if fieldNum = 3 then Some (PBytes (\<lambda>bs m. Ok (m\<lparr>mrp_Description := bs\<rparr>)))
      else if fieldNum = 4 then Some (PVarint (\<lambda>v m. m\<lparr>mrp_Height := sint v\<rparr>))
      else if fieldNum = 5 then Some (PBytes (\<lambda>bs m. bind_res (unmarshal field_CurrencyPairProviders bs zero_CurrencyPairProviders)
        (\<lambda>x. Ok (m\<lparr>mrp_CurrencyPairProviders := mrp_CurrencyPairProviders m @ [x]\<rparr>))))
      else None)"

definition zero_MsgGovRemoveCurrencyPairProviders :: "MsgGovRemoveCurrencyPairProviders" where
  "zero_MsgGovRemoveCurrencyPairProviders = \<lparr>mrp_Authority = [], mrp_Title = [], mrp_Description = [], mrp_Height = 0, mrp_CurrencyPairProviders = []\<rparr>"

definition fields_MsgGovRemoveCurrencyPairProviders :: "MsgGovRemoveCurrencyPairProviders \<Rightarrow> fval list" where
  "fields_MsgGovRemoveCurrencyPairProviders m = concat
    [f_bytes 1 (mrp_Authority m),
     f_bytes 2 (mrp_Title m),
     f_bytes 3 (mrp_Description m),
     f_varint 4 (word_of_int (mrp_Height m)),
     map (\<lambda>e. FBytes 5 (enc_fields (fields_CurrencyPairProviders e))) (mrp_CurrencyPairProviders m)]"

definition ok_MsgGovRemoveCurrencyPairProviders :: "MsgGovRemoveCurrencyPairProviders \<Rightarrow> bool" where
  "ok_MsgGovRemoveCurrencyPairProviders m \<longleftrightarrow> in_i64 (mrp_Height m) \<and>
     (\<forall>e \<in> set (mrp_CurrencyPairProviders m). ok_CurrencyPairProviders e \<and> int (size_CurrencyPairProviders e) \<le> max_int64)"

interpretation msgremovepairs: message write_MsgGovRemoveCurrencyPairProviders size_MsgGovRemoveCurrencyPairProviders field_MsgGovRemoveCurrencyPairProviders zero_MsgGovRemoveCurrencyPairProviders
  fields_MsgGovRemoveCurrencyPairProviders ok_MsgGovRemoveCurrencyPairProviders
proof unfold_locales
  fix m :: "MsgGovRemoveCurrencyPairProviders"
  assume ok: "ok_MsgGovRemoveCurrencyPairProviders m"
  show "writes (write_MsgGovRemoveCurrencyPairProviders m) (enc_fields (fields_MsgGovRemoveCurrencyPairProviders m))"
    unfolding write_MsgGovRemoveCurrencyPairProviders_def fields_MsgGovRemoveCurrencyPairProviders_def
    by (rule writes_seq) (use ok in \<open>simp add: codec ok_MsgGovRemoveCurrencyPairProviders_def pairproviders.marshals_fields pairproviders.size_fields [symmetric] pairproviders.unmarshal_enc\<close>)
  show "size_MsgGovRemoveCurrencyPairProviders m = length (enc_fields (fields_MsgGovRemoveCurrencyPairProviders m))"
    using ok by (simp add: size_MsgGovRemoveCurrencyPairProviders_def fields_MsgGovRemoveCurrencyPairProviders_def codec ok_MsgGovRemoveCurrencyPairProviders_def pairproviders.marshals_fields pairproviders.size_fields [symmetric] pairproviders.unmarshal_enc cong: map_cong)
  show "apply_fields field_MsgGovRemoveCurrencyPairProviders (fields_MsgGovRemoveCurrencyPairProviders m) zero_MsgGovRemoveCurrencyPairProviders = Ok m"
    using ok by (cases m) (simp add: fields_MsgGovRemoveCurrencyPairProviders_def field_MsgGovRemoveCurrencyPairProviders_def zero_MsgGovRemoveCurrencyPairProviders_def codec ok_MsgGovRemoveCurrencyPairProviders_def pairproviders.marshals_fields pairproviders.size_fields [symmetric] pairproviders.unmarshal_enc
        apply_each [where U = mrp_CurrencyPairProviders_update])
next
  fix m :: "MsgGovRemoveCurrencyPairProviders" and f
  assume "f \<in> set (fields_MsgGovRemoveCurrencyPairProviders m)"
  then show "0 < field_num f \<and> field_num f < 2 ^ 28"
    by (auto simp: fields_MsgGovRemoveCurrencyPairProviders_def codec)
qed

section \<open>MsgGovRemoveCurrencyDeviationThresholds\<close>

definition write_MsgGovRemoveCurrencyDeviationThresholds :: "MsgGovRemoveCurrencyDeviationThresholds \<Rightarrow> writer" where
  "write_MsgGovRemoveCurrencyDeviationThresholds m = seq_w
    [w_each (w_string [0x2a]) (mrt_Currencies m),
     w_opt_varint [0x20] (word_of_int (mrt_Height m)),
     w_opt_string [0x1a] (mrt_Description m),
     w_opt_string [0x12] (mrt_Title m),
     w_opt_string [0xa] (mrt_Authority m)]"

definition size_MsgGovRemoveCurrencyDeviationThresholds :: "MsgGovRemoveCurrencyDeviationThresholds \<Rightarrow> nat" where
  "size_MsgGovRemoveCurrencyDeviationThresholds m =
     opt_len_size 1 (length (mrt_Authority m)) +
     opt_len_size 1 (length (mrt_Title m)) +
     opt_len_size 1 (length (mrt_Description m)) +
     varint_size 1 (word_of_int (mrt_Height m)) +
     (\<Sum>s \<leftarrow> mrt_Currencies m. len_size 1 (length s))"

definition field_MsgGovRemoveCurrencyDeviationThresholds :: "MsgGovRemoveCurrencyDeviationThresholds ptable" where
  "field_MsgGovRemoveCurrencyDeviationThresholds fieldNum =
     (if fieldNum = 1 then Some (PBytes (\<lambda>bs m. Ok (m\<lparr>mrt_Authority := bs\<rparr>)))
      else if fieldNum = 2 then Some (PBytes (\<lambda>bs m. Ok (m\<lparr>mrt_Title := bs\<rparr>)))
      else if fieldNum = 3 then Some (PBytes (\<lambda>bs m. Ok (m\<lparr>mrt_Description := bs\<rparr>)))
      else if fieldNum = 4 then Some (PVarint (\<lambda>v m. m\<lparr>mrt_Height := sint v\<rparr>))
      else if fieldNum = 5 then Some (PBytes (\<lambda>bs m. Ok (m\<lparr>mrt_Currencies := mrt_Currencies m @ [bs]\<rparr>)))
      else None)"

definition zero_MsgGovRemoveCurrencyDeviationThresholds :: "MsgGovRemoveCurrencyDeviationThresholds" where
  "zero_MsgGovRemoveCurrencyDeviationThresholds = \<lparr>mrt_Authority = [], mrt_Title = [], mrt_Description = [], mrt_Height = 0, mrt_Currencies = []\<rparr>"

definition fields_MsgGovRemoveCurrencyDeviationThresholds :: "MsgGovRemoveCurrencyDeviationThresholds \<Rightarrow> fval list" where
  "fields_MsgGovRemoveCurrencyDeviationThresholds m = concat
    [f_bytes 1 (mrt_Authority m),
     f_bytes 2 (mrt_Title m),
     f_bytes 3 (mrt_Description m),
     f_varint 4 (word_of_int (mrt_Height m)),
     map (\<lambda>s. FBytes 5 s) (mrt_Currencies m)]"

definition ok_MsgGovRemoveCurrencyDeviationThresholds :: "MsgGovRemoveCurrencyDeviationThresholds \<Rightarrow> bool" where
  "ok_MsgGovRemoveCurrencyDeviationThresholds m \<longleftrightarrow> in_i64 (mrt_Height m)"

interpretation msgremovedeviations: message write_MsgGovRemoveCurrencyDeviationThresholds size_MsgGovRemoveCurrencyDeviationThresholds field_MsgGovRemoveCurrencyDeviationThresholds zero_MsgGovRemoveCurrencyDeviationThresholds
  fields_MsgGovRemoveCurrencyDeviationThresholds ok_MsgGovRemoveCurrencyDeviationThresholds
proof unfold_locales
  fix m :: "MsgGovRemoveCurrencyDeviationThresholds"
  assume ok: "ok_MsgGovRemoveCurrencyDeviationThresholds m"
  show "writes (write_MsgGovRemoveCurrencyDeviationThresholds m) (enc_fields (fields_MsgGovRemoveCurrencyDeviationThresholds m))"
    unfolding write_MsgGovRemoveCurrencyDeviationThresholds_def fields_MsgGovRemoveCurrencyDeviationThresholds_def
    by (rule writes_seq) (use ok in \<open>simp add: codec ok_MsgGovRemoveCurrencyDeviationThresholds_def\<close>)
  show "size_MsgGovRemoveCurrencyDeviationThresholds m = length (enc_fields (fields_MsgGovRemoveCurrencyDeviationThresholds m))"
    using ok by (simp add: size_MsgGovRemoveCurrencyDeviationThresholds_def fields_MsgGovRemoveCurrencyDeviationThresholds_def codec ok_MsgGovRemoveCurrencyDeviationThresholds_def cong: map_cong)
  show "apply_fields field_MsgGovRemoveCurrencyDeviationThresholds (fields_MsgGovRemoveCurrencyDeviationThresholds m) zero_MsgGovRemoveCurrencyDeviationThresholds = Ok m"
    using ok by (cases m) (simp add: fields_MsgGovRemoveCurrencyDeviationThresholds_def field_MsgGovRemoveCurrencyDeviationThresholds_def zero_MsgGovRemoveCurrencyDeviationThresholds_def codec ok_MsgGovRemoveCurrencyDeviationThresholds_def
        apply_each [where U = mrt_Currencies_update])
next
  fix m :: "MsgGovRemoveCurrencyDeviationThresholds" and f
  assume "f \<in> set (fields_MsgGovRemoveCurrencyDeviationThresholds m)"
  then show "0 < field_num f \<and> field_num f < 2 ^ 28"
    by (auto simp: fields_MsgGovRemoveCurrencyDeviationThresholds_def codec)
qed

section \<open>MsgGovCancelUpdateParamPlan\<close>

definition write_MsgGovCancelUpdateParamPlan :: "MsgGovCancelUpdateParamPlan \<Rightarrow> writer" where
  "write_MsgGovCancelUpdateParamPlan m = seq_w
    [w_opt_varint [0x20] (word_of_int (mc_Height m)),
     w_opt_string [0x1a] (mc_Description m),
     w_opt_string [0x12] (mc_Title m),
     w_opt_string [0xa] (mc_Authority m)]"

definition size_MsgGovCancelUpdateParamPlan :: "MsgGovCancelUpdateParamPlan \<Rightarrow> nat" where
  "size_MsgGovCancelUpdateParamPlan m =
     opt_len_size 1 (length (mc_Authority m)) +
     opt_len_size 1 (length (mc_Title m)) +
     opt_len_size 1 (length (mc_Description m)) +
     varint_size 1 (word_of_int (mc_Height m))"

definition field_MsgGovCancelUpdateParamPlan :: "MsgGovCancelUpdateParamPlan ptable" where
  "field_MsgGovCancelUpdateParamPlan fieldNum =
     (if fieldNum = 1 then Some (PBytes (\<lambda>bs m. Ok (m\<lparr>mc_Authority := bs\<rparr>)))
      else if fieldNum = 2 then Some (PBytes (\<lambda>bs m. Ok (m\<lparr>mc_Title := bs\<rparr>)))
      else if fieldNum = 3 then Some (PBytes (\<lambda>bs m. Ok (m\<lparr>mc_Description := bs\<rparr>)))
      else if fieldNum = 4 then Some (PVarint (\<lambda>v m. m\<lparr>mc_Height := sint v\<rparr>))
      else None)"

definition zero_MsgGovCancelUpdateParamPlan :: "MsgGovCancelUpdateParamPlan" where
  "zero_MsgGovCancelUpdateParamPlan = \<lparr>mc_Authority = [], mc_Title = [], mc_Description = [], mc_Height = 0\<rparr>"

definition fields_MsgGovCancelUpdateParamPlan :: "MsgGovCancelUpdateParamPlan \<Rightarrow> fval list" where
  "fields_MsgGovCancelUpdateParamPlan m = concat
    [f_bytes 1 (mc_Authority m),
     f_bytes 2 (mc_Title m),
     f_bytes 3 (mc_Description m),
     f_varint 4 (word_of_int (mc_Height m))]"

definition ok_MsgGovCancelUpdateParamPlan :: "MsgGovCancelUpdateParamPlan \<Rightarrow> bool" where
  "ok_MsgGovCancelUpdateParamPlan m \<longleftrightarrow> in_i64 (mc_Height m)"

interpretation msgcancel: message write_MsgGovCancelUpdateParamPlan size_MsgGovCancelUpdateParamPlan field_MsgGovCancelUpdateParamPlan zero_MsgGovCancelUpdateParamPlan
  fields_MsgGovCancelUpdateParamPlan ok_MsgGovCancelUpdateParamPlan
proof unfold_locales
  fix m :: "MsgGovCancelUpdateParamPlan"
  assume ok: "ok_MsgGovCancelUpdateParamPlan m"
  show "writes (write_MsgGovCancelUpdateParamPlan m) (enc_fields (fields_MsgGovCancelUpdateParamPlan m))"
    unfolding write_MsgGovCancelUpdateParamPlan_def fields_MsgGovCancelUpdateParamPlan_def
    by (rule writes_seq) (use ok in \<open>simp add: codec ok_MsgGovCancelUpdateParamPlan_def\<close>)
  show "size_MsgGovCancelUpdateParamPlan m = length (enc_fields (fields_MsgGovCancelUpdateParamPlan m))"
    using ok by (simp add: size_MsgGovCancelUpdateParamPlan_def fields_MsgGovCancelUpdateParamPlan_def codec ok_MsgGovCancelUpdateParamPlan_def)
  show "apply_fields field_MsgGovCancelUpdateParamPlan (fields_MsgGovCancelUpdateParamPlan m) zero_MsgGovCancelUpdateParamPlan = Ok m"
    using ok by (cases m) (simp add: fields_MsgGovCancelUpdateParamPlan_def field_MsgGovCancelUpdateParamPlan_def zero_MsgGovCancelUpdateParamPlan_def codec ok_MsgGovCancelUpdateParamPlan_def)
next
  fix m :: "MsgGovCancelUpdateParamPlan" and f
  assume "f \<in> set (fields_MsgGovCancelUpdateParamPlan m)"
  then show "0 < field_num f \<and> field_num f < 2 ^ 28"
    by (auto simp: fields_MsgGovCancelUpdateParamPlan_def codec)
qed

section \<open>Round trips under the laws\<close>

context sdk_encoding
begin

lemmas add_denoms_round_trip = msgadd.round_trip
lemmas gov_update_round_trip = msgupdate.round_trip
lemmas legacy_update_round_trip = msglegacy.round_trip

end

end
