(* ===== verification/Oracle_Migrations.thy ===== *)
theory Oracle_Migrations
  imports Oracle_Tx_Codec Oracle_Msg_Server Oracle_Slash
begin

text \<open>
  The in-place migrations of the oracle: \<open>src/x/oracle/keeper/migrations.go\<close> writes the reward
  set and two price-feeder lists, \<open>src/x/oracle/keeper/migrate_proposal.go\<close> rewrites the
  governance proposals that hold the legacy parameter message.

  A proposal of the governance module is known here by its messages only: its decoder, which
  also returns what it had decoded when it failed, and its encoder are parameters. The
  messages are those of \<open>Oracle_Tx_Codec\<close>.
\<close>

section \<open>migrations.go\<close>

definition MigrateValidatorSet :: "'w oracle_env \<Rightarrow> 'w ostate \<Rightarrow> 'w ostate \<times> unit res" where
  "MigrateValidatorSet E s = SetValidatorRewardSet E s"

definition MigratedPairProviders :: CurrencyPairProvidersList where
  "MigratedPairProviders =
     [\<lparr>cpp_BaseDenom = ''USDT'', cpp_QuoteDenom = ''USD'', cpp_PairAddress = [],
       cpp_Providers = [''kraken'', ''coinbase'', ''crypto'', ''gate'']\<rparr>,
      \<lparr>cpp_BaseDenom = ''ATOM'', cpp_QuoteDenom = ''USDT'', cpp_PairAddress = [],
       cpp_Providers = [''okx'', ''bitget'', ''gate'']\<rparr>,
      \<lparr>cpp_BaseDenom = ''ATOM'', cpp_QuoteDenom = ''USD'', cpp_PairAddress = [],
       cpp_Providers = [''kraken'']\<rparr>,
      \<lparr>cpp_BaseDenom = ''ETH'', cpp_QuoteDenom = ''USDT'', cpp_PairAddress = [],
       cpp_Providers = [''okx'', ''bitget'']\<rparr>,
      \<lparr>cpp_BaseDenom = ''ETH'', cpp_QuoteDenom = ''USD'', cpp_PairAddress = [],
       cpp_Providers = [''kraken'']\<rparr>,
      \<lparr>cpp_BaseDenom = ''BTC'', cpp_QuoteDenom = ''USDT'', cpp_PairAddress = [],
       cpp_Providers = [''okx'', ''gate'', ''bitget'']\<rparr>,
      \<lparr>cpp_BaseDenom = ''BTC'', cpp_QuoteDenom = ''USD'', cpp_PairAddress = [],
       cpp_Providers = [''coinbase'']\<rparr>,
      \<lparr>cpp_BaseDenom = ''OSMO'', cpp_QuoteDenom = ''USDT'', cpp_PairAddress = [],
       cpp_Providers = [''bitget'', ''gate'', ''huobi'']\<rparr>,
      \<lparr>cpp_BaseDenom = ''OSMO'', cpp_QuoteDenom = ''ATOM'', cpp_PairAddress = [],
       cpp_Providers = [''osmosis'']\<rparr>,
      \<lparr>cpp_BaseDenom = ''stATOM'', cpp_QuoteDenom = ''ATOM'', cpp_PairAddress = [],
       cpp_Providers = [''osmosis'', ''crescent'']\<rparr>,
      \<lparr>cpp_BaseDenom = ''stOSMO'', cpp_QuoteDenom = ''OSMO'', cpp_PairAddress = [],
       cpp_Providers = [''osmosis'']\<rparr>,
      \<lparr>cpp_BaseDenom = ''DAI'', cpp_QuoteDenom = ''USDT'', cpp_PairAddress = [],
       cpp_Providers = [''okx'', ''bitget'', ''huobi'']\<rparr>,
      \<lparr>cpp_BaseDenom = ''DAI'', cpp_QuoteDenom = ''USD'', cpp_PairAddress = [],
       cpp_Providers = [''kraken'']\<rparr>,
      \<lparr>cpp_BaseDenom = ''JUNO'', cpp_QuoteDenom = ''USDT'', cpp_PairAddress = [],
       cpp_Providers = [''bitget'', ''mexc'']\<rparr>,
      \<lparr>cpp_BaseDenom = ''JUNO'', cpp_QuoteDenom = ''USD'', cpp_PairAddress = [],
       cpp_Providers = [''kraken'']\<rparr>,
      \<lparr>cpp_BaseDenom = ''JUNO'', cpp_QuoteDenom = ''ATOM'', cpp_PairAddress = [],
       cpp_Providers = [''osmosis'']\<rparr>,
      \<lparr>cpp_BaseDenom = ''stJUNO'', cpp_QuoteDenom = ''JUNO'', cpp_PairAddress = [],
       cpp_Providers = [''osmosis'']\<rparr>,
      \<lparr>cpp_BaseDenom = ''SCRT'', cpp_QuoteDenom = ''USD'', cpp_PairAddress = [],
       cpp_Providers = [''kraken'']\<rparr>,
      \<lparr>cpp_BaseDenom = ''SCRT'', cpp_QuoteDenom = ''USDT'', cpp_PairAddress = [],
       cpp_Providers = [''mexc'', ''gate'']\<rparr>,
      \<lparr>cpp_BaseDenom = ''WBTC'', cpp_QuoteDenom = ''USDT'', cpp_PairAddress = [],
       cpp_Providers = [''okx'', ''bitget'', ''crypto'']\<rparr>,
      \<lparr>cpp_BaseDenom = ''USDC'', cpp_QuoteDenom = ''USDT'', cpp_PairAddress = [],
       cpp_Providers = [''okx'', ''bitget'', ''kraken'']\<rparr>,
      \<lparr>cpp_BaseDenom = ''USDC'', cpp_QuoteDenom = ''USD'', cpp_PairAddress = [],
       cpp_Providers = [''kraken'']\<rparr>,
      \<lparr>cpp_BaseDenom = ''IST'', cpp_QuoteDenom = ''OSMO'', cpp_PairAddress = [],
       cpp_Providers = [''osmosis'']\<rparr>,
      \<lparr>cpp_BaseDenom = ''IST'', cpp_QuoteDenom = ''USDC'', cpp_PairAddress = [],
       cpp_Providers = [''crescent'']\<rparr>,
      \<lparr>cpp_BaseDenom = ''BNB'', cpp_QuoteDenom = ''USDT'', cpp_PairAddress = [],
       cpp_Providers = [''mexc'', ''bitget'', ''okx'']\<rparr>,
      \<lparr>cpp_BaseDenom = ''LUNA'', cpp_QuoteDenom = ''USDT'', cpp_PairAddress = [],
       cpp_Providers = [''okx'', ''gate'', ''huobi'', ''bitget'']\<rparr>,
      \<lparr>cpp_BaseDenom = ''DOT'', cpp_QuoteDenom = ''USD'', cpp_PairAddress = [],
       cpp_Providers = [''kraken'', ''coinbase'', ''crypto'']\<rparr>,
      \<lparr>cpp_BaseDenom = ''DOT'', cpp_QuoteDenom = ''USDT'', cpp_PairAddress = [],
       cpp_Providers = [''gate'', ''bitget'']\<rparr>,
      \<lparr>cpp_BaseDenom = ''AXL'', cpp_QuoteDenom = ''USD'', cpp_PairAddress = [],
       cpp_Providers = [''coinbase'', ''crypto'']\<rparr>,
      \<lparr>cpp_BaseDenom = ''AXL'', cpp_QuoteDenom = ''OSMO'', cpp_PairAddress = [],
       cpp_Providers = [''osmosis'']\<rparr>,
      \<lparr>cpp_BaseDenom = ''STARS'', cpp_QuoteDenom = ''ATOM'', cpp_PairAddress = [],
       cpp_Providers = [''osmosis'']\<rparr>,
      \<lparr>cpp_BaseDenom = ''STARS'', cpp_QuoteDenom = ''OSMO'', cpp_PairAddress = [],
       cpp_Providers = [''osmosis'']\<rparr>,
      \<lparr>cpp_BaseDenom = ''XRP'', cpp_QuoteDenom = ''USD'', cpp_PairAddress = [],
       cpp_Providers = [''kraken'', ''coinbase'']\<rparr>,
      \<lparr>cpp_BaseDenom = ''XRP'', cpp_QuoteDenom = ''USDT'', cpp_PairAddress = [],
       cpp_Providers = [''gate'', ''mexc'', ''bitget'']\<rparr>,
      \<lparr>cpp_BaseDenom = ''USK'', cpp_QuoteDenom = ''USDC'', cpp_PairAddress = [],
       cpp_Providers = [''kujira'']\<rparr>,
      \<lparr>cpp_BaseDenom = ''KUJI'', cpp_QuoteDenom = ''USDC'', cpp_PairAddress = [],
       cpp_Providers = [''kujira'']\<rparr>,
      \<lparr>cpp_BaseDenom = ''MNTA'', cpp_QuoteDenom = ''USDC'', cpp_PairAddress = [],
       cpp_Providers = [''kujira'']\<rparr>,
      \<lparr>cpp_BaseDenom = ''MATIC'', cpp_QuoteDenom = ''USDT'', cpp_PairAddress = [],
       cpp_Providers = [''mexc'', ''bitget'']\<rparr>,
      \<lparr>cpp_BaseDenom = ''MATIC'', cpp_QuoteDenom = ''USD'', cpp_PairAddress = [],
       cpp_Providers = [''coinbase'', ''kraken'']\<rparr>,
      \<lparr>cpp_BaseDenom = ''CMST'', cpp_QuoteDenom = ''OSMO'', cpp_PairAddress = [],
       cpp_Providers = [''osmosis'']\<rparr>,
      \<lparr>cpp_BaseDenom = ''LINK'', cpp_QuoteDenom = ''USD'', cpp_PairAddress = [],
       cpp_Providers = [''crypto'', ''kraken'']\<rparr>,
      \<lparr>cpp_BaseDenom = ''SUSHI'', cpp_QuoteDenom = ''USDT'', cpp_PairAddress = [],
       cpp_Providers = [''okx'', ''bitget'']\<rparr>,
      \<lparr>cpp_BaseDenom = ''SUSHI'', cpp_QuoteDenom = ''USD'', cpp_PairAddress = [],
       cpp_Providers = [''coinbase'']\<rparr>,
      \<lparr>cpp_BaseDenom = ''CMDX'', cpp_QuoteDenom = ''OSMO'', cpp_PairAddress = [],
       cpp_Providers = [''osmosis'']\<rparr>,
      \<lparr>cpp_BaseDenom = ''CRV'', cpp_QuoteDenom = ''USDT'', cpp_PairAddress = [],
       cpp_Providers = [''okx'', ''bitget'', ''mexc'']\<rparr>,
      \<lparr>cpp_BaseDenom = ''CRV'', cpp_QuoteDenom = ''USD'', cpp_PairAddress = [],
       cpp_Providers = [''coinbase'']\<rparr>,
      \<lparr>cpp_BaseDenom = ''MKR'', cpp_QuoteDenom = ''USDT'', cpp_PairAddress = [],
       cpp_Providers = [''okx'', ''bitget'', ''crypto'']\<rparr>,
      \<lparr>cpp_BaseDenom = ''MKR'', cpp_QuoteDenom = ''USD'', cpp_PairAddress = [],
       cpp_Providers = [''coinbase'']\<rparr>,
      \<lparr>cpp_BaseDenom = ''SEI'', cpp_QuoteDenom = ''USDT'', cpp_PairAddress = [],
       cpp_Providers = [''bitget'']\<rparr>,
      \<lparr>cpp_BaseDenom = ''SEI'', cpp_QuoteDenom = ''USD'', cpp_PairAddress = [],
       cpp_Providers = [''coinbase'', ''kraken'', ''crypto'']\<rparr>,
      \<lparr>cpp_BaseDenom = ''INJ'', cpp_QuoteDenom = ''USDT'', cpp_PairAddress = [],
       cpp_Providers = [''bitget'', ''mexc'', ''crypto'']\<rparr>,
      \<lparr>cpp_BaseDenom = ''INJ'', cpp_QuoteDenom = ''USD'', cpp_PairAddress = [],
       cpp_Providers = [''coinbase'']\<rparr>,
      \<lparr>cpp_BaseDenom = ''RETH'', cpp_QuoteDenom = ''WETH'', cpp_PairAddress = [\<lparr>pap_Address = ''0xa4e0faA58465A2D369aa21B3e42d43374c6F9613'', pap_AddressProvider = ''eth-uniswap''\<rparr>],
       cpp_Providers = [''eth-uniswap'']\<rparr>,
      \<lparr>cpp_BaseDenom = ''WETH'', cpp_QuoteDenom = ''USDC'', cpp_PairAddress = [\<lparr>pap_Address = ''0x88e6a0c2ddd26feeb64f039a2c41296fcb3f5640'', pap_AddressProvider = ''eth-uniswap''\<rparr>],
       cpp_Providers = [''eth-uniswap'']\<rparr>,
      \<lparr>cpp_BaseDenom = ''CBETH'', cpp_QuoteDenom = ''WETH'', cpp_PairAddress = [\<lparr>pap_Address = ''0x840deeef2f115cf50da625f7368c24af6fe74410'', pap_AddressProvider = ''eth-uniswap''\<rparr>],
       cpp_Providers = [''eth-uniswap'']\<rparr>]"

definition MigrateCurrencyPairProviders :: "'w ostate \<Rightarrow> 'w ostate" where
  "MigrateCurrencyPairProviders s = SetCurrencyPairProviders MigratedPairProviders s"

definition MigratedDeviationThresholds :: CurrencyDeviationThresholdList where
  "MigratedDeviationThresholds =
     [\<lparr>cdt_BaseDenom = ''USDT'', cdt_Threshold = ''1.5''\<rparr>,
      \<lparr>cdt_BaseDenom = ''ATOM'', cdt_Threshold = ''1.5''\<rparr>,
      \<lparr>cdt_BaseDenom = ''ETH'', cdt_Threshold = ''2''\<rparr>,
      \<lparr>cdt_BaseDenom = ''BTC'', cdt_Threshold = ''2''\<rparr>,
      \<lparr>cdt_BaseDenom = ''OSMO'', cdt_Threshold = ''2''\<rparr>,
      \<lparr>cdt_BaseDenom = ''stATOM'', cdt_Threshold = ''2''\<rparr>,
      \<lparr>cdt_BaseDenom = ''stOSMO'', cdt_Threshold = ''2''\<rparr>,
      \<lparr>cdt_BaseDenom = ''DAI'', cdt_Threshold = ''2''\<rparr>,
      \<lparr>cdt_BaseDenom = ''JUNO'', cdt_Threshold = ''2''\<rparr>,
      \<lparr>cdt_BaseDenom = ''stJUNO'', cdt_Threshold = ''2''\<rparr>,
      \<lparr>cdt_BaseDenom = ''SCRT'', cdt_Threshold = ''2''\<rparr>,
      \<lparr>cdt_BaseDenom = ''WBTC'', cdt_Threshold = ''2''\<rparr>,
      \<lparr>cdt_BaseDenom = ''USDC'', cdt_Threshold = ''1.5''\<rparr>,
      \<lparr>cdt_BaseDenom = ''IST'', cdt_Threshold = ''2''\<rparr>,
      \<lparr>cdt_BaseDenom = ''BNB'', cdt_Threshold = ''2''\<rparr>,
      \<lparr>cdt_BaseDenom = ''LUNA'', cdt_Threshold = ''2''\<rparr>,
      \<lparr>cdt_BaseDenom = ''DOT'', cdt_Threshold = ''2''\<rparr>,
      \<lparr>cdt_BaseDenom = ''AXL'', cdt_Threshold = ''2''\<rparr>,
      \<lparr>cdt_BaseDenom = ''STARS'', cdt_Threshold = ''2''\<rparr>,
      \<lparr>cdt_BaseDenom = ''XRP'', cdt_Threshold = ''2''\<rparr>,
      \<lparr>cdt_BaseDenom = ''USK'', cdt_Threshold = ''2''\<rparr>,
      \<lparr>cdt_BaseDenom = ''KUJI'', cdt_Threshold = ''2''\<rparr>,
      \<lparr>cdt_BaseDenom = ''MNTA'', cdt_Threshold = ''2''\<rparr>,
      \<lparr>cdt_BaseDenom = ''RETH'', cdt_Threshold = ''2''\<rparr>,
      \<lparr>cdt_BaseDenom = ''WETH'', cdt_Threshold = ''2''\<rparr>,
      \<lparr>cdt_BaseDenom = ''CBETH'', cdt_Threshold = ''2''\<rparr>,
      \<lparr>cdt_BaseDenom = ''CMST'', cdt_Threshold = ''2''\<rparr>,
      \<lparr>cdt_BaseDenom = ''CMDX'', cdt_Threshold = ''2''\<rparr>,
      \<lparr>cdt_BaseDenom = ''MATIC'', cdt_Threshold = ''2''\<rparr>,
      \<lparr>cdt_BaseDenom = ''LINK'', cdt_Threshold = ''2''\<rparr>,
      \<lparr>cdt_BaseDenom = ''SUSHI'', cdt_Threshold = ''2''\<rparr>,
      \<lparr>cdt_BaseDenom = ''CRV'', cdt_Threshold = ''2''\<rparr>,
      \<lparr>cdt_BaseDenom = ''MKR'', cdt_Threshold = ''2''\<rparr>,
      \<lparr>cdt_BaseDenom = ''INJ'', cdt_Threshold = ''2''\<rparr>,
      \<lparr>cdt_BaseDenom = ''SEI'', cdt_Threshold = ''2''\<rparr>]"

definition MigrateCurrencyDeviationThresholds :: "'w ostate \<Rightarrow> 'w ostate" where
  "MigrateCurrencyDeviationThresholds s = SetCurrencyDeviationThresholds MigratedDeviationThresholds s"

section \<open>migrate_proposal.go\<close>

record Any =
  any_TypeUrl :: string
  any_Value :: bytes

record 'p gov_codec =
  prop_Unmarshal :: "bytes \<Rightarrow> 'p \<times> unit res"
  prop_Marshal :: "'p \<Rightarrow> bytes res"
  prop_Messages :: "'p \<Rightarrow> Any list"
  set_Messages :: "Any list \<Rightarrow> 'p \<Rightarrow> 'p"

definition new_update_msg :: "MsgLegacyGovUpdateParams \<Rightarrow> MsgGovUpdateParams" where
  "new_update_msg old =
     \<lparr>mu_Authority = ml_Authority old, mu_Title = ml_Title old, mu_Description = ml_Description old,
      mu_Plan = \<lparr>Keys = ml_Keys old, Height = 0, Changes = ml_Changes old\<rparr>\<rparr>"

fun convert_messages :: "sdk_codec \<Rightarrow> Any list \<Rightarrow> Any list res" where
  "convert_messages K [] = Ok []"
| "convert_messages K (msg # msgs) =
     bind_res (unmarshal (field_MsgLegacyGovUpdateParams K) (any_Value msg) (zero_MsgLegacyGovUpdateParams K)) (\<lambda>old.
     let new = new_update_msg old in
     bind_res (Marshal_with (write_MsgGovUpdateParams K new) (size_MsgGovUpdateParams K new)) (\<lambda>bz.
     bind_res (convert_messages K msgs) (\<lambda>msgs. Ok (msg\<lparr>any_Value := bz\<rparr> # msgs))))"

definition convertProposal :: "sdk_codec \<Rightarrow> 'p gov_codec \<Rightarrow> 'p \<Rightarrow> 'p res" where
  "convertProposal K G prop =
     bind_res (convert_messages K (prop_Messages G prop)) (\<lambda>msgs. Ok (set_Messages G msgs prop))"

text \<open>The iterator walks over the proposals that were stored when it was opened.\<close>

fun migrate_loop :: "sdk_codec \<Rightarrow> 'p gov_codec \<Rightarrow> (bytes, bytes) coll \<Rightarrow> (bytes, bytes) coll \<Rightarrow> (bytes, bytes) coll \<times> unit res" where
  "migrate_loop K G [] propStore = (propStore, Ok ())"
| "migrate_loop K G ((k, bz) # entries) propStore =
     (case prop_Unmarshal G bz of
        (prop, Panic) \<Rightarrow> (propStore, Panic)
      | (prop, Ok _) \<Rightarrow> migrate_loop K G entries propStore
      | (prop, Err _) \<Rightarrow>
          read_st propStore (convertProposal K G prop) (\<lambda>newProp.
          read_st propStore (prop_Marshal G newProp) (\<lambda>bz.
            migrate_loop K G entries (coll_set k bz propStore))))"

definition MigrateProposals :: "sdk_codec \<Rightarrow> 'p gov_codec \<Rightarrow> (bytes, bytes) coll \<Rightarrow> (bytes, bytes) coll \<times> unit res" where
  "MigrateProposals K G propStore = migrate_loop K G propStore propStore"

section \<open>Lemmas\<close>

text \<open>A message that is migrated is read back as the new message.\<close>

lemma convert_messages_Ok:
  assumes laws: "codec_laws K"
    and "\<forall>m \<in> set msgs. ok_MsgGovUpdateParams K (new_update_msg (old m)) \<and>
      int (size_MsgGovUpdateParams K (new_update_msg (old m))) \<le> max_int64 \<and>
      unmarshal (field_MsgLegacyGovUpdateParams K) (any_Value m) (zero_MsgLegacyGovUpdateParams K) = Ok (old m)"
  shows "\<exists>new. convert_messages K msgs = Ok new \<and> list_all2 (\<lambda>m n. any_TypeUrl n = any_TypeUrl m \<and>
      unmarshal (field_MsgGovUpdateParams K) (any_Value n) (zero_MsgGovUpdateParams K) = Ok (new_update_msg (old m))) msgs new"
  using assms(2)
proof (induction msgs)
  case (Cons m msgs)
  then obtain new where new: "convert_messages K msgs = Ok new" "list_all2 (\<lambda>m n. any_TypeUrl n = any_TypeUrl m \<and>
      unmarshal (field_MsgGovUpdateParams K) (any_Value n) (zero_MsgGovUpdateParams K) = Ok (new_update_msg (old m))) msgs new"
    by auto
  obtain bz where "Marshal_with (write_MsgGovUpdateParams K (new_update_msg (old m)))
      (size_MsgGovUpdateParams K (new_update_msg (old m))) = Ok bz"
    "unmarshal (field_MsgGovUpdateParams K) bz (zero_MsgGovUpdateParams K) = Ok (new_update_msg (old m))"
    using sdk_encoding.gov_update_round_trip [OF sdk_encoding.intro [OF laws], of "new_update_msg (old m)"] Cons.prems by auto
  then show ?case using new Cons.prems by simp
qed simp

section \<open>Properties\<close>

text \<open>
  C27. The two list migrations leave a consistent parameter set: they change nothing else, the
  new lists pass the checks of the parameter store whenever the old parameters did, no
  currency pair is listed twice, and exactly the bases of the pairs have a deviation
  threshold.
\<close>

theorem migrated_lists_consistent:
  assumes "run_validators (ParamSetPairs (D E) (params s))"
    and "s' = MigrateCurrencyDeviationThresholds (MigrateCurrencyPairProviders s)"
  shows "run_validators (ParamSetPairs (D E) (params s')) \<and>
    s'\<lparr>params := (params s')\<lparr>CurrencyPairProviders := CurrencyPairProviders (params s),
       CurrencyDeviationThresholds := CurrencyDeviationThresholds (params s)\<rparr>\<rparr> = s \<and>
    distinct (map (\<lambda>c. (cpp_BaseDenom c, cpp_QuoteDenom c)) (CurrencyPairProviders (params s'))) \<and>
    cpp_BaseDenom ` set (CurrencyPairProviders (params s')) = cdt_BaseDenom ` set (CurrencyDeviationThresholds (params s'))"
proof -
  have s': "s' = s\<lparr>params := (params s)\<lparr>CurrencyPairProviders := MigratedPairProviders,
      CurrencyDeviationThresholds := MigratedDeviationThresholds\<rparr>\<rparr>"
    by (simp add: assms(2) MigrateCurrencyDeviationThresholds_def MigrateCurrencyPairProviders_def
        SetCurrencyDeviationThresholds_def SetCurrencyPairProviders_def)
  have "validateCurrencyPairProviders (PCurrencyPairProviders MigratedPairProviders) = Ok ()"
    "validateCurrencyDeviationThresholds (PCurrencyDeviationThresholds MigratedDeviationThresholds) = Ok ()"
    by (simp_all add: MigratedPairProviders_def MigratedDeviationThresholds_def)
  then have "run_validators (ParamSetPairs (D E) (params s'))"
    using assms(1) by (simp add: s' ParamSetPairs_def)
  moreover have "distinct (map (\<lambda>c. (cpp_BaseDenom c, cpp_QuoteDenom c)) MigratedPairProviders)"
    by (simp add: MigratedPairProviders_def)
  moreover have "cpp_BaseDenom ` set MigratedPairProviders = cdt_BaseDenom ` set MigratedDeviationThresholds"
    unfolding MigratedPairProviders_def MigratedDeviationThresholds_def by (simp add: insert_commute)
  ultimately show ?thesis by (simp add: s')
qed

text \<open>
  C31. A legacy proposal is migrated faithfully and can then never be carried out: the
  conversion succeeds and every message decodes to the new message with the authority,
  the text, the keys and the changes of the old one, but the plan it carries is for the
  placeholder height zero, so that its handler refuses it at every height of a chain.
\<close>

theorem migrated_proposal_is_refused:
  assumes "codec_laws K"
    and "\<forall>m \<in> set (prop_Messages G prop). ok_MsgGovUpdateParams K (new_update_msg (old m)) \<and>
      int (size_MsgGovUpdateParams K (new_update_msg (old m))) \<le> max_int64 \<and>
      unmarshal (field_MsgLegacyGovUpdateParams K) (any_Value m) (zero_MsgLegacyGovUpdateParams K) = Ok (old m)"
    and "0 < h"
  shows "\<exists>new. convertProposal K G prop = Ok (set_Messages G new prop) \<and>
    list_all2 (\<lambda>m n. any_TypeUrl n = any_TypeUrl m \<and>
      unmarshal (field_MsgGovUpdateParams K) (any_Value n) (zero_MsgGovUpdateParams K) = Ok (new_update_msg (old m)) \<and>
      (\<exists>e. GovUpdateParams E h (new_update_msg (old m)) s = (s, Err e))) (prop_Messages G prop) new"
proof -
  have "\<exists>e. GovUpdateParams E h (new_update_msg l) s = (s, Err e)" for l
    using assms(3) by (simp add: GovUpdateParams_def ScheduleParamUpdatePlan_def new_update_msg_def)
  moreover obtain new where "convert_messages K (prop_Messages G prop) = Ok new"
    "list_all2 (\<lambda>m n. any_TypeUrl n = any_TypeUrl m \<and> unmarshal (field_MsgGovUpdateParams K) (any_Value n)
       (zero_MsgGovUpdateParams K) = Ok (new_update_msg (old m))) (prop_Messages G prop) new"
    using convert_messages_Ok [OF assms(1,2)] by blast
  ultimately show ?thesis
    by (intro exI [of _ new]) (auto simp: convertProposal_def elim: list_all2_mono)
qed

section \<open>Witnesses\<close>

theorem migrated_lists_consistent_witness:
  "run_validators (ParamSetPairs (D ref_env) (params (MigrateCurrencyDeviationThresholds (MigrateCurrencyPairProviders ref_state))))"
proof -
  have "run_validators (ParamSetPairs ref_dec DefaultParams)" by code_simp
  then have "run_validators (ParamSetPairs (D ref_env) (params ref_state))" by (simp add: ref_env_def ref_state_def)
  from migrated_lists_consistent [OF this refl] show ?thesis by blast
qed

definition legacy_msg :: MsgLegacyGovUpdateParams where
  "legacy_msg = \<lparr>ml_Authority = ''gov'', ml_Title = ''t'', ml_Description = ''d'', ml_Keys = Keys small_plan,
     ml_Changes = Changes small_plan\<rparr>"

definition legacy_any :: Any where
  "legacy_any = \<lparr>any_TypeUrl = ''/oracle.v1.MsgGovUpdateParams'', any_Value =
     (case Marshal_with (write_MsgLegacyGovUpdateParams ref_codec legacy_msg) (size_MsgLegacyGovUpdateParams ref_codec legacy_msg) of
        Ok bz \<Rightarrow> bz | _ \<Rightarrow> [])\<rparr>"

definition any_codec :: "Any list gov_codec" where
  "any_codec = \<lparr>prop_Unmarshal = (\<lambda>bz. ([legacy_any], Err (Errorf ''proposal''))), prop_Marshal = (\<lambda>p. Ok ''new''),
     prop_Messages = (\<lambda>p. p), set_Messages = (\<lambda>m p. m)\<rparr>"

theorem migrated_proposal_is_refused_witness:
  "\<exists>new. convertProposal ref_codec any_codec [legacy_any] = Ok [new] \<and>
     unmarshal (field_MsgGovUpdateParams ref_codec) (any_Value new) (zero_MsgGovUpdateParams ref_codec) = Ok (new_update_msg legacy_msg)"
proof -
  have sizes: "size_MsgLegacyGovUpdateParams ref_codec legacy_msg < 1000"
    "size_ParamUpdatePlan ref_codec (mu_Plan (new_update_msg legacy_msg)) = 172"
    using small_changes(1)
    by (simp_all add: size_MsgLegacyGovUpdateParams_def legacy_msg_def size_ParamUpdatePlan_def new_update_msg_def)
      (simp_all add: small_plan_def len_size_def opt_len_size_def varint_size_def codec)
  have size: "size_MsgGovUpdateParams ref_codec (new_update_msg legacy_msg) < 1000"
    unfolding size_MsgGovUpdateParams_def sizes(2)
    by (simp add: new_update_msg_def legacy_msg_def len_size_def opt_len_size_def codec)
  have "unmarshal (field_MsgLegacyGovUpdateParams ref_codec) (any_Value legacy_any) (zero_MsgLegacyGovUpdateParams ref_codec) = Ok legacy_msg"
    using ref.legacy_update_round_trip [of legacy_msg] small_changes sizes(1)
    by (auto simp: legacy_any_def ok_MsgLegacyGovUpdateParams_def legacy_msg_def max_int64_def)
  moreover have "ok_MsgGovUpdateParams ref_codec (new_update_msg legacy_msg)"
    using small_changes sizes(2)
    by (simp add: ok_MsgGovUpdateParams_def ok_ParamUpdatePlan_def new_update_msg_def legacy_msg_def in_i64_def max_int64_def)
  ultimately have "\<exists>new. convertProposal ref_codec any_codec [legacy_any] = Ok (set_Messages any_codec new [legacy_any]) \<and>
    list_all2 (\<lambda>m n. any_TypeUrl n = any_TypeUrl m \<and>
      unmarshal (field_MsgGovUpdateParams ref_codec) (any_Value n) (zero_MsgGovUpdateParams ref_codec) = Ok (new_update_msg legacy_msg) \<and>
      (\<exists>e. GovUpdateParams ref_env 1 (new_update_msg legacy_msg) ref_state = (ref_state, Err e)))
      (prop_Messages any_codec [legacy_any]) new"
    using size by (intro migrated_proposal_is_refused ref.laws) (simp_all add: any_codec_def max_int64_def)
  then show ?thesis by (auto simp: any_codec_def list_all2_Cons1)
qed

end
