(* ===== verification/Msg_Filter.thy ===== *)
theory Msg_Filter
  imports Prelude
begin

text \<open>
  The message filter of the ante handler (\<open>src/app/decorators/msg_filter_template.go\<close>): a
  transaction with a message of a blocked type is refused, also when the message is nested
  in \<open>authz.MsgExec\<close>, to any depth. A message is known by its protobuf name; a \<open>MsgExec\<close>
  also holds the messages it executes, or \<open>None\<close> where \<open>GetMessages\<close> fails to decode them.
\<close>

datatype sdk_msg = Msg string | MsgExec "sdk_msg list option"

fun MessageName :: "sdk_msg \<Rightarrow> string" where
  "MessageName (Msg name) = name"
| "MessageName (MsgExec _) = ''cosmos.authz.v1beta1.MsgExec''"

record MsgFilterDecorator =
  blockedTypes :: "sdk_msg list"

definition FilterDecorator :: "sdk_msg list \<Rightarrow> MsgFilterDecorator" where
  "FilterDecorator blockedMsgTypes = \<lparr>blockedTypes = blockedMsgTypes\<rparr>"

definition is_blocked :: "MsgFilterDecorator \<Rightarrow> sdk_msg \<Rightarrow> bool" where
  "is_blocked mfd msg = list_ex (\<lambda>blockedType. MessageName msg = MessageName blockedType) (blockedTypes mfd)"

fun HasDisallowedMessage :: "MsgFilterDecorator \<Rightarrow> sdk_msg list \<Rightarrow> bool" where
  "HasDisallowedMessage mfd [] = False"
| "HasDisallowedMessage mfd (MsgExec None # msgs) = True"
| "HasDisallowedMessage mfd (MsgExec (Some nested) # msgs) =
     (if HasDisallowedMessage mfd nested then True
      else if is_blocked mfd (MsgExec (Some nested)) then True
      else HasDisallowedMessage mfd msgs)"
| "HasDisallowedMessage mfd (Msg name # msgs) =
     (if is_blocked mfd (Msg name) then True else HasDisallowedMessage mfd msgs)"

definition AnteHandle :: "MsgFilterDecorator \<Rightarrow> 'ctx \<Rightarrow> sdk_msg list \<Rightarrow> ('ctx \<Rightarrow> 'ctx \<times> unit res) \<Rightarrow> 'ctx \<times> unit res" where
  "AnteHandle mfd ctx msgs next =
     (if HasDisallowedMessage mfd msgs then (ctx, Err (Errorf ''tx contains unsupported message types''))
      else next ctx)"

section \<open>Specification\<close>

text \<open>The messages of a transaction, at any depth.\<close>

inductive within :: "sdk_msg \<Rightarrow> sdk_msg list \<Rightarrow> bool" where
  top: "m \<in> set msgs \<Longrightarrow> within m msgs"
| nested: "MsgExec (Some inner) \<in> set msgs \<Longrightarrow> within m inner \<Longrightarrow> within m msgs"

definition allowed :: "MsgFilterDecorator \<Rightarrow> sdk_msg \<Rightarrow> bool" where
  "allowed mfd m \<longleftrightarrow> m \<noteq> MsgExec None \<and> MessageName m \<notin> MessageName ` set (blockedTypes mfd)"

lemma within_Nil: "\<not> within m []"
  by (auto elim: within.cases)

lemma within_Cons:
  "within m (x # xs) \<longleftrightarrow> m = x \<or> (\<exists>inner. x = MsgExec (Some inner) \<and> within m inner) \<or> within m xs"
  (is "?L \<longleftrightarrow> ?R")
proof
  assume ?L
  then show ?R
  proof cases
    case top
    then show ?thesis using within.top [of m xs] by auto
  next
    case (nested inner)
    then show ?thesis using within.nested [of inner xs m] by auto
  qed
next
  assume R: ?R
  have later: "within m (x # xs)" if "within m xs"
    using that
  proof cases
    case top
    then show ?thesis by (simp add: within.top)
  next
    case (nested inner)
    then show ?thesis by (auto intro: within.nested [of inner])
  qed
  from R show ?L
  proof (elim disjE exE conjE)
    show "m = x \<Longrightarrow> ?L" by (simp add: within.top)
    show "x = MsgExec (Some inner) \<Longrightarrow> within m inner \<Longrightarrow> ?L" for inner
      by (rule within.nested [of inner]) simp_all
  qed (rule later)
qed

lemma is_blocked_iff: "is_blocked mfd m \<longleftrightarrow> MessageName m \<in> MessageName ` set (blockedTypes mfd)"
  by (auto simp: is_blocked_def list_ex_iff)

lemma HasDisallowedMessage_iff: "HasDisallowedMessage mfd msgs \<longleftrightarrow> (\<exists>m. within m msgs \<and> \<not> allowed mfd m)"
  by (induction mfd msgs rule: HasDisallowedMessage.induct)
    (auto simp: within_Nil within_Cons allowed_def is_blocked_iff)

section \<open>Property\<close>

text \<open>
  C35. The filter looks at every message of a transaction, however deeply it is nested: the
  handler passes the transaction on exactly when no message at any depth has a blocked type
  and every nested list can be decoded, and otherwise it returns the context unchanged
  with an error and does not run the rest of the chain.
\<close>

theorem filter_passes_iff_allowed:
  "AnteHandle (FilterDecorator blocked) ctx msgs next =
     (if \<forall>m. within m msgs \<longrightarrow> m \<noteq> MsgExec None \<and> MessageName m \<notin> MessageName ` set blocked
      then next ctx else (ctx, Err (Errorf ''tx contains unsupported message types'')))"
  unfolding AnteHandle_def HasDisallowedMessage_iff
  by (simp add: FilterDecorator_def allowed_def) blast

theorem filter_passes_iff_allowed_witness:
  "AnteHandle (FilterDecorator [Msg ''bank.MsgSend'']) (0 :: nat) [Msg ''a'', MsgExec (Some [MsgExec (Some [Msg ''bank.MsgSend''])])]
     (\<lambda>c. (c, Ok ())) = (0, Err (Errorf ''tx contains unsupported message types''))"
  unfolding filter_passes_iff_allowed by (auto intro!: exI [of _ "Msg ''bank.MsgSend''"] simp: within_Cons within_Nil)

end
