(* ===== verification/App.thy ===== *)
theory App
  imports Prelude
begin

text \<open>
  The parts of the application that decide something of their own: the ante handler
  (\<open>src/app/ante.go\<close>), the registration of upgrades (\<open>src/app/upgrades.go\<close>,
  \<open>src/app/upgrades/noop\<close>) and the export of the state (\<open>src/app/export.go\<close>). The keepers of
  the SDK are parameters on a state \<open>'s\<close> of any type; a call takes the block height of its context
  and returns the state it leaves with its outcome. \<open>log.Fatal\<close>, which ends the process, is the error
  \<open>fatal\<close>.
\<close>

section \<open>Ante handler\<close>

text \<open>The constructors of the decorators, in the order of the source; \<open>'d\<close> is a decorator.\<close>

record ('d, 'h) ante_package =
  NewSetUpContextDecorator :: 'd
  NewCircuitBreakerDecorator :: 'd
  NewExtensionOptionsDecorator :: 'd
  NewValidateBasicDecorator :: 'd
  NewTxTimeoutHeightDecorator :: 'd
  NewValidateMemoDecorator :: 'd
  NewConsumeGasForTxSizeDecorator :: 'd
  NewDeductFeeDecorator :: 'd
  NewSetPubKeyDecorator :: 'd
  NewValidateSigCountDecorator :: 'd
  NewSigGasConsumeDecorator :: 'd
  NewSigVerificationDecorator :: 'd
  NewIncrementSequenceDecorator :: 'd
  NewRedundantRelayDecorator :: 'd
  ChainAnteDecorators :: "'d list \<Rightarrow> 'h"

text \<open>Which keepers the options hold.\<close>

record HandlerOptions =
  has_AccountKeeper :: bool
  has_BankKeeper :: bool
  has_SignModeHandler :: bool
  has_CircuitKeeper :: bool

definition NewAnteHandler :: "('d, 'h) ante_package \<Rightarrow> HandlerOptions \<Rightarrow> 'h res" where
  "NewAnteHandler A options =
     (if \<not> has_AccountKeeper options then Err (Errorf ''account keeper is required for ante builder'')
      else if \<not> has_BankKeeper options then Err (Errorf ''bank keeper is required for ante builder'')
      else if \<not> has_SignModeHandler options then Err (Errorf ''sign mode handler is required for ante builder'')
      else if \<not> has_CircuitKeeper options then Err (Errorf ''circuit keeper is required for ante builder'')
      else Ok (ChainAnteDecorators A
        [NewSetUpContextDecorator A, NewCircuitBreakerDecorator A, NewExtensionOptionsDecorator A,
         NewValidateBasicDecorator A, NewTxTimeoutHeightDecorator A, NewValidateMemoDecorator A,
         NewConsumeGasForTxSizeDecorator A, NewDeductFeeDecorator A, NewSetPubKeyDecorator A,
         NewValidateSigCountDecorator A, NewSigGasConsumeDecorator A, NewSigVerificationDecorator A,
         NewIncrementSequenceDecorator A, NewRedundantRelayDecorator A]))"

section \<open>Upgrades\<close>

text \<open>A handler is a function of the module manager's \<open>RunMigrations\<close>, on version maps of type \<open>'vm\<close>.\<close>

type_synonym 'vm migrate = "'vm \<Rightarrow> 'vm res"

record StoreUpgrades =
  Added :: "string list"
  Deleted :: "string list"

record 'vm Upgrade =
  UpgradeName :: string
  CreateUpgradeHandler :: "'vm migrate \<Rightarrow> 'vm migrate"
  up_StoreUpgrades :: StoreUpgrades

definition noop_CreateUpgradeHandler :: "'vm migrate \<Rightarrow> 'vm migrate" where
  "noop_CreateUpgradeHandler RunMigrations fromVM = RunMigrations fromVM"

definition NewUpgrade :: "string \<Rightarrow> 'vm Upgrade" where
  "NewUpgrade semver = \<lparr>UpgradeName = semver, CreateUpgradeHandler = noop_CreateUpgradeHandler,
     up_StoreUpgrades = \<lparr>Added = [], Deleted = []\<rparr>\<rparr>"

record upgrade_info =
  info_Height :: int
  info_Name :: string

text \<open>The list \<open>Upgrades\<close>, the handlers of the upgrade keeper and the store loader, by its height and
  its store upgrades.\<close>

record 'vm upgrade_state =
  Upgrades :: "'vm Upgrade list"
  handlers :: "string \<rightharpoonup> 'vm migrate"
  storeLoader :: "(int \<times> StoreUpgrades) option"

fun set_handlers :: "'vm migrate \<Rightarrow> 'vm Upgrade list \<Rightarrow> (string \<rightharpoonup> 'vm migrate) \<Rightarrow> (string \<rightharpoonup> 'vm migrate)" where
  "set_handlers mm [] h = h"
| "set_handlers mm (u # us) h = set_handlers mm us (h(UpgradeName u \<mapsto> CreateUpgradeHandler u mm))"

fun loader_for :: "upgrade_info \<Rightarrow> 'vm Upgrade list \<Rightarrow> (int \<times> StoreUpgrades) option \<Rightarrow> (int \<times> StoreUpgrades) option" where
  "loader_for info [] l = l"
| "loader_for info (u # us) l =
     (if info_Name info = UpgradeName u then Some (info_Height info, up_StoreUpgrades u) else loader_for info us l)"

definition RegisterUpgradeHandlers ::
  "'vm migrate \<Rightarrow> string \<Rightarrow> upgrade_info res \<Rightarrow> (int \<Rightarrow> bool) \<Rightarrow> 'vm upgrade_state \<Rightarrow> 'vm upgrade_state \<times> unit res" where
  "RegisterUpgradeHandlers mm version ReadUpgradeInfoFromDisk IsSkipHeight s =
     (let s1 = (if length (Upgrades s) = 0 then s\<lparr>Upgrades := Upgrades s @ [NewUpgrade version]\<rparr> else s);
          s2 = s1\<lparr>handlers := set_handlers mm (Upgrades s1) (handlers s1)\<rparr>
      in case ReadUpgradeInfoFromDisk of
           Ok info \<Rightarrow>
             if IsSkipHeight (info_Height info) then (s2, Ok ())
             else (s2\<lparr>storeLoader := loader_for info (Upgrades s2) (storeLoader s2)\<rparr>, Ok ())
         | _ \<Rightarrow> (s2, Panic))"

section \<open>Export\<close>

definition fatal :: error where "fatal = SdkErr ''log.Fatal''"

text \<open>The records of the other modules, with the fields the export changes; \<open>rest\<close> is what it keeps.\<close>

record staking_validator =
  UnbondingHeight :: int
  Jailed :: bool
  validator_rest :: bytes

record unbonding_entry =
  CreationHeight :: int
  entry_rest :: bytes

record unbonding =
  Entries :: "unbonding_entry list"
  unbonding_rest :: bytes

record signing_info =
  StartHeight :: int
  info_rest :: bytes

record delegation =
  DelegatorAddress :: string
  ValidatorAddress :: string

text \<open>
  An iterator is the list of what it visits; a callback that writes the record it is given does not
  change what comes next. The fee pool is its community pool, coins of type \<open>'c\<close>.
\<close>

record ('s, 'c) export_env =
  AssertInvariants :: "int \<Rightarrow> 's \<Rightarrow> 's \<times> unit res"
  ValAddressFromBech32 :: "string \<Rightarrow> bytes res"
  AccAddressFromBech32 :: "string \<Rightarrow> bytes res"
  ValAddress_String :: "bytes \<Rightarrow> string"
  StringToBytes :: "string \<Rightarrow> bytes res"
  IterateValidators :: "int \<Rightarrow> 's \<Rightarrow> string list res"
  GetAllDelegations :: "int \<Rightarrow> 's \<Rightarrow> delegation list res"
  IterateRedelegations :: "int \<Rightarrow> 's \<Rightarrow> unbonding list res"
  SetRedelegation :: "int \<Rightarrow> unbonding \<Rightarrow> 's \<Rightarrow> 's \<times> unit res"
  IterateUnbondingDelegations :: "int \<Rightarrow> 's \<Rightarrow> unbonding list res"
  SetUnbondingDelegation :: "int \<Rightarrow> unbonding \<Rightarrow> 's \<Rightarrow> 's \<times> unit res"
  ValidatorsByKeyReverse :: "int \<Rightarrow> 's \<Rightarrow> bytes list"
  iterClose :: "int \<Rightarrow> 's \<Rightarrow> unit res"
  GetValidator :: "int \<Rightarrow> bytes \<Rightarrow> 's \<Rightarrow> staking_validator res"
  SetValidator :: "int \<Rightarrow> bytes \<Rightarrow> staking_validator \<Rightarrow> 's \<Rightarrow> 's \<times> unit res"
  ApplyAndReturnValidatorSetUpdates :: "int \<Rightarrow> 's \<Rightarrow> 's \<times> unit res"
  WithdrawValidatorCommission :: "int \<Rightarrow> bytes \<Rightarrow> 's \<Rightarrow> 's \<times> unit res"
  WithdrawDelegationRewards :: "int \<Rightarrow> bytes \<Rightarrow> bytes \<Rightarrow> 's \<Rightarrow> 's \<times> unit res"
  DeleteAllValidatorSlashEvents :: "int \<Rightarrow> 's \<Rightarrow> 's"
  DeleteAllValidatorHistoricalRewards :: "int \<Rightarrow> 's \<Rightarrow> 's"
  GetValidatorOutstandingRewardsCoins :: "int \<Rightarrow> bytes \<Rightarrow> 's \<Rightarrow> 'c res"
  FeePool_Get :: "int \<Rightarrow> 's \<Rightarrow> 'c res"
  FeePool_Set :: "int \<Rightarrow> 'c \<Rightarrow> 's \<Rightarrow> 's \<times> unit res"
  DecCoins_Add :: "'c \<Rightarrow> 'c \<Rightarrow> 'c"
  AfterValidatorCreated :: "int \<Rightarrow> bytes \<Rightarrow> 's \<Rightarrow> 's \<times> unit res"
  BeforeDelegationCreated :: "int \<Rightarrow> bytes \<Rightarrow> bytes \<Rightarrow> 's \<Rightarrow> 's \<times> unit res"
  AfterDelegationModified :: "int \<Rightarrow> bytes \<Rightarrow> bytes \<Rightarrow> 's \<Rightarrow> 's \<times> unit res"
  IterateValidatorSigningInfos :: "int \<Rightarrow> 's \<Rightarrow> (bytes \<times> signing_info) list res"
  SetValidatorSigningInfo :: "int \<Rightarrow> bytes \<Rightarrow> signing_info \<Rightarrow> 's \<Rightarrow> 's \<times> unit res"

text \<open>\<open>if err != nil { panic(err) }\<close>.\<close>

fun or_panic :: "'a res \<Rightarrow> 'a res" where
  "or_panic (Err e) = Panic"
| "or_panic r = r"

definition or_panic_st :: "'s \<times> 'a res \<Rightarrow> 's \<times> 'a res" where
  "or_panic_st r = (fst r, or_panic (snd r))"

fun for_each :: "('a \<Rightarrow> 's \<Rightarrow> 's \<times> unit res) \<Rightarrow> 'a list \<Rightarrow> 's \<Rightarrow> 's \<times> unit res" where
  "for_each f [] s = (s, Ok ())"
| "for_each f (x # xs) s = then_st (f x s) (\<lambda>s _. for_each f xs s)"

text \<open>The addresses that stay out of jail: one that is not an address ends the process.\<close>

fun allowed_addrs :: "('s, 'c) export_env \<Rightarrow> string list \<Rightarrow> string list res" where
  "allowed_addrs E [] = Ok []"
| "allowed_addrs E (addr # addrs) =
     (case ValAddressFromBech32 E addr of
        Err e \<Rightarrow> Err fatal
      | Panic \<Rightarrow> Panic
      | Ok _ \<Rightarrow> bind_res (allowed_addrs E addrs) (\<lambda>as. Ok (addr # as)))"

definition withdraw_commission :: "('s, 'c) export_env \<Rightarrow> string \<Rightarrow> 's \<Rightarrow> 's \<times> unit res" where
  "withdraw_commission E operator s =
     read_st s (or_panic (StringToBytes E operator)) (\<lambda>valBz.
       case WithdrawValidatorCommission E 0 valBz s of
         (s, Panic) \<Rightarrow> (s, Panic)
       | (s, _) \<Rightarrow> (s, Ok ()))"

definition withdraw_rewards :: "('s, 'c) export_env \<Rightarrow> delegation \<Rightarrow> 's \<Rightarrow> 's \<times> unit res" where
  "withdraw_rewards E d s =
     read_st s (or_panic (ValAddressFromBech32 E (ValidatorAddress d))) (\<lambda>valAddr.
     read_st s (or_panic (AccAddressFromBech32 E (DelegatorAddress d))) (\<lambda>delAddr.
       or_panic_st (WithdrawDelegationRewards E 0 delAddr valAddr s)))"

definition reinit_validator :: "('s, 'c) export_env \<Rightarrow> string \<Rightarrow> 's \<Rightarrow> 's \<times> unit res" where
  "reinit_validator E operator s =
     read_st s (or_panic (StringToBytes E operator)) (\<lambda>valBz.
     read_st s (or_panic (GetValidatorOutstandingRewardsCoins E 0 valBz s)) (\<lambda>scraps.
     read_st s (or_panic (FeePool_Get E 0 s)) (\<lambda>communityPool.
       then_st (or_panic_st (FeePool_Set E 0 (DecCoins_Add E communityPool scraps) s)) (\<lambda>s _.
         or_panic_st (AfterValidatorCreated E 0 valBz s)))))"

definition reinit_delegation :: "('s, 'c) export_env \<Rightarrow> delegation \<Rightarrow> 's \<Rightarrow> 's \<times> unit res" where
  "reinit_delegation E d s =
     read_st s (or_panic (ValAddressFromBech32 E (ValidatorAddress d))) (\<lambda>valAddr.
     read_st s (or_panic (AccAddressFromBech32 E (DelegatorAddress d))) (\<lambda>delAddr.
       then_st (or_panic_st (BeforeDelegationCreated E 0 delAddr valAddr s)) (\<lambda>s _.
         or_panic_st (AfterDelegationModified E 0 delAddr valAddr s))))"

definition reset_entries :: "unbonding \<Rightarrow> unbonding" where
  "reset_entries u = u\<lparr>Entries := map (\<lambda>e. e\<lparr>CreationHeight := 0\<rparr>) (Entries u)\<rparr>"

definition reset_validator :: "('s, 'c) export_env \<Rightarrow> int \<Rightarrow> bool \<Rightarrow> string list \<Rightarrow> bytes \<Rightarrow> 's \<Rightarrow> 's \<times> unit res" where
  "reset_validator E height applyAllowedAddrs allowedAddrs addr s =
     (case GetValidator E height addr s of
        Ok v \<Rightarrow>
          let v1 = v\<lparr>UnbondingHeight := 0\<rparr>;
              v2 = (if applyAllowedAddrs \<and> ValAddress_String E addr \<notin> set allowedAddrs then v1\<lparr>Jailed := True\<rparr> else v1)
          in or_panic_st (SetValidator E height addr v2 s)
      | _ \<Rightarrow> (s, Panic))"

definition reset_validators :: "('s, 'c) export_env \<Rightarrow> int \<Rightarrow> bool \<Rightarrow> string list \<Rightarrow> 's \<Rightarrow> 's \<times> unit res" where
  "reset_validators E height applyAllowedAddrs allowedAddrs s =
     for_each (reset_validator E height applyAllowedAddrs allowedAddrs) (ValidatorsByKeyReverse E height s) s"

definition reset_signing_info :: "('s, 'c) export_env \<Rightarrow> int \<Rightarrow> bytes \<times> signing_info \<Rightarrow> 's \<Rightarrow> 's \<times> unit res" where
  "reset_signing_info E height = (\<lambda>(addr, info) s. or_panic_st (SetValidatorSigningInfo E height addr (info\<lparr>StartHeight := 0\<rparr>) s))"

text \<open>The distribution state is rebuilt at height 0, the other state at the height of the context.\<close>

definition reset_distribution :: "('s, 'c) export_env \<Rightarrow> 's \<Rightarrow> 's \<times> unit res" where
  "reset_distribution E s =
     then_st (read_st s (or_panic (IterateValidators E 0 s)) (\<lambda>vals. for_each (withdraw_commission E) vals s)) (\<lambda>s _.
     read_st s (or_panic (GetAllDelegations E 0 s)) (\<lambda>dels.
     then_st (for_each (withdraw_rewards E) dels s) (\<lambda>s _.
     let s = DeleteAllValidatorHistoricalRewards E 0 (DeleteAllValidatorSlashEvents E 0 s) in
     then_st (read_st s (or_panic (IterateValidators E 0 s)) (\<lambda>vals. for_each (reinit_validator E) vals s)) (\<lambda>s _.
       for_each (reinit_delegation E) dels s))))"

definition reset_slashing :: "('s, 'c) export_env \<Rightarrow> int \<Rightarrow> 's \<Rightarrow> 's \<times> unit res" where
  "reset_slashing E height s =
     read_st s (or_panic (IterateValidatorSigningInfos E height s)) (\<lambda>infos. for_each (reset_signing_info E height) infos s)"

definition reset_staking :: "('s, 'c) export_env \<Rightarrow> int \<Rightarrow> bool \<Rightarrow> string list \<Rightarrow> 's \<Rightarrow> 's \<times> unit res" where
  "reset_staking E height applyAllowedAddrs allowedAddrs s =
     then_st (read_st s (or_panic (IterateRedelegations E height s)) (\<lambda>reds.
       for_each (\<lambda>r s. or_panic_st (SetRedelegation E height (reset_entries r) s)) reds s)) (\<lambda>s _.
     then_st (read_st s (or_panic (IterateUnbondingDelegations E height s)) (\<lambda>ubds.
       for_each (\<lambda>u s. or_panic_st (SetUnbondingDelegation E height (reset_entries u) s)) ubds s)) (\<lambda>s _.
     then_st (reset_validators E height applyAllowedAddrs allowedAddrs s) (\<lambda>s _.
       (case iterClose E height s of
          Err e \<Rightarrow> (s, Ok ())
        | Panic \<Rightarrow> (s, Panic)
        | Ok _ \<Rightarrow>
            (case ApplyAndReturnValidatorSetUpdates E height s of
               (s, Err e) \<Rightarrow> (s, Err fatal)
             | (s, Panic) \<Rightarrow> (s, Panic)
             | (s, Ok _) \<Rightarrow> reset_slashing E height s)))))"

definition prepForZeroHeightGenesis :: "('s, 'c) export_env \<Rightarrow> int \<Rightarrow> string list \<Rightarrow> 's \<Rightarrow> 's \<times> unit res" where
  "prepForZeroHeightGenesis E height jailAllowedAddrs s =
     then_st (AssertInvariants E height s) (\<lambda>s _.
     read_st s (allowed_addrs E jailAllowedAddrs) (\<lambda>allowedAddrs.
     then_st (reset_distribution E s) (\<lambda>s _.
       reset_staking E height (length jailAllowedAddrs > 0) allowedAddrs s)))"

record ('j, 'v, 'p) ExportedApp =
  AppState :: 'j
  Validators :: 'v
  exported_Height :: int
  ConsensusParams :: 'p

text \<open>\<open>ExportGenesisForModules\<close>, \<open>WriteValidators\<close> and \<open>GetConsensusParams\<close> are functions of the state.\<close>

definition ExportAppStateAndValidators ::
  "('s, 'c) export_env \<Rightarrow> ('s \<Rightarrow> 'g res) \<Rightarrow> ('g \<Rightarrow> 'j res) \<Rightarrow> ('s \<Rightarrow> 'v res) \<Rightarrow> ('s \<Rightarrow> 'p) \<Rightarrow> int \<Rightarrow> bool \<Rightarrow> string list \<Rightarrow> 's \<Rightarrow>
    's \<times> ('j, 'v, 'p) ExportedApp res" where
  "ExportAppStateAndValidators E ExportGenesisForModules MarshalIndent WriteValidators GetConsensusParams LastBlockHeight forZeroHeight jailAllowedAddrs s =
     (let height = (if forZeroHeight then 0 else i64 (LastBlockHeight + 1)) in
      then_st (if forZeroHeight then prepForZeroHeightGenesis E LastBlockHeight jailAllowedAddrs s else (s, Ok ())) (\<lambda>s _.
      read_st s (ExportGenesisForModules s) (\<lambda>genState.
      read_st s (MarshalIndent genState) (\<lambda>appState.
      read_st s (WriteValidators s) (\<lambda>validators.
        (s, Ok \<lparr>AppState = appState, Validators = validators, exported_Height = height,
          ConsensusParams = GetConsensusParams s\<rparr>))))))"

section \<open>Lemmas\<close>

lemma set_handlers_other: "n \<notin> UpgradeName ` set us \<Longrightarrow> set_handlers mm us h n = h n"
  by (induction us arbitrary: h) auto

lemma set_handlers_lookup:
  "distinct (map UpgradeName us) \<Longrightarrow> u \<in> set us \<Longrightarrow> set_handlers mm us h (UpgradeName u) = Some (CreateUpgradeHandler u mm)"
  by (induction us arbitrary: h) (auto simp: set_handlers_other)

lemma loader_for_lookup:
  "distinct (map UpgradeName us) \<Longrightarrow> u \<in> set us \<Longrightarrow> info_Name info = UpgradeName u \<Longrightarrow>
    loader_for info us l = Some (info_Height info, up_StoreUpgrades u)"
  by (induction us) (auto, metis imageI)

lemma loader_for_other: "info_Name info \<notin> UpgradeName ` set us \<Longrightarrow> loader_for info us l = l"
  by (induction us) auto

text \<open>What a store of validators promises: what is set is found, at no other address.\<close>

definition validator_store_laws :: "('s, 'c) export_env \<Rightarrow> bool" where
  "validator_store_laws E \<longleftrightarrow> (\<forall>h addr v s. \<exists>s'. SetValidator E h addr v s = (s', Ok ()) \<and>
     (\<forall>a. GetValidator E h a s' = (if a = addr then Ok v else GetValidator E h a s)))"

lemma for_each_reset:
  assumes "validator_store_laws E" and "distinct addrs" and "\<And>a. a \<in> set addrs \<Longrightarrow> is_ok (GetValidator E h a s)"
  shows "\<exists>s'. for_each (reset_validator E h restrict allow) addrs s = (s', Ok ()) \<and>
     (\<forall>a. GetValidator E h a s' =
        (if a \<in> set addrs
         then bind_res (GetValidator E h a s) (\<lambda>v. Ok (v\<lparr>UnbondingHeight := 0,
           Jailed := Jailed v \<or> restrict \<and> ValAddress_String E a \<notin> set allow\<rparr>))
         else GetValidator E h a s))"
  using assms(2,3)
proof (induction addrs arbitrary: s)
  case (Cons addr addrs)
  obtain v where v: "GetValidator E h addr s = Ok v" using Cons.prems(2) [of addr] by (auto simp: is_ok_iff)
  let ?v = "v\<lparr>UnbondingHeight := 0, Jailed := Jailed v \<or> restrict \<and> ValAddress_String E addr \<notin> set allow\<rparr>"
  obtain s1 where s1: "SetValidator E h addr ?v s = (s1, Ok ())"
    "\<And>a. GetValidator E h a s1 = (if a = addr then Ok ?v else GetValidator E h a s)"
    using assms(1) unfolding validator_store_laws_def by blast
  have "reset_validator E h restrict allow addr s = or_panic_st (SetValidator E h addr ?v s)"
    by (cases v; cases "restrict \<and> ValAddress_String E addr \<notin> set allow") (auto simp: reset_validator_def v Let_def)
  then have step: "reset_validator E h restrict allow addr s = (s1, Ok ())" by (simp add: s1(1) or_panic_st_def)
  have "distinct addrs" and "is_ok (GetValidator E h a s1)" if "a \<in> set addrs" for a
    using Cons.prems that by (auto simp: s1(2))
  then obtain s' where s': "for_each (reset_validator E h restrict allow) addrs s1 = (s', Ok ())"
    "\<And>a. GetValidator E h a s' =
        (if a \<in> set addrs
         then bind_res (GetValidator E h a s1) (\<lambda>v. Ok (v\<lparr>UnbondingHeight := 0,
           Jailed := Jailed v \<or> restrict \<and> ValAddress_String E a \<notin> set allow\<rparr>))
         else GetValidator E h a s1)"
    using Cons.IH [of s1] Cons.prems(1) by auto
  have "addr \<notin> set addrs" using Cons.prems(1) by simp
  then have "for_each (reset_validator E h restrict allow) (addr # addrs) s = (s', Ok ())"
    and "GetValidator E h a s' =
        (if a \<in> set (addr # addrs)
         then bind_res (GetValidator E h a s) (\<lambda>v. Ok (v\<lparr>UnbondingHeight := 0,
           Jailed := Jailed v \<or> restrict \<and> ValAddress_String E a \<notin> set allow\<rparr>))
         else GetValidator E h a s)" for a
    using step s' v by (auto simp: s1(2))
  then show ?case by blast
qed simp

lemma allowed_addrs_fatal:
  "(\<And>a. a \<in> set addrs \<Longrightarrow> ValAddressFromBech32 E a \<noteq> Panic) \<Longrightarrow>
    allowed_addrs E addrs = (if \<forall>a \<in> set addrs. is_ok (ValAddressFromBech32 E a) then Ok addrs else Err fatal)"
proof (induction addrs)
  case (Cons a addrs)
  then show ?case by (cases "ValAddressFromBech32 E a") auto
qed simp

section \<open>Properties\<close>

text \<open>With upgrades of distinct names, or none, \<open>RegisterUpgradeHandlers\<close> registers the handler of
  every upgrade under its name, the no-op upgrade of the running version when the list is empty. It
  panics exactly when the upgrade info on disk cannot be read. Otherwise the store loader is that of the upgrade
  the info names, at its height, unless the height is skipped or no upgrade has the name, in which case
  the loader stays as it was.\<close>

theorem upgrades_are_registered:
  assumes "distinct (map UpgradeName (Upgrades s))"
    and "us = (if Upgrades s = [] then [NewUpgrade version] else Upgrades s)"
    and "RegisterUpgradeHandlers mm version info skip s = (s', r)"
  shows "Upgrades s' = us \<and> (\<forall>u \<in> set us. handlers s' (UpgradeName u) = Some (CreateUpgradeHandler u mm)) \<and>
    (r = Ok () \<longleftrightarrow> is_ok info) \<and> (r = Panic \<longleftrightarrow> \<not> is_ok info) \<and>
    (\<forall>i. info = Ok i \<longrightarrow>
       (\<forall>u \<in> set us. \<not> skip (info_Height i) \<and> info_Name i = UpgradeName u \<longrightarrow>
          storeLoader s' = Some (info_Height i, up_StoreUpgrades u)) \<and>
       (skip (info_Height i) \<or> info_Name i \<notin> UpgradeName ` set us \<longrightarrow> storeLoader s' = storeLoader s))"
proof -
  have d: "distinct (map UpgradeName us)" using assms(1,2) by simp
  have len: "Upgrades (if length (Upgrades s) = 0 then s\<lparr>Upgrades := Upgrades s @ [NewUpgrade version]\<rparr> else s) = us"
    using assms(2) by simp
  show ?thesis
    using assms(3) set_handlers_lookup [OF d] loader_for_lookup [OF d] loader_for_other [of _ us] len
    by (cases info) (auto simp: RegisterUpgradeHandlers_def Let_def split: if_splits)
qed

theorem upgrades_are_registered_witness:
  "handlers (fst (RegisterUpgradeHandlers Ok ''v1'' (Ok \<lparr>info_Height = 7, info_Name = ''v1''\<rparr>) (\<lambda>_. False)
     \<lparr>Upgrades = ([] :: nat Upgrade list), handlers = (\<lambda>_. None), storeLoader = None\<rparr>)) ''v1'' =
   Some (noop_CreateUpgradeHandler Ok)"
  using upgrades_are_registered [of "\<lparr>Upgrades = ([] :: nat Upgrade list), handlers = (\<lambda>_. None), storeLoader = None\<rparr>"
      "[NewUpgrade ''v1'']" "''v1''" Ok "Ok \<lparr>info_Height = 7, info_Name = ''v1''\<rparr>" "\<lambda>_. False"]
  by (cases "RegisterUpgradeHandlers Ok ''v1'' (Ok \<lparr>info_Height = 7, info_Name = ''v1''\<rparr>) (\<lambda>_. False)
     \<lparr>Upgrades = ([] :: nat Upgrade list), handlers = (\<lambda>_. None), storeLoader = None\<rparr>") (simp add: NewUpgrade_def)

text \<open>The loop over the validators in an export for height zero visits every validator once: it ends, each
  of them has unbonding height 0 and, when a list of allowed addresses is given, is in jail unless its
  address is on it; a validator that was in jail stays there, and no other field changes.\<close>

theorem export_resets_validators:
  assumes "validator_store_laws E" and "distinct (ValidatorsByKeyReverse E h s)"
    and "\<forall>a \<in> set (ValidatorsByKeyReverse E h s). is_ok (GetValidator E h a s)"
  shows "\<exists>s'. reset_validators E h restrict allow s = (s', Ok ()) \<and>
     (\<forall>a \<in> set (ValidatorsByKeyReverse E h s). \<forall>v. GetValidator E h a s = Ok v \<longrightarrow>
        GetValidator E h a s' = Ok (v\<lparr>UnbondingHeight := 0, Jailed := Jailed v \<or> restrict \<and> ValAddress_String E a \<notin> set allow\<rparr>))"
proof -
  have "\<And>a. a \<in> set (ValidatorsByKeyReverse E h s) \<Longrightarrow> is_ok (GetValidator E h a s)" using assms(3) by blast
  from for_each_reset [OF assms(1,2) this, of restrict allow] show ?thesis
    unfolding reset_validators_def by auto
qed

text \<open>Keepers on a map of validators with two addresses, which keep no other state.\<close>

definition ref_export :: "(bytes \<rightharpoonup> staking_validator, nat) export_env" where
  "ref_export = \<lparr>AssertInvariants = (\<lambda>_ s. (s, Ok ())), ValAddressFromBech32 = (\<lambda>a. if a = [] then Err (Errorf ''empty'') else Ok a),
     AccAddressFromBech32 = Ok, ValAddress_String = id, StringToBytes = Ok, IterateValidators = (\<lambda>_ _. Ok [''a'', ''b'']),
     GetAllDelegations = (\<lambda>_ _. Ok []), IterateRedelegations = (\<lambda>_ _. Ok []), SetRedelegation = (\<lambda>_ _ s. (s, Ok ())),
     IterateUnbondingDelegations = (\<lambda>_ _. Ok []), SetUnbondingDelegation = (\<lambda>_ _ s. (s, Ok ())),
     ValidatorsByKeyReverse = (\<lambda>_ _. [''b'', ''a'']), iterClose = (\<lambda>_ _. Ok ()),
     GetValidator = (\<lambda>_ a s. case s a of None \<Rightarrow> Err (Errorf ''not found'') | Some v \<Rightarrow> Ok v),
     SetValidator = (\<lambda>_ a v s. (s(a \<mapsto> v), Ok ())), ApplyAndReturnValidatorSetUpdates = (\<lambda>_ s. (s, Ok ())),
     WithdrawValidatorCommission = (\<lambda>_ _ s. (s, Ok ())), WithdrawDelegationRewards = (\<lambda>_ _ _ s. (s, Ok ())),
     DeleteAllValidatorSlashEvents = (\<lambda>_ s. s), DeleteAllValidatorHistoricalRewards = (\<lambda>_ s. s),
     GetValidatorOutstandingRewardsCoins = (\<lambda>_ _ _. Ok 0), FeePool_Get = (\<lambda>_ _. Ok 0), FeePool_Set = (\<lambda>_ _ s. (s, Ok ())),
     DecCoins_Add = (+), AfterValidatorCreated = (\<lambda>_ _ s. (s, Ok ())), BeforeDelegationCreated = (\<lambda>_ _ _ s. (s, Ok ())),
     AfterDelegationModified = (\<lambda>_ _ _ s. (s, Ok ())), IterateValidatorSigningInfos = (\<lambda>_ _. Ok []),
     SetValidatorSigningInfo = (\<lambda>_ _ _ s. (s, Ok ()))\<rparr>"

definition two_validators :: "bytes \<rightharpoonup> staking_validator" where
  "two_validators = [''a'' \<mapsto> \<lparr>UnbondingHeight = 9, Jailed = False, validator_rest = []\<rparr>,
     ''b'' \<mapsto> \<lparr>UnbondingHeight = 5, Jailed = False, validator_rest = []\<rparr>]"

text \<open>With \<open>a\<close> alone on the list, \<open>b\<close> is sent to jail.\<close>

theorem export_resets_validators_witness:
  "\<exists>s'. reset_validators ref_export 7 True [''a''] two_validators = (s', Ok ()) \<and>
     GetValidator ref_export 7 ''b'' s' = Ok \<lparr>UnbondingHeight = 0, Jailed = True, validator_rest = []\<rparr>"
proof -
  have "validator_store_laws ref_export" by (simp add: validator_store_laws_def ref_export_def)
  moreover have "distinct (ValidatorsByKeyReverse ref_export 7 two_validators)"
    "\<forall>a \<in> set (ValidatorsByKeyReverse ref_export 7 two_validators). is_ok (GetValidator ref_export 7 a two_validators)"
    by (simp_all add: ref_export_def two_validators_def)
  ultimately show ?thesis
    using export_resets_validators [of ref_export 7 two_validators True "[''a'']"]
    by (auto simp: ref_export_def two_validators_def)
qed

text \<open>A list of allowed addresses with an entry that is not a validator address ends an export for
  height zero with \<open>log.Fatal\<close>, and nothing but the check of the invariants has run.\<close>

theorem export_stops_on_bad_address:
  assumes "\<forall>a \<in> set addrs. ValAddressFromBech32 E a \<noteq> Panic" and "\<exists>a \<in> set addrs. \<not> is_ok (ValAddressFromBech32 E a)"
    and "AssertInvariants E height s = (s1, Ok ())"
  shows "prepForZeroHeightGenesis E height addrs s = (s1, Err fatal)"
  using allowed_addrs_fatal [of addrs E] assms by (auto simp: prepForZeroHeightGenesis_def)

theorem export_stops_on_bad_address_witness:
  "prepForZeroHeightGenesis ref_export 7 [''a'', []] two_validators = (two_validators, Err fatal)"
  by (rule export_stops_on_bad_address) (simp_all add: ref_export_def)

end
