(* ===== verification/Spec2Isabelle.thy ===== *)
theory Spec2Isabelle
  imports Multisig_Reflection Multisig_Table Multisig_Wiring Oracle_Wiring Oracle_Query_Codec Oracle_Migrations Msg_Filter App
begin

text \<open>
  \<^bold>\<open>A verification of the oracle and multisig modules of dmchain\<close>

  dmchain is a Cosmos SDK chain in Go. Its own logic is the module \<open>x/oracle\<close>, in which
  validators vote on exchange rates by commit and reveal and the chain stores the weighted
  median, and the module \<open>x/multisig\<close>, which registers multi-signature accounts and
  proposals. Both keep their state in key-value collections and change it in message
  handlers; the oracle also works at the end of every block, and its vote extensions take
  part in proposing and checking blocks.

  \<^bold>\<open>Theories and sources\<close> (under \<open>src/\<close>)

  \<^item> \<open>Prelude\<close>: Go's integers, strings and the outcome of a call (value, error, panic).
  \<^item> \<open>Go_Sort\<close>: \<open>sort.Slice\<close>, \<open>sort.Sort\<close> and \<open>IsSorted\<close> as an insertion sort with
    the properties the callers use; \<open>Collections\<close>: the key-value stores.
  \<^item> \<open>Util\<close>: \<open>util/bytes.go\<close>, \<open>int_convert.go\<close>, \<open>strings.go\<close>, \<open>genmap\<close>, \<open>checkers\<close>.
  \<^item> \<open>Dec\<close>, \<open>Coins\<close>: the decimals and coins of the SDK as parameters with laws;
    \<open>Decmath\<close>: \<open>util/decmath/decmath.go\<close>.
  \<^item> \<open>Oracle_Keys\<close>, \<open>Oracle_Params\<close>, \<open>Oracle_Ballot\<close>, \<open>Oracle_Vote\<close>, \<open>Oracle_Msgs\<close>:
    \<open>x/oracle/types\<close>, that is store keys, parameters and their validation, ballots with the
    weighted median and the standard deviation, votes and vote hashes, messages.
  \<^item> \<open>Oracle_Keeper\<close>: the state record \<open>ostate\<close> and the accessors of \<open>keeper/keeper.go\<close>,
    \<open>params.go\<close>, \<open>miss_counter.go\<close> and \<open>ballot.go\<close>.
  \<^item> \<open>Oracle_Plan\<close>: \<open>keeper/param_update_plan.go\<close>; \<open>Oracle_Msg_Server\<close>: the nine handlers
    of \<open>keeper/msg_server.go\<close>.
  \<^item> \<open>Oracle_Prices\<close>: \<open>keeper/historic_price.go\<close>, \<open>keeper/genesis.go\<close> and the pruning of
    \<open>keeper/end_blocker.go\<close>; \<open>Oracle_Averages\<close>: \<open>keeper/averages.go\<close>.
  \<^item> \<open>Oracle_Slash\<close>: \<open>keeper/slash.go\<close>; \<open>Oracle_Reward\<close>: \<open>keeper/reward.go\<close>,
    \<open>alias_functions.go\<close> and \<open>util/reward/reward.go\<close>.
  \<^item> \<open>Oracle_Abci\<close>: \<open>abci/endblocker.go\<close>, the end of a block.
  \<^item> \<open>Oracle_Genesis\<close>: \<open>x/oracle/genesis.go\<close> and \<open>types/genesis.go\<close>; \<open>Oracle_Chain\<close>: the
    module as a state machine, whose steps are genesis, messages, ends of blocks and
    whatever other modules do; \<open>Oracle_Queries\<close>: \<open>keeper/grpc_query.go\<close>.
  \<^item> \<open>Oracle_Migrations\<close>: \<open>keeper/migrations.go\<close> and \<open>migrate_proposal.go\<close>.
  \<^item> \<open>Wire\<close>, \<open>Oracle_Codec\<close>, \<open>Oracle_Tx_Codec\<close>, \<open>Oracle_Genesis_Codec\<close>, \<open>Oracle_Query_Codec\<close>,
    \<open>Multisig_Codec\<close>: the protobuf encoders and decoders of \<open>types/oracle.pb.go\<close>, \<open>abci.pb.go\<close>,
    \<open>tx.pb.go\<close>, \<open>genesis.pb.go\<close>, \<open>query.pb.go\<close> and of \<open>x/multisig/types\<close>, on buffers of bytes and
    64-bit varints.
  \<^item> \<open>Pulsar\<close>, \<open>Reflection\<close>, \<open>Multisig_Reflection\<close>: \<open>api/multisig/v1/state.pulsar.go\<close>, the messages as
    the ORM handles them: by reflection on their fields, and with an encoding that keeps unknown fields.
  \<^item> \<open>Oracle_Proposal\<close>: \<open>abci/proposal.go\<close>, \<open>voteextension.go\<close> and \<open>util.go\<close>.
  \<^item> \<open>Price_Feeder\<close>: \<open>pricefeeder/config.go\<close> and the structure of \<open>pricefeeder.go\<close> that the
    keeper points to; \<open>Oracle_Wiring\<close>: the constructor of the keeper and the genesis methods
    of \<open>x/oracle/module.go\<close>.
  \<^item> \<open>Multisig\<close>: \<open>x/multisig/keeper\<close>, its handlers, genesis and queries; \<open>Multisig_Wiring\<close>:
    the constructor of its keeper and the genesis methods of \<open>x/multisig/module.go\<close>; \<open>Multisig_Table\<close>:
    \<open>api/multisig/v1/state.cosmos_orm.go\<close>, the table of proposals.
  \<^item> \<open>Msg_Filter\<close>: \<open>app/decorators/msg_filter_template.go\<close>; \<open>App\<close>: \<open>app/ante.go\<close>, \<open>app/upgrades.go\<close>,
    \<open>app/upgrades/noop\<close> and \<open>app/export.go\<close>.

  \<^bold>\<open>State, operations, errors\<close>

  A handler is a function of its message and the state that returns the state it leaves and
  its outcome, so that what is written before an error or a panic is visible. The state of the
  oracle is the record \<open>ostate\<close> with one sorted list of entries per collection; its field
  \<open>world\<close> stands for the stores of the other modules. The heights of blocks are arguments.
  Nil requests and nil pointers are \<open>None\<close>. Loops are recursive functions on the lists the
  code ranges over; the decoders recurse on the bytes left, with their termination proved. One
  loop uses fuel: that of \<open>Pulsar\<close>, which skips unknown fields by a function of another package; its fuel is
  the number of bytes, and \<open>pulsar_loop_message\<close> shows that this is enough on every input.

  \<^bold>\<open>Parameters\<close>

  Code that is not in the repository is an argument, with its documented behaviour as a
  hypothesis: the decimals (\<open>dec_ops\<close>, \<open>dec_laws\<close>), coins (\<open>coin_ops\<close>, \<open>coin_laws\<close>), floating
  point numbers (\<open>float_ops\<close>, \<open>float_laws\<close>), the encoding of decimals and coins
  (\<open>sdk_codec\<close>, \<open>codec_laws\<close>, \<open>sdk_calm\<close>) and of \<open>Any\<close> (\<open>any_codec\<close>, \<open>any_laws\<close>), the values and the
  runtime of protobuf reflection (\<open>value_ops\<close>, \<open>value_laws\<close>, \<open>pulsar_runtime\<close>, \<open>runtime_laws\<close>), addresses, the hash and the keepers of other modules
  (\<open>oracle_env\<close>, \<open>addr_laws\<close>), CometBFT's commits (\<open>abci_env\<close>), the JSON codec and the schema builder (\<open>Oracle_Wiring\<close>), the
  tables of the ORM (\<open>ormtable\<close>, and \<open>orm_table\<close> with the locale \<open>orm\<close>), the proposals of the governance module (\<open>gov_codec\<close>), the keepers
  the export of the state works on (\<open>export_env\<close>). Each
  has a concrete instance on which the witnesses evaluate.

  \<^bold>\<open>What is proved\<close>

  \<^item> Voting: a reveal is accepted exactly under the conditions of commit and reveal, an honest
    one is, a prevote binds its voter, and only the feeder of a validator can change its vote.
  \<^item> Prices: the weighted median is the ballot's median and cannot be moved by a minority; a
    vote period stores exactly the medians of the ballots with a quorum; historic prices
    are bounded; averages lie between the prices.
  \<^item> Accountability: miss counters count the mandatory ballots not won, slashing hits exactly
    the bonded validators below the required rate, rewards never exceed the pool.
  \<^item> Governance: parameters change by the authority only, plans execute as validated, the
    migrations leave consistent lists.
  \<^item> Blocks: what a proposer prepares is accepted, nothing else is, and an extension a
    validator builds is accepted by its peers.
  \<^item> State: every reachable state keeps the invariant \<open>keeper_ok\<close>; it can be exported and
    imported again; queries report what is stored.
  \<^item> Encoding: messages are read back as they were written, and no input makes a decoder panic; the
    rates a query reports reach the client; the ORM and the module agree on the bytes of a row.
  \<^item> Reflection: \<open>Get\<close> and \<open>Set\<close> respect the types of the fields, and a message can be copied
    through them.
  \<^item> Application: every upgrade is registered under its name, an export for height zero resets
    every validator, and a bad address stops it before anything is changed.
  \<^item> Errors: the panics and refusals that the guards of the code do not exclude, each with
    the exact condition under which it happens. One of them concerns the whole: the keeper
    that \<open>NewKeeper\<close> returns lacks its dependencies and its price feeder, so that no block
    can be ended with it. The other properties speak of an environment \<open>oracle_env\<close> in which
    the dependencies are present, as the code of the module expects.

  \<^bold>\<open>Not modelled\<close>

  The wiring of the application (\<open>app/app.go\<close>), module registration, dependency injection, command lines
  and clients, the price feeder process, logging, events and telemetry, simulation and tests hold no logic of
  the state machine. The reflection code under \<open>api\<close> other than \<open>state.pulsar.go\<close> is for clients, and of
  the same shape as what is modelled; so are the encoders of events and of the multisig query. Messages without fields
  have nothing to encode, and \<open>QueryWMARequest\<close>, with packed weights, is a record without an encoding. A list value of
  reflection is a snapshot: that a view shares memory with its message is not modelled.
  The order of map iteration in Go is arbitrary; the functions that range over a map are
  shown not to depend on it.
\<close>

end
